(* ===== verification/Prelude.thy ===== *)
theory Prelude
  imports Main "HOL-Library.Char_ord" "HOL-Library.List_Lexorder"
begin

text \<open>
  Shared vocabulary of the development: Python exceptions as values of one datatype with the
  class hierarchy the handlers rely on, results as sums, sequencing of fallible steps, and
  generic lemmas on lists used as tables (rows identified by a key function).
\<close>

section \<open>Exceptions and results\<close>

text \<open>
  One constructor per exception class that crosses a component boundary. Classes that carry a
  fixed policy message keep it, because callers turn it into an error code.
\<close>

datatype exn =
    ValueError string
  | TypeError
  | KeyError
  | IndexError
  | AttributeError
  | OverflowError
  | OSError
  | FileExistsError
  | YAMLError
  | IntegrityError
  | LedgerError string
  | DuplicateIdempotencyKey string
  | ReconciliationError string
  | CursorNotInitialized string
  | Rejected string
  | CodingFailure string
  | Abort string string
  | AgentContractError string
  | AgentRegistryError string
  | GitHubReadError string
  | CapabilityFailed string
  | TransportError string int
  | ExecutionTimeout
  | RecursionError
  | RuntimeError
  | OperationalError

type_synonym 'a result = "exn + 'a"

text \<open>Subclasses of \<open>ValueError\<close> (what \<open>except ValueError\<close> catches) and of \<open>OSError\<close>.\<close>

fun is_value_error :: "exn \<Rightarrow> bool" where
  "is_value_error (ValueError _) = True"
| "is_value_error (LedgerError _) = True"
| "is_value_error (DuplicateIdempotencyKey _) = True"
| "is_value_error (Rejected _) = True"
| "is_value_error (AgentContractError _) = True"
| "is_value_error (AgentRegistryError _) = True"
| "is_value_error _ = False"

fun is_os_error :: "exn \<Rightarrow> bool" where
  "is_os_error OSError = True"
| "is_os_error FileExistsError = True"
| "is_os_error _ = False"

text \<open>\<open>type(exc).__name__\<close>.\<close>

fun class_name :: "exn \<Rightarrow> string" where
  "class_name (ValueError _) = ''ValueError''"
| "class_name TypeError = ''TypeError''"
| "class_name KeyError = ''KeyError''"
| "class_name IndexError = ''IndexError''"
| "class_name AttributeError = ''AttributeError''"
| "class_name OverflowError = ''OverflowError''"
| "class_name OSError = ''OSError''"
| "class_name FileExistsError = ''FileExistsError''"
| "class_name YAMLError = ''YAMLError''"
| "class_name IntegrityError = ''IntegrityError''"
| "class_name (LedgerError _) = ''LedgerError''"
| "class_name (DuplicateIdempotencyKey _) = ''DuplicateIdempotencyKey''"
| "class_name (ReconciliationError _) = ''ReconciliationError''"
| "class_name (CursorNotInitialized _) = ''CursorNotInitialized''"
| "class_name (Rejected _) = ''Rejected''"
| "class_name (CodingFailure _) = ''CodingFailure''"
| "class_name (Abort _ _) = ''Abort''"
| "class_name (AgentContractError _) = ''AgentContractError''"
| "class_name (AgentRegistryError _) = ''AgentRegistryError''"
| "class_name (GitHubReadError _) = ''GitHubReadError''"
| "class_name (CapabilityFailed _) = ''CapabilityFailed''"
| "class_name (TransportError _ _) = ''TransportError''"
| "class_name ExecutionTimeout = ''ExecutionTimeout''"
| "class_name RecursionError = ''RecursionError''"
| "class_name RuntimeError = ''RuntimeError''"
| "class_name OperationalError = ''OperationalError''"

text \<open>Sequencing: an exception of the first step is the exception of the whole.\<close>

definition andThen :: "'a result \<Rightarrow> ('a \<Rightarrow> 'b result) \<Rightarrow> 'b result" where
  "andThen r f = (case r of Inl e \<Rightarrow> Inl e | Inr x \<Rightarrow> f x)"

lemma andThen_simps [simp]:
  "andThen (Inl e) f = Inl e"
  "andThen (Inr x) f = f x"
  by (simp_all add: andThen_def)

lemma andThen_Inr_iff: "andThen r f = Inr y \<longleftrightarrow> (\<exists>x. r = Inr x \<and> f x = Inr y)"
  by (cases r) auto

lemma andThen_Inl_iff:
  "andThen r f = Inl e \<longleftrightarrow> r = Inl e \<or> (\<exists>x. r = Inr x \<and> f x = Inl e)"
  by (cases r) auto

definition guard :: "bool \<Rightarrow> exn \<Rightarrow> unit result" where
  "guard b e = (if b then Inr () else Inl e)"

lemma guard_simps [simp]:
  "guard True e = Inr ()"
  "guard False e = Inl e"
  by (simp_all add: guard_def)

lemma guard_Inl_iff: "guard b e = Inl x \<longleftrightarrow> \<not> b \<and> x = e"
  by (auto simp: guard_def)

lemma guard_Inr_iff: "guard b e = Inr u \<longleftrightarrow> b"
  by (simp add: guard_def)

fun map_result :: "('a \<Rightarrow> 'b result) \<Rightarrow> 'a list \<Rightarrow> 'b list result" where
  "map_result f [] = Inr []"
| "map_result f (x # xs) =
     andThen (f x) (\<lambda>y. andThen (map_result f xs) (\<lambda>ys. Inr (y # ys)))"

lemma map_result_Inr_length: "map_result f xs = Inr ys \<Longrightarrow> length ys = length xs"
  by (induction xs arbitrary: ys) (auto simp: andThen_Inr_iff)

lemma map_result_Inr_nth:
  "map_result f xs = Inr ys \<Longrightarrow> y \<in> set ys \<Longrightarrow> \<exists>x\<in>set xs. f x = Inr y"
  by (induction xs arbitrary: ys) (auto simp: andThen_Inr_iff)

section \<open>Lists as tables\<close>

text \<open>\<open>SELECT ... WHERE p LIMIT 1\<close>: the first row satisfying the predicate.\<close>

fun find_row :: "('r \<Rightarrow> bool) \<Rightarrow> 'r list \<Rightarrow> 'r option" where
  "find_row p [] = None"
| "find_row p (r # rs) = (if p r then Some r else find_row p rs)"

text \<open>\<open>UPDATE ... SET f WHERE p\<close>.\<close>

definition update_rows :: "('r \<Rightarrow> bool) \<Rightarrow> ('r \<Rightarrow> 'r) \<Rightarrow> 'r list \<Rightarrow> 'r list" where
  "update_rows p f = map (\<lambda>r. if p r then f r else r)"

lemma find_row_None: "find_row p rs = None \<longleftrightarrow> (\<forall>r\<in>set rs. \<not> p r)"
  by (induction rs) auto

lemma find_row_Some: "find_row p rs = Some r \<Longrightarrow> r \<in> set rs \<and> p r"
  by (induction rs) (auto split: if_splits)

lemma find_row_append:
  "find_row p (rs @ qs) = (case find_row p rs of Some r \<Rightarrow> Some r | None \<Rightarrow> find_row p qs)"
  by (induction rs) auto

lemma find_row_unique:
  assumes "inj_on k (set rs)" "r \<in> set rs"
  shows "find_row (\<lambda>x. k x = k r) rs = Some r"
  using assms
proof (induction rs)
  case (Cons a rs)
  then show ?case
    by (cases "a = r") (auto dest: inj_onD)
qed simp

lemma length_update_rows [simp]: "length (update_rows p f rs) = length rs"
  by (simp add: update_rows_def)

lemma update_rows_Nil [simp]: "update_rows p f [] = []"
  by (simp add: update_rows_def)

lemma update_rows_Cons [simp]:
  "update_rows p f (r # rs) = (if p r then f r else r) # update_rows p f rs"
  by (simp add: update_rows_def)

lemma set_update_rows:
  "set (update_rows p f rs) = (\<lambda>r. if p r then f r else r) ` set rs"
  by (simp add: update_rows_def)

lemma map_update_rows:
  "(\<And>r. p r \<Longrightarrow> k (f r) = k r) \<Longrightarrow> map k (update_rows p f rs) = map k rs"
  by (induction rs) auto

lemma update_rows_absent: "\<forall>r\<in>set rs. \<not> p r \<Longrightarrow> update_rows p f rs = rs"
  by (induction rs) auto

lemma find_row_update_same:
  "(\<And>r. p (f r) = p r) \<Longrightarrow>
   find_row p (update_rows p f rs) = map_option f (find_row p rs)"
  by (induction rs) auto

lemma find_row_update_other:
  "(\<And>r. p r \<Longrightarrow> \<not> q r \<and> \<not> q (f r)) \<Longrightarrow> find_row q (update_rows p f rs) = find_row q rs"
  by (induction rs) auto

text \<open>\<open>INTEGER PRIMARY KEY\<close>: one more than the largest row id, 1 for an empty table.\<close>

definition next_id :: "int list \<Rightarrow> int" where
  "next_id ids = fold max ids 0 + 1"

lemma fold_max_ge: "(m::int) \<le> fold max ids m"
  by (induction ids arbitrary: m) (auto intro: order_trans [OF max.cobounded2])

lemma fold_max_ge_mem: "i \<in> set ids \<Longrightarrow> (i::int) \<le> fold max ids m"
proof (induction ids arbitrary: m)
  case (Cons a ids)
  then show ?case
    using fold_max_ge [of "max a m" ids] by (auto intro: order_trans [OF max.cobounded1])
qed simp

lemma next_id_gt: "i \<in> set ids \<Longrightarrow> i < next_id ids"
  using fold_max_ge_mem [of i ids 0] by (simp add: next_id_def)

lemma next_id_fresh: "next_id ids \<notin> set ids"
  using next_id_gt [of "next_id ids" ids] by blast

lemma next_id_pos: "0 < next_id ids"
  using fold_max_ge [of 0 ids] by (simp add: next_id_def)

section \<open>Insertion-ordered dictionaries\<close>

text \<open>
  A Python dict keeps insertion order; assigning an existing key keeps its place. Lookup is
  the library's \<open>map_of\<close>.
\<close>

fun dict_set :: "'k \<Rightarrow> 'v \<Rightarrow> ('k \<times> 'v) list \<Rightarrow> ('k \<times> 'v) list" where
  "dict_set k v [] = [(k, v)]"
| "dict_set k v ((a, b) # kvs) = (if a = k then (a, v) # kvs else (a, b) # dict_set k v kvs)"

lemma map_of_dict_set: "map_of (dict_set k v kvs) = (map_of kvs)(k \<mapsto> v)"
  by (induction kvs) (auto simp: fun_eq_iff)

lemma keys_dict_set: "set (map fst (dict_set k v kvs)) = insert k (set (map fst kvs))"
  by (induction k v kvs rule: dict_set.induct) auto

lemma distinct_dict_set:
  "distinct (map fst kvs) \<Longrightarrow> distinct (map fst (dict_set k v kvs))"
proof (induction kvs)
  case (Cons p kvs)
  obtain a b where p: "p = (a, b)" by (cases p)
  from Cons show ?case
    using keys_dict_set [of k v kvs] by (auto simp: p simp del: set_map)
qed simp

end
