(* ===== verification/Py_Value.thy ===== *)
theory Py_Value
  imports Prelude
begin

text \<open>
  Python values as YAML and JSON documents produce them, with truth value, type name,
  \<open>str\<close>, \<open>repr\<close>, equality, dictionary access, string methods and the JSON encoder the program
  uses. A character stands for a code point below 256 (Latin-1). Every YAML dictionary key that
  the program looks up is a string.
\<close>

section \<open>Text\<close>

definition digit_char :: "nat \<Rightarrow> char" where
  "digit_char n = char_of (48 + n)"

lemma digit_char_simps [simp]:
  "digit_char 0 = CHR ''0''" "digit_char 1 = CHR ''1''" "digit_char (Suc 0) = CHR ''1''"
  "digit_char 2 = CHR ''2''" "digit_char 3 = CHR ''3''" "digit_char 4 = CHR ''4''"
  "digit_char 5 = CHR ''5''" "digit_char 6 = CHR ''6''" "digit_char 7 = CHR ''7''"
  "digit_char 8 = CHR ''8''" "digit_char 9 = CHR ''9''"
  by code_simp+

fun show_nat :: "nat \<Rightarrow> string" where
  "show_nat n =
     (if n < 10 then [digit_char n] else show_nat (n div 10) @ [digit_char (n mod 10)])"

declare show_nat.simps [simp del]

definition show_int :: "int \<Rightarrow> string" where
  "show_int i = (if i < 0 then CHR ''-'' # show_nat (nat (- i)) else show_nat (nat i))"

definition cp :: "char \<Rightarrow> nat" where
  "cp c = of_char c"

text \<open>\<open>str.isspace\<close>, \<open>str.isdigit\<close> (which holds of superscripts too) on Latin-1.\<close>

definition is_space :: "char \<Rightarrow> bool" where
  "is_space c = (let n = cp c in (9 \<le> n \<and> n \<le> 13) \<or> (28 \<le> n \<and> n \<le> 32) \<or> n = 133 \<or> n = 160)"

definition is_dec :: "char \<Rightarrow> bool" where
  "is_dec c = (48 \<le> cp c \<and> cp c \<le> 57)"

definition is_digit :: "char \<Rightarrow> bool" where
  "is_digit c = (is_dec c \<or> cp c = 178 \<or> cp c = 179 \<or> cp c = 185)"

definition digit_val :: "char \<Rightarrow> int" where
  "digit_val c = int (cp c) - 48"

definition str_isdigit :: "string \<Rightarrow> bool" where
  "str_isdigit s = (s \<noteq> [] \<and> list_all is_digit s)"

definition strip :: "string \<Rightarrow> string" where
  "strip s = rev (dropWhile is_space (rev (dropWhile is_space s)))"

definition starts_with :: "string \<Rightarrow> string \<Rightarrow> bool" where
  "starts_with p s = (take (length p) s = p)"

text \<open>\<open>s.split()\<close>: maximal runs of non-space characters.\<close>

fun split_ws_acc :: "string \<Rightarrow> string \<Rightarrow> string list" where
  "split_ws_acc acc [] = (if acc = [] then [] else [rev acc])"
| "split_ws_acc acc (c # cs) =
     (if is_space c
      then (if acc = [] then split_ws_acc [] cs else rev acc # split_ws_acc [] cs)
      else split_ws_acc (c # acc) cs)"

definition split_ws :: "string \<Rightarrow> string list" where
  "split_ws s = split_ws_acc [] s"

text \<open>\<open>s.split('/')\<close>.\<close>

fun split_slash :: "string \<Rightarrow> string list" where
  "split_slash [] = [[]]"
| "split_slash (c # s) = (if c = CHR ''/'' then [] # split_slash s
     else (case split_slash s of p # ps \<Rightarrow> (c # p) # ps | [] \<Rightarrow> [[c]]))"

fun join :: "string \<Rightarrow> string list \<Rightarrow> string" where
  "join sep [] = []"
| "join sep [s] = s"
| "join sep (s # t # ss) = s @ sep @ join sep (t # ss)"

text \<open>
  \<open>int(text)\<close>: surrounding space, an optional sign, decimal digits with single underscores
  between them; \<open>None\<close> is the \<open>ValueError\<close>.
\<close>

fun int_digits :: "int \<Rightarrow> string \<Rightarrow> int option" where
  "int_digits acc [] = None"
| "int_digits acc [c] = (if is_dec c then Some (10 * acc + digit_val c) else None)"
| "int_digits acc (c # d # cs) =
     (if \<not> is_dec c then None
      else if d = CHR ''_'' then int_digits (10 * acc + digit_val c) cs
      else int_digits (10 * acc + digit_val c) (d # cs))"

definition py_int :: "string \<Rightarrow> int option" where
  "py_int s = (case strip s of
      [] \<Rightarrow> None
    | c # cs \<Rightarrow>
        if c = CHR ''-'' then map_option uminus (int_digits 0 cs)
        else if c = CHR ''+'' then int_digits 0 cs
        else int_digits 0 (c # cs))"

section \<open>Values\<close>

text \<open>
  A float is its \<open>repr\<close> together with the integer it equals, if any (so that \<open>1.0 == 1\<close> and
  the truth value of \<open>0.0\<close> are right); \<open>PDateTime\<close> holds the \<open>str\<close> and \<open>repr\<close> of a YAML timestamp.
\<close>

datatype pyval =
    PNone
  | PBool bool
  | PInt int
  | PFloat string "int option"
  | PStr string
  | PDate nat nat nat
  | PDateTime string string
  | PList "pyval list"
  | PDict "(pyval \<times> pyval) list"

fun truthy :: "pyval \<Rightarrow> bool" where
  "truthy PNone = False"
| "truthy (PBool b) = b"
| "truthy (PInt i) = (i \<noteq> 0)"
| "truthy (PFloat r n) = (n \<noteq> Some 0)"
| "truthy (PStr s) = (s \<noteq> [])"
| "truthy (PDate _ _ _) = True"
| "truthy (PDateTime _ _) = True"
| "truthy (PList vs) = (vs \<noteq> [])"
| "truthy (PDict kvs) = (kvs \<noteq> [])"

fun type_name :: "pyval \<Rightarrow> string" where
  "type_name PNone = ''NoneType''"
| "type_name (PBool _) = ''bool''"
| "type_name (PInt _) = ''int''"
| "type_name (PFloat _ _) = ''float''"
| "type_name (PStr _) = ''str''"
| "type_name (PDate _ _ _) = ''date''"
| "type_name (PDateTime _ _) = ''datetime''"
| "type_name (PList _) = ''list''"
| "type_name (PDict _) = ''dict''"

fun is_str :: "pyval \<Rightarrow> bool" where
  "is_str (PStr _) = True"
| "is_str _ = False"

fun is_list :: "pyval \<Rightarrow> bool" where
  "is_list (PList _) = True"
| "is_list _ = False"

fun is_dict :: "pyval \<Rightarrow> bool" where
  "is_dict (PDict _) = True"
| "is_dict _ = False"

fun is_bool :: "pyval \<Rightarrow> bool" where
  "is_bool (PBool _) = True"
| "is_bool _ = False"

text \<open>\<open>repr\<close> of a string: the quote with fewer escapes, backslash and control escapes.\<close>

definition hex_char :: "nat \<Rightarrow> char" where
  "hex_char n = (if n < 10 then char_of (48 + n) else char_of (87 + n))"

definition hex2 :: "nat \<Rightarrow> string" where
  "hex2 n = [hex_char (n div 16), hex_char (n mod 16)]"

definition bslash :: char where
  "bslash = CHR 0x5C"

definition repr_char :: "char \<Rightarrow> char \<Rightarrow> string" where
  "repr_char q c = (let n = cp c in
     if c = q \<or> c = bslash then [bslash, c]
     else if n = 10 then [bslash, CHR ''n'']
     else if n = 13 then [bslash, CHR ''r'']
     else if n = 9 then [bslash, CHR ''t'']
     else if n < 32 \<or> (127 \<le> n \<and> n \<le> 160) \<or> n = 173 then [bslash, CHR ''x''] @ hex2 n
     else [c])"

definition squote :: char where
  "squote = CHR 0x27"

definition dquote :: char where
  "dquote = CHR 0x22"

definition repr_str :: "string \<Rightarrow> string" where
  "repr_str s =
     (let q = (if squote \<in> set s \<and> dquote \<notin> set s then dquote else squote)
      in [q] @ concat (map (repr_char q) s) @ [q])"

definition pad2 :: "nat \<Rightarrow> string" where
  "pad2 n = [digit_char (n div 10 mod 10), digit_char (n mod 10)]"

definition pad4 :: "nat \<Rightarrow> string" where
  "pad4 n = [digit_char (n div 1000 mod 10), digit_char (n div 100 mod 10),
             digit_char (n div 10 mod 10), digit_char (n mod 10)]"

definition iso_date :: "nat \<Rightarrow> nat \<Rightarrow> nat \<Rightarrow> string" where
  "iso_date y m d = pad4 y @ ''-'' @ pad2 m @ ''-'' @ pad2 d"

function (sequential) py_repr :: "pyval \<Rightarrow> string"
  and repr_list :: "pyval list \<Rightarrow> string list"
  and repr_items :: "(pyval \<times> pyval) list \<Rightarrow> string list" where
  "py_repr PNone = ''None''"
| "py_repr (PBool b) = (if b then ''True'' else ''False'')"
| "py_repr (PInt i) = show_int i"
| "py_repr (PFloat r _) = r"
| "py_repr (PStr s) = repr_str s"
| "py_repr (PDate y m d) =
     ''datetime.date('' @ show_nat y @ '', '' @ show_nat m @ '', '' @ show_nat d @ '')''"
| "py_repr (PDateTime _ r) = r"
| "py_repr (PList vs) = ''['' @ join '', '' (repr_list vs) @ '']''"
| "py_repr (PDict kvs) = ''{'' @ join '', '' (repr_items kvs) @ ''}''"
| "repr_list [] = []"
| "repr_list (v # vs) = py_repr v # repr_list vs"
| "repr_items [] = []"
| "repr_items ((k, v) # kvs) = (py_repr k @ '': '' @ py_repr v) # repr_items kvs"
  by pat_completeness auto
termination
  by (relation "measure (case_sum size
        (case_sum (size_list size) (size_list (size_prod size size))))") auto

fun py_str :: "pyval \<Rightarrow> string" where
  "py_str (PStr s) = s"
| "py_str (PDate y m d) = iso_date y m d"
| "py_str (PDateTime s _) = s"
| "py_str v = py_repr v"

text \<open>
  Equality: booleans are the integers 0 and 1, a float equals the integer it denotes, lists are
  compared elementwise, dictionaries regardless of order.
\<close>

fun num_val :: "pyval \<Rightarrow> int option" where
  "num_val (PBool b) = Some (if b then 1 else 0)"
| "num_val (PInt i) = Some i"
| "num_val (PFloat _ n) = n"
| "num_val _ = None"

definition scalar_eq :: "pyval \<Rightarrow> pyval \<Rightarrow> bool" where
  "scalar_eq a b = (case a of
      PNone \<Rightarrow> b = PNone
    | PStr s \<Rightarrow> b = PStr s
    | PDate _ _ _ \<Rightarrow> b = a
    | PDateTime s r \<Rightarrow> (case b of PDateTime _ r' \<Rightarrow> r = r' | _ \<Rightarrow> False)
    | PFloat r None \<Rightarrow> (case b of PFloat r' None \<Rightarrow> r = r' \<and> r \<noteq> ''nan'' | _ \<Rightarrow> False)
    | _ \<Rightarrow> num_val a \<noteq> None \<and> num_val a = num_val b)"

function (sequential) py_eq :: "pyval \<Rightarrow> pyval \<Rightarrow> bool"
  and eq_list :: "pyval list \<Rightarrow> pyval list \<Rightarrow> bool"
  and eq_items :: "(pyval \<times> pyval) list \<Rightarrow> (pyval \<times> pyval) list \<Rightarrow> bool"
  and eq_find :: "pyval \<Rightarrow> pyval \<Rightarrow> (pyval \<times> pyval) list \<Rightarrow> bool" where
  "py_eq (PList a) v = (case v of PList b \<Rightarrow> eq_list a b | _ \<Rightarrow> False)"
| "py_eq (PDict a) v = (case v of PDict b \<Rightarrow> length a = length b \<and> eq_items a b | _ \<Rightarrow> False)"
| "py_eq a b = scalar_eq a b"
| "eq_list [] b = (b = [])"
| "eq_list (a # as) b = (case b of [] \<Rightarrow> False | c # cs \<Rightarrow> py_eq a c \<and> eq_list as cs)"
| "eq_items [] b = True"
| "eq_items ((k, v) # kvs) b = (eq_find k v b \<and> eq_items kvs b)"
| "eq_find k v [] = False"
| "eq_find k v ((k', v') # kvs) = ((py_eq k k' \<and> py_eq v v') \<or> eq_find k v kvs)"
  by pat_completeness auto
termination
  by (relation "measure (\<lambda>x. case x of
        Inl (Inl (a, b)) \<Rightarrow> size a + size b
      | Inl (Inr (a, b)) \<Rightarrow> size_list size a + size_list size b
      | Inr (Inl (a, b)) \<Rightarrow> size_list (size_prod size size) a + size_list (size_prod size size) b
      | Inr (Inr (k, v, b)) \<Rightarrow> size k + size v + size_list (size_prod size size) b)") auto

section \<open>Dictionaries\<close>

text \<open>\<open>d[k]\<close> and \<open>d.get(k)\<close> for a string key: a string key equals only itself.\<close>

fun dlookup :: "string \<Rightarrow> (pyval \<times> pyval) list \<Rightarrow> pyval option" where
  "dlookup k [] = None"
| "dlookup k ((a, v) # kvs) = (if a = PStr k then Some v else dlookup k kvs)"

definition has_key :: "string \<Rightarrow> (pyval \<times> pyval) list \<Rightarrow> bool" where
  "has_key k d = (dlookup k d \<noteq> None)"

definition dget :: "(pyval \<times> pyval) list \<Rightarrow> string \<Rightarrow> pyval" where
  "dget d k = (case dlookup k d of Some v \<Rightarrow> v | None \<Rightarrow> PNone)"

definition dget_or :: "(pyval \<times> pyval) list \<Rightarrow> string \<Rightarrow> pyval \<Rightarrow> pyval" where
  "dget_or d k v0 = (case dlookup k d of Some v \<Rightarrow> v | None \<Rightarrow> v0)"

text \<open>\<open>value.get(k)\<close> where the value may not be a mapping.\<close>

fun vget :: "pyval \<Rightarrow> string \<Rightarrow> pyval result" where
  "vget (PDict d) k = Inr (dget d k)"
| "vget _ k = Inl AttributeError"

text \<open>\<open>x or {}\<close>, and the common \<open>if not isinstance(x, dict): x = {}\<close> after it.\<close>

definition dict_or_empty :: "pyval \<Rightarrow> (pyval \<times> pyval) list" where
  "dict_or_empty v = (case v of PDict d \<Rightarrow> d | _ \<Rightarrow> [])"

definition sdict :: "(string \<times> pyval) list \<Rightarrow> pyval" where
  "sdict kvs = PDict (map (\<lambda>(k, v). (PStr k, v)) kvs)"

lemma dlookup_sdict: "dlookup k (map (\<lambda>(k, v). (PStr k, v)) kvs) = map_of kvs k"
  by (induction kvs) auto

lemma dget_simps [simp]:
  "dget [] k = PNone"
  "dget ((PStr k, v) # d) k = v"
  "k' \<noteq> k \<Longrightarrow> dget ((PStr k', v) # d) k = dget d k"
  by (simp_all add: dget_def)

section \<open>JSON text\<close>

text \<open>
  \<open>json.dumps(..., sort_keys=True, separators=(',', ':'))\<close>; the flag is \<open>ensure_ascii\<close>. Strings
  are quoted with the standard escapes, dictionaries are written with their items in key order.
\<close>

definition json_char :: "bool \<Rightarrow> char \<Rightarrow> string" where
  "json_char ascii c = (let n = cp c in
     if c = dquote \<or> c = bslash then [bslash, c]
     else if n = 10 then [bslash, CHR ''n'']
     else if n = 13 then [bslash, CHR ''r'']
     else if n = 9 then [bslash, CHR ''t'']
     else if n = 8 then [bslash, CHR ''b'']
     else if n = 12 then [bslash, CHR ''f'']
     else if n < 32 \<or> (ascii \<and> 126 < n) then [bslash, CHR ''u'', CHR ''0'', CHR ''0''] @ hex2 n
     else [c])"

definition json_str :: "bool \<Rightarrow> string \<Rightarrow> string" where
  "json_str ascii s = [dquote] @ concat (map (json_char ascii) s) @ [dquote]"

fun insert_item :: "string \<Rightarrow> string \<Rightarrow> (string \<times> string) list \<Rightarrow> (string \<times> string) list" where
  "insert_item k v [] = [(k, v)]"
| "insert_item k v ((a, b) # kvs) =
     (if k \<le> a then (k, v) # (a, b) # kvs else (a, b) # insert_item k v kvs)"

text \<open>\<open>None\<close> is the \<open>TypeError\<close> for a value the encoder does not know.\<close>

function (sequential) json_dumps :: "bool \<Rightarrow> pyval \<Rightarrow> string option"
  and json_list :: "bool \<Rightarrow> pyval list \<Rightarrow> string list option"
  and json_items :: "bool \<Rightarrow> (pyval \<times> pyval) list \<Rightarrow> (string \<times> string) list option" where
  "json_dumps a PNone = Some ''null''"
| "json_dumps a (PBool b) = Some (if b then ''true'' else ''false'')"
| "json_dumps a (PInt i) = Some (show_int i)"
| "json_dumps a (PFloat r _) = Some r"
| "json_dumps a (PStr s) = Some (json_str a s)"
| "json_dumps a (PDate _ _ _) = None"
| "json_dumps a (PDateTime _ _) = None"
| "json_dumps a (PList vs) =
     map_option (\<lambda>ss. ''['' @ join '','' ss @ '']'') (json_list a vs)"
| "json_dumps a (PDict kvs) =
     map_option (\<lambda>its. ''{'' @ join '','' (map (\<lambda>(k, t). json_str a k @ '':'' @ t) its) @ ''}'')
       (json_items a kvs)"
| "json_list a [] = Some []"
| "json_list a (v # vs) =
     (case json_dumps a v of None \<Rightarrow> None
      | Some t \<Rightarrow> map_option (\<lambda>ts. t # ts) (json_list a vs))"
| "json_items a [] = Some []"
| "json_items a ((k, v) # kvs) =
     (case (k, json_dumps a v, json_items a kvs) of
        (PStr s, Some t, Some its) \<Rightarrow> Some (insert_item s t its)
      | _ \<Rightarrow> None)"
  by pat_completeness auto
termination
  by (relation "measure (case_sum (\<lambda>(a, v). size v)
        (case_sum (\<lambda>(a, vs). size_list size vs) (\<lambda>(a, kvs). size_list (size_prod size size) kvs)))") auto

end
