(* ===== verification/Py_Time.thy ===== *)
theory Py_Time
  imports Py_Value
begin

text \<open>
  The parts of Python's \<open>datetime\<close> module the program uses: proleptic Gregorian ordinals,
  \<open>date.fromisoformat\<close> (calendar and ISO week forms), \<open>datetime.fromisoformat\<close>, conversion to
  UTC and the canonical text \<open>YYYY-MM-DDTHH:MM:SSZ\<close> that the components store and compare.
  Calendar fields are naturals, ordinals and offsets integers.
\<close>

section \<open>Calendar\<close>

definition is_leap :: "nat \<Rightarrow> bool" where
  "is_leap y = (y mod 4 = 0 \<and> (y mod 100 \<noteq> 0 \<or> y mod 400 = 0))"

definition month_lengths :: "nat list" where
  "month_lengths = [31, 28, 31, 30, 31, 30, 31, 31, 30, 31, 30, 31]"

definition days_in_month :: "nat \<Rightarrow> nat \<Rightarrow> nat" where
  "days_in_month y m = (if m = 2 \<and> is_leap y then 29 else month_lengths ! (m - 1))"

definition days_before_month :: "nat \<Rightarrow> nat \<Rightarrow> nat" where
  "days_before_month y m =
     sum_list (take (m - 1) month_lengths) + (if 2 < m \<and> is_leap y then 1 else 0)"

definition days_before_year :: "nat \<Rightarrow> int" where
  "days_before_year y = (let k = int y - 1 in k * 365 + k div 4 - k div 100 + k div 400)"

definition valid_date :: "nat \<Rightarrow> nat \<Rightarrow> nat \<Rightarrow> bool" where
  "valid_date y m d =
     (1 \<le> y \<and> y \<le> 9999 \<and> 1 \<le> m \<and> m \<le> 12 \<and> 1 \<le> d \<and> d \<le> days_in_month y m)"

definition ordinal :: "nat \<Rightarrow> nat \<Rightarrow> nat \<Rightarrow> int" where
  "ordinal y m d = days_before_year y + int (days_before_month y m) + int d"

type_synonym date = "nat \<times> nat \<times> nat"

fun date_ord :: "date \<Rightarrow> int" where
  "date_ord (y, m, d) = ordinal y m d"

definition ord_to_date :: "int \<Rightarrow> date" where
  "ord_to_date k =
     (let a = k - 1; n400 = a div 146097; b = a mod 146097;
          n100 = b div 36524; c = b mod 36524;
          n4 = c div 1461; e = c mod 1461;
          n1 = e div 365; f = nat (e mod 365);
          y = nat (n400 * 400 + 1 + n100 * 100 + n4 * 4 + n1)
      in if n1 = 4 \<or> n100 = 4 then (y - 1, 12, 31)
         else let m = (f + 50) div 32; p = days_before_month y m
              in if f < p then (y, m - 1, f - days_before_month y (m - 1) + 1)
                 else (y, m, f - p + 1))"

definition max_ordinal :: int where
  "max_ordinal = 3652059"

text \<open>ISO weeks: Monday of week 1, and the weeks a year has.\<close>

definition isoweek1_monday :: "nat \<Rightarrow> int" where
  "isoweek1_monday y =
     (let first = ordinal y 1 1; wd = (first + 6) mod 7; monday = first - wd
      in if 3 < wd then monday + 7 else monday)"

definition isoweek_date :: "nat \<Rightarrow> nat \<Rightarrow> nat \<Rightarrow> date option" where
  "isoweek_date y w d =
     (let wd = ordinal y 1 1 mod 7;
          long = (wd = 4 \<or> (wd = 3 \<and> is_leap y));
          k = isoweek1_monday y + (int w - 1) * 7 + (int d - 1)
      in if 1 \<le> y \<and> y \<le> 9999 \<and> 1 \<le> w \<and> (w < 53 \<or> (w = 53 \<and> long)) \<and> 1 \<le> d \<and> d \<le> 7
            \<and> 1 \<le> k \<and> k \<le> max_ordinal
         then Some (ord_to_date k) else None)"

section \<open>Parsing\<close>

text \<open>Exactly \<open>n\<close> decimal digits.\<close>

fun digits :: "nat \<Rightarrow> nat \<Rightarrow> string \<Rightarrow> (nat \<times> string) option" where
  "digits 0 acc s = Some (acc, s)"
| "digits (Suc n) acc [] = None"
| "digits (Suc n) acc (c # s) =
     (if is_dec c then digits n (10 * acc + (cp c - 48)) s else None)"

definition check_date :: "nat \<Rightarrow> nat \<Rightarrow> nat \<Rightarrow> date option" where
  "check_date y m d = (if valid_date y m d then Some (y, m, d) else None)"

text \<open>The rest after the year: with dashes throughout or with none.\<close>

definition week_part :: "bool \<Rightarrow> nat \<Rightarrow> string \<Rightarrow> date option" where
  "week_part sep y s = (case digits 2 0 s of
      None \<Rightarrow> None
    | Some (w, []) \<Rightarrow> isoweek_date y w 1
    | Some (w, c # r) \<Rightarrow>
        (if (c = CHR ''-'') \<noteq> sep then None
         else case digits 1 0 (if sep then r else c # r) of
             Some (d, []) \<Rightarrow> isoweek_date y w d
           | _ \<Rightarrow> None))"

definition month_part :: "bool \<Rightarrow> nat \<Rightarrow> string \<Rightarrow> date option" where
  "month_part sep y s = (case digits 2 0 s of
      None \<Rightarrow> None
    | Some (m, []) \<Rightarrow> None
    | Some (m, c # r) \<Rightarrow>
        (if (c = CHR ''-'') \<noteq> sep then None
         else case digits 2 0 (if sep then r else c # r) of
             Some (d, []) \<Rightarrow> check_date y m d
           | _ \<Rightarrow> None))"

definition date_part :: "string \<Rightarrow> date option" where
  "date_part s = (case digits 4 0 s of
      None \<Rightarrow> None
    | Some (y, r) \<Rightarrow>
        (let sep = (take 1 r = ''-''); q = (if sep then drop 1 r else r)
         in if take 1 q = ''W'' then week_part sep y (drop 1 q) else month_part sep y q))"

text \<open>\<open>date.fromisoformat\<close>; \<open>None\<close> is the \<open>ValueError\<close>.\<close>

definition date_fromisoformat :: "string \<Rightarrow> date option" where
  "date_fromisoformat s =
     (if length s = 7 \<or> length s = 8 \<or> length s = 10 then date_part s else None)"

text \<open>A fraction of a second: at least one digit, those after the sixth dropped.\<close>

definition fraction :: "string \<Rightarrow> nat option" where
  "fraction s =
     (if s \<noteq> [] \<and> list_all is_dec s
      then map_option fst (digits 6 0 (take 6 (s @ ''000000''))) else None)"

definition frac_part :: "nat \<Rightarrow> nat \<Rightarrow> nat \<Rightarrow> string \<Rightarrow> (nat \<times> nat \<times> nat \<times> nat) option" where
  "frac_part h m s r = (case r of
      [] \<Rightarrow> Some (h, m, s, 0)
    | c # f \<Rightarrow> if c = CHR ''.'' \<or> c = CHR '','' then map_option (\<lambda>u. (h, m, s, u)) (fraction f)
               else None)"

text \<open>\<open>HH[:MM[:SS[.f]]]\<close> or the same without colons.\<close>

definition clock_part :: "string \<Rightarrow> (nat \<times> nat \<times> nat \<times> nat) option" where
  "clock_part t = (case digits 2 0 t of
      None \<Rightarrow> None
    | Some (h, []) \<Rightarrow> Some (h, 0, 0, 0)
    | Some (h, c # r) \<Rightarrow>
        (let sep = (c = CHR '':'') in
         case digits 2 0 (if sep then r else c # r) of
           None \<Rightarrow> None
         | Some (m, []) \<Rightarrow> Some (h, m, 0, 0)
         | Some (m, c' # r') \<Rightarrow>
             (if sep \<and> c' \<noteq> CHR '':'' then None
              else case digits 2 0 (if sep then r' else c' # r') of
                None \<Rightarrow> None
              | Some (s, q) \<Rightarrow> frac_part h m s q)))"

definition is_tz_start :: "char \<Rightarrow> bool" where
  "is_tz_start c = (c = CHR ''+'' \<or> c = CHR ''-'' \<or> c = CHR ''Z'')"

text \<open>UTC offset in microseconds; a fixed offset is below 24 hours.\<close>

definition tz_part :: "string \<Rightarrow> int option" where
  "tz_part t = (case t of
      [] \<Rightarrow> None
    | c # r \<Rightarrow>
        if c = CHR ''Z'' then (if r = [] then Some 0 else None)
        else case clock_part r of
            None \<Rightarrow> None
          | Some (h, m, s, u) \<Rightarrow>
              (let off = ((int h * 60 + int m) * 60 + int s) * 1000000 + int u
               in if off < 86400000000 then Some (if c = CHR ''-'' then - off else off)
                  else None))"

record datetime =
  dt_date :: date
  dt_hour :: nat
  dt_minute :: nat
  dt_second :: nat
  dt_micro :: nat
  dt_offset :: "int option"

definition check_clock :: "date \<Rightarrow> nat \<times> nat \<times> nat \<times> nat \<Rightarrow> int option \<Rightarrow> datetime option" where
  "check_clock d t off = (case t of (h, m, s, u) \<Rightarrow>
     if h < 24 \<and> m < 60 \<and> s < 60
     then Some \<lparr>dt_date = d, dt_hour = h, dt_minute = m, dt_second = s, dt_micro = u,
                dt_offset = off\<rparr>
     else None)"

definition time_part :: "date \<Rightarrow> string \<Rightarrow> datetime option" where
  "time_part d t =
     (let clock = takeWhile (\<lambda>c. \<not> is_tz_start c) t; zone = dropWhile (\<lambda>c. \<not> is_tz_start c) t
      in case clock_part clock of
           None \<Rightarrow> None
         | Some k \<Rightarrow>
             (if zone = [] then check_clock d k None
              else case tz_part zone of None \<Rightarrow> None | Some off \<Rightarrow> check_clock d k (Some off)))"

text \<open>Where the date ends; the character there is the separator, whatever it is.\<close>

definition date_length :: "string \<Rightarrow> nat" where
  "date_length s =
     (if length s = 7 then 7
      else if s ! 4 = CHR ''-'' then
        (if s ! 5 = CHR ''W'' then
           (if 8 < length s \<and> s ! 8 = CHR ''-'' then
              (if length s = 9 \<or> (10 < length s \<and> is_dec (s ! 10)) then 8 else 10)
            else 8)
         else 10)
      else if s ! 4 = CHR ''W'' then
        (let k = length (takeWhile is_dec (drop 7 s)) + 7
         in if k < 9 then k else if k mod 2 = 0 then 7 else 8)
      else 8)"

text \<open>\<open>datetime.fromisoformat\<close>; \<open>None\<close> is the \<open>ValueError\<close>.\<close>

definition fromisoformat :: "string \<Rightarrow> datetime option" where
  "fromisoformat s =
     (if length s < 7 then None
      else let n = date_length s in
        case date_part (take n s) of
          None \<Rightarrow> None
        | Some d \<Rightarrow>
            (if length s \<le> n + 1 then check_clock d (0, 0, 0, 0) None
             else time_part d (drop (n + 1) s)))"

text \<open>\<open>value.replace('Z', '+00:00')\<close>.\<close>

fun replace_z :: "string \<Rightarrow> string" where
  "replace_z [] = []"
| "replace_z (c # s) = (if c = CHR ''Z'' then ''+00:00'' @ replace_z s else c # replace_z s)"

section \<open>Conversion to UTC\<close>

text \<open>Microseconds since the start of year 1 in UTC (a naive value has no such reading).\<close>

definition utc_micros :: "datetime \<Rightarrow> int \<Rightarrow> int" where
  "utc_micros t off =
     (((date_ord (dt_date t) * 24 + int (dt_hour t)) * 60 + int (dt_minute t)) * 60
        + int (dt_second t)) * 1000000 + int (dt_micro t) - off"

text \<open>
  \<open>t.astimezone(utc).isoformat(timespec='seconds')\<close> with \<open>Z\<close> for the zone: the seconds are
  truncated; a moment outside the years 1 to 9999 is the \<open>OverflowError\<close>.
\<close>

definition clock_text :: "nat \<Rightarrow> string" where
  "clock_text s = pad2 (s div 3600) @ '':'' @ pad2 (s div 60 mod 60) @ '':'' @ pad2 (s mod 60)"

definition utc_text :: "int \<Rightarrow> string result" where
  "utc_text micros =
     (let secs = micros div 1000000; k = secs div 86400; s = nat (secs mod 86400)
      in if 1 \<le> k \<and> k \<le> max_ordinal
         then (case ord_to_date k of (y, m, d) \<Rightarrow> Inr (iso_date y m d @ ''T'' @ clock_text s @ ''Z''))
         else Inl OverflowError)"

text \<open>What the simplifier needs to evaluate a conversion on numerals.\<close>

lemmas eval_time = utc_text_def utc_micros_def Let_def ordinal_def ord_to_date_def
  days_before_year_def days_before_month_def month_lengths_def is_leap_def max_ordinal_def
  iso_date_def pad2_def pad4_def clock_text_def

section \<open>Shape of canonical text\<close>

lemma length_pad [simp]: "length (pad2 n) = 2" "length (pad4 n) = 4"
  by (simp_all add: pad2_def pad4_def)

lemma length_iso_date [simp]: "length (iso_date y m d) = 10"
  by (simp add: iso_date_def)

lemma length_utc_text: "utc_text t = Inr s \<Longrightarrow> length s = 20"
  by (auto simp: utc_text_def Let_def clock_text_def split: if_splits prod.splits)

lemma cp_digit_char [simp]: "n < 10 \<Longrightarrow> cp (digit_char n) = 48 + n"
  by (simp add: cp_def digit_char_def)

lemma is_dec_digit_char [simp]: "n < 10 \<Longrightarrow> is_dec (digit_char n)"
  by (simp add: is_dec_def)

lemma digits_2: "digits 2 a s = digits (Suc (Suc 0)) a s"
  by (simp add: numeral_2_eq_2)

lemma digits_4: "digits 4 a s = digits (Suc (Suc (Suc (Suc 0)))) a s"
  by (simp add: numeral_eq_Suc)

lemma digits_pad2 [simp]: "n < 100 \<Longrightarrow> digits 2 0 (pad2 n @ r) = Some (n, r)"
proof -
  assume "n < 100"
  then have "10 * (n div 10 mod 10) + n mod 10 = n" by (simp add: div_less_iff_less_mult)
  then show ?thesis by (simp add: pad2_def digits_2)
qed

lemma split_digit: "10 * (n div 10) + n mod (10::nat) = n"
  by simp

lemma digits_pad4 [simp]: "n < 10000 \<Longrightarrow> digits 4 0 (pad4 n @ r) = Some (n, r)"
proof -
  assume n: "n < 10000"
  define a where "a = n div 10"
  define b where "b = a div 10"
  define c where "c = b div 10"
  have ab: "n div 100 = b" "n div 1000 = c"
    by (simp_all add: a_def b_def c_def div_mult2_eq [symmetric])
  have c10: "c < 10" using n by (simp add: ab [symmetric] div_less_iff_less_mult)
  then have c: "c mod 10 = c" by simp
  have "10 * (10 * (10 * c + b mod 10) + a mod 10) + n mod 10 = n"
    using split_digit [of n] split_digit [of a] split_digit [of b]
    by (simp only: a_def [symmetric] b_def [symmetric] c_def [symmetric])
  then show ?thesis
    using c10 by (simp add: pad4_def digits_4 ab c a_def [symmetric] b_def [symmetric])
qed

end
