(* ===== verification/Interfaces.thy ===== *)
theory Interfaces
  imports Prelude
begin

text \<open>
  The contracts that more than one component relies on, each as a locale whose laws the
  providing component discharges on its own definitions: life cycles of persisted records
  (deliveries, work tasks), registries with unique identifiers (agents, capabilities), durable
  keyed records (request reservations, tasks, usage records), and readers whose answers do not
  change within one run.
\<close>

section \<open>Life cycles\<close>

text \<open>A walk: every state is an allowed successor of the one before.\<close>

fun walk :: "('s \<Rightarrow> 's list) \<Rightarrow> 's list \<Rightarrow> bool" where
  "walk edges [] = True"
| "walk edges [s] = True"
| "walk edges (s # t # ss) = (t \<in> set (edges s) \<and> walk edges (t # ss))"

lemma walk_append: "walk edges (xs @ ys) \<Longrightarrow> walk edges xs \<and> walk edges ys"
proof (induction xs)
  case (Cons x xs)
  then show ?case by (cases xs; cases ys) auto
qed simp

lemma walk_snoc:
  "walk edges (xs @ [s]) \<Longrightarrow> t \<in> set (edges s) \<Longrightarrow> walk edges (xs @ [s, t])"
proof (induction xs)
  case (Cons x xs)
  then show ?case by (cases xs) auto
qed simp

locale lifecycle =
  fixes edges :: "'s \<Rightarrow> 's list"
    and terminal :: "'s \<Rightarrow> bool"
  assumes terminal_edges: "terminal s \<Longrightarrow> edges s = []"
begin

lemma terminal_is_last: "walk edges (xs @ s # ys) \<Longrightarrow> terminal s \<Longrightarrow> ys = []"
proof -
  assume w: "walk edges (xs @ s # ys)" and t: "terminal s"
  from w have "walk edges (s # ys)" using walk_append by blast
  with t show "ys = []" by (cases ys) (auto simp: terminal_edges)
qed

lemma one_terminal:
  "walk edges ss \<Longrightarrow> i < length ss \<Longrightarrow> terminal (ss ! i) \<Longrightarrow> Suc i = length ss"
proof -
  assume w: "walk edges ss" and i: "i < length ss" and t: "terminal (ss ! i)"
  from i have "ss = take i ss @ ss ! i # drop (Suc i) ss" by (rule id_take_nth_drop)
  with w t have "drop (Suc i) ss = []" by (metis terminal_is_last)
  with i show ?thesis by simp
qed

end

text \<open>A life cycle without cycles: every step lowers a rank, so histories are bounded.\<close>

locale ranked_lifecycle = lifecycle edges terminal
  for edges :: "'s \<Rightarrow> 's list" and terminal :: "'s \<Rightarrow> bool" +
  fixes rank :: "'s \<Rightarrow> nat"
  assumes rank_edges: "t \<in> set (edges s) \<Longrightarrow> rank t < rank s"
begin

lemma walk_bounded: "walk edges (s # ss) \<Longrightarrow> length ss \<le> rank s"
proof (induction ss arbitrary: s)
  case (Cons t ss)
  then have "rank t < rank s" and "length ss \<le> rank t"
    by (auto intro: rank_edges)
  then show ?case by simp
qed simp

lemma walk_distinct_ranks: "walk edges (s # ss) \<Longrightarrow> t \<in> set ss \<Longrightarrow> rank t < rank s"
proof (induction ss arbitrary: s)
  case (Cons u ss)
  then have us: "rank u < rank s" by (auto intro: rank_edges)
  from Cons have "t = u \<or> rank t < rank u" by auto
  with us show ?case by auto
qed simp

end

section \<open>Registries with unique identifiers\<close>

locale registry =
  fixes register :: "'v \<Rightarrow> 'r \<Rightarrow> 'r result"
    and entry :: "'r \<Rightarrow> string \<Rightarrow> 'v option"
    and ident :: "'v \<Rightarrow> string"
  assumes register_new: "register v r = Inr r' \<Longrightarrow> entry r (ident v) = None"
    and register_entry: "register v r = Inr r' \<Longrightarrow> entry r' = (entry r)(ident v \<mapsto> v)"
begin

fun register_all :: "'v list \<Rightarrow> 'r \<Rightarrow> 'r result" where
  "register_all [] r = Inr r"
| "register_all (v # vs) r = andThen (register v r) (register_all vs)"

lemma register_all_keeps:
  "register_all vs r = Inr r' \<Longrightarrow> entry r k = Some v \<Longrightarrow> entry r' k = Some v"
proof (induction vs arbitrary: r)
  case (Cons w vs)
  from Cons.prems obtain q where q: "register w r = Inr q" "register_all vs q = Inr r'"
    by (auto simp: andThen_Inr_iff)
  from q(1) Cons.prems(2) have "k \<noteq> ident w" using register_new by fastforce
  with q Cons show ?case by (simp add: register_entry)
qed simp

lemma register_all_entry:
  "register_all vs r = Inr r' \<Longrightarrow> v \<in> set vs \<Longrightarrow> entry r' (ident v) = Some v"
proof (induction vs arbitrary: r)
  case (Cons w vs)
  from Cons.prems obtain q where q: "register w r = Inr q" "register_all vs q = Inr r'"
    by (auto simp: andThen_Inr_iff)
  have "entry r' (ident w) = Some w"
    using q(2) by (rule register_all_keeps) (simp add: register_entry [OF q(1)])
  with Cons.IH [OF q(2)] Cons.prems(2) show ?case by auto
qed simp

lemma register_all_absent:
  "register_all vs r = Inr r' \<Longrightarrow> v \<in> set vs \<Longrightarrow> entry r (ident v) = None"
proof (induction vs arbitrary: r)
  case (Cons w vs)
  from Cons.prems obtain q where q: "register w r = Inr q" "register_all vs q = Inr r'"
    by (auto simp: andThen_Inr_iff)
  from Cons.IH [OF q(2)] Cons.prems(2) q(1) show ?case
    by (auto simp: register_entry [OF q(1)] dest: register_new split: if_splits)
qed simp

lemma register_all_distinct: "register_all vs r = Inr r' \<Longrightarrow> distinct (map ident vs)"
proof (induction vs arbitrary: r)
  case (Cons w vs)
  from Cons.prems obtain q where q: "register w r = Inr q" "register_all vs q = Inr r'"
    by (auto simp: andThen_Inr_iff)
  have "ident w \<notin> ident ` set vs"
    using register_all_absent [OF q(2)] by (fastforce simp: register_entry [OF q(1)])
  with Cons.IH [OF q(2)] show ?case by simp
qed simp

end

section \<open>Durable keyed records\<close>

text \<open>
  \<open>load\<close> after \<open>store\<close>: one record per key, replaced as a whole; writing one key leaves the others
  alone. Clients prove that a record once written under a key stays there until they store it.
\<close>

locale records =
  fixes load :: "'s \<Rightarrow> 'k \<Rightarrow> 'v option"
    and store :: "'k \<Rightarrow> 'v \<Rightarrow> 's \<Rightarrow> 's"
  assumes load_store: "load (store k v s) = (load s)(k \<mapsto> v)"
begin

fun store_all :: "('k \<times> 'v) list \<Rightarrow> 's \<Rightarrow> 's" where
  "store_all [] s = s"
| "store_all ((k, v) # kvs) s = store_all kvs (store k v s)"

lemma load_store_same [simp]: "load (store k v s) k = Some v"
  by (simp add: load_store)

lemma load_store_other [simp]: "k' \<noteq> k \<Longrightarrow> load (store k v s) k' = load s k'"
  by (simp add: load_store)

lemma store_all_keeps: "load s k \<noteq> None \<Longrightarrow> load (store_all kvs s) k \<noteq> None"
  by (induction kvs arbitrary: s) (auto simp: load_store)

lemma store_all_other: "k \<notin> fst ` set kvs \<Longrightarrow> load (store_all kvs s) k = load s k"
  by (induction kvs arbitrary: s) (auto simp: load_store)

end

section \<open>Stable readers\<close>

text \<open>
  A reader answers a request and may change its own state; asking again for something it has settled
  gives the same answer, whatever was asked in between. A client that makes several passes over the same
  source then sees one consistent view.
\<close>

locale stable_reader =
  fixes ask :: "'q \<Rightarrow> 's \<Rightarrow> 'a \<times> 's"
    and known :: "'s \<Rightarrow> 'q \<Rightarrow> 'a option"
    and settled :: "'a \<Rightarrow> bool"
  assumes ask_answer: "known s q = Some a \<Longrightarrow> ask q s = (a, s)"
    and ask_known: "ask q s = (a, s') \<Longrightarrow> settled a \<Longrightarrow> known s' q = Some a"
    and ask_keeps: "ask q s = (a, s') \<Longrightarrow> known s p = Some b \<Longrightarrow> known s' p = Some b"
begin

fun ask_all :: "'q list \<Rightarrow> 's \<Rightarrow> 'a list \<times> 's" where
  "ask_all [] s = ([], s)"
| "ask_all (q # qs) s =
     (case ask q s of (a, s') \<Rightarrow> (case ask_all qs s' of (as, t) \<Rightarrow> (a # as, t)))"

lemma ask_all_keeps: "ask_all qs s = (as, t) \<Longrightarrow> known s p = Some b \<Longrightarrow> known t p = Some b"
  by (induction qs arbitrary: s as t) (auto split: prod.splits dest: ask_keeps)

lemma ask_all_known:
  "ask_all qs s = (as, t) \<Longrightarrow> i < length qs \<Longrightarrow> settled (as ! i) \<Longrightarrow> known t (qs ! i) = Some (as ! i)"
proof (induction qs arbitrary: s as t i)
  case (Cons q qs)
  then obtain a s1 as1 where q: "ask q s = (a, s1)" and qs: "ask_all qs s1 = (as1, t)"
    and as: "as = a # as1"
    by (auto split: prod.splits)
  show ?case
  proof (cases i)
    case 0
    with ask_all_keeps [OF qs ask_known [OF q]] as Cons.prems(3) show ?thesis by simp
  next
    case (Suc j)
    with Cons.IH [OF qs, of j] Cons.prems(2,3) as show ?thesis by simp
  qed
qed simp

lemma consistent:
  assumes "ask_all qs s = (as, t)" "i < length qs" "j < length qs" "qs ! i = qs ! j"
    and "settled (as ! i)" "settled (as ! j)"
  shows "as ! i = as ! j"
  using ask_all_known [OF assms(1,2,5)] ask_all_known [OF assms(1,3,6)] assms(4) by simp

lemma settled_again:
  assumes "ask q s = (a, s')" "settled a" "ask_all qs s' = (as, t)"
  shows "ask q t = (a, t)"
  using ask_answer [OF ask_all_keeps [OF assms(3) ask_known [OF assms(1,2)]]] .

end

end
