(* ===== verification/Watched_Ledger.thy ===== *)
theory Watched_Ledger
  imports Py_Time Interfaces
begin

text \<open>
  \<open>watched_ledger.py\<close> over the schema \<open>001_watched_event_ledger.sql\<close>. The database is four lists
  of rows; a connection holds the committed database and the one its open transaction sees, so
  \<open>with connection\<close> (commit on return, roll back on an exception) is explicit. Every operation
  takes the text \<open>utc_now()\<close> returns as an argument; \<open>sha\<close> stands for SHA-256 in hexadecimal. The
  JSON text of a cursor is represented by the value \<open>json.loads\<close> reads from it (\<open>None\<close> when it is
  not JSON).
\<close>

section \<open>Vocabularies\<close>

definition MEDIA_KINDS :: "string list" where
  "MEDIA_KINDS = [''movie'', ''episode'']"

definition PRECISIONS :: "string list" where
  "PRECISIONS = [''exact'', ''date_only'', ''legacy_placeholder'']"

definition SOURCES :: "string list" where
  "SOURCES = [''plex'', ''trakt'', ''manual'', ''agent'', ''migration'']"

definition CONFIDENCES :: "string list" where
  "CONFIDENCES = [''high'', ''medium'', ''low'']"

definition DELIVERY_STATES :: "string list" where
  "DELIVERY_STATES =
     [''pending'', ''in_flight'', ''verified'', ''retry_wait'', ''ambiguous'', ''failed'']"

section \<open>Data\<close>

record Observation =
  obs_kind :: string
  obs_media_id :: "int option"
  obs_watched_at :: string
  obs_precision :: string
  obs_source :: string
  obs_provenance :: pyval
  obs_source_event_id :: "string option"
  obs_confidence :: string
  obs_account_scope :: string
  obs_external_media_id :: "string option"
  obs_quarantine :: "string option"

record IngestResult =
  res_status :: string
  res_event_id :: "int option"
  res_outbound :: bool

record Delivery =
  dlv_id :: int
  dlv_state :: string
  dlv_attempts :: nat

record watch_event =
  ev_id :: int
  ev_media_id :: "int option"
  ev_kind :: string
  ev_watched_at :: string
  ev_precision :: string
  ev_source :: string
  ev_provenance :: string
  ev_source_event_id :: "string option"
  ev_confidence :: string
  ev_imported_at :: string
  ev_fingerprint :: string
  ev_superseded_by :: "int option"
  ev_quarantine :: "string option"
  ev_created_at :: string

record event_link =
  ln_id :: int
  ln_event :: int
  ln_system :: string
  ln_external :: string
  ln_media :: "string option"
  ln_at :: string

record sync_delivery =
  sd_id :: int
  sd_event :: int
  sd_target :: string
  sd_operation :: string
  sd_key :: string
  sd_request_hash :: string
  sd_state :: string
  sd_attempts :: nat
  sd_next_attempt :: "string option"
  sd_http :: "int option"
  sd_error :: "string option"
  sd_target_event :: "string option"
  sd_started :: "string option"
  sd_verified :: "string option"

type_synonym json_text = "pyval option"

record source_cursor =
  cu_source :: string
  cu_scope :: string
  cu_text :: json_text
  cu_success :: "string option"
  cu_error :: "string option"

record db =
  events :: "watch_event list"
  links :: "event_link list"
  deliveries :: "sync_delivery list"
  cursors :: "source_cursor list"

definition empty_db :: db where
  "empty_db = \<lparr>events = [], links = [], deliveries = [], cursors = []\<rparr>"

record connection =
  committed :: db
  current :: db
  foreign_keys :: bool

type_synonym 'a op = "connection \<Rightarrow> 'a result \<times> connection"

definition commit :: "connection \<Rightarrow> connection" where
  "commit c = c\<lparr>committed := current c\<rparr>"

definition rollback :: "connection \<Rightarrow> connection" where
  "rollback c = c\<lparr>current := committed c\<rparr>"

text \<open>\<open>with connection: body\<close>.\<close>

definition with_connection :: "'a op \<Rightarrow> 'a op" where
  "with_connection body c = (case body c of
      (Inr x, c') \<Rightarrow> (Inr x, commit c')
    | (Inl e, c') \<Rightarrow> (Inl e, rollback c'))"

definition on_current :: "(db \<Rightarrow> 'a result \<times> db) \<Rightarrow> 'a op" where
  "on_current f c = (case f (current c) of (r, d) \<Rightarrow> (r, c\<lparr>current := d\<rparr>))"

section \<open>Helpers\<close>

text \<open>\<open>x or utc_now()\<close>.\<close>

definition or_now :: "string option \<Rightarrow> string \<Rightarrow> string" where
  "or_now at now = (case at of Some t \<Rightarrow> (if t = [] then now else t) | None \<Rightarrow> now)"

definition filled :: "string option \<Rightarrow> bool" where
  "filled x = (case x of Some t \<Rightarrow> t \<noteq> [] | None \<Rightarrow> False)"

definition opt_str :: "string option \<Rightarrow> pyval" where
  "opt_str x = (case x of Some t \<Rightarrow> PStr t | None \<Rightarrow> PNone)"

definition canonical_json :: "pyval \<Rightarrow> string result" where
  "canonical_json v = (case json_dumps False v of
      Some t \<Rightarrow> Inr t
    | None \<Rightarrow> Inl (LedgerError ''provenance must be JSON serializable''))"

definition ledger_timestamp :: "string \<Rightarrow> string result" where
  "ledger_timestamp value =
     (if value = [] then Inl (LedgerError ''watched_at must be a timestamp'')
      else case fromisoformat (replace_z value) of
          None \<Rightarrow> Inl (LedgerError ''watched_at must be ISO-8601'')
        | Some t \<Rightarrow> (case dt_offset t of
              None \<Rightarrow> Inl (LedgerError ''watched_at must include a timezone'')
            | Some off \<Rightarrow> utc_text (utc_micros t off)))"

definition apply_migrations :: "connection \<Rightarrow> connection" where
  "apply_migrations c = (commit c)\<lparr>foreign_keys := True\<rparr>"

definition fingerprint_payload :: "Observation \<Rightarrow> string \<Rightarrow> pyval" where
  "fingerprint_payload obs at = sdict (
     [(''event_type'', PStr ''watch''),
      (''local_media_id'', case obs_media_id obs of Some i \<Rightarrow> PInt i | None \<Rightarrow> PNone),
      (''media_kind'', PStr (obs_kind obs)),
      (''source'', PStr (obs_source obs)),
      (''watched_at'', PStr at)] @
     (if obs_media_id obs = None
      then [(''quarantine_reason'', opt_str (obs_quarantine obs)),
            (''source_event_id'', opt_str (obs_source_event_id obs))] else []))"

definition event_fingerprint :: "(string \<Rightarrow> string) \<Rightarrow> Observation \<Rightarrow> string result" where
  "event_fingerprint sha obs =
     andThen (ledger_timestamp (obs_watched_at obs)) (\<lambda>at.
       andThen (canonical_json (fingerprint_payload obs at)) (\<lambda>t. Inr (sha t)))"

section \<open>Cursors and the migration boundary\<close>

definition is_cursor :: "string \<Rightarrow> string \<Rightarrow> source_cursor \<Rightarrow> bool" where
  "is_cursor src scope r = (cu_source r = src \<and> cu_scope r = scope)"

definition find_cursor :: "string \<Rightarrow> string \<Rightarrow> db \<Rightarrow> source_cursor option" where
  "find_cursor src scope d = find_row (is_cursor src scope) (cursors d)"

text \<open>\<open>INSERT ... ON CONFLICT(source, account_scope) DO UPDATE\<close>.\<close>

definition upsert_cursor ::
  "string \<Rightarrow> string \<Rightarrow> (source_cursor \<Rightarrow> source_cursor) \<Rightarrow> db \<Rightarrow> db" where
  "upsert_cursor src scope f d =
     (if find_cursor src scope d = None
      then d\<lparr>cursors := cursors d @
        [f \<lparr>cu_source = src, cu_scope = scope, cu_text = None, cu_success = None, cu_error = None\<rparr>]\<rparr>
      else d\<lparr>cursors := update_rows (is_cursor src scope) f (cursors d)\<rparr>)"

definition set_migration_boundary ::
  "string \<Rightarrow> string \<Rightarrow> int \<Rightarrow> string option \<Rightarrow> string \<Rightarrow> unit op" where
  "set_migration_boundary src scope maximum at now = on_current (\<lambda>d.
     if src \<notin> set SOURCES \<or> maximum < 0 \<or> scope = []
     then (Inl (LedgerError ''invalid migration boundary''), d)
     else (Inr (), upsert_cursor src scope (\<lambda>r. r\<lparr>
            cu_text := Some (sdict [(''kind'', PStr ''event_id_lte''), (''value'', PInt maximum)]),
            cu_success := Some (or_now at now)\<rparr>) d))"

text \<open>
  \<open>int(x)\<close> on a JSON value. A float that is not an integer has a decimal \<open>repr\<close> without a positive
  exponent, so its integer part is what stands before the point.
\<close>

definition float_trunc :: "string \<Rightarrow> int result" where
  "float_trunc r =
     (if r = ''nan'' then Inl (ValueError ''cannot convert float NaN to integer'')
      else if r = ''inf'' \<or> r = ''-inf'' then Inl OverflowError
      else if CHR ''e'' \<in> set r then Inr 0
      else case py_int (takeWhile (\<lambda>c. c \<noteq> CHR ''.'') r) of
          Some i \<Rightarrow> Inr i | None \<Rightarrow> Inl (ValueError ''invalid float''))"

fun int_of :: "pyval \<Rightarrow> int result" where
  "int_of (PInt i) = Inr i"
| "int_of (PBool b) = Inr (if b then 1 else 0)"
| "int_of (PFloat r (Some i)) = Inr i"
| "int_of (PFloat r None) = float_trunc r"
| "int_of (PStr s) = (case py_int s of
      Some i \<Rightarrow> Inr i | None \<Rightarrow> Inl (ValueError ''invalid literal for int()''))"
| "int_of _ = Inl TypeError"

definition boundary_test :: "pyval \<Rightarrow> string \<Rightarrow> bool result" where
  "boundary_test boundary sid = (case boundary of
      PDict d \<Rightarrow>
        (if dget d ''kind'' \<noteq> PStr ''event_id_lte'' then Inr False
         else andThen (int_of (PStr sid)) (\<lambda>i.
           case dlookup ''value'' d of
             None \<Rightarrow> Inl KeyError
           | Some v \<Rightarrow> andThen (int_of v) (\<lambda>j. Inr (i \<le> j))))
    | _ \<Rightarrow> Inl AttributeError)"

text \<open>\<open>except (ValueError, TypeError, KeyError, json.JSONDecodeError): return False\<close>.\<close>

definition suppressed_by_boundary :: "Observation \<Rightarrow> db \<Rightarrow> bool result" where
  "suppressed_by_boundary obs d = (case obs_source_event_id obs of
      None \<Rightarrow> Inr False
    | Some sid \<Rightarrow> (case find_cursor (obs_source obs) (obs_account_scope obs) d of
        None \<Rightarrow> Inr False
      | Some r \<Rightarrow> (case cu_text r of
          None \<Rightarrow> Inr False
        | Some v \<Rightarrow> (case boundary_test v sid of
            Inr b \<Rightarrow> Inr b
          | Inl e \<Rightarrow> (if is_value_error e \<or> e = TypeError \<or> e = KeyError
                      then Inr False else Inl e)))))"

section \<open>Links\<close>

definition is_link :: "string \<Rightarrow> string \<Rightarrow> event_link \<Rightarrow> bool" where
  "is_link sys ext l = (ln_system l = sys \<and> ln_external l = ext)"

definition find_link :: "string \<Rightarrow> string \<Rightarrow> db \<Rightarrow> event_link option" where
  "find_link sys ext d = find_row (is_link sys ext) (links d)"

definition find_event :: "int \<Rightarrow> db \<Rightarrow> watch_event option" where
  "find_event i d = find_row (\<lambda>e. ev_id e = i) (events d)"

definition link_external_event ::
  "bool \<Rightarrow> int \<Rightarrow> string \<Rightarrow> string \<Rightarrow> string option \<Rightarrow> string option \<Rightarrow> string \<Rightarrow> db
   \<Rightarrow> unit result \<times> db" where
  "link_external_event fk event sys ext media at now d =
     (if sys = [] \<or> ext = []
      then (Inl (LedgerError ''external event link requires system and event ID''), d)
      else case find_link sys ext d of
          Some l \<Rightarrow>
            (if ln_event l = event then (Inr (), d)
             else (Inl (LedgerError ''external event is already linked to another watch event''), d))
        | None \<Rightarrow>
            (if fk \<and> find_event event d = None then (Inl IntegrityError, d)
             else (Inr (), d\<lparr>links := links d @
               [\<lparr>ln_id = next_id (map ln_id (links d)), ln_event = event, ln_system = sys,
                 ln_external = ext, ln_media = media, ln_at = or_now at now\<rparr>]\<rparr>)))"

section \<open>Ingestion\<close>

definition validate_observation :: "Observation \<Rightarrow> unit result" where
  "validate_observation obs =
     (if obs_kind obs \<notin> set MEDIA_KINDS then Inl (LedgerError ''unsupported media kind'')
      else if obs_precision obs \<notin> set PRECISIONS
        then Inl (LedgerError ''unsupported watched date precision'')
      else if obs_source obs \<notin> set SOURCES then Inl (LedgerError ''unsupported source'')
      else if obs_confidence obs \<notin> set CONFIDENCES
        then Inl (LedgerError ''unsupported confidence'')
      else case obs_media_id obs of
          Some i \<Rightarrow>
            (if i \<le> 0 then Inl (LedgerError ''local media identity must be positive'')
             else if filled (obs_quarantine obs)
               then Inl (LedgerError ''identified events cannot be quarantined'')
             else Inr ())
        | None \<Rightarrow>
            (if \<not> filled (obs_quarantine obs)
             then Inl (LedgerError ''missing identity must be quarantined'') else Inr ()))"

definition new_event ::
  "Observation \<Rightarrow> string \<Rightarrow> string \<Rightarrow> string \<Rightarrow> string \<Rightarrow> int \<Rightarrow> watch_event" where
  "new_event obs watched_at provenance fp now i =
     \<lparr>ev_id = i, ev_media_id = obs_media_id obs, ev_kind = obs_kind obs,
      ev_watched_at = watched_at, ev_precision = obs_precision obs, ev_source = obs_source obs,
      ev_provenance = provenance, ev_source_event_id = obs_source_event_id obs,
      ev_confidence = obs_confidence obs, ev_imported_at = now, ev_fingerprint = fp,
      ev_superseded_by = None, ev_quarantine = obs_quarantine obs, ev_created_at = now\<rparr>"

text \<open>The table's \<open>CHECK\<close> and \<open>UNIQUE\<close> constraints on an inserted event.\<close>

definition event_check :: "watch_event \<Rightarrow> bool" where
  "event_check e =
     (ev_kind e \<in> set MEDIA_KINDS \<and> ev_precision e \<in> set PRECISIONS \<and> ev_source e \<in> set SOURCES
      \<and> ev_confidence e \<in> set CONFIDENCES \<and> ((ev_media_id e \<noteq> None) = (ev_quarantine e = None)))"

definition same_source_event :: "string \<Rightarrow> string \<Rightarrow> watch_event \<Rightarrow> bool" where
  "same_source_event src sid e = (ev_source e = src \<and> ev_source_event_id e = Some sid)"

definition event_unique :: "watch_event \<Rightarrow> db \<Rightarrow> bool" where
  "event_unique e d =
     (\<forall>r\<in>set (events d). ev_fingerprint r \<noteq> ev_fingerprint e \<and>
        (case ev_source_event_id e of None \<Rightarrow> True
         | Some sid \<Rightarrow> \<not> same_source_event (ev_source e) sid r))"

definition insert_event :: "watch_event \<Rightarrow> db \<Rightarrow> unit result \<times> db" where
  "insert_event e d =
     (if event_check e \<and> event_unique e d then (Inr (), d\<lparr>events := events d @ [e]\<rparr>)
      else (Inl IntegrityError, d))"

definition duplicate_of :: "string \<Rightarrow> watch_event \<Rightarrow> IngestResult" where
  "duplicate_of status e =
     \<lparr>res_status = status, res_event_id = Some (ev_id e), res_outbound = (ev_quarantine e = None)\<rparr>"

text \<open>The query by source event id: the event itself, then a link to one.\<close>

definition known_source_event :: "Observation \<Rightarrow> db \<Rightarrow> IngestResult option" where
  "known_source_event obs d = (case obs_source_event_id obs of
      None \<Rightarrow> None
    | Some sid \<Rightarrow> (case find_row (same_source_event (obs_source obs) sid) (events d) of
        Some e \<Rightarrow> Some (duplicate_of ''duplicate_source_event'' e)
      | None \<Rightarrow> (case find_link (obs_source obs) sid d of
          Some l \<Rightarrow> Some \<lparr>res_status = ''external_echo_suppressed'',
                         res_event_id = Some (ln_event l), res_outbound = False\<rparr>
        | None \<Rightarrow> None)))"

definition link_observation ::
  "bool \<Rightarrow> Observation \<Rightarrow> int \<Rightarrow> string \<Rightarrow> db \<Rightarrow> unit result \<times> db" where
  "link_observation fk obs event now d = (case obs_source_event_id obs of
      None \<Rightarrow> (Inr (), d)
    | Some sid \<Rightarrow>
        link_external_event fk event (obs_source obs) sid (obs_external_media_id obs) (Some now) now d)"

definition store_new_event ::
  "bool \<Rightarrow> Observation \<Rightarrow> watch_event \<Rightarrow> string \<Rightarrow> db \<Rightarrow> IngestResult result \<times> db" where
  "store_new_event fk obs e now d = (case insert_event e d of
      (Inl x, d1) \<Rightarrow> (Inl x, d1)
    | (Inr _, d1) \<Rightarrow>
        (let q = (obs_media_id obs = None);
             res = \<lparr>res_status = (if q then ''quarantined'' else ''created''),
                    res_event_id = Some (ev_id e), res_outbound = \<not> q\<rparr>
         in if q then (Inr res, d1)
            else case link_observation fk obs (ev_id e) now d1 of
                (Inl x, d2) \<Rightarrow> (Inl x, d2)
              | (Inr _, d2) \<Rightarrow> (Inr res, d2)))"

text \<open>The body of the transaction.\<close>

definition ingest_body ::
  "bool \<Rightarrow> Observation \<Rightarrow> string \<Rightarrow> string \<Rightarrow> string \<Rightarrow> string \<Rightarrow> db \<Rightarrow> IngestResult result \<times> db" where
  "ingest_body fk obs watched_at now provenance fp d =
     (case suppressed_by_boundary obs d of
        Inl x \<Rightarrow> (Inl x, d)
      | Inr True \<Rightarrow> (Inr \<lparr>res_status = ''historical_boundary_suppressed'', res_event_id = None,
                          res_outbound = False\<rparr>, d)
      | Inr False \<Rightarrow> (case known_source_event obs d of
          Some res \<Rightarrow> (Inr res, d)
        | None \<Rightarrow> (case find_row (\<lambda>e. ev_fingerprint e = fp) (events d) of
            Some e \<Rightarrow> (case link_observation fk obs (ev_id e) now d of
                (Inl x, d') \<Rightarrow> (Inl x, d')
              | (Inr _, d') \<Rightarrow> (Inr (duplicate_of ''duplicate_fingerprint'' e), d'))
          | None \<Rightarrow> store_new_event fk obs
              (new_event obs watched_at provenance fp now (next_id (map ev_id (events d)))) now d)))"

definition ingest_observation ::
  "(string \<Rightarrow> string) \<Rightarrow> Observation \<Rightarrow> string option \<Rightarrow> string \<Rightarrow> IngestResult op" where
  "ingest_observation sha obs imported_at now c =
     (case andThen (validate_observation obs) (\<lambda>_.
        andThen (ledger_timestamp (obs_watched_at obs)) (\<lambda>at.
          andThen (canonical_json (obs_provenance obs)) (\<lambda>prov.
            andThen (event_fingerprint sha obs) (\<lambda>fp. Inr (at, prov, fp))))) of
        Inl x \<Rightarrow> (Inl x, c)
      | Inr (at, prov, fp) \<Rightarrow>
          with_connection (\<lambda>c. on_current
            (ingest_body (foreign_keys c) obs at (or_now imported_at now) prov fp) c) c)"

section \<open>Corrections\<close>

definition supersede_event :: "int \<Rightarrow> int \<Rightarrow> unit op" where
  "supersede_event old new c =
     (if old = new then (Inl (LedgerError ''event cannot supersede itself''), c)
      else with_connection (on_current (\<lambda>d.
        case (find_event old d, find_event new d) of
          (Some o', Some n') \<Rightarrow>
            (if ev_superseded_by o' \<noteq> None
             then (Inl (LedgerError ''invalid or already superseded event''), d)
             else (Inr (), d\<lparr>events := update_rows (\<lambda>e. ev_id e = old)
                              (\<lambda>e. e\<lparr>ev_superseded_by := Some new\<rparr>) (events d)\<rparr>))
        | _ \<Rightarrow> (Inl (LedgerError ''invalid or already superseded event''), d))) c)"

section \<open>Deliveries\<close>

definition deterministic_idempotency_key ::
  "(string \<Rightarrow> string) \<Rightarrow> int \<Rightarrow> string \<Rightarrow> string \<Rightarrow> string" where
  "deterministic_idempotency_key sha event target operation =
     sha (''watch-event:'' @ show_int event @ '':'' @ target @ '':'' @ operation)"

definition create_delivery ::
  "(string \<Rightarrow> string) \<Rightarrow> int \<Rightarrow> string \<Rightarrow> string \<Rightarrow> pyval \<Rightarrow> string option \<Rightarrow> Delivery op" where
  "create_delivery sha event target operation request key = on_current (\<lambda>d.
     let denied = (Inl (LedgerError ''delivery requires an active, identified watch event''), d) in
     case find_event event d of
       None \<Rightarrow> denied
     | Some e \<Rightarrow>
        (if ev_quarantine e \<noteq> None \<or> ev_superseded_by e \<noteq> None then denied
         else case canonical_json request of
             Inl x \<Rightarrow> (Inl x, d)
           | Inr text \<Rightarrow>
              (let k = (if filled key then the key
                        else deterministic_idempotency_key sha event target operation);
                   i = next_id (map sd_id (deliveries d))
               in if \<exists>r\<in>set (deliveries d). sd_target r = target \<and> sd_key r = k
                  then (Inl (DuplicateIdempotencyKey ''duplicate target idempotency key''), d)
                  else (Inr \<lparr>dlv_id = i, dlv_state = ''pending'', dlv_attempts = 0\<rparr>,
                        d\<lparr>deliveries := deliveries d @
                          [\<lparr>sd_id = i, sd_event = event, sd_target = target,
                            sd_operation = operation, sd_key = k, sd_request_hash = sha text,
                            sd_state = ''pending'', sd_attempts = 0, sd_next_attempt = None,
                            sd_http = None, sd_error = None, sd_target_event = None,
                            sd_started = None, sd_verified = None\<rparr>]\<rparr>))))"

definition TRANSITIONS :: "string \<Rightarrow> string list" where
  "TRANSITIONS s =
     (if s = ''pending'' then [''in_flight'', ''failed'']
      else if s = ''retry_wait'' then [''in_flight'', ''failed'']
      else if s = ''in_flight'' then [''verified'', ''retry_wait'', ''ambiguous'', ''failed'']
      else if s = ''ambiguous'' then [''verified'', ''pending'', ''failed'']
      else [])"

definition find_delivery :: "int \<Rightarrow> db \<Rightarrow> sync_delivery option" where
  "find_delivery i d = find_row (\<lambda>r. sd_id r = i) (deliveries d)"

text \<open>\<open>COALESCE(new, old)\<close>.\<close>

definition coalesce :: "'a option \<Rightarrow> 'a option \<Rightarrow> 'a option" where
  "coalesce x y = (case x of Some v \<Rightarrow> Some v | None \<Rightarrow> y)"

definition move_delivery ::
  "string \<Rightarrow> nat \<Rightarrow> string \<Rightarrow> string option \<Rightarrow> int option \<Rightarrow> string option \<Rightarrow> string option
   \<Rightarrow> sync_delivery \<Rightarrow> sync_delivery" where
  "move_delivery st attempts now next http err target r = r\<lparr>
     sd_state := st, sd_attempts := attempts, sd_next_attempt := next, sd_http := http,
     sd_error := err, sd_target_event := coalesce target (sd_target_event r),
     sd_started := coalesce (if st = ''in_flight'' then Some now else None) (sd_started r),
     sd_verified := coalesce (if st = ''verified'' then Some now else None) (sd_verified r)\<rparr>"

definition transition_delivery ::
  "int \<Rightarrow> string \<Rightarrow> string option \<Rightarrow> string option \<Rightarrow> int option \<Rightarrow> string option \<Rightarrow> string option
   \<Rightarrow> string \<Rightarrow> Delivery op" where
  "transition_delivery i st at next http err target now = on_current (\<lambda>d.
     if st \<notin> set DELIVERY_STATES then (Inl (LedgerError ''unsupported delivery state''), d)
     else case find_delivery i d of
         None \<Rightarrow> (Inl (LedgerError ''invalid delivery state transition''), d)
       | Some r \<Rightarrow>
          (if st \<notin> set (TRANSITIONS (sd_state r))
           then (Inl (LedgerError ''invalid delivery state transition''), d)
           else let attempts = sd_attempts r + (if st = ''in_flight'' then 1 else 0) in
             if st = ''verified'' \<and> \<not> filled target
             then (Inl (LedgerError ''verified delivery requires target event ID''), d)
             else (Inr \<lparr>dlv_id = i, dlv_state = st, dlv_attempts = attempts\<rparr>,
                   d\<lparr>deliveries := update_rows (\<lambda>r. sd_id r = i)
                      (move_delivery st attempts (or_now at now) next http err target)
                      (deliveries d)\<rparr>)))"

definition UNCERTAIN :: "string list" where
  "UNCERTAIN = [''timeout_after_send'', ''connection_lost_after_send'', ''ambiguous_response'']"

definition record_delivery_failure ::
  "int \<Rightarrow> string \<Rightarrow> int option \<Rightarrow> string option \<Rightarrow> string option \<Rightarrow> string \<Rightarrow> Delivery op" where
  "record_delivery_failure i err http retry_at at now c =
     (if http = Some 429
      then (case retry_at of
          None \<Rightarrow> (Inl (LedgerError ''rate-limit response requires retry deadline''), c)
        | Some t \<Rightarrow> (case ledger_timestamp t of
            Inl x \<Rightarrow> (Inl x, c)
          | Inr deadline \<Rightarrow>
              transition_delivery i ''retry_wait'' at (Some deadline) http (Some err) None now c))
      else if err \<in> set UNCERTAIN
      then transition_delivery i ''ambiguous'' at None http (Some err) None now c
      else transition_delivery i ''failed'' at None http (Some err) None now c)"

section \<open>Restart\<close>

definition stale :: "string \<Rightarrow> sync_delivery \<Rightarrow> bool" where
  "stale limit r =
     (sd_state r = ''in_flight'' \<and> (case sd_started r of Some t \<Rightarrow> t \<le> limit | None \<Rightarrow> False))"

definition to_ambiguous :: "sync_delivery \<Rightarrow> sync_delivery" where
  "to_ambiguous r = r\<lparr>sd_state := ''ambiguous'', sd_error := Some ''restart_during_in_flight''\<rparr>"

definition runnable :: "string \<Rightarrow> sync_delivery \<Rightarrow> bool" where
  "runnable now r =
     (sd_state r = ''pending'' \<or>
      (sd_state r = ''retry_wait'' \<and> (case sd_next_attempt r of Some t \<Rightarrow> t \<le> now | None \<Rightarrow> False)))"

definition recover_body :: "string \<Rightarrow> string \<Rightarrow> db \<Rightarrow> int list result \<times> db" where
  "recover_body now_value stale_value d =
     (let rows = update_rows (stale stale_value) to_ambiguous (deliveries d)
      in (Inr (sort (map sd_id (filter (runnable now_value) rows))), d\<lparr>deliveries := rows\<rparr>))"

definition recover_restart_work :: "string \<Rightarrow> string \<Rightarrow> int list op" where
  "recover_restart_work now stale_before c =
     (case andThen (ledger_timestamp now) (\<lambda>n.
        andThen (ledger_timestamp stale_before) (\<lambda>s. Inr (n, s))) of
        Inl x \<Rightarrow> (Inl x, c)
      | Inr (n, s) \<Rightarrow> with_connection (on_current (recover_body n s)) c)"

end
