(* ===== verification/Ledger_Invariant.thy ===== *)
theory Ledger_Invariant
  imports Watched_Ledger
begin

text \<open>
  What every operation of the ledger keeps true of the committed and the visible database: row
  identities and uniqueness, references between the tables, quarantine against identity, and the
  evidence each delivery state requires. The operations, the loss of a transaction and the
  reopening of the database form one step relation; the invariant holds in every reachable state.
\<close>

section \<open>The invariant\<close>

definition events_ok :: "watch_event list \<Rightarrow> bool" where
  "events_ok es \<longleftrightarrow>
     distinct (map ev_id es) \<and> distinct (map ev_fingerprint es) \<and>
     (\<forall>e\<in>set es. 0 < ev_id e \<and> event_check e) \<and>
     (\<forall>e\<in>set es. \<forall>e'\<in>set es. \<forall>sid. same_source_event (ev_source e') sid e \<longrightarrow>
        ev_source_event_id e' = Some sid \<longrightarrow> e = e') \<and>
     (\<forall>e\<in>set es. \<forall>i. ev_superseded_by e = Some i \<longrightarrow> i \<in> ev_id ` set es \<and> i \<noteq> ev_id e)"

definition links_ok :: "int set \<Rightarrow> event_link list \<Rightarrow> bool" where
  "links_ok ids ls \<longleftrightarrow>
     distinct (map (\<lambda>l. (ln_system l, ln_external l)) ls) \<and> distinct (map ln_id ls) \<and>
     (\<forall>l\<in>set ls. ln_event l \<in> ids \<and> ln_system l \<noteq> [] \<and> ln_external l \<noteq> [])"

text \<open>What the row of a delivery records for the state it is in.\<close>

definition delivery_ok :: "sync_delivery \<Rightarrow> bool" where
  "delivery_ok r \<longleftrightarrow>
     sd_state r \<in> set DELIVERY_STATES \<and>
     (sd_state r = ''verified'' \<longrightarrow> filled (sd_target_event r) \<and> sd_verified r \<noteq> None) \<and>
     (sd_state r = ''in_flight'' \<longrightarrow> sd_started r \<noteq> None) \<and>
     (sd_state r \<in> {''in_flight'', ''retry_wait'', ''ambiguous'', ''verified''} \<longrightarrow> 0 < sd_attempts r)"

definition identified :: "watch_event list \<Rightarrow> int set" where
  "identified es = ev_id ` {e \<in> set es. ev_quarantine e = None}"

definition deliveries_ok :: "int set \<Rightarrow> sync_delivery list \<Rightarrow> bool" where
  "deliveries_ok ids rs \<longleftrightarrow>
     distinct (map sd_id rs) \<and> distinct (map (\<lambda>r. (sd_target r, sd_key r)) rs) \<and>
     (\<forall>r\<in>set rs. sd_event r \<in> ids \<and> delivery_ok r)"

definition cursors_ok :: "source_cursor list \<Rightarrow> bool" where
  "cursors_ok cs \<longleftrightarrow> distinct (map (\<lambda>r. (cu_source r, cu_scope r)) cs)"

definition db_ok :: "db \<Rightarrow> bool" where
  "db_ok d \<longleftrightarrow> events_ok (events d) \<and> links_ok (ev_id ` set (events d)) (links d) \<and>
     deliveries_ok (identified (events d)) (deliveries d) \<and> cursors_ok (cursors d)"

definition conn_ok :: "connection \<Rightarrow> bool" where
  "conn_ok c \<longleftrightarrow> foreign_keys c \<and> db_ok (committed c) \<and> db_ok (current c)"

section \<open>Connections\<close>

lemma on_current_simps [simp]:
  "fst (on_current f c) = fst (f (current c))"
  "current (snd (on_current f c)) = snd (f (current c))"
  "committed (snd (on_current f c)) = committed c"
  "foreign_keys (snd (on_current f c)) = foreign_keys c"
  by (simp_all add: on_current_def split: prod.split)

lemma conn_ok_on_current:
  "conn_ok c \<Longrightarrow> db_ok (snd (f (current c))) \<Longrightarrow> conn_ok (snd (on_current f c))"
  by (simp add: conn_ok_def)

lemma conn_ok_with_connection:
  "conn_ok c \<Longrightarrow> conn_ok (snd (body c)) \<Longrightarrow> conn_ok (snd (with_connection body c))"
  by (auto simp: conn_ok_def with_connection_def commit_def rollback_def
      split: prod.split sum.split)

section \<open>Each table\<close>

lemma db_ok_empty: "db_ok empty_db"
  by (simp add: db_ok_def empty_db_def events_ok_def links_ok_def deliveries_ok_def cursors_ok_def)

lemma db_ok_cursors: "db_ok d \<Longrightarrow> cursors_ok cs \<Longrightarrow> db_ok (d\<lparr>cursors := cs\<rparr>)"
  by (simp add: db_ok_def)

lemma cursors_ok_update:
  "cursors_ok cs \<Longrightarrow> (\<And>r. cu_source (f r) = cu_source r \<and> cu_scope (f r) = cu_scope r) \<Longrightarrow>
   cursors_ok (update_rows p f cs)"
  by (simp add: cursors_ok_def map_update_rows)

lemma db_ok_upsert_cursor:
  assumes "db_ok d" and f: "\<And>r. cu_source (f r) = cu_source r \<and> cu_scope (f r) = cu_scope r"
  shows "db_ok (upsert_cursor src scope f d)"
proof -
  have "cursors_ok (cursors d)" using assms(1) by (simp add: db_ok_def)
  with assms show ?thesis
    by (auto simp: upsert_cursor_def find_cursor_def find_row_None is_cursor_def f
        cursors_ok_def map_update_rows intro!: db_ok_cursors)
qed

lemma links_ok_snoc:
  "links_ok ids ls \<Longrightarrow> find_row (is_link (ln_system l) (ln_external l)) ls = None \<Longrightarrow>
   ln_id l = next_id (map ln_id ls) \<Longrightarrow> ln_event l \<in> ids \<Longrightarrow> ln_system l \<noteq> [] \<Longrightarrow>
   ln_external l \<noteq> [] \<Longrightarrow> links_ok ids (ls @ [l])"
  using next_id_fresh [of "map ln_id ls"]
  by (auto simp: links_ok_def find_row_None is_link_def)

lemma find_event_id: "find_event i d = Some e \<Longrightarrow> i \<in> ev_id ` set (events d)"
  by (auto simp: find_event_def dest: find_row_Some)

lemma db_ok_link_external_event:
  assumes "db_ok d" and "event \<in> ev_id ` set (events d) \<or> fk"
  shows "db_ok (snd (link_external_event fk event sys ext media at now d))"
proof -
  have "event \<in> ev_id ` set (events d)" if "\<not> (fk \<and> find_event event d = None)"
    using that assms(2) by (auto dest: find_event_id)
  with assms(1) show ?thesis
    by (auto simp: link_external_event_def find_link_def db_ok_def split: option.splits
        intro!: links_ok_snoc)
qed

lemma links_ok_mono: "links_ok ids ls \<Longrightarrow> ids \<subseteq> ids' \<Longrightarrow> links_ok ids' ls"
  by (auto simp: links_ok_def)

lemma deliveries_ok_mono: "deliveries_ok ids rs \<Longrightarrow> ids \<subseteq> ids' \<Longrightarrow> deliveries_ok ids' rs"
  by (auto simp: deliveries_ok_def)

lemma events_ok_snoc:
  assumes "events_ok es" "event_check e" "ev_id e = next_id (map ev_id es)"
    "event_unique e d" "events d = es" "ev_superseded_by e = None"
  shows "events_ok (es @ [e])"
proof -
  have fresh: "ev_id e \<notin> ev_id ` set es" using assms(3) next_id_fresh [of "map ev_id es"] by simp
  have fp: "ev_fingerprint r \<noteq> ev_fingerprint e" if "r \<in> set es" for r
    using assms(4,5) that by (auto simp: event_unique_def)
  then have fp': "ev_fingerprint e \<notin> ev_fingerprint ` set es" by fastforce
  have src: "ev_source_event_id e = None" if "r \<in> set es" "ev_source r = ev_source e"
    "ev_source_event_id r = ev_source_event_id e" for r
    using assms(4,5) that by (cases "ev_source_event_id e")
      (auto simp: event_unique_def same_source_event_def)
  have pos: "0 < ev_id e" using assms(3) next_id_pos [of "map ev_id es"] by simp
  have uniq: "a = b" if "a \<in> set (es @ [e])" "b \<in> set (es @ [e])"
    "same_source_event (ev_source b) sid a" "ev_source_event_id b = Some sid" for a b sid
    using that src [of a] src [of b] assms(1)
    unfolding events_ok_def same_source_event_def by auto
  have sup: "i \<in> ev_id ` set (es @ [e]) \<and> i \<noteq> ev_id a"
    if "a \<in> set (es @ [e])" "ev_superseded_by a = Some i" for a i
    using that assms(1,6) unfolding events_ok_def by auto
  show ?thesis
    using assms(1,2) fresh fp' pos uniq sup unfolding events_ok_def [of "es @ [e]"]
    by (simp add: events_ok_def)
qed

lemma db_ok_insert_event:
  assumes "db_ok d" "ev_id e = next_id (map ev_id (events d))" "ev_superseded_by e = None"
  shows "db_ok (snd (insert_event e d))"
proof (cases "event_check e \<and> event_unique e d")
  case True
  with assms have "events_ok (events d @ [e])"
    by (auto simp: db_ok_def intro: events_ok_snoc)
  moreover have "links_ok (ev_id ` set (events d @ [e])) (links d)"
    using assms(1) by (auto simp: db_ok_def intro: links_ok_mono)
  moreover have "deliveries_ok (identified (events d @ [e])) (deliveries d)"
    using assms(1) by (auto simp: db_ok_def identified_def intro: deliveries_ok_mono)
  ultimately show ?thesis using assms(1) True by (simp add: insert_event_def db_ok_def)
next
  case False
  with assms(1) show ?thesis by (auto simp: insert_event_def)
qed

lemma db_ok_link_observation:
  "db_ok d \<Longrightarrow> event \<in> ev_id ` set (events d) \<Longrightarrow> db_ok (snd (link_observation fk obs event now d))"
  by (auto simp: link_observation_def split: option.split intro: db_ok_link_external_event)

lemma insert_event_Inr: "insert_event e d = (Inr u, d') \<Longrightarrow> d' = d\<lparr>events := events d @ [e]\<rparr>"
  by (auto simp: insert_event_def split: if_splits)

lemma db_ok_store_new_event:
  assumes "db_ok d" "ev_id e = next_id (map ev_id (events d))" "ev_superseded_by e = None"
  shows "db_ok (snd (store_new_event fk obs e now d))"
proof -
  obtain r d1 where i: "insert_event e d = (r, d1)" by (cases "insert_event e d")
  have ok: "db_ok d1" using db_ok_insert_event [OF assms] i by simp
  show ?thesis
  proof (cases r)
    case (Inl x)
    with i ok show ?thesis by (simp add: store_new_event_def)
  next
    case (Inr u)
    then have "ev_id e \<in> ev_id ` set (events d1)"
      using i insert_event_Inr by fastforce
    then have "db_ok d2" if "link_observation fk obs (ev_id e) now d1 = (x, d2)" for x d2
      using db_ok_link_observation [OF ok, of "ev_id e" fk obs now] that by simp
    with i Inr ok show ?thesis
      by (auto simp: store_new_event_def Let_def split: prod.split sum.split)
  qed
qed

lemma new_event_simps [simp]:
  "ev_id (new_event obs at prov fp now i) = i"
  "ev_superseded_by (new_event obs at prov fp now i) = None"
  "ev_quarantine (new_event obs at prov fp now i) = obs_quarantine obs"
  "ev_media_id (new_event obs at prov fp now i) = obs_media_id obs"
  "ev_fingerprint (new_event obs at prov fp now i) = fp"
  "ev_source (new_event obs at prov fp now i) = obs_source obs"
  "ev_source_event_id (new_event obs at prov fp now i) = obs_source_event_id obs"
  by (simp_all add: new_event_def)

lemma db_ok_ingest_body:
  assumes "db_ok d"
  shows "db_ok (snd (ingest_body fk obs at now prov fp d))"
proof -
  have link: "db_ok d'"
    if "find_row (\<lambda>e. ev_fingerprint e = fp) (events d) = Some e"
      "link_observation fk obs (ev_id e) now d = (x, d')" for e x d'
    using db_ok_link_observation [OF assms, of "ev_id e" fk obs now] find_row_Some [OF that(1)]
      that(2) by simp
  show ?thesis
    using assms link db_ok_store_new_event [OF assms, of "new_event obs at prov fp now
        (next_id (map ev_id (events d)))"]
    by (auto simp: ingest_body_def split: sum.split bool.split option.split prod.split)
qed

lemma conn_ok_ingest_observation:
  "conn_ok c \<Longrightarrow> conn_ok (snd (ingest_observation sha obs imported now c))"
  by (auto simp: ingest_observation_def conn_ok_def [of c] split: sum.split
      intro!: conn_ok_with_connection conn_ok_on_current db_ok_ingest_body)

section \<open>Corrections\<close>

lemma event_check_superseded [simp]:
  "event_check (e\<lparr>ev_superseded_by := x\<rparr>) = event_check e"
  by (simp add: event_check_def)

lemma identified_update:
  "(\<And>e. ev_id (f e) = ev_id e \<and> ev_quarantine (f e) = ev_quarantine e) \<Longrightarrow>
   identified (update_rows p f es) = identified es"
proof -
  assume f: "\<And>e. ev_id (f e) = ev_id e \<and> ev_quarantine (f e) = ev_quarantine e"
  have "identified es = set (map ev_id (filter (\<lambda>e. ev_quarantine e = None) es))" for es
    by (auto simp: identified_def)
  moreover have "map ev_id (filter (\<lambda>e. ev_quarantine e = None) (update_rows p f es))
      = map ev_id (filter (\<lambda>e. ev_quarantine e = None) es)"
    by (induction es) (auto simp: f)
  ultimately show ?thesis by (simp only:)
qed

lemma image_update_rows:
  "(\<And>e. k (f e) = k e) \<Longrightarrow> k ` set (update_rows p f es) = k ` set es"
  by (induction es) auto

definition supersede_row :: "int \<Rightarrow> int \<Rightarrow> watch_event list \<Rightarrow> watch_event list" where
  "supersede_row old new = update_rows (\<lambda>e. ev_id e = old) (\<lambda>e. e\<lparr>ev_superseded_by := Some new\<rparr>)"

lemma supersede_row_mem:
  "e \<in> set (supersede_row old new es) \<Longrightarrow> \<exists>r\<in>set es. ev_id e = ev_id r \<and>
     ev_fingerprint e = ev_fingerprint r \<and> ev_source e = ev_source r \<and>
     ev_source_event_id e = ev_source_event_id r \<and> event_check e = event_check r \<and>
     ev_superseded_by e = (if ev_id r = old then Some new else ev_superseded_by r) \<and>
     e = (if ev_id r = old then r\<lparr>ev_superseded_by := Some new\<rparr> else r)"
  by (force simp: supersede_row_def set_update_rows)

lemma events_ok_supersede:
  assumes ok: "events_ok es" and new: "new \<in> ev_id ` set es" "old \<noteq> new"
  shows "events_ok (supersede_row old new es)"
proof -
  let ?es = "supersede_row old new es"
  have maps: "map ev_id ?es = map ev_id es" "map ev_fingerprint ?es = map ev_fingerprint es"
    by (simp_all add: supersede_row_def map_update_rows)
  have ids: "ev_id ` set ?es = ev_id ` set es"
    using maps(1) by (metis set_map)
  have a: "0 < ev_id e \<and> event_check e" if "e \<in> set ?es" for e
    using supersede_row_mem [OF that] ok by (auto simp: events_ok_def)
  have b: "e = e'" if "e \<in> set ?es" "e' \<in> set ?es" "same_source_event (ev_source e') sid e"
    "ev_source_event_id e' = Some sid" for e e' sid
  proof -
    from supersede_row_mem [OF that(1)] supersede_row_mem [OF that(2)] obtain r r' where
      r: "r \<in> set es" "r' \<in> set es" "ev_source e = ev_source r" "ev_source e' = ev_source r'"
      "ev_source_event_id e = ev_source_event_id r" "ev_source_event_id e' = ev_source_event_id r'"
      and e: "e = (if ev_id r = old then r\<lparr>ev_superseded_by := Some new\<rparr> else r)"
      "e' = (if ev_id r' = old then r'\<lparr>ev_superseded_by := Some new\<rparr> else r')" by blast
    have "r = r'" using ok r that(3,4) unfolding events_ok_def same_source_event_def by metis
    with e show ?thesis by simp
  qed
  have c: "i \<in> ev_id ` set es \<and> i \<noteq> ev_id e" if "e \<in> set ?es" "ev_superseded_by e = Some i" for e i
    using supersede_row_mem [OF that(1)] that(2) new ok
    unfolding events_ok_def by (auto split: if_splits)
  show ?thesis
    using ok a b c unfolding events_ok_def [of ?es] maps ids by (auto simp: events_ok_def)
qed

lemma conn_ok_supersede_event:
  assumes "conn_ok c"
  shows "conn_ok (snd (supersede_event old new c))"
proof -
  have d: "db_ok (current c)" using assms by (simp add: conn_ok_def)
  have "db_ok ((current c)\<lparr>events := supersede_row old new (events (current c))\<rparr>)"
    if "old \<noteq> new" "find_event new (current c) = Some n" for n
    using d that events_ok_supersede [of "events (current c)" new old]
    by (simp add: db_ok_def find_event_id supersede_row_def identified_update image_update_rows)
  with assms d show ?thesis
    by (auto simp: supersede_event_def supersede_row_def [symmetric] split: option.split
        intro!: conn_ok_with_connection conn_ok_on_current)
qed

section \<open>Deliveries\<close>

lemma db_ok_deliveries:
  "db_ok d \<Longrightarrow> deliveries_ok (identified (events d)) rs \<Longrightarrow> db_ok (d\<lparr>deliveries := rs\<rparr>)"
  by (simp add: db_ok_def)

lemma conn_ok_create_delivery:
  assumes "conn_ok c"
  shows "conn_ok (snd (create_delivery sha event target operation request key c))"
proof -
  have d: "db_ok (current c)" using assms by (simp add: conn_ok_def)
  have ident: "event \<in> identified (events (current c))"
    if "find_event event (current c) = Some e" "ev_quarantine e = None" for e
    using that by (auto simp: find_event_def identified_def dest!: find_row_Some)
  have "deliveries_ok ids (rs @ [r])"
    if "deliveries_ok ids rs" "sd_event r \<in> ids" "delivery_ok r"
      "sd_id r = next_id (map sd_id rs)"
      "\<not> (\<exists>q\<in>set rs. sd_target q = sd_target r \<and> sd_key q = sd_key r)" for ids rs r
    using that next_id_fresh [of "map sd_id rs"] by (auto simp: deliveries_ok_def)
  with assms d ident show ?thesis
    unfolding create_delivery_def
    by (intro conn_ok_on_current)
      (auto simp: Let_def delivery_ok_def DELIVERY_STATES_def db_ok_def
        split: option.split sum.split)
qed

lemma filled_coalesce: "filled x \<Longrightarrow> filled (coalesce x y)"
  by (auto simp: filled_def coalesce_def split: option.splits)

lemma coalesce_None [simp]: "coalesce (Some v) y = Some v" "coalesce None y = y"
  by (simp_all add: coalesce_def)

lemma transition_targets:
  "st \<in> set (TRANSITIONS s) \<Longrightarrow> st \<in> set DELIVERY_STATES"
  by (auto simp: TRANSITIONS_def DELIVERY_STATES_def split: if_splits)

lemma attempts_before:
  "st \<in> set (TRANSITIONS s) \<Longrightarrow> st \<in> {''retry_wait'', ''ambiguous'', ''verified''} \<Longrightarrow>
   s \<in> {''in_flight'', ''ambiguous''}"
  by (auto simp: TRANSITIONS_def split: if_splits)

lemma delivery_ok_move:
  assumes "delivery_ok r" "st \<in> set (TRANSITIONS (sd_state r))"
    "st = ''verified'' \<Longrightarrow> filled target"
    "n = sd_attempts r + (if st = ''in_flight'' then 1 else 0)"
  shows "delivery_ok (move_delivery st n now next http err target r)"
proof -
  let ?r = "move_delivery st n now next http err target r"
  have pos: "0 < n" if "st \<in> {''in_flight'', ''retry_wait'', ''ambiguous'', ''verified''}"
  proof (cases "st = ''in_flight''")
    case False
    with that have "st \<in> {''retry_wait'', ''ambiguous'', ''verified''}" by blast
    then have "sd_state r \<in> {''in_flight'', ''ambiguous''}" by (rule attempts_before [OF assms(2)])
    then have "0 < sd_attempts r" using assms(1) unfolding delivery_ok_def by blast
    with assms(4) show ?thesis by simp
  qed (simp add: assms(4))
  have v: "filled (sd_target_event ?r) \<and> sd_verified ?r \<noteq> None" if "st = ''verified''"
    using assms(3) [OF that] that by (simp add: move_delivery_def filled_coalesce)
  have f: "sd_started ?r \<noteq> None" if "st = ''in_flight''"
    using that by (simp add: move_delivery_def)
  have fields: "sd_state ?r = st" "sd_attempts ?r = n" by (simp_all add: move_delivery_def)
  show ?thesis
    unfolding delivery_ok_def fields using pos v f transition_targets [OF assms(2)] by blast
qed

lemma deliveries_ok_update:
  assumes ok: "deliveries_ok ids rs"
    and keep: "\<And>r. sd_id (f r) = sd_id r \<and> sd_target (f r) = sd_target r \<and> sd_key (f r) = sd_key r
        \<and> sd_event (f r) = sd_event r"
    and step: "\<And>r. r \<in> set rs \<Longrightarrow> p r \<Longrightarrow> delivery_ok r \<Longrightarrow> delivery_ok (f r)"
  shows "deliveries_ok ids (update_rows p f rs)"
proof -
  have "map sd_id (update_rows p f rs) = map sd_id rs"
    "map (\<lambda>r. (sd_target r, sd_key r)) (update_rows p f rs) = map (\<lambda>r. (sd_target r, sd_key r)) rs"
    by (simp_all add: map_update_rows keep)
  with ok show ?thesis
    by (auto simp: deliveries_ok_def set_update_rows keep step)
qed

lemma find_delivery_only:
  assumes "db_ok d" "find_delivery i d = Some r" "q \<in> set (deliveries d)" "sd_id q = i"
  shows "q = r"
  using assms find_row_Some [OF assms(2) [unfolded find_delivery_def]]
  by (auto simp: db_ok_def deliveries_ok_def distinct_map dest: inj_onD)

lemma move_delivery_keeps [simp]:
  "sd_id (move_delivery st n now next http err target r) = sd_id r"
  "sd_target (move_delivery st n now next http err target r) = sd_target r"
  "sd_key (move_delivery st n now next http err target r) = sd_key r"
  "sd_event (move_delivery st n now next http err target r) = sd_event r"
  "sd_state (move_delivery st n now next http err target r) = st"
  "sd_attempts (move_delivery st n now next http err target r) = n"
  by (simp_all add: move_delivery_def)

lemma conn_ok_transition_delivery:
  assumes "conn_ok c"
  shows "conn_ok (snd (transition_delivery i st at next http err target now c))"
proof -
  have d: "db_ok (current c)" using assms by (simp add: conn_ok_def)
  have "deliveries_ok (identified (events (current c)))
      (update_rows (\<lambda>r. sd_id r = i) (move_delivery st n t next http err target)
        (deliveries (current c)))"
    if "find_delivery i (current c) = Some r" "st \<in> set (TRANSITIONS (sd_state r))"
      "st = ''verified'' \<longrightarrow> filled target"
      "n = sd_attempts r + (if st = ''in_flight'' then 1 else 0)" for r n t
  proof (rule deliveries_ok_update)
    fix q assume "q \<in> set (deliveries (current c))" "sd_id q = i" "delivery_ok q"
    moreover from this have "q = r" using find_delivery_only [OF d that(1)] by blast
    ultimately show "delivery_ok (move_delivery st n t next http err target q)"
      using that by (intro delivery_ok_move) auto
  qed (use d in \<open>simp_all add: db_ok_def\<close>)
  note upd = db_ok_deliveries [OF d this]
  show ?thesis
    unfolding transition_delivery_def
  proof (rule conn_ok_on_current [OF assms], goal_cases)
    case 1
    show ?case
    proof (cases "find_delivery i (current c)")
      case (Some r)
      with d upd [OF Some] show ?thesis by (simp add: Let_def)
    qed (use d in simp)
  qed
qed

lemma conn_ok_record_delivery_failure:
  "conn_ok c \<Longrightarrow> conn_ok (snd (record_delivery_failure i err http retry_at at now c))"
  by (auto simp: record_delivery_failure_def conn_ok_transition_delivery
      split: option.split sum.split)

lemma delivery_ok_to_ambiguous:
  "delivery_ok r \<Longrightarrow> stale limit r \<Longrightarrow> delivery_ok (to_ambiguous r)"
  by (auto simp: delivery_ok_def stale_def to_ambiguous_def DELIVERY_STATES_def)

lemma conn_ok_recover_restart_work:
  assumes "conn_ok c"
  shows "conn_ok (snd (recover_restart_work now stale_before c))"
proof -
  have d: "db_ok (current c)" using assms by (simp add: conn_ok_def)
  have "db_ok (snd (recover_body n s (current c)))" for n s
    unfolding recover_body_def Let_def snd_conv
    by (rule db_ok_deliveries [OF d], rule deliveries_ok_update)
      (use d in \<open>auto simp: db_ok_def to_ambiguous_def delivery_ok_to_ambiguous [unfolded to_ambiguous_def]\<close>)
  with assms show ?thesis
    by (auto simp: recover_restart_work_def split: sum.split
        intro!: conn_ok_with_connection conn_ok_on_current)
qed

section \<open>Reachable states\<close>

inductive ledger_step :: "(string \<Rightarrow> string) \<Rightarrow> connection \<Rightarrow> connection \<Rightarrow> bool"
  for sha :: "string \<Rightarrow> string" where
  boundary: "ledger_step sha c (snd (set_migration_boundary src scope maximum at now c))"
| ingest: "ledger_step sha c (snd (ingest_observation sha obs imported_at now c))"
| link: "ledger_step sha c (snd (on_current
      (link_external_event (foreign_keys c) event sys ext media at now) c))"
| supersede: "ledger_step sha c (snd (supersede_event old new c))"
| deliver: "ledger_step sha c (snd (create_delivery sha event target operation request key c))"
| transition: "ledger_step sha c (snd (transition_delivery i st at next http err target now c))"
| failure: "ledger_step sha c (snd (record_delivery_failure i err http retry_at at now c))"
| recover: "ledger_step sha c (snd (recover_restart_work now stale_before c))"
| commits: "ledger_step sha c (commit c)"
| reopened: "ledger_step sha c (apply_migrations (rollback c))"

inductive ledger_reachable :: "(string \<Rightarrow> string) \<Rightarrow> connection \<Rightarrow> bool"
  for sha :: "string \<Rightarrow> string" where
  start: "ledger_reachable sha
     (apply_migrations \<lparr>committed = empty_db, current = empty_db, foreign_keys = False\<rparr>)"
| step: "ledger_reachable sha c \<Longrightarrow> ledger_step sha c c' \<Longrightarrow> ledger_reachable sha c'"

lemma conn_ok_set_migration_boundary:
  "conn_ok c \<Longrightarrow> conn_ok (snd (set_migration_boundary src scope maximum at now c))"
  unfolding set_migration_boundary_def
  by (rule conn_ok_on_current) (auto simp: conn_ok_def intro: db_ok_upsert_cursor)

lemma conn_ok_link:
  "conn_ok c \<Longrightarrow> conn_ok (snd (on_current
     (link_external_event (foreign_keys c) event sys ext media at now) c))"
  by (intro conn_ok_on_current db_ok_link_external_event) (auto simp: conn_ok_def)

lemma ledger_step_ok: "ledger_step sha c c' \<Longrightarrow> conn_ok c \<Longrightarrow> conn_ok c'"
  by (induction rule: ledger_step.induct)
    (simp_all add: conn_ok_set_migration_boundary conn_ok_ingest_observation conn_ok_link
      conn_ok_supersede_event conn_ok_create_delivery conn_ok_transition_delivery
      conn_ok_record_delivery_failure conn_ok_recover_restart_work,
     simp_all add: conn_ok_def commit_def apply_migrations_def rollback_def)

lemma ledger_reachable_ok: "ledger_reachable sha c \<Longrightarrow> conn_ok c"
proof (induction rule: ledger_reachable.induct)
  case start
  show ?case by (simp add: conn_ok_def apply_migrations_def commit_def db_ok_empty)
next
  case (step c c')
  then show ?case by (blast intro: ledger_step_ok)
qed

end
