(* ===== verification/Ledger_Behaviour.thy ===== *)
theory Ledger_Behaviour
  imports Ledger_Invariant
begin

text \<open>
  What the ledger's operations do: the outcomes of ingestion and what each leaves behind, ingestion
  as an idempotent operation, the life of a delivery over any sequence of calls, and what a restart
  returns.
\<close>

section \<open>Ingestion\<close>

lemma link_external_event_Inr:
  "link_external_event fk event sys ext media at now d = (Inr u, d') \<Longrightarrow>
   events d' = events d \<and> deliveries d' = deliveries d \<and> cursors d' = cursors d \<and>
   (\<exists>l. find_link sys ext d' = Some l \<and> ln_event l = event) \<and>
   (find_link sys ext d \<noteq> None \<longrightarrow> d' = d)"
  by (auto simp: link_external_event_def find_link_def find_row_append is_link_def
      split: if_splits option.splits)

lemma link_observation_Inr:
  assumes "link_observation fk obs event now d = (Inr u, d')"
  shows "events d' = events d" "deliveries d' = deliveries d" "cursors d' = cursors d"
    and "obs_source_event_id obs = None \<Longrightarrow> d' = d"
    and "obs_source_event_id obs = Some sid \<Longrightarrow>
      \<exists>l. find_link (obs_source obs) sid d' = Some l \<and> ln_event l = event"
  using assms link_external_event_Inr
  by (fastforce simp: link_observation_def split: option.splits)+

text \<open>The three ways a body can return, with what it leaves.\<close>

lemma store_new_event_Inr:
  assumes "store_new_event fk obs e now d = (Inr res, d')"
  shows "event_check e \<and> event_unique e d" and "events d' = events d @ [e]"
    and "deliveries d' = deliveries d" and "cursors d' = cursors d"
    and "res = (if obs_media_id obs = None
           then \<lparr>res_status = ''quarantined'', res_event_id = Some (ev_id e), res_outbound = False\<rparr>
           else \<lparr>res_status = ''created'', res_event_id = Some (ev_id e), res_outbound = True\<rparr>)"
proof -
  from assms have i: "event_check e \<and> event_unique e d"
    by (auto simp: store_new_event_def insert_event_def split: if_splits)
  let ?d = "d\<lparr>events := events d @ [e]\<rparr>"
  have step: "store_new_event fk obs e now d =
      (if obs_media_id obs = None
       then (Inr \<lparr>res_status = ''quarantined'', res_event_id = Some (ev_id e), res_outbound = False\<rparr>, ?d)
       else case link_observation fk obs (ev_id e) now ?d of
           (Inl x, d2) \<Rightarrow> (Inl x, d2)
         | (Inr _, d2) \<Rightarrow>
            (Inr \<lparr>res_status = ''created'', res_event_id = Some (ev_id e), res_outbound = True\<rparr>, d2))"
    using i by (cases "obs_media_id obs") (auto simp: store_new_event_def insert_event_def Let_def
      split: prod.split sum.split)
  show "event_check e \<and> event_unique e d" by (rule i)
  show "events d' = events d @ [e]" "deliveries d' = deliveries d" "cursors d' = cursors d"
    "res = (if obs_media_id obs = None
           then \<lparr>res_status = ''quarantined'', res_event_id = Some (ev_id e), res_outbound = False\<rparr>
           else \<lparr>res_status = ''created'', res_event_id = Some (ev_id e), res_outbound = True\<rparr>)"
    using assms unfolding step
    by (auto split: if_splits prod.splits sum.splits dest: link_observation_Inr)
qed

inductive ingest_outcome ::
  "bool \<Rightarrow> Observation \<Rightarrow> string \<Rightarrow> string \<Rightarrow> string \<Rightarrow> string \<Rightarrow> db \<Rightarrow> IngestResult \<Rightarrow> db \<Rightarrow> bool"
  for fk obs at now prov fp d where
  bounded: "suppressed_by_boundary obs d = Inr True \<Longrightarrow>
     ingest_outcome fk obs at now prov fp d
       \<lparr>res_status = ''historical_boundary_suppressed'', res_event_id = None, res_outbound = False\<rparr> d"
| known: "suppressed_by_boundary obs d = Inr False \<Longrightarrow> known_source_event obs d = Some res \<Longrightarrow>
     ingest_outcome fk obs at now prov fp d res d"
| same_fingerprint: "suppressed_by_boundary obs d = Inr False \<Longrightarrow> known_source_event obs d = None \<Longrightarrow>
     find_row (\<lambda>e. ev_fingerprint e = fp) (events d) = Some e \<Longrightarrow>
     link_observation fk obs (ev_id e) now d = (Inr u, d') \<Longrightarrow>
     ingest_outcome fk obs at now prov fp d (duplicate_of ''duplicate_fingerprint'' e) d'"
| stored: "suppressed_by_boundary obs d = Inr False \<Longrightarrow> known_source_event obs d = None \<Longrightarrow>
     find_row (\<lambda>e. ev_fingerprint e = fp) (events d) = None \<Longrightarrow>
     store_new_event fk obs (new_event obs at prov fp now (next_id (map ev_id (events d)))) now d
       = (Inr res, d') \<Longrightarrow>
     ingest_outcome fk obs at now prov fp d res d'"

lemma ingest_body_outcome:
  "ingest_body fk obs at now prov fp d = (Inr res, d') \<Longrightarrow>
   ingest_outcome fk obs at now prov fp d res d'"
  unfolding ingest_body_def
  by (auto split: sum.splits bool.splits option.splits prod.splits
      intro: ingest_outcome.intros)

lemma ingest_outcome_body:
  "ingest_outcome fk obs at now prov fp d res d' \<Longrightarrow>
   ingest_body fk obs at now prov fp d = (Inr res, d')"
  by (induction rule: ingest_outcome.induct) (simp_all add: ingest_body_def)

lemma ingest_outcome_cursors: "ingest_outcome fk obs at now prov fp d res d' \<Longrightarrow> cursors d' = cursors d"
  by (induction rule: ingest_outcome.induct)
    (auto dest: link_observation_Inr(3) store_new_event_Inr(4))

lemma boundary_cursors:
  "cursors d' = cursors d \<Longrightarrow> suppressed_by_boundary obs d' = suppressed_by_boundary obs d"
  by (simp add: suppressed_by_boundary_def find_cursor_def split: option.split)

text \<open>
  Running the body again on what the first run left, with any clock: nothing changes, and the
  answer names the same event.
\<close>

lemma known_after_store:
  assumes "known_source_event obs d = None" "events d' = events d @ [new_event obs at prov fp now i]"
    "obs_source_event_id obs = Some sid"
  shows "known_source_event obs d' =
    Some (duplicate_of ''duplicate_source_event'' (new_event obs at prov fp now i))"
  using assms
  by (auto simp: known_source_event_def find_row_append same_source_event_def split: option.splits)

lemma known_none_events:
  "known_source_event obs d = None \<Longrightarrow> obs_source_event_id obs = Some sid \<Longrightarrow>
   find_row (same_source_event (obs_source obs) sid) (events d) = None"
  by (auto simp: known_source_event_def split: option.splits)

lemma ingest_outcome_again:
  assumes "ingest_outcome fk obs at now prov fp d res d'"
  shows "\<exists>res'. ingest_outcome fk obs at now' prov fp d' res' d' \<and>
    res_status res' \<notin> {''created'', ''quarantined''} \<and> res_event_id res' = res_event_id res"
  using assms
proof cases
  case bounded
  then show ?thesis by (auto intro!: exI ingest_outcome.bounded)
next
  case known
  then have "res_status res \<notin> {''created'', ''quarantined''}"
    by (auto simp: known_source_event_def duplicate_of_def split: option.splits)
  with known show ?thesis by (auto intro!: exI [of _ res] ingest_outcome.known)
next
  case (same_fingerprint e u)
  note link = link_observation_Inr [OF same_fingerprint(5)]
  have sup: "suppressed_by_boundary obs d' = Inr False"
    using boundary_cursors [OF link(3)] same_fingerprint(2) by simp
  show ?thesis
  proof (cases "obs_source_event_id obs")
    case None
    with link(4) same_fingerprint have d': "d' = d" by simp
    have "link_observation fk obs (ev_id e) now' d = (Inr (), d)"
      using None by (simp add: link_observation_def)
    with same_fingerprint d' show ?thesis
      by (auto simp: duplicate_of_def intro!: exI ingest_outcome.same_fingerprint)
  next
    case (Some sid)
    from link(5) [OF Some] obtain l where l: "find_link (obs_source obs) sid d' = Some l"
      "ln_event l = ev_id e" by blast
    have "known_source_event obs d' = Some \<lparr>res_status = ''external_echo_suppressed'',
        res_event_id = Some (ev_id e), res_outbound = False\<rparr>"
      using known_none_events [OF same_fingerprint(3) Some] link(1) l Some
      by (simp add: known_source_event_def)
    with same_fingerprint sup show ?thesis
      by (auto simp: duplicate_of_def intro!: exI ingest_outcome.known)
  qed
next
  case stored
  let ?e = "new_event obs at prov fp now (next_id (map ev_id (events d)))"
  note st = store_new_event_Inr [OF stored(4)]
  have sup: "suppressed_by_boundary obs d' = Inr False"
    using boundary_cursors [OF st(4)] stored(1) by simp
  have id: "res_event_id res = Some (ev_id ?e)" by (simp add: st(5))
  show ?thesis
  proof (cases "obs_source_event_id obs")
    case None
    have "find_row (\<lambda>e. ev_fingerprint e = fp) (events d') = Some ?e"
      using stored(3) by (simp add: st(2) find_row_append)
    moreover have "link_observation fk obs (ev_id ?e) now' d' = (Inr (), d')"
      "known_source_event obs d' = None"
      using None by (simp_all add: link_observation_def known_source_event_def)
    ultimately have "ingest_outcome fk obs at now' prov fp d'
        (duplicate_of ''duplicate_fingerprint'' ?e) d'"
      using sup by (intro ingest_outcome.same_fingerprint)
    with id show ?thesis
      by (intro exI [of _ "duplicate_of ''duplicate_fingerprint'' ?e"]) (simp add: duplicate_of_def)
  next
    case (Some sid)
    from known_after_store [OF stored(2) st(2) Some] sup id show ?thesis
      by (intro exI [of _ "duplicate_of ''duplicate_source_event'' ?e"])
        (auto simp: duplicate_of_def intro: ingest_outcome.known)
  qed
qed

section \<open>Ingestion as a transaction\<close>

text \<open>Everything \<open>ingest_observation\<close> computes before it opens the transaction.\<close>

definition prepare_observation ::
  "(string \<Rightarrow> string) \<Rightarrow> Observation \<Rightarrow> (string \<times> string \<times> string) result" where
  "prepare_observation sha obs =
     andThen (validate_observation obs) (\<lambda>_.
       andThen (ledger_timestamp (obs_watched_at obs)) (\<lambda>at.
         andThen (canonical_json (obs_provenance obs)) (\<lambda>prov.
           andThen (event_fingerprint sha obs) (\<lambda>fp. Inr (at, prov, fp)))))"

lemma ingest_observation_eq:
  "ingest_observation sha obs imported now c = (case prepare_observation sha obs of
      Inl x \<Rightarrow> (Inl x, c)
    | Inr (at, prov, fp) \<Rightarrow> (case ingest_body (foreign_keys c) obs at (or_now imported now) prov fp (current c) of
        (Inr res, d) \<Rightarrow> (Inr res, c\<lparr>committed := d, current := d\<rparr>)
      | (Inl x, d) \<Rightarrow> (Inl x, c\<lparr>current := committed c\<rparr>)))"
  by (simp add: ingest_observation_def prepare_observation_def with_connection_def on_current_def
      commit_def rollback_def split: sum.split prod.split)

lemma ingest_observation_Inr:
  "ingest_observation sha obs imported now c = (Inr res, c') \<longleftrightarrow>
   (\<exists>at prov fp d. prepare_observation sha obs = Inr (at, prov, fp) \<and>
      ingest_outcome (foreign_keys c) obs at (or_now imported now) prov fp (current c) res d \<and>
      c' = c\<lparr>committed := d, current := d\<rparr>)"
  by (auto simp: ingest_observation_eq ingest_outcome_body split: sum.splits prod.splits
      dest: ingest_body_outcome)

lemma ingest_again:
  assumes "ingest_observation sha obs imported now c = (Inr res, c1)"
  shows "\<exists>res'. ingest_observation sha obs imported' now' c1 = (Inr res', c1) \<and>
    res_status res' \<notin> {''created'', ''quarantined''} \<and> res_event_id res' = res_event_id res"
proof -
  from assms obtain at prov fp d where p: "prepare_observation sha obs = Inr (at, prov, fp)"
    "ingest_outcome (foreign_keys c) obs at (or_now imported now) prov fp (current c) res d"
    "c1 = c\<lparr>committed := d, current := d\<rparr>" by (auto simp: ingest_observation_Inr)
  from ingest_outcome_again [OF p(2), of "or_now imported' now'"] obtain res' where
    "ingest_outcome (foreign_keys c) obs at (or_now imported' now') prov fp d res' d"
    "res_status res' \<notin> {''created'', ''quarantined''}" "res_event_id res' = res_event_id res"
    by blast
  with p show ?thesis by (intro exI [of _ res']) (auto simp: ingest_observation_Inr)
qed

lemma ingest_effect_parts:
  assumes "ingest_observation sha obs imported now c = (Inr res, c')"
  shows "if res_status res \<in> {''created'', ''quarantined''}
    then \<exists>e. events (current c') = events (current c) @ [e] \<and> res_event_id res = Some (ev_id e) \<and>
           ev_id e \<notin> ev_id ` set (events (current c)) \<and> ev_media_id e = obs_media_id obs
    else events (current c') = events (current c)"
    and "deliveries (current c') = deliveries (current c)"
    and "committed c' = current c'"
    and "res_outbound res \<Longrightarrow>
      \<exists>e\<in>set (events (current c')). Some (ev_id e) = res_event_id res \<and> ev_quarantine e = None"
proof -
  from assms obtain at prov fp d where
    o: "ingest_outcome (foreign_keys c) obs at (or_now imported now) prov fp (current c) res d"
    and c': "c' = c\<lparr>committed := d, current := d\<rparr>" by (auto simp: ingest_observation_Inr)
  show "committed c' = current c'" by (simp add: c')
  have "(if res_status res \<in> {''created'', ''quarantined''}
    then \<exists>e. events d = events (current c) @ [e] \<and> res_event_id res = Some (ev_id e) \<and>
           ev_id e \<notin> ev_id ` set (events (current c)) \<and> ev_media_id e = obs_media_id obs
    else events d = events (current c)) \<and> deliveries d = deliveries (current c) \<and>
    (res_outbound res \<longrightarrow>
      (\<exists>e\<in>set (events d). Some (ev_id e) = res_event_id res \<and> ev_quarantine e = None))"
    using o
  proof cases
    case bounded
    then show ?thesis by simp
  next
    case known
    then show ?thesis
      by (auto simp: known_source_event_def duplicate_of_def split: option.splits dest!: find_row_Some)
  next
    case (same_fingerprint e u)
    with find_row_Some [OF same_fingerprint(4)] show ?thesis
      using link_observation_Inr [OF same_fingerprint(5)] by (auto simp: duplicate_of_def)
  next
    case stored
    let ?e = "new_event obs at prov fp (or_now imported now) (next_id (map ev_id (events (current c))))"
    note st = store_new_event_Inr [OF stored(4)]
    have "ev_id ?e \<notin> ev_id ` set (events (current c))"
      using next_id_fresh [of "map ev_id (events (current c))"] by simp
    moreover have "obs_media_id obs \<noteq> None \<Longrightarrow> ev_quarantine ?e = None"
      using st(1) by (auto simp: event_check_def)
    ultimately show ?thesis using st(2,3) by (auto simp: st(5))
  qed
  then show "if res_status res \<in> {''created'', ''quarantined''}
    then \<exists>e. events (current c') = events (current c) @ [e] \<and> res_event_id res = Some (ev_id e) \<and>
           ev_id e \<notin> ev_id ` set (events (current c)) \<and> ev_media_id e = obs_media_id obs
    else events (current c') = events (current c)"
    "deliveries (current c') = deliveries (current c)"
    "res_outbound res \<Longrightarrow>
      \<exists>e\<in>set (events (current c')). Some (ev_id e) = res_event_id res \<and> ev_quarantine e = None"
    by (simp_all add: c')
qed

lemma ingest_observation_frame:
  "ingest_observation sha obs imported now c = (Inr res, c') \<Longrightarrow>
   cursors (current c') = cursors (current c) \<and> foreign_keys c' = foreign_keys c"
  by (auto simp: ingest_observation_Inr dest: ingest_outcome_cursors)

lemma ingest_observation_Inl:
  "ingest_observation sha obs imported now c = (Inl x, c') \<Longrightarrow> committed c = current c \<Longrightarrow> c' = c"
  by (cases c) (auto simp: ingest_observation_eq split: sum.splits prod.splits)

lemma validated:
  "prepare_observation sha obs = Inr x \<Longrightarrow> validate_observation obs = Inr ()"
  by (auto simp: prepare_observation_def andThen_Inr_iff)

section \<open>Deliveries\<close>

interpretation delivery: lifecycle TRANSITIONS "\<lambda>s. s = ''verified'' \<or> s = ''failed''"
  by unfold_locales (auto simp: TRANSITIONS_def)

definition delivery_state :: "int \<Rightarrow> connection \<Rightarrow> string option" where
  "delivery_state i c = map_option sd_state (find_delivery i (current c))"

lemma find_delivery_update:
  "(\<And>r. sd_id (f r) = sd_id r) \<Longrightarrow>
   find_delivery j (d\<lparr>deliveries := update_rows (\<lambda>r. sd_id r = i) f (deliveries d)\<rparr>) =
   (if j = i then map_option f (find_delivery i d) else find_delivery j d)"
proof (cases "j = i")
  case False
  moreover assume "\<And>r. sd_id (f r) = sd_id r"
  ultimately have "find_row (\<lambda>r. sd_id r = j) (update_rows (\<lambda>r. sd_id r = i) f (deliveries d)) =
      find_row (\<lambda>r. sd_id r = j) (deliveries d)"
    by (intro find_row_update_other) auto
  with False show ?thesis by (simp add: find_delivery_def)
qed (simp add: find_delivery_def find_row_update_same)

lemma transition_delivery_cases:
  assumes "transition_delivery i st at next http err target now c = (r, c')"
  obtains (refused) x where "r = Inl x" "c' = c"
  | (moved) row where "find_delivery i (current c) = Some row" "st \<in> set (TRANSITIONS (sd_state row))"
      "st = ''verified'' \<longrightarrow> filled target"
      "r = Inr \<lparr>dlv_id = i, dlv_state = st,
             dlv_attempts = sd_attempts row + (if st = ''in_flight'' then 1 else 0)\<rparr>"
      "current c' = (current c)\<lparr>deliveries := update_rows (\<lambda>r. sd_id r = i)
         (move_delivery st (sd_attempts row + (if st = ''in_flight'' then 1 else 0)) (or_now at now)
            next http err target) (deliveries (current c))\<rparr>"
      "committed c' = committed c"
proof (cases "\<exists>row. find_delivery i (current c) = Some row \<and> st \<in> set (TRANSITIONS (sd_state row)) \<and>
    (st = ''verified'' \<longrightarrow> filled target)")
  case True
  then obtain row where row: "find_delivery i (current c) = Some row"
    "st \<in> set (TRANSITIONS (sd_state row))" "st = ''verified'' \<longrightarrow> filled target" by blast
  from row(2) have "st \<in> set DELIVERY_STATES" by (rule transition_targets)
  with row assms show ?thesis
    by (intro moved [OF row]) (auto simp: transition_delivery_def on_current_def Let_def)
next
  case False
  have same: "c\<lparr>current := current c\<rparr> = c" by simp
  have "\<exists>x. transition_delivery i st at next http err target now c = (Inl x, c)"
  proof (cases "find_delivery i (current c)")
    case None
    then show ?thesis by (simp add: transition_delivery_def on_current_def same)
  next
    case (Some row)
    with False have "st \<notin> set (TRANSITIONS (sd_state row)) \<or> (st = ''verified'' \<and> \<not> filled target)"
      by simp
    with Some show ?thesis by (auto simp: transition_delivery_def on_current_def same Let_def)
  qed
  with assms show ?thesis by (auto intro: refused)
qed

text \<open>The calls that move a delivery, as data, and the states one delivery goes through.\<close>

datatype delivery_call =
    Transition int string "string option" "string option" "int option" "string option"
      "string option" string
  | Failure int string "int option" "string option" "string option" string
  | Recover string string

fun run_delivery_call :: "delivery_call \<Rightarrow> connection \<Rightarrow> connection" where
  "run_delivery_call (Transition i st at next http err target now) c =
     snd (transition_delivery i st at next http err target now c)"
| "run_delivery_call (Failure i err http retry_at at now) c =
     snd (record_delivery_failure i err http retry_at at now c)"
| "run_delivery_call (Recover now stale_before) c = snd (recover_restart_work now stale_before c)"

fun delivery_trail :: "int \<Rightarrow> string \<Rightarrow> delivery_call list \<Rightarrow> connection \<Rightarrow> string list" where
  "delivery_trail i s [] c = [s]"
| "delivery_trail i s (x # xs) c =
     (let c' = run_delivery_call x c in
      case delivery_state i c' of
        None \<Rightarrow> [s]
      | Some t \<Rightarrow> (if t = s then delivery_trail i s xs c' else s # delivery_trail i t xs c'))"

fun run_delivery_calls :: "delivery_call list \<Rightarrow> connection \<Rightarrow> connection" where
  "run_delivery_calls [] c = c"
| "run_delivery_calls (x # xs) c = run_delivery_calls xs (run_delivery_call x c)"

text \<open>How one call changes a delivery's row.\<close>

definition row_step :: "sync_delivery \<Rightarrow> sync_delivery \<Rightarrow> bool" where
  "row_step r r' \<longleftrightarrow>
     (r' = r \<or> sd_state r' \<in> set (TRANSITIONS (sd_state r))) \<and>
     sd_attempts r' = sd_attempts r +
       (if sd_state r' = ''in_flight'' \<and> sd_state r \<noteq> ''in_flight'' then 1 else 0)"

lemma no_self_edge: "s \<notin> set (TRANSITIONS s)"
  by (auto simp: TRANSITIONS_def)

lemma transition_row_step:
  assumes "find_delivery j (current c) = Some r"
  shows "\<exists>r'. find_delivery j (current (snd (transition_delivery i st at next http err target now c)))
    = Some r' \<and> row_step r r'"
proof -
  obtain res c' where t: "transition_delivery i st at next http err target now c = (res, c')"
    by (cases "transition_delivery i st at next http err target now c")
  from t show ?thesis
  proof (cases rule: transition_delivery_cases)
    case refused
    with t assms show ?thesis by (simp add: row_step_def)
  next
    case (moved row)
    have "sd_state row \<noteq> st" using moved(2) no_self_edge by metis
    with moved t assms show ?thesis
      by (auto simp: find_delivery_update row_step_def)
  qed
qed

lemma row_step_refl: "row_step r r"
  by (simp add: row_step_def)

lemma failure_row_step:
  assumes "find_delivery j (current c) = Some r"
  shows "\<exists>r'. find_delivery j (current (snd (record_delivery_failure i err http retry_at at now c)))
    = Some r' \<and> row_step r r'"
  using transition_row_step [OF assms] assms row_step_refl
  by (simp add: record_delivery_failure_def split: option.split sum.split)

lemma find_delivery_stale:
  "find_delivery j (d\<lparr>deliveries := update_rows (stale s) to_ambiguous (deliveries d)\<rparr>) =
   map_option (\<lambda>r. if stale s r then to_ambiguous r else r) (find_delivery j d)"
proof -
  have "find_row (\<lambda>r. sd_id r = j) (update_rows p f rs) =
      map_option (\<lambda>r. if p r then f r else r) (find_row (\<lambda>r. sd_id r = j) rs)"
    if "\<And>r. sd_id (f r) = sd_id r" for p f and rs :: "sync_delivery list"
    using that by (induction rs) auto
  from this [of to_ambiguous "stale s"] show ?thesis
    by (simp add: find_delivery_def to_ambiguous_def)
qed

lemma recover_restart_work_eq:
  "recover_restart_work now stale_before c =
    (case andThen (ledger_timestamp now) (\<lambda>n.
        andThen (ledger_timestamp stale_before) (\<lambda>s. Inr (n, s))) of
       Inl x \<Rightarrow> (Inl x, c)
     | Inr (n, s) \<Rightarrow>
        (let rows = update_rows (stale s) to_ambiguous (deliveries (current c));
             d = (current c)\<lparr>deliveries := rows\<rparr>
         in (Inr (sort (map sd_id (filter (runnable n) rows))),
             c\<lparr>committed := d, current := d\<rparr>)))"
  by (simp add: recover_restart_work_def with_connection_def on_current_def recover_body_def Let_def
      commit_def split: sum.split)

lemma stale_row_step: "row_step r (if stale s r then to_ambiguous r else r)"
proof (cases "stale s r")
  case True
  then have "sd_state r = ''in_flight''" by (simp add: stale_def)
  with True show ?thesis by (simp add: row_step_def to_ambiguous_def TRANSITIONS_def)
qed (simp add: row_step_refl)

lemma recover_row_step:
  assumes "find_delivery j (current c) = Some r"
  shows "\<exists>r'. find_delivery j (current (snd (recover_restart_work now stale_before c))) = Some r'
    \<and> row_step r r'"
  using assms stale_row_step row_step_refl
  by (simp add: recover_restart_work_eq Let_def find_delivery_stale split: sum.split)

lemma run_delivery_call_step:
  "find_delivery j (current c) = Some r \<Longrightarrow>
   \<exists>r'. find_delivery j (current (run_delivery_call x c)) = Some r' \<and> row_step r r'"
  by (cases x) (simp_all add: transition_row_step failure_row_step recover_row_step)

lemma delivery_trail_hd: "\<exists>ss. delivery_trail i s xs c = s # ss"
proof (induction xs arbitrary: c)
  case (Cons x xs)
  then show ?case by (simp add: Let_def split: option.split)
qed simp

lemma delivery_trail_walk:
  "find_delivery i (current c) = Some r \<Longrightarrow> walk TRANSITIONS (delivery_trail i (sd_state r) xs c)"
proof (induction xs arbitrary: c r)
  case (Cons x xs)
  from run_delivery_call_step [OF Cons.prems] obtain r' where
    r': "find_delivery i (current (run_delivery_call x c)) = Some r'" "row_step r r'" by blast
  obtain ss where ss: "delivery_trail i (sd_state r') xs (run_delivery_call x c) = sd_state r' # ss"
    using delivery_trail_hd by blast
  from Cons.IH [OF r'(1)] r' ss show ?case
    by (auto simp: Let_def delivery_state_def row_step_def)
qed simp

lemma delivery_trail_last:
  "find_delivery i (current c) = Some r \<Longrightarrow>
   \<exists>r'. find_delivery i (current (run_delivery_calls xs c)) = Some r' \<and>
     last (delivery_trail i (sd_state r) xs c) = sd_state r' \<and>
     sd_attempts r' = sd_attempts r +
       count_list (tl (delivery_trail i (sd_state r) xs c)) ''in_flight''"
proof (induction xs arbitrary: c r)
  case (Cons x xs)
  from run_delivery_call_step [OF Cons.prems] obtain q where
    q: "find_delivery i (current (run_delivery_call x c)) = Some q" "row_step r q" by blast
  obtain ss where ss: "delivery_trail i (sd_state q) xs (run_delivery_call x c) = sd_state q # ss"
    using delivery_trail_hd by blast
  show ?case
  proof (cases "sd_state q = sd_state r")
    case True
    with q Cons.IH [OF q(1)] show ?thesis by (simp add: Let_def delivery_state_def row_step_def)
  next
    case False
    then have "delivery_trail i (sd_state r) (x # xs) c = sd_state r # sd_state q # ss"
      using q(1) ss by (simp add: Let_def delivery_state_def)
    moreover have "sd_state q = ''in_flight'' \<longrightarrow> sd_state r \<noteq> ''in_flight''"
      using False by metis
    ultimately show ?thesis using Cons.IH [OF q(1)] q(2) ss by (auto simp: row_step_def)
  qed
qed simp

section \<open>Restart\<close>

lemma recover_Inr:
  assumes "recover_restart_work now stale_before c = (Inr ids, c')"
  obtains n s where "ledger_timestamp now = Inr n" "ledger_timestamp stale_before = Inr s"
    "deliveries (current c') = update_rows (stale s) to_ambiguous (deliveries (current c))"
    "ids = sort (map sd_id (filter (runnable n) (deliveries (current c'))))"
    "committed c' = current c'" "events (current c') = events (current c)"
  using assms
  by (auto simp: recover_restart_work_eq Let_def andThen_Inr_iff split: sum.splits)

lemma runnable_states: "runnable n r \<Longrightarrow> sd_state r = ''pending'' \<or> sd_state r = ''retry_wait''"
  by (auto simp: runnable_def)

lemma stale_not_twice:
  "update_rows (stale s) to_ambiguous (update_rows (stale s) to_ambiguous rs) =
   update_rows (stale s) to_ambiguous rs"
  by (rule update_rows_absent) (auto simp: set_update_rows stale_def to_ambiguous_def)

end
