(* ===== verification/Ledger_Properties.thy ===== *)
theory Ledger_Properties
  imports Ledger_Behaviour
begin

text \<open>
  The claims about the watched-event ledger, each with a concrete instance. The samples are a
  connection to a fresh database and two observations of films.
\<close>

definition fresh_connection :: connection where
  "fresh_connection =
     apply_migrations \<lparr>committed = empty_db, current = empty_db, foreign_keys = False\<rparr>"

definition sample_obs :: "int \<Rightarrow> string option \<Rightarrow> Observation" where
  "sample_obs i sid = \<lparr>obs_kind = ''movie'', obs_media_id = Some i,
     obs_watched_at = ''2026-01-01T00:30:00+02:00'', obs_precision = ''exact'', obs_source = ''plex'',
     obs_provenance = PDict [], obs_source_event_id = sid, obs_confidence = ''high'',
     obs_account_scope = ''default'', obs_external_media_id = None, obs_quarantine = None\<rparr>"

definition sample_now :: string where
  "sample_now = ''2026-01-02T00:00:00Z''"

text \<open>A connection whose database holds one film, and one with a delivery in a given state.\<close>

definition sample_event :: "int \<Rightarrow> string \<Rightarrow> watch_event" where
  "sample_event i fp = new_event (sample_obs i None) ''2025-12-31T22:30:00Z'' ''{}'' fp sample_now i"

definition sample_delivery :: "string \<Rightarrow> sync_delivery" where
  "sample_delivery st = \<lparr>sd_id = 1, sd_event = 1, sd_target = ''trakt'', sd_operation = ''add'',
     sd_key = ''k'', sd_request_hash = ''h'', sd_state = st, sd_attempts = 1, sd_next_attempt = None,
     sd_http = None, sd_error = None, sd_target_event = None,
     sd_started = Some ''2026-01-01T00:00:00Z'', sd_verified = None\<rparr>"

definition sample_connection :: "string \<Rightarrow> connection" where
  "sample_connection st =
     (let d = empty_db\<lparr>events := [sample_event 1 ''f1'', sample_event 2 ''f2''],
                       deliveries := [sample_delivery st]\<rparr>
      in \<lparr>committed = d, current = d, foreign_keys = True\<rparr>)"

text \<open>Evaluation of the samples.\<close>

lemma parse_sample_times:
  "fromisoformat ''2026-01-01T00:30:00+02:00'' = Some \<lparr>dt_date = (2026, 1, 1), dt_hour = 0,
     dt_minute = 30, dt_second = 0, dt_micro = 0, dt_offset = Some 7200000000\<rparr>"
  "fromisoformat ''2026-01-02T00:00:00+00:00'' = Some \<lparr>dt_date = (2026, 1, 2), dt_hour = 0,
     dt_minute = 0, dt_second = 0, dt_micro = 0, dt_offset = Some 0\<rparr>"
  "fromisoformat ''2026-01-03T00:00:00+00:00'' = Some \<lparr>dt_date = (2026, 1, 3), dt_hour = 0,
     dt_minute = 0, dt_second = 0, dt_micro = 0, dt_offset = Some 0\<rparr>"
  by code_simp+

lemma sample_times:
  "ledger_timestamp ''2026-01-01T00:30:00+02:00'' = Inr ''2025-12-31T22:30:00Z''"
  "ledger_timestamp ''2026-01-02T00:00:00Z'' = Inr ''2026-01-02T00:00:00Z''"
  "ledger_timestamp ''2026-01-03T00:00:00Z'' = Inr ''2026-01-03T00:00:00Z''"
  by (simp_all add: ledger_timestamp_def parse_sample_times eval_time
      digit_char_simps(4) [unfolded numeral_2_eq_2])

lemmas eval_samples = Let_def sample_times sample_obs_def sample_now_def fresh_connection_def
  sample_connection_def sample_event_def sample_delivery_def apply_migrations_def commit_def
  empty_db_def

lemmas eval_ingest = ingest_observation_eq prepare_observation_def andThen_def
  validate_observation_def MEDIA_KINDS_def PRECISIONS_def SOURCES_def CONFIDENCES_def filled_def
  canonical_json_def event_fingerprint_def fingerprint_payload_def sdict_def ingest_body_def
  suppressed_by_boundary_def find_cursor_def known_source_event_def find_link_def
  store_new_event_def insert_event_def new_event_def event_check_def event_unique_def
  link_observation_def link_external_event_def next_id_def find_event_def or_now_def

lemmas eval_delivery = transition_delivery_def record_delivery_failure_def on_current_def Let_def
  DELIVERY_STATES_def UNCERTAIN_def find_delivery_def TRANSITIONS_def move_delivery_def or_now_def
  filled_def recover_restart_work_eq stale_def to_ambiguous_def runnable_def delivery_state_def

section \<open>Invariant\<close>

text \<open>C1: In every state the ledger can reach through its operations, commits and reopenings, the
  committed and the visible database satisfy the invariant of all four tables.\<close>

theorem ledger_invariant:
  assumes "ledger_reachable sha c"
  shows "db_ok (committed c) \<and> db_ok (current c)"
  using ledger_reachable_ok [OF assms] by (simp add: conn_ok_def)

theorem ledger_invariant_witness:
  "db_ok (current (snd (ingest_observation (\<lambda>s. s) (sample_obs 7 (Some ''a'')) None sample_now
     fresh_connection)))"
  using ledger_invariant [OF ledger_reachable.step [OF ledger_reachable.start ledger_step.ingest]]
  by (simp add: fresh_connection_def)

text \<open>A delivery always refers to a stored event whose identity is known: quarantined
  observations are never delivered, whatever calls are made.\<close>

theorem delivered_events_identified:
  assumes "ledger_reachable sha c" and "r \<in> set (deliveries (current c))"
  shows "\<exists>e\<in>set (events (current c)).
    ev_id e = sd_event r \<and> ev_media_id e \<noteq> None \<and> ev_quarantine e = None"
proof -
  have ok: "db_ok (current c)" using ledger_reachable_ok [OF assms(1)] by (simp add: conn_ok_def)
  then have "sd_event r \<in> identified (events (current c))"
    using assms(2) by (auto simp: db_ok_def deliveries_ok_def)
  with ok show ?thesis
    by (fastforce simp: identified_def db_ok_def events_ok_def event_check_def)
qed

definition delivered_connection :: connection where
  "delivered_connection =
     snd (create_delivery (\<lambda>s. s) 1 ''trakt'' ''add'' (PDict []) None
       (snd (ingest_observation (\<lambda>s. s) (sample_obs 7 (Some ''a'')) None sample_now fresh_connection)))"

lemma delivered_connection_deliveries:
  "map sd_event (deliveries (current delivered_connection)) = [1]"
  by (simp add: delivered_connection_def eval_samples eval_ingest create_delivery_def on_current_def)

theorem delivered_events_identified_witness:
  "\<exists>r\<in>set (deliveries (current delivered_connection)).
     \<exists>e\<in>set (events (current delivered_connection)).
       ev_id e = sd_event r \<and> ev_media_id e \<noteq> None \<and> ev_quarantine e = None"
proof -
  have "ledger_reachable (\<lambda>s. s) delivered_connection"
    unfolding delivered_connection_def fresh_connection_def
    by (intro ledger_reachable.step [OF ledger_reachable.step [OF ledger_reachable.start
        ledger_step.ingest] ledger_step.deliver])
  moreover obtain r where "r \<in> set (deliveries (current delivered_connection))"
    using delivered_connection_deliveries by (cases "deliveries (current delivered_connection)") auto
  ultimately show ?thesis using delivered_events_identified by blast
qed

section \<open>Ingestion\<close>

text \<open>C2: Ingesting an observation again, at any later time, changes nothing in the database,
  never reports a new event and names the same event.\<close>

theorem ingest_idempotent:
  assumes "ingest_observation sha obs imported now c = (Inr res, c1)"
  shows "\<exists>res'. ingest_observation sha obs imported' now' c1 = (Inr res', c1) \<and>
    res_status res' \<notin> {''created'', ''quarantined''} \<and> res_event_id res' = res_event_id res"
  using assms by (rule ingest_again)

lemma sample_ingest:
  "fst (ingest_observation (\<lambda>s. s) (sample_obs 7 (Some ''a'')) None sample_now fresh_connection)
   = Inr \<lparr>res_status = ''created'', res_event_id = Some 1, res_outbound = True\<rparr>"
  by (simp add: eval_samples eval_ingest)

theorem ingest_idempotent_witness:
  "\<exists>c1 res'. ingest_observation (\<lambda>s. s) (sample_obs 7 (Some ''a'')) None sample_now fresh_connection
      = (Inr \<lparr>res_status = ''created'', res_event_id = Some 1, res_outbound = True\<rparr>, c1) \<and>
    ingest_observation (\<lambda>s. s) (sample_obs 7 (Some ''a'')) None sample_now c1 = (Inr res', c1) \<and>
    res_event_id res' = Some 1"
proof -
  obtain c1 where c1: "ingest_observation (\<lambda>s. s) (sample_obs 7 (Some ''a'')) None sample_now
      fresh_connection
    = (Inr \<lparr>res_status = ''created'', res_event_id = Some 1, res_outbound = True\<rparr>, c1)"
    using sample_ingest by (metis prod.collapse)
  from ingest_idempotent [OF c1] c1 show ?thesis by auto
qed

text \<open>C3: An ingestion that returns either stores exactly one new event, under a fresh id and with
  the observation's identity, or leaves the events as they are; it never touches deliveries, it is
  committed, and it allows outbound delivery only for a stored event that is not quarantined.\<close>

theorem ingest_effect:
  assumes "ingest_observation sha obs imported now c = (Inr res, c')"
  shows "(if res_status res \<in> {''created'', ''quarantined''}
    then \<exists>e. events (current c') = events (current c) @ [e] \<and> res_event_id res = Some (ev_id e) \<and>
           ev_id e \<notin> ev_id ` set (events (current c)) \<and> ev_media_id e = obs_media_id obs
    else events (current c') = events (current c)) \<and>
    deliveries (current c') = deliveries (current c) \<and> committed c' = current c' \<and>
    (res_outbound res \<longrightarrow>
      (\<exists>e\<in>set (events (current c')). Some (ev_id e) = res_event_id res \<and> ev_quarantine e = None))"
  by (intro conjI impI ingest_effect_parts [OF assms])

theorem ingest_effect_witness:
  "\<exists>c'. snd (ingest_observation (\<lambda>s. s) (sample_obs 7 (Some ''a'')) None sample_now fresh_connection)
      = c' \<and> (\<exists>e. events (current c') = [e] \<and> ev_media_id e = Some 7) \<and>
    (\<exists>e\<in>set (events (current c')). ev_id e = 1 \<and> ev_quarantine e = None)"
proof -
  obtain c1 where c1: "ingest_observation (\<lambda>s. s) (sample_obs 7 (Some ''a'')) None sample_now
      fresh_connection
    = (Inr \<lparr>res_status = ''created'', res_event_id = Some 1, res_outbound = True\<rparr>, c1)"
    using sample_ingest by (metis prod.collapse)
  have none: "events (current fresh_connection) = []" by (simp add: eval_samples)
  from ingest_effect [OF c1] c1 none show ?thesis by (auto simp: sample_obs_def)
qed

text \<open>An ingestion that raises changes nothing committed; what the connection then sees is what
  it saw before, or the last committed state (the transaction it had open is rolled back).\<close>

theorem ingest_failure_atomic:
  assumes "ingest_observation sha obs imported now c = (Inl x, c')"
  shows "committed c' = committed c \<and> (current c' = current c \<or> current c' = committed c)"
  using assms by (auto simp: ingest_observation_eq split: sum.splits prod.splits)

theorem ingest_failure_atomic_witness:
  "committed (snd (ingest_observation (\<lambda>s. s) (sample_obs 0 None) None sample_now fresh_connection))
   = committed fresh_connection"
proof -
  have "fst (ingest_observation (\<lambda>s. s) (sample_obs 0 None) None sample_now fresh_connection)
      = Inl (LedgerError ''local media identity must be positive'')"
    by (simp add: eval_samples eval_ingest)
  then obtain c' where "ingest_observation (\<lambda>s. s) (sample_obs 0 None) None sample_now fresh_connection
      = (Inl (LedgerError ''local media identity must be positive''), c')" by (metis prod.collapse)
  from ingest_failure_atomic [OF this] this show ?thesis by simp
qed

section \<open>Deliveries\<close>

text \<open>A transition succeeds exactly when the delivery exists, the new state is a successor of
  its state and a verification carries a target event id; it then changes that row only.\<close>

theorem transition_exact:
  "(\<exists>r c'. transition_delivery i st at next http err target now c = (Inr r, c')) \<longleftrightarrow>
   (\<exists>row. find_delivery i (current c) = Some row \<and> st \<in> set (TRANSITIONS (sd_state row)) \<and>
      (st = ''verified'' \<longrightarrow> filled target))"
proof -
  obtain r c' where t: "transition_delivery i st at next http err target now c = (r, c')"
    by (cases "transition_delivery i st at next http err target now c")
  from t show ?thesis
  proof (cases rule: transition_delivery_cases)
    case (refused x)
    have "\<not> (\<exists>row. find_delivery i (current c) = Some row \<and> st \<in> set (TRANSITIONS (sd_state row)) \<and>
      (st = ''verified'' \<longrightarrow> filled target))"
    proof
      assume "\<exists>row. find_delivery i (current c) = Some row \<and> st \<in> set (TRANSITIONS (sd_state row)) \<and>
        (st = ''verified'' \<longrightarrow> filled target)"
      then obtain row where "find_delivery i (current c) = Some row"
        "st \<in> set (TRANSITIONS (sd_state row))" "st = ''verified'' \<longrightarrow> filled target" by blast
      moreover from this(2) have "st \<in> set DELIVERY_STATES" by (rule transition_targets)
      ultimately have "\<exists>y. fst (transition_delivery i st at next http err target now c) = Inr y"
        by (auto simp: transition_delivery_def on_current_def Let_def)
      with t refused show False by simp
    qed
    with t refused show ?thesis by auto
  qed (use t in auto)
qed

theorem transition_exact_witness:
  "\<exists>r c'. transition_delivery 1 ''verified'' None None None None (Some ''t'') sample_now
     (sample_connection ''in_flight'') = (Inr r, c')"
proof -
  have "find_delivery 1 (current (sample_connection ''in_flight'')) = Some (sample_delivery ''in_flight'')"
    by (simp add: eval_samples find_delivery_def)
  moreover have "''verified'' \<in> set (TRANSITIONS (sd_state (sample_delivery ''in_flight'')))"
    by (simp add: sample_delivery_def TRANSITIONS_def)
  ultimately show ?thesis by (subst transition_exact) (simp add: filled_def)
qed






lemma restart_recovery_parts:
  assumes "recover_restart_work now stale_before c = (Inr ids, c')"
  shows "\<exists>n s. ledger_timestamp now = Inr n \<and> ledger_timestamp stale_before = Inr s \<and>
    deliveries (current c') =
      map (\<lambda>r. if stale s r then to_ambiguous r else r) (deliveries (current c)) \<and>
    sorted ids \<and> set ids = sd_id ` {r \<in> set (deliveries (current c')). runnable n r}"
    and "r \<in> set (deliveries (current c)) \<Longrightarrow> sd_state r = ''in_flight'' \<Longrightarrow>
      distinct (map sd_id (deliveries (current c))) \<Longrightarrow> sd_id r \<notin> set ids"
    and "recover_restart_work now stale_before c' = (Inr ids, c')"
proof -
  from recover_Inr [OF assms] obtain n s where
    ns: "ledger_timestamp now = Inr n" "ledger_timestamp stale_before = Inr s"
    and rows: "deliveries (current c') = update_rows (stale s) to_ambiguous (deliveries (current c))"
    and ids: "ids = sort (map sd_id (filter (runnable n) (deliveries (current c'))))"
    and com: "committed c' = current c'" by metis
  have set_ids: "set ids = sd_id ` {r \<in> set (deliveries (current c')). runnable n r}"
    by (auto simp: ids)
  show "sd_id r \<notin> set ids" if r: "r \<in> set (deliveries (current c))" "sd_state r = ''in_flight''"
    and dist: "distinct (map sd_id (deliveries (current c)))"
  proof
    assume "sd_id r \<in> set ids"
    then obtain q where q: "q \<in> set (deliveries (current c))"
      "runnable n (if stale s q then to_ambiguous q else q)" "sd_id q = sd_id r"
      by (auto simp: set_ids rows set_update_rows to_ambiguous_def split: if_splits)
    then have "q = r" using dist r by (auto simp: distinct_map dest: inj_onD)
    with q(2) r(2) show False
      by (auto dest!: runnable_states simp: to_ambiguous_def split: if_splits)
  qed
  show "recover_restart_work now stale_before c' = (Inr ids, c')"
    using ns rows ids com by (simp add: recover_restart_work_eq Let_def stale_not_twice)
  have "sorted ids" by (simp add: ids)
  with ns rows set_ids show "\<exists>n s. ledger_timestamp now = Inr n \<and> ledger_timestamp stale_before = Inr s \<and>
    deliveries (current c') =
      map (\<lambda>r. if stale s r then to_ambiguous r else r) (deliveries (current c)) \<and>
    sorted ids \<and> set ids = sd_id ` {r \<in> set (deliveries (current c')). runnable n r}"
    by (auto simp: update_rows_def)
qed

text \<open>C5: A restart makes every stale in-flight delivery ambiguous and changes no other row; it
  returns, in increasing order, exactly the pending deliveries and the retries that are due, none
  of which was in flight; a second restart with the same times returns the same list.\<close>

theorem restart_recovery:
  assumes "recover_restart_work now stale_before c = (Inr ids, c')"
  shows "(\<exists>n s. ledger_timestamp now = Inr n \<and> ledger_timestamp stale_before = Inr s \<and>
      deliveries (current c') =
        map (\<lambda>r. if stale s r then to_ambiguous r else r) (deliveries (current c)) \<and>
      sorted ids \<and> set ids = sd_id ` {r \<in> set (deliveries (current c')). runnable n r}) \<and>
    (distinct (map sd_id (deliveries (current c))) \<longrightarrow>
      (\<forall>r\<in>set (deliveries (current c)). sd_state r = ''in_flight'' \<longrightarrow> sd_id r \<notin> set ids)) \<and>
    recover_restart_work now stale_before c' = (Inr ids, c')"
  using restart_recovery_parts [OF assms] by blast

theorem restart_recovery_witness:
  "fst (recover_restart_work ''2026-01-03T00:00:00Z'' ''2026-01-02T00:00:00Z''
     (sample_connection ''in_flight'')) = Inr [] \<and>
   (\<exists>c'. recover_restart_work ''2026-01-03T00:00:00Z'' ''2026-01-02T00:00:00Z'' c' = (Inr [], c'))"
proof
  show r: "fst (recover_restart_work ''2026-01-03T00:00:00Z'' ''2026-01-02T00:00:00Z''
     (sample_connection ''in_flight'')) = Inr []"
    by (simp add: eval_samples eval_delivery)
  then obtain c' where "recover_restart_work ''2026-01-03T00:00:00Z'' ''2026-01-02T00:00:00Z''
     (sample_connection ''in_flight'') = (Inr [], c')" by (metis prod.collapse)
  from restart_recovery [OF this]
  show "\<exists>c'. recover_restart_work ''2026-01-03T00:00:00Z'' ''2026-01-02T00:00:00Z'' c' = (Inr [], c')"
    by blast
qed

lemma updated_row:
  "q \<in> set (update_rows (\<lambda>r. k r = i) f rs) \<Longrightarrow> k q = i \<Longrightarrow> \<exists>r. q = f r"
  by (auto simp: set_update_rows)

text \<open>After a failure with an uncertain outcome (a timeout or a lost connection after sending, an
  ambiguous response, no rate limit) the delivery is ambiguous, and no restart offers it as runnable.\<close>

theorem uncertain_outcome_never_retried:
  assumes "record_delivery_failure i err http retry_at at now c = (Inr dlv, c1)"
    and "err \<in> set UNCERTAIN" and "http \<noteq> Some 429"
    and "recover_restart_work t stale_before c1 = (Inr ids, c2)"
  shows "dlv_state dlv = ''ambiguous'' \<and> i \<notin> set ids"
proof -
  have "transition_delivery i ''ambiguous'' at None http (Some err) None now c = (Inr dlv, c1)"
    using assms(1) by (simp only: record_delivery_failure_def assms(2,3) if_True if_False simp_thms)
  then show ?thesis
  proof (cases rule: transition_delivery_cases)
    case (moved row)
    obtain n s where
      rows: "deliveries (current c2) = update_rows (stale s) to_ambiguous (deliveries (current c1))"
      and ids: "ids = sort (map sd_id (filter (runnable n) (deliveries (current c2))))"
      using recover_Inr [OF assms(4)] by blast
    have "\<not> runnable n r" if r: "r \<in> set (deliveries (current c2))" "sd_id r = i" for r
    proof
      assume run: "runnable n r"
      from r(1) obtain q where q: "q \<in> set (deliveries (current c1))"
        "r = (if stale s q then to_ambiguous q else q)" by (auto simp: rows set_update_rows)
      with r(2) have "sd_id q = i" by (cases "stale s q") (simp_all add: to_ambiguous_def)
      moreover have "q \<in> set (update_rows (\<lambda>r. sd_id r = i) (move_delivery ''ambiguous''
          (sd_attempts row + (if ''ambiguous'' = ''in_flight'' then 1 else 0)) (or_now at now) None http
          (Some err) None) (deliveries (current c)))"
        using q(1) unfolding moved(5) by simp
      ultimately obtain p where "q = move_delivery ''ambiguous''
          (sd_attempts row + (if ''ambiguous'' = ''in_flight'' then 1 else 0)) (or_now at now) None http
          (Some err) None p" using updated_row [of q sd_id] by blast
      then have "sd_state q = ''ambiguous''" by (simp add: move_delivery_def)
      then have "sd_state r = ''ambiguous''" by (cases "stale s q") (simp_all add: q(2) to_ambiguous_def)
      with runnable_states [OF run] show False by simp
    qed
    then have "i \<notin> set ids" by (auto simp: ids)
    with moved(4) show ?thesis by simp
  qed simp
qed

theorem uncertain_outcome_never_retried_witness:
  "\<exists>dlv c1 ids c2. record_delivery_failure 1 ''timeout_after_send'' None None None sample_now
       (sample_connection ''in_flight'') = (Inr dlv, c1) \<and>
     recover_restart_work ''2026-01-03T00:00:00Z'' ''2026-01-02T00:00:00Z'' c1 = (Inr ids, c2) \<and>
     dlv_state dlv = ''ambiguous'' \<and> 1 \<notin> set ids"
proof -
  let ?f = "record_delivery_failure 1 ''timeout_after_send'' None None None sample_now
       (sample_connection ''in_flight'')"
  let ?r = "recover_restart_work ''2026-01-03T00:00:00Z'' ''2026-01-02T00:00:00Z'' (snd ?f)"
  have f: "fst ?f = Inr \<lparr>dlv_id = 1, dlv_state = ''ambiguous'', dlv_attempts = 1\<rparr>"
    by (simp add: eval_samples eval_delivery)
  have r: "fst ?r = Inr []" by (simp add: eval_samples eval_delivery)
  from f r obtain c2 where
    f': "?f = (Inr \<lparr>dlv_id = 1, dlv_state = ''ambiguous'', dlv_attempts = 1\<rparr>, snd ?f)"
    and r': "?r = (Inr [], c2)" by (metis prod.collapse)
  have u: "''timeout_after_send'' \<in> set UNCERTAIN" by (simp add: UNCERTAIN_def)
  have "dlv_state \<lparr>dlv_id = 1, dlv_state = ''ambiguous'', dlv_attempts = 1\<rparr> = ''ambiguous'' \<and>
      (1::int) \<notin> set []"
    by (rule uncertain_outcome_never_retried [OF f' u _ r']) simp
  with f' r' show ?thesis by blast
qed

section \<open>Corrections\<close>

lemma find_row_supersede:
  "find_row (\<lambda>e. ev_id e = j) (update_rows (\<lambda>e. ev_id e = i) (\<lambda>e. e\<lparr>ev_superseded_by := Some k\<rparr>) es) =
   (if j = i then map_option (\<lambda>e. e\<lparr>ev_superseded_by := Some k\<rparr>) (find_row (\<lambda>e. ev_id e = j) es)
    else find_row (\<lambda>e. ev_id e = j) es)"
  by (induction es) auto

text \<open>Corrections can form a cycle: for two distinct active events, superseding the first by the
  second and then the second by the first both succeed, and neither event is active afterwards.\<close>

theorem supersede_cycle:
  assumes "a \<noteq> b" "find_event a (current c) = Some x" "find_event b (current c) = Some y"
    "ev_superseded_by x = None" "ev_superseded_by y = None"
  shows "\<exists>c1 c2. supersede_event a b c = (Inr (), c1) \<and> supersede_event b a c1 = (Inr (), c2) \<and>
    map_option ev_superseded_by (find_event a (current c2)) = Some (Some b) \<and>
    map_option ev_superseded_by (find_event b (current c2)) = Some (Some a)"
  using assms
  by (simp add: supersede_event_def with_connection_def on_current_def commit_def find_event_def
      find_row_supersede)

theorem supersede_cycle_witness:
  "\<exists>c1 c2. supersede_event 1 2 (sample_connection ''pending'') = (Inr (), c1) \<and>
    supersede_event 2 1 c1 = (Inr (), c2) \<and>
    map_option ev_superseded_by (find_event 1 (current c2)) = Some (Some 2) \<and>
    map_option ev_superseded_by (find_event 2 (current c2)) = Some (Some 1)"
  by (rule supersede_cycle [where x = "sample_event 1 ''f1''" and y = "sample_event 2 ''f2''"])
    (simp_all add: eval_samples find_event_def new_event_def Let_def)

end
