(* ===== verification/Plex_Observation.thy ===== *)
theory Plex_Observation
  imports Watched_Ledger
begin

text \<open>
  \<open>plex_observation.py\<close>: one webhook or history payload becomes an \<open>Observation\<close>. The identity
  resolver is a callback, hence an argument.
\<close>

record PlexIdentity =
  id_media :: int
  id_kind :: string
  id_external :: "string option"

record PlexIdentityEvidence =
  evd_kind :: string
  evd_rating_key :: "string option"
  evd_guids :: "string list"

type_synonym resolver = "PlexIdentityEvidence \<Rightarrow> PlexIdentity option result"

text \<open>\<open>_first\<close>: the first key whose value is not \<open>None\<close>.\<close>

fun first_of :: "(pyval \<times> pyval) list \<Rightarrow> string list \<Rightarrow> pyval" where
  "first_of d [] = PNone"
| "first_of d (k # ks) = (if dget d k \<noteq> PNone then dget d k else first_of d ks)"

text \<open>\<open>a or b\<close>.\<close>

definition por :: "pyval \<Rightarrow> pyval \<Rightarrow> pyval" where
  "por a b = (if truthy a then a else b)"

section \<open>Timestamps\<close>

text \<open>
  \<open>datetime.fromtimestamp\<close> of a number, in UTC. Seconds outside what the C library's calendar
  can represent raise \<open>OverflowError\<close> or \<open>OSError\<close>, other years outside 1 to 9999 a \<open>ValueError\<close>.
\<close>

definition unix_epoch :: int where
  "unix_epoch = 719163 * 86400"

definition from_unix :: "int \<Rightarrow> string result" where
  "from_unix micros =
     (let secs = micros div 1000000 in
      if secs < - (2 ^ 63) \<or> 2 ^ 63 \<le> secs then Inl OverflowError
      else if secs < -67768040609740800 \<or> 67768036191676800 \<le> secs then Inl OSError
      else case utc_text (unix_epoch * 1000000 + micros) of
          Inr t \<Rightarrow> Inr t | Inl _ \<Rightarrow> Inl (ValueError ''year is out of range''))"

text \<open>
  The microseconds of a float that is not an integer, from its decimal \<open>repr\<close>: mantissa digits,
  decimals and exponent, rounded half to even.
\<close>

definition round_half_even :: "int \<Rightarrow> int \<Rightarrow> int" where
  "round_half_even n d =
     (let q = n div d; r = 2 * (n mod d) in if r > d \<or> (r = d \<and> odd q) then q + 1 else q)"

definition float_micros :: "string \<Rightarrow> int result" where
  "float_micros r =
     (if r = ''nan'' then Inl (ValueError ''Invalid value NaN'')
      else if r = ''inf'' \<or> r = ''-inf'' then Inl OverflowError
      else let mant = takeWhile (\<lambda>c. c \<noteq> CHR ''e'') r;
               expo = drop (Suc (length mant)) r;
               decimals = length (drop 1 (dropWhile (\<lambda>c. c \<noteq> CHR ''.'') mant));
               m = (case py_int (filter (\<lambda>c. c \<noteq> CHR ''.'') mant) of Some i \<Rightarrow> i | None \<Rightarrow> 0);
               e = (case py_int expo of Some i \<Rightarrow> i | None \<Rightarrow> 0);
               k = e - int decimals + 6
           in Inr (if 0 \<le> k then m * 10 ^ nat k else round_half_even m (10 ^ nat (- k))))"

definition observation_time :: "pyval \<Rightarrow> string result" where
  "observation_time v = (case v of
      PInt i \<Rightarrow> from_unix (i * 1000000)
    | PBool b \<Rightarrow> from_unix (if b then 1000000 else 0)
    | PFloat r (Some i) \<Rightarrow> from_unix (i * 1000000)
    | PFloat r None \<Rightarrow> andThen (float_micros r) from_unix
    | PStr s \<Rightarrow>
        (if s = [] then Inl (LedgerError ''Plex observation has no event timestamp'')
         else case fromisoformat (replace_z s) of
             None \<Rightarrow> Inl (LedgerError ''Plex observation timestamp is malformed'')
           | Some t \<Rightarrow> (case dt_offset t of
               None \<Rightarrow> Inl (LedgerError ''Plex observation timestamp lacks timezone'')
             | Some off \<Rightarrow> utc_text (utc_micros t off)))
    | _ \<Rightarrow> Inl (LedgerError ''Plex observation has no event timestamp''))"

section \<open>Identity evidence\<close>

text \<open>\<open>dict.fromkeys\<close>: duplicates removed, the first occurrence kept.\<close>

fun from_keys :: "string list \<Rightarrow> string list" where
  "from_keys [] = []"
| "from_keys (s # ss) = s # filter (\<lambda>t. t \<noteq> s) (from_keys ss)"

definition guid_of_item :: "pyval \<Rightarrow> string list" where
  "guid_of_item item = (case item of
      PDict d \<Rightarrow> (if truthy (dget d ''id'') then [py_str (dget d ''id'')] else [])
    | PStr s \<Rightarrow> [s]
    | _ \<Rightarrow> [])"

definition payload_guids :: "(pyval \<times> pyval) list \<Rightarrow> string list" where
  "payload_guids metadata =
     (let direct = first_of metadata [''guid'', ''plex_guid''];
          raw = por (por (dget metadata ''Guid'') (dget metadata ''guids'')) (PList [])
      in (if truthy direct then [py_str direct] else []) @
         (case raw of PList items \<Rightarrow> concat (map guid_of_item items) | _ \<Rightarrow> []))"

definition opt_text :: "pyval \<Rightarrow> string option" where
  "opt_text v = (if v = PNone then None else Some (py_str v))"

text \<open>The source's own event id, or one derived from the session, the item and the time.\<close>

definition source_event_of ::
  "(pyval \<times> pyval) list \<Rightarrow> string option \<Rightarrow> string \<Rightarrow> string option" where
  "source_event_of payload rating_key watched_at =
     (case opt_text (first_of payload [''notification_uuid'', ''event_id'', ''history_id'']) of
        Some s \<Rightarrow> Some s
      | None \<Rightarrow>
          (let session = first_of payload [''sessionKey'', ''session_key'', ''session_id'']
           in if session = PNone then None
              else Some (py_str session @ '':'' @
                (case rating_key of Some k \<Rightarrow> (if k = [] then ''unknown'' else k) | None \<Rightarrow> ''unknown'')
                @ '':'' @ watched_at)))"

definition external_guid :: "PlexIdentityEvidence \<Rightarrow> string option" where
  "external_guid ev = (case evd_guids ev of g # _ \<Rightarrow> Some g | [] \<Rightarrow> evd_rating_key ev)"

definition resolved :: "string \<Rightarrow> PlexIdentity option \<Rightarrow> PlexIdentity option" where
  "resolved kind identity = (case identity of
      None \<Rightarrow> None
    | Some i \<Rightarrow> (if id_kind i \<noteq> kind \<or> id_media i \<le> 0 then None else Some i))"

definition to_observation ::
  "string \<Rightarrow> PlexIdentityEvidence \<Rightarrow> string \<Rightarrow> string option \<Rightarrow> PlexIdentity option \<Rightarrow> Observation" where
  "to_observation via ev watched_at sid identity =
     (let kind = evd_kind ev;
          provenance = sdict [(''adapter'', PStr ''plex_tautulli_v0.1''), (''observed_via'', PStr via),
            (''plex_rating_key'', opt_str (evd_rating_key ev)),
            (''plex_guids'', PList (map PStr (evd_guids ev)))]
      in case resolved kind identity of
          None \<Rightarrow> \<lparr>obs_kind = kind, obs_media_id = None, obs_watched_at = watched_at,
             obs_precision = ''exact'', obs_source = ''plex'', obs_provenance = provenance,
             obs_source_event_id = sid, obs_confidence = ''low'', obs_account_scope = ''default'',
             obs_external_media_id = external_guid ev,
             obs_quarantine = Some ''stable_media_identity_unresolved''\<rparr>
        | Some i \<Rightarrow> \<lparr>obs_kind = kind, obs_media_id = Some (id_media i), obs_watched_at = watched_at,
             obs_precision = ''exact'', obs_source = ''plex'', obs_provenance = provenance,
             obs_source_event_id = sid, obs_confidence = ''high'', obs_account_scope = ''default'',
             obs_external_media_id = (if filled (id_external i) then id_external i else external_guid ev),
             obs_quarantine = None\<rparr>)"

definition normalize_metadata ::
  "resolver \<Rightarrow> string \<Rightarrow> (pyval \<times> pyval) list \<Rightarrow> (pyval \<times> pyval) list \<Rightarrow> Observation result" where
  "normalize_metadata resolve via payload metadata =
     (let kind = py_str (por (first_of metadata [''type'', ''media_type'']) (PStr ''''));
          rating_key = opt_text (first_of metadata [''ratingKey'', ''rating_key''])
      in if kind \<noteq> ''movie'' \<and> kind \<noteq> ''episode''
         then Inl (LedgerError ''Plex observation is not a movie or episode'')
         else andThen (observation_time
                (por (first_of payload [''event_at'', ''timestamp'', ''watched_at''])
                   (first_of metadata [''lastViewedAt'', ''last_viewed_at'', ''watched_at''])))
           (\<lambda>watched_at.
             let ev = \<lparr>evd_kind = kind, evd_rating_key = rating_key,
                       evd_guids = from_keys (payload_guids metadata)\<rparr>
             in andThen (resolve ev) (\<lambda>identity.
                  Inr (to_observation via ev watched_at
                         (source_event_of payload rating_key watched_at) identity))))"

definition normalize_plex_observation ::
  "resolver \<Rightarrow> string \<Rightarrow> (pyval \<times> pyval) list \<Rightarrow> Observation result" where
  "normalize_plex_observation resolve via payload =
     (case por (por (dget payload ''Metadata'') (dget payload ''metadata'')) (PDict payload) of
        PDict metadata \<Rightarrow> normalize_metadata resolve via payload metadata
      | _ \<Rightarrow> Inl (LedgerError ''Plex metadata must be an object''))"

section \<open>The TMDb resolver\<close>

text \<open>
  \<open>resolve_tmdb_identity\<close> of \<open>tautulli_reconciliation.py\<close>: \<open>str.isdigit\<close> selects, \<open>int\<close> converts;
  \<open>int\<close> raises on the superscripts that \<open>isdigit\<close> accepts.
\<close>

definition tmdb_match :: "string \<Rightarrow> bool" where
  "tmdb_match guid = (starts_with ''tmdb://'' guid \<and> str_isdigit (drop 7 guid))"

definition resolve_tmdb_identity :: resolver where
  "resolve_tmdb_identity ev = (case from_keys (filter tmdb_match (evd_guids ev)) of
      [guid] \<Rightarrow> (case py_int (drop 7 guid) of
          Some i \<Rightarrow> Inr (Some \<lparr>id_media = i, id_kind = evd_kind ev, id_external = Some guid\<rparr>)
        | None \<Rightarrow> Inl (ValueError ''invalid literal for int()''))
    | _ \<Rightarrow> Inr None)"

section \<open>Facts\<close>

lemma set_from_keys: "set (from_keys ss) = set ss"
  by (induction ss) auto

lemma distinct_from_keys: "distinct (from_keys ss)"
  by (induction ss) auto

lemma from_keys_distinct: "distinct ss \<Longrightarrow> from_keys ss = ss"
  by (induction ss) (auto simp: filter_id_conv)

lemma int_digits_ge: "0 \<le> acc \<Longrightarrow> int_digits acc s = Some i \<Longrightarrow> 0 \<le> i"
  by (induction acc s rule: int_digits.induct) (auto simp: is_dec_def digit_val_def split: if_splits)

lemma resolved_pos: "resolved k i = Some x \<Longrightarrow> 0 < id_media x"
  by (auto simp: resolved_def split: option.splits if_splits)

lemmas eval_vocabularies = MEDIA_KINDS_def PRECISIONS_def SOURCES_def CONFIDENCES_def

lemma to_observation_fields:
  "obs_kind (to_observation via ev at sid identity) = evd_kind ev"
  "obs_source (to_observation via ev at sid identity) = ''plex''"
  "obs_account_scope (to_observation via ev at sid identity) = ''default''"
  "obs_watched_at (to_observation via ev at sid identity) = at"
  "obs_source_event_id (to_observation via ev at sid identity) = sid"
  by (simp_all add: to_observation_def Let_def split: option.split)

lemma to_observation_valid:
  assumes "evd_kind ev = ''movie'' \<or> evd_kind ev = ''episode''"
  shows "validate_observation (to_observation via ev at sid identity) = Inr ()"
proof -
  have k: "evd_kind ev \<in> set MEDIA_KINDS" using assms by (auto simp: MEDIA_KINDS_def)
  show ?thesis
  proof (cases "resolved (evd_kind ev) identity")
    case None
    then show ?thesis
      using k by (simp add: validate_observation_def to_observation_def Let_def filled_def
          PRECISIONS_def SOURCES_def CONFIDENCES_def)
  next
    case (Some i)
    with resolved_pos [OF Some] show ?thesis
      using k by (simp add: validate_observation_def to_observation_def Let_def filled_def
          PRECISIONS_def SOURCES_def CONFIDENCES_def)
  qed
qed

lemma normalize_metadata_Inr:
  assumes "normalize_metadata resolve via payload metadata = Inr obs"
  obtains ev at sid identity where "evd_kind ev = ''movie'' \<or> evd_kind ev = ''episode''"
    "resolve ev = Inr identity" "obs = to_observation via ev at sid identity"
proof -
  define kind where "kind = py_str (por (first_of metadata [''type'', ''media_type'']) (PStr ''''))"
  define key where "key = opt_text (first_of metadata [''ratingKey'', ''rating_key''])"
  define ev where "ev = \<lparr>evd_kind = kind, evd_rating_key = key,
    evd_guids = from_keys (payload_guids metadata)\<rparr>"
  note m = assms [unfolded normalize_metadata_def Let_def, folded kind_def key_def, folded ev_def]
  have k: "kind = ''movie'' \<or> kind = ''episode''" using m by (meson Inl_Inr_False)
  with m obtain at identity where "resolve ev = Inr identity"
    "obs = to_observation via ev at (source_event_of payload key at) identity"
    by (auto simp: andThen_Inr_iff split: if_splits)
  with k show ?thesis by (intro that [of ev]) (simp_all add: ev_def)
qed

lemma normalize_Inr:
  assumes "normalize_plex_observation resolve via payload = Inr obs"
  obtains ev at sid identity where "evd_kind ev = ''movie'' \<or> evd_kind ev = ''episode''"
    "resolve ev = Inr identity" "obs = to_observation via ev at sid identity"
proof -
  from assms obtain metadata where "normalize_metadata resolve via payload metadata = Inr obs"
    by (auto simp: normalize_plex_observation_def split: pyval.splits)
  then show ?thesis by (rule normalize_metadata_Inr) (rule that)
qed

lemma normalize_valid:
  assumes "normalize_plex_observation resolve via payload = Inr obs"
  shows "validate_observation obs = Inr ()" "obs_source obs = ''plex''"
    "obs_account_scope obs = ''default''"
  using normalize_Inr [OF assms] by (metis to_observation_valid to_observation_fields)+

end
