(* ===== verification/Tautulli.thy ===== *)
theory Tautulli
  imports Plex_Observation Ledger_Behaviour
begin

text \<open>
  \<open>tautulli_reconciliation.py\<close>: the cursor, one reconciliation run over a connection, the SQLite
  history source and the Plex metadata lookup. The clock is a sequence of texts, the n-th being
  what the n-th call of \<open>utc_now()\<close> in the run returns; the source's answer, the resolver and the
  hook are arguments.
\<close>

definition CURSOR_KIND :: string where
  "CURSOR_KIND = ''tautulli_history_id''"

definition CURSOR_SOURCE :: string where
  "CURSOR_SOURCE = ''plex''"

record SourceEvent =
  se_position :: int
  se_payload :: "(pyval \<times> pyval) list"

record ReconciliationResult =
  rr_read :: nat
  rr_processed :: nat
  rr_created :: nat
  rr_duplicates :: nat
  rr_quarantined :: nat
  rr_cursor :: int
  rr_failed :: "int option"
  rr_error :: "string option"

section \<open>The cursor\<close>

definition cursor_number :: "pyval \<Rightarrow> int result" where
  "cursor_number v = (case v of
      PDict d \<Rightarrow>
        (if dget d ''kind'' \<noteq> PStr CURSOR_KIND then Inl (ValueError '''')
         else case dlookup ''value'' d of
             None \<Rightarrow> Inl KeyError
           | Some x \<Rightarrow> andThen (int_of x) (\<lambda>i. if i < 0 then Inl (ValueError '''') else Inr i))
    | _ \<Rightarrow> Inl AttributeError)"

definition cursor_value :: "string \<Rightarrow> db \<Rightarrow> int option result" where
  "cursor_value scope d = (case find_cursor CURSOR_SOURCE scope d of
      None \<Rightarrow> Inr None
    | Some r \<Rightarrow> (case (case cu_text r of None \<Rightarrow> Inl (ValueError '''') | Some v \<Rightarrow> cursor_number v) of
        Inr i \<Rightarrow> Inr (Some i)
      | Inl e \<Rightarrow> (if is_value_error e \<or> e = TypeError \<or> e = KeyError
                  then Inl (ReconciliationError ''invalid Tautulli source cursor'') else Inl e)))"

definition cursor_json :: "int \<Rightarrow> json_text" where
  "cursor_json position = Some (sdict [(''kind'', PStr CURSOR_KIND), (''value'', PInt position)])"

definition store_cursor :: "string \<Rightarrow> int \<Rightarrow> string \<Rightarrow> connection \<Rightarrow> connection" where
  "store_cursor scope position now c = snd (with_connection (on_current (\<lambda>d.
     (Inr (), upsert_cursor CURSOR_SOURCE scope
        (\<lambda>r. r\<lparr>cu_text := cursor_json position, cu_success := Some now, cu_error := None\<rparr>) d))) c)"

definition record_cursor_error :: "string \<Rightarrow> string \<Rightarrow> connection \<Rightarrow> connection" where
  "record_cursor_error scope now c = snd (with_connection (on_current (\<lambda>d.
     (Inr (), d\<lparr>cursors := update_rows (is_cursor CURSOR_SOURCE scope)
                             (\<lambda>r. r\<lparr>cu_error := Some now\<rparr>) (cursors d)\<rparr>))) c)"

section \<open>One run\<close>

record run_state =
  rs_conn :: connection
  rs_cursor :: int
  rs_processed :: nat
  rs_created :: nat
  rs_duplicates :: nat
  rs_quarantined :: nat

text \<open>An event the cursor already covers only counts as a duplicate when it is stored.\<close>

definition overlap_id :: "SourceEvent \<Rightarrow> string option" where
  "overlap_id e = opt_text (por (dget (se_payload e) ''history_id'') (dget (se_payload e) ''event_id''))"

definition overlap_known :: "SourceEvent \<Rightarrow> db \<Rightarrow> bool" where
  "overlap_known e d = (case overlap_id e of
      None \<Rightarrow> False
    | Some sid \<Rightarrow> find_row (same_source_event ''plex'' sid) (events d) \<noteq> None)"

definition confirm_overlap :: "SourceEvent \<Rightarrow> run_state \<Rightarrow> run_state" where
  "confirm_overlap e s =
     (if overlap_known e (current (rs_conn s))
      then s\<lparr>rs_processed := rs_processed s + 1, rs_duplicates := rs_duplicates s + 1\<rparr> else s)"

definition tally :: "IngestResult \<Rightarrow> run_state \<Rightarrow> run_state" where
  "tally res s =
     (let s1 = s\<lparr>rs_processed := rs_processed s + 1\<rparr>; st = res_status res in
      if st = ''created'' then s1\<lparr>rs_created := rs_created s + 1\<rparr>
      else if st = ''quarantined'' then s1\<lparr>rs_quarantined := rs_quarantined s + 1\<rparr>
      else if starts_with ''duplicate_'' st \<or> st = ''external_echo_suppressed''
        then s1\<lparr>rs_duplicates := rs_duplicates s + 1\<rparr> else s1)"

type_synonym hook = "SourceEvent \<Rightarrow> IngestResult \<Rightarrow> unit result"

text \<open>The \<open>try\<close> block for a new event: normalise, ingest, call the hook, advance the cursor.\<close>

definition take_event ::
  "(string \<Rightarrow> string) \<Rightarrow> resolver \<Rightarrow> hook \<Rightarrow> string \<Rightarrow> (nat \<Rightarrow> string) \<Rightarrow> nat \<Rightarrow> SourceEvent \<Rightarrow> run_state
   \<Rightarrow> IngestResult result \<times> run_state" where
  "take_event sha resolve hook scope clock n e s =
     (case normalize_plex_observation resolve ''tautulli_reconciliation'' (se_payload e) of
        Inl x \<Rightarrow> (Inl x, s)
      | Inr obs \<Rightarrow> (case ingest_observation sha obs None (clock n) (rs_conn s) of
          (Inl x, c1) \<Rightarrow> (Inl x, s\<lparr>rs_conn := c1\<rparr>)
        | (Inr res, c1) \<Rightarrow> (case hook e res of
            Inl x \<Rightarrow> (Inl x, s\<lparr>rs_conn := c1\<rparr>)
          | Inr _ \<Rightarrow>
             (let k = max (rs_cursor s) (se_position e)
              in (Inr res, s\<lparr>rs_conn := store_cursor scope k (clock (n + 1)) c1, rs_cursor := k\<rparr>)))))"

definition report :: "nat \<Rightarrow> run_state \<Rightarrow> ReconciliationResult" where
  "report n s = \<lparr>rr_read = n, rr_processed = rs_processed s, rr_created = rs_created s,
     rr_duplicates = rs_duplicates s, rr_quarantined = rs_quarantined s, rr_cursor = rs_cursor s,
     rr_failed = None, rr_error = None\<rparr>"

fun take_events ::
  "(string \<Rightarrow> string) \<Rightarrow> resolver \<Rightarrow> hook \<Rightarrow> string \<Rightarrow> (nat \<Rightarrow> string) \<Rightarrow> nat \<Rightarrow> nat \<Rightarrow> SourceEvent list
   \<Rightarrow> run_state \<Rightarrow> ReconciliationResult \<times> run_state" where
  "take_events sha resolve hook scope clock n nread [] s = (report nread s, s)"
| "take_events sha resolve hook scope clock n nread (e # es) s =
     (if se_position e \<le> rs_cursor s
      then take_events sha resolve hook scope clock n nread es (confirm_overlap e s)
      else case take_event sha resolve hook scope clock n e s of
          (Inl x, s1) \<Rightarrow>
            (let s2 = s1\<lparr>rs_conn := record_cursor_error scope (clock (n + 1)) (rs_conn s1)\<rparr>
             in ((report nread s2)\<lparr>rr_failed := Some (se_position e), rr_error := Some (class_name x)\<rparr>, s2))
        | (Inr res, s1) \<Rightarrow>
            take_events sha resolve hook scope clock (n + 2) nread es (tally res s1))"

text \<open>The part before the loop: configuration, cursor, batch.\<close>

definition start_cursor ::
  "string \<Rightarrow> int option \<Rightarrow> string \<Rightarrow> connection \<Rightarrow> int result \<times> connection" where
  "start_cursor scope initial now c = (case cursor_value scope (current c) of
      Inl x \<Rightarrow> (Inl x, c)
    | Inr (Some k) \<Rightarrow> (Inr k, c)
    | Inr None \<Rightarrow> (case initial of
        None \<Rightarrow> (Inl (CursorNotInitialized ''explicit initial watermark required''), c)
      | Some w \<Rightarrow>
          (if w < 0 then (Inl (CursorNotInitialized ''explicit initial watermark required''), c)
           else (Inr w, store_cursor scope w now c))))"

fun adjacent_equal :: "int list \<Rightarrow> bool" where
  "adjacent_equal (a # b # xs) = (a = b \<or> adjacent_equal (b # xs))"
| "adjacent_equal _ = False"

type_synonym event_source = "int \<Rightarrow> int \<Rightarrow> SourceEvent list result"

definition reconcile_tautulli ::
  "(string \<Rightarrow> string) \<Rightarrow> event_source \<Rightarrow> resolver \<Rightarrow> hook \<Rightarrow> string \<Rightarrow> int option \<Rightarrow> int \<Rightarrow> int
   \<Rightarrow> (nat \<Rightarrow> string) \<Rightarrow> connection \<Rightarrow> ReconciliationResult result \<times> connection" where
  "reconcile_tautulli sha read_after resolve hook scope initial overlap limit clock c =
     (if scope = [] \<or> overlap < 0 \<or> limit \<le> 0
      then (Inl (ReconciliationError ''invalid reconciliation configuration''), c)
      else case start_cursor scope initial (clock 0) c of
        (Inl x, c1) \<Rightarrow> (Inl x, c1)
      | (Inr k, c1) \<Rightarrow> (let begin = max 0 (k - overlap) in
          case read_after begin limit of
            Inl x \<Rightarrow> (Inl (ReconciliationError ''Tautulli source read failed''),
                      record_cursor_error scope (clock 1) c1)
          | Inr batch \<Rightarrow> (let es = sort_key se_position batch in
              if \<exists>e\<in>set es. se_position e \<le> begin
              then (Inl (ReconciliationError ''source returned an event outside the requested window''), c1)
              else if adjacent_equal (map se_position es)
              then (Inl (ReconciliationError ''source returned duplicate cursor positions''), c1)
              else (case take_events sha resolve hook scope clock 1 (length es) es
                     \<lparr>rs_conn = c1, rs_cursor = k, rs_processed = 0, rs_created = 0,
                      rs_duplicates = 0, rs_quarantined = 0\<rparr> of
                  (r, s) \<Rightarrow> (Inr r, rs_conn s)))))"

section \<open>The SQLite history source\<close>

text \<open>
  A row of the join of \<open>session_history\<close> and \<open>session_history_metadata\<close>. The completion ratio is a
  fraction; for durations below 2^40 the quotient comparison of the query is the exact one.
\<close>

record history_row =
  hr_id :: int
  hr_user :: string
  hr_rating_key :: pyval
  hr_media_type :: string
  hr_stopped :: "int option"
  hr_view_offset :: int
  hr_duration :: int
  hr_last_viewed :: "int option"
  hr_guid :: "string option"

definition completed :: "int \<times> int \<Rightarrow> history_row \<Rightarrow> bool" where
  "completed ratio r = (snd ratio * hr_view_offset r \<ge> fst ratio * hr_duration r)"

definition selected :: "string \<Rightarrow> int \<times> int \<Rightarrow> int \<Rightarrow> history_row \<Rightarrow> bool" where
  "selected user ratio position r =
     (position < hr_id r \<and> hr_user r = user \<and> hr_media_type r \<in> {''movie'', ''episode''} \<and>
      0 < hr_duration r \<and> completed ratio r)"

definition query_history ::
  "string \<Rightarrow> int \<times> int \<Rightarrow> history_row list \<Rightarrow> int \<Rightarrow> int \<Rightarrow> history_row list" where
  "query_history user ratio rows position limit =
     (let sel = sort_key hr_id (filter (selected user ratio position) rows)
      in if limit < 0 then sel else take (nat limit) sel)"

text \<open>\<open>int(last_viewed_at or stopped)\<close>.\<close>

definition viewed_at :: "history_row \<Rightarrow> int result" where
  "viewed_at r = (case hr_last_viewed r of
      Some i \<Rightarrow> (if i \<noteq> 0 then Inr i else (case hr_stopped r of Some j \<Rightarrow> Inr j | None \<Rightarrow> Inl TypeError))
    | None \<Rightarrow> (case hr_stopped r of Some j \<Rightarrow> Inr j | None \<Rightarrow> Inl TypeError))"

definition row_event ::
  "(string \<Rightarrow> string list result) \<Rightarrow> history_row \<Rightarrow> SourceEvent result" where
  "row_event guid_provider r =
     (let key = py_str (hr_rating_key r) in
      andThen (guid_provider key) (\<lambda>guids. andThen (viewed_at r) (\<lambda>at.
        Inr \<lparr>se_position = hr_id r,
             se_payload = [(PStr ''history_id'', PStr (show_int (hr_id r))), (PStr ''watched_at'', PInt at),
               (PStr ''media_type'', PStr (hr_media_type r)), (PStr ''rating_key'', PStr key),
               (PStr ''guid'', opt_str (hr_guid r)), (PStr ''guids'', PList (map PStr guids))]\<rparr>)))"

definition sqlite_read_after ::
  "string \<Rightarrow> int \<times> int \<Rightarrow> (string \<Rightarrow> string list result) \<Rightarrow> history_row list \<Rightarrow> event_source" where
  "sqlite_read_after user ratio guid_provider rows position limit =
     map_result (row_event guid_provider) (query_history user ratio rows position limit)"

text \<open>\<open>PlexReadOnlyMetadataClient.guids_for\<close>; the fetched document is the argument.\<close>

record plex_media =
  pm_rating_key :: "string option"
  pm_guid :: "string option"
  pm_guids :: "string option list"

definition guids_for :: "(string \<Rightarrow> plex_media option result) \<Rightarrow> string \<Rightarrow> string list result" where
  "guids_for fetch key =
     (if \<not> str_isdigit key then Inl (ReconciliationError ''invalid Plex rating key'')
      else andThen (fetch key) (\<lambda>m. case m of
          None \<Rightarrow> Inl (ReconciliationError ''Plex metadata identity mismatch'')
        | Some media \<Rightarrow>
            (if pm_rating_key media \<noteq> Some key
             then Inl (ReconciliationError ''Plex metadata identity mismatch'')
             else Inr (from_keys (filter (\<lambda>g. g \<noteq> [])
               (map the (filter (\<lambda>g. g \<noteq> None) (pm_guid media # pm_guids media))))))))"

end
