(* ===== verification/Tautulli_Behaviour.thy ===== *)
theory Tautulli_Behaviour
  imports Tautulli
begin

text \<open>
  What a reconciliation run does to the ledger: the stored cursor, the events it adds, and what is
  left when an event fails. A connection without an open transaction sees what is committed.
\<close>

abbreviation settled :: "connection \<Rightarrow> bool" where
  "settled c \<equiv> committed c = current c"

section \<open>The cursor\<close>

lemma find_cursor_upsert:
  assumes "\<And>r. cu_source (f r) = cu_source r \<and> cu_scope (f r) = cu_scope r"
  shows "\<exists>r0. find_cursor src scope (upsert_cursor src scope f d) = Some (f r0)"
proof (cases "find_cursor src scope d")
  case None
  then have "find_row (is_cursor src scope) (cursors d) = None" by (simp add: find_cursor_def)
  moreover have "is_cursor src scope (f \<lparr>cu_source = src, cu_scope = scope, cu_text = None,
      cu_success = None, cu_error = None\<rparr>)"
    by (simp add: is_cursor_def assms)
  ultimately show ?thesis
    using None by (auto simp: upsert_cursor_def find_cursor_def find_row_append)
next
  case (Some r)
  then show ?thesis
    using assms by (auto simp: upsert_cursor_def find_cursor_def find_row_update_same is_cursor_def)
qed

lemma upsert_cursor_frame [simp]:
  "events (upsert_cursor src scope f d) = events d"
  "links (upsert_cursor src scope f d) = links d"
  "deliveries (upsert_cursor src scope f d) = deliveries d"
  by (simp_all add: upsert_cursor_def)

lemma store_cursor_frame [simp]:
  "committed (store_cursor scope k now c) = current (store_cursor scope k now c)"
  "events (current (store_cursor scope k now c)) = events (current c)"
  "deliveries (current (store_cursor scope k now c)) = deliveries (current c)"
  by (simp_all add: store_cursor_def with_connection_def on_current_def commit_def)

lemma cursor_json_value: "0 \<le> k \<Longrightarrow> (case cursor_json k of None \<Rightarrow> Inl x | Some v \<Rightarrow> cursor_number v) = Inr k"
  by (simp add: cursor_json_def sdict_def cursor_number_def dget_def CURSOR_KIND_def)

lemma cursor_value_store:
  assumes "0 \<le> k"
  shows "cursor_value scope (current (store_cursor scope k now c)) = Inr (Some k)"
proof -
  let ?f = "\<lambda>r. r\<lparr>cu_text := cursor_json k, cu_success := Some now, cu_error := None\<rparr>"
  have c: "current (store_cursor scope k now c) = upsert_cursor CURSOR_SOURCE scope ?f (current c)"
    by (simp add: store_cursor_def with_connection_def on_current_def commit_def)
  obtain r0 where "find_cursor CURSOR_SOURCE scope (current (store_cursor scope k now c)) = Some (?f r0)"
    unfolding c using find_cursor_upsert [of ?f CURSOR_SOURCE scope "current c"] by auto
  then show ?thesis by (simp add: cursor_value_def cursor_json_value assms)
qed

lemma cursor_error_frame [simp]:
  "committed (record_cursor_error scope now c) = current (record_cursor_error scope now c)"
  "events (current (record_cursor_error scope now c)) = events (current c)"
  "deliveries (current (record_cursor_error scope now c)) = deliveries (current c)"
  by (simp_all add: record_cursor_error_def with_connection_def on_current_def commit_def)

lemma cursor_value_error [simp]:
  "cursor_value scope (current (record_cursor_error scope now c)) = cursor_value scope (current c)"
proof -
  have "find_cursor CURSOR_SOURCE scope (current (record_cursor_error scope now c)) =
      map_option (\<lambda>r. r\<lparr>cu_error := Some now\<rparr>) (find_cursor CURSOR_SOURCE scope (current c))"
    by (simp add: record_cursor_error_def with_connection_def on_current_def commit_def
        find_cursor_def find_row_update_same is_cursor_def)
  then show ?thesis by (cases "find_cursor CURSOR_SOURCE scope (current c)") (simp_all add: cursor_value_def)
qed

lemma cursor_value_cursors: "cursors d = cursors d' \<Longrightarrow> cursor_value scope d = cursor_value scope d'"
  by (simp add: cursor_value_def find_cursor_def)

lemma cursor_value_nonneg: "cursor_value scope d = Inr (Some k) \<Longrightarrow> 0 \<le> k"
  by (auto simp: cursor_value_def cursor_number_def andThen_Inr_iff
      split: option.splits sum.splits if_splits pyval.splits)

lemma conn_ok_store_cursor: "conn_ok c \<Longrightarrow> conn_ok (store_cursor scope k now c)"
  unfolding store_cursor_def
  by (intro conn_ok_with_connection conn_ok_on_current) (auto simp: conn_ok_def intro: db_ok_upsert_cursor)

lemma db_ok_cursor_error:
  "db_ok d \<Longrightarrow> db_ok (d\<lparr>cursors := update_rows p (\<lambda>r. r\<lparr>cu_error := x\<rparr>) (cursors d)\<rparr>)"
proof -
  assume "db_ok d"
  moreover have "map (\<lambda>r. (cu_source r, cu_scope r)) (update_rows p (\<lambda>r. r\<lparr>cu_error := x\<rparr>) (cursors d)) =
      map (\<lambda>r. (cu_source r, cu_scope r)) (cursors d)"
    by (rule map_update_rows) simp
  ultimately show ?thesis by (simp add: db_ok_def cursors_ok_def)
qed

lemma conn_ok_cursor_error: "conn_ok c \<Longrightarrow> conn_ok (record_cursor_error scope now c)"
  unfolding record_cursor_error_def
  by (intro conn_ok_with_connection conn_ok_on_current) (auto simp: conn_ok_def intro: db_ok_cursor_error)

section \<open>One event\<close>

text \<open>What an ingestion adds, in a form the run's proofs count with.\<close>

lemma ingest_adds:
  assumes "ingest_observation sha obs imported now c = (Inr res, c')"
  obtains new where "events (current c') = events (current c) @ new" "settled c'"
    "length new = (if res_status res = ''created'' \<or> res_status res = ''quarantined'' then 1 else 0)"
    "deliveries (current c') = deliveries (current c)" "cursors (current c') = cursors (current c)"
proof (cases "res_status res = ''created'' \<or> res_status res = ''quarantined''")
  case True
  then have "res_status res \<in> {''created'', ''quarantined''}" by simp
  with ingest_effect_parts(1) [OF assms] obtain e where "events (current c') = events (current c) @ [e]"
    by auto
  with True show ?thesis
    using ingest_effect_parts(2,3) [OF assms] ingest_observation_frame [OF assms] by (intro that [of "[e]"]) auto
next
  case False
  then have "res_status res \<notin> {''created'', ''quarantined''}" by simp
  with ingest_effect_parts(1) [OF assms] have "events (current c') = events (current c)" by (simp only: if_False)
  with False show ?thesis
    using ingest_effect_parts(2,3) [OF assms] ingest_observation_frame [OF assms] by (intro that [of "[]"]) auto
qed

lemma take_event_Inr:
  assumes "take_event sha resolve hook scope clock n e s = (Inr res, s1)"
    and "rs_cursor s < se_position e" "0 \<le> rs_cursor s"
  obtains new where "events (current (rs_conn s1)) = events (current (rs_conn s)) @ new"
    "length new = (if res_status res = ''created'' \<or> res_status res = ''quarantined'' then 1 else 0)"
    "deliveries (current (rs_conn s1)) = deliveries (current (rs_conn s))"
    "settled (rs_conn s1)" "rs_cursor s1 = se_position e"
    "cursor_value scope (current (rs_conn s1)) = Inr (Some (se_position e))"
    "rs_created s1 = rs_created s" "rs_quarantined s1 = rs_quarantined s"
proof -
  from assms(1) obtain obs c1 where i: "ingest_observation sha obs None (clock n) (rs_conn s) = (Inr res, c1)"
    and s1: "s1 = s\<lparr>rs_conn := store_cursor scope (max (rs_cursor s) (se_position e)) (clock (n + 1)) c1,
      rs_cursor := max (rs_cursor s) (se_position e)\<rparr>"
    by (auto simp: take_event_def Let_def split: sum.splits prod.splits)
  from assms(2) have m: "max (rs_cursor s) (se_position e) = se_position e" by simp
  from ingest_adds [OF i] obtain new where "events (current c1) = events (current (rs_conn s)) @ new"
    "length new = (if res_status res = ''created'' \<or> res_status res = ''quarantined'' then 1 else 0)"
    "deliveries (current c1) = deliveries (current (rs_conn s))" by metis
  then show ?thesis
    using assms(2,3) by (intro that [of new]) (simp_all add: s1 m cursor_value_store)
qed

lemma take_event_Inl:
  assumes "take_event sha resolve hook scope clock n e s = (Inl x, s1)"
    and "settled (rs_conn s)"
  obtains new where "events (current (rs_conn s1)) = events (current (rs_conn s)) @ new"
    "length new \<le> 1" "deliveries (current (rs_conn s1)) = deliveries (current (rs_conn s))"
    "settled (rs_conn s1)" "s1 = s\<lparr>rs_conn := rs_conn s1\<rparr>"
    "cursor_value scope (current (rs_conn s1)) = cursor_value scope (current (rs_conn s))"
proof (cases "normalize_plex_observation resolve ''tautulli_reconciliation'' (se_payload e)")
  case (Inl y)
  with assms show ?thesis by (intro that [of "[]"]) (auto simp: take_event_def)
next
  case (Inr obs)
  obtain r c1 where i: "ingest_observation sha obs None (clock n) (rs_conn s) = (r, c1)" by fastforce
  show ?thesis
  proof (cases r)
    case (Inl y)
    with i assms(2) have "c1 = rs_conn s" by (auto dest: ingest_observation_Inl)
    with assms Inr i Inl show ?thesis by (intro that [of "[]"]) (auto simp: take_event_def)
  next
    fix res assume r: "r = Inr res"
    from assms(1) Inr i r have s1: "s1 = s\<lparr>rs_conn := c1\<rparr>"
      by (auto simp: take_event_def Let_def split: sum.splits)
    from ingest_adds [OF i [unfolded r]] obtain new where
      "events (current c1) = events (current (rs_conn s)) @ new" "settled c1" "length new \<le> 1"
      "deliveries (current c1) = deliveries (current (rs_conn s))"
      "cursors (current c1) = cursors (current (rs_conn s))" by (metis (full_types) zero_le_one order_refl)
    then show ?thesis by (intro that [of new]) (auto simp: s1 dest: cursor_value_cursors)
  qed
qed

lemma conn_ok_ingestD:
  "ingest_observation sha obs imported now c = (r, c') \<Longrightarrow> conn_ok c \<Longrightarrow> conn_ok c'"
  using conn_ok_ingest_observation by (metis snd_conv)

lemma conn_ok_take_event:
  "conn_ok (rs_conn s) \<Longrightarrow> conn_ok (rs_conn (snd (take_event sha resolve hook scope clock n e s)))"
  by (auto simp: take_event_def Let_def split: sum.split prod.split
      intro: conn_ok_store_cursor conn_ok_ingestD)

section \<open>The run\<close>

text \<open>The cursor after the events before the first failure.\<close>

definition reached :: "int option \<Rightarrow> int list \<Rightarrow> int \<Rightarrow> int" where
  "reached failed ps k =
     fold max (case failed of None \<Rightarrow> ps | Some p \<Rightarrow> filter (\<lambda>q. q < p) ps) k"

definition run_ok :: "string \<Rightarrow> run_state \<Rightarrow> bool" where
  "run_ok scope s =
     (settled (rs_conn s) \<and> cursor_value scope (current (rs_conn s)) = Inr (Some (rs_cursor s)))"

definition stored :: "run_state \<Rightarrow> nat" where
  "stored s = rs_created s + rs_quarantined s"

lemma tally_frame [simp]:
  "rs_conn (tally res s) = rs_conn s" "rs_cursor (tally res s) = rs_cursor s"
  by (simp_all add: tally_def Let_def)

lemma stored_tally:
  "stored (tally res s) = stored s +
     (if res_status res = ''created'' \<or> res_status res = ''quarantined'' then 1 else 0)"
  by (simp add: tally_def Let_def stored_def)

lemma confirm_frame [simp]:
  "rs_conn (confirm_overlap e s) = rs_conn s" "rs_cursor (confirm_overlap e s) = rs_cursor s"
  "stored (confirm_overlap e s) = stored s"
  by (simp_all add: confirm_overlap_def stored_def)

definition run_effect ::
  "string \<Rightarrow> int list \<Rightarrow> run_state \<Rightarrow> ReconciliationResult \<Rightarrow> run_state \<Rightarrow> bool" where
  "run_effect scope ps s r s' =
     (run_ok scope s' \<and> rr_cursor r = rs_cursor s' \<and>
      rr_cursor r = reached (rr_failed r) ps (rs_cursor s) \<and>
      (\<forall>p. rr_failed r = Some p \<longrightarrow> p \<in> set ps \<and> rr_cursor r < p) \<and>
      deliveries (current (rs_conn s')) = deliveries (current (rs_conn s)) \<and>
      (\<exists>new. events (current (rs_conn s')) = events (current (rs_conn s)) @ new \<and>
         (if rr_failed r = None then rr_created r + rr_quarantined r = stored s + length new
          else stored s + length new \<in> {rr_created r + rr_quarantined r, Suc (rr_created r + rr_quarantined r)}) \<and>
         ((\<forall>p\<in>set ps. p \<le> rs_cursor s) \<longrightarrow> new = [])))"

lemma take_events_effect:
  assumes "take_events sha resolve hook scope clock n nread es s = (r, s')"
    and "sorted_wrt (<) (map se_position es)" "run_ok scope s"
  shows "run_effect scope (map se_position es) s r s'"
  using assms
proof (induction es arbitrary: n s)
  case Nil
  then show ?case by (auto simp: run_effect_def report_def reached_def stored_def)
next
  case (Cons e es)
  note ok = Cons.prems(3)
  show ?case
  proof (cases "se_position e \<le> rs_cursor s")
    case True
    have "run_ok scope (confirm_overlap e s)" using ok by (simp add: run_ok_def)
    with True Cons have "run_effect scope (map se_position es) (confirm_overlap e s) r s'" by simp
    with True show ?thesis
      by (auto simp: run_effect_def reached_def max_absorb2 split: option.splits)
  next
    case False
    obtain t s1 where t: "take_event sha resolve hook scope clock n e s = (t, s1)" by fastforce
    have k0: "0 \<le> rs_cursor s" using ok by (auto simp: run_ok_def dest: cursor_value_nonneg)
    show ?thesis
    proof (cases t)
      case (Inl x)
      let ?s2 = "s1\<lparr>rs_conn := record_cursor_error scope (clock (n + 1)) (rs_conn s1)\<rparr>"
      from Cons.prems(1) False t Inl have r: "r = (report nread ?s2)\<lparr>rr_failed := Some (se_position e),
          rr_error := Some (class_name x)\<rparr>" "s' = ?s2"
        by (auto simp: Let_def)
      from take_event_Inl [OF t [unfolded Inl]] ok obtain new where
        new: "events (current (rs_conn s1)) = events (current (rs_conn s)) @ new" "length new \<le> 1"
        "deliveries (current (rs_conn s1)) = deliveries (current (rs_conn s))"
        and s1: "s1 = s\<lparr>rs_conn := rs_conn s1\<rparr>"
        "cursor_value scope (current (rs_conn s1)) = cursor_value scope (current (rs_conn s))"
        by (metis run_ok_def)
      have same: "rs_cursor s1 = rs_cursor s" "stored s1 = stored s" "rs_created s1 = rs_created s"
        "rs_quarantined s1 = rs_quarantined s"
        by (subst s1(1), simp add: stored_def)+
      have "filter (\<lambda>q. q < se_position e) (map se_position (e # es)) = []"
        using Cons.prems(2) by (auto simp: filter_empty_conv)
      with False new s1(2) same ok show ?thesis
        by (cases new) (auto simp: run_effect_def r report_def reached_def run_ok_def stored_def)
    next
      fix res assume res: "t = Inr res"
      from take_event_Inr [OF t [unfolded res] _ k0] False obtain new where
        new: "events (current (rs_conn s1)) = events (current (rs_conn s)) @ new"
        "length new = (if res_status res = ''created'' \<or> res_status res = ''quarantined'' then 1 else 0)"
        "deliveries (current (rs_conn s1)) = deliveries (current (rs_conn s))"
        and s1: "settled (rs_conn s1)" "rs_cursor s1 = se_position e"
        "cursor_value scope (current (rs_conn s1)) = Inr (Some (se_position e))"
        "rs_created s1 = rs_created s" "rs_quarantined s1 = rs_quarantined s"
        by (metis linorder_not_le)
      have "take_events sha resolve hook scope clock (n + 2) nread es (tally res s1) = (r, s')"
        using Cons.prems(1) False t res by simp
      moreover have "run_ok scope (tally res s1)" using s1 by (simp add: run_ok_def)
      ultimately have eff: "run_effect scope (map se_position es) (tally res s1) r s'"
        using Cons by simp
      have st: "stored (tally res s1) = stored s + length new"
        using s1 by (simp add: stored_tally new(2)) (simp add: stored_def)
      have reach: "rr_cursor r = reached (rr_failed r) (map se_position (e # es)) (rs_cursor s)"
        using eff False s1(2) Cons.prems(2)
        by (auto simp: run_effect_def reached_def max_absorb1 split: option.splits)
      have not_old: "\<not> (\<forall>p\<in>set (map se_position (e # es)). p \<le> rs_cursor s)"
        using False by auto
      from eff obtain new' where "events (current (rs_conn s')) = events (current (rs_conn s1)) @ new'"
        "if rr_failed r = None then rr_created r + rr_quarantined r = stored (tally res s1) + length new'
          else stored (tally res s1) + length new' \<in>
            {rr_created r + rr_quarantined r, Suc (rr_created r + rr_quarantined r)}"
        by (auto simp: run_effect_def)
      then show ?thesis
        unfolding run_effect_def
        using eff reach not_old new(1,3)
        by (intro conjI exI [of _ "new @ new'"])
          (auto simp: run_effect_def st add.assoc split: if_splits)
    qed
  qed
qed

lemma sorted_distinct_adjacent:
  "sorted (map se_position es) \<Longrightarrow> \<not> adjacent_equal (map se_position es) \<Longrightarrow>
   sorted_wrt (<) (map se_position es)"
proof (induction es)
  case (Cons a es)
  then show ?case by (cases es) fastforce+
qed simp

lemma conn_ok_take_events:
  "conn_ok (rs_conn s) \<Longrightarrow>
   conn_ok (rs_conn (snd (take_events sha resolve hook scope clock n nread es s)))"
proof (induction es arbitrary: n s)
  case (Cons e es)
  have "conn_ok (rs_conn (snd (take_event sha resolve hook scope clock n e s)))"
    using Cons.prems by (rule conn_ok_take_event)
  with Cons show ?case by (auto simp: Let_def split: prod.splits sum.splits intro: conn_ok_cursor_error)
qed simp

section \<open>Starting a run\<close>

lemma start_cursor_Inr:
  assumes "start_cursor scope initial now c = (Inr k, c1)" "settled c"
  shows "settled c1 \<and> cursor_value scope (current c1) = Inr (Some k) \<and>
    events (current c1) = events (current c) \<and> deliveries (current c1) = deliveries (current c)"
  using assms
  by (auto simp: start_cursor_def cursor_value_store split: sum.splits option.splits if_splits)

lemma reconcile_Inr:
  assumes "reconcile_tautulli sha read_after resolve hook scope initial overlap limit clock c = (Inr r, c')"
  obtains k c1 batch s where "start_cursor scope initial (clock 0) c = (Inr k, c1)"
    "read_after (max 0 (k - overlap)) limit = Inr batch"
    "sorted_wrt (<) (map se_position (sort_key se_position batch))"
    "take_events sha resolve hook scope clock 1 (length (sort_key se_position batch))
       (sort_key se_position batch) \<lparr>rs_conn = c1, rs_cursor = k, rs_processed = 0, rs_created = 0,
         rs_duplicates = 0, rs_quarantined = 0\<rparr> = (r, s)"
    "c' = rs_conn s"
  using assms sorted_distinct_adjacent [of "sort_key se_position _"]
  by (auto simp: reconcile_tautulli_def Let_def split: if_splits sum.splits prod.splits)

text \<open>What a caller of a run relies on: where the cursor ends, and that a refused run stores nothing.\<close>

lemma reconcile_settles:
  assumes "reconcile_tautulli sha read_after resolve hook scope initial overlap limit clock c = (Inr r, c')" "settled c"
  obtains k batch new where "read_after (max 0 (k - overlap)) limit = Inr batch"
    "cursor_value scope (committed c') = Inr (Some (rr_cursor r))"
    "deliveries (committed c') = deliveries (committed c)" "events (committed c') = events (committed c) @ new"
    "rr_failed r = None \<Longrightarrow> \<forall>e\<in>set batch. se_position e \<le> rr_cursor r"
    "\<And>p. rr_failed r = Some p \<Longrightarrow> p \<in> se_position ` set batch \<and> rr_cursor r < p"
proof -
  from reconcile_Inr [OF assms(1)] obtain k c1 batch s where
    k: "start_cursor scope initial (clock 0) c = (Inr k, c1)" "read_after (max 0 (k - overlap)) limit = Inr batch"
    and srt: "sorted_wrt (<) (map se_position (sort_key se_position batch))"
    and te: "take_events sha resolve hook scope clock 1 (length (sort_key se_position batch))
       (sort_key se_position batch) \<lparr>rs_conn = c1, rs_cursor = k, rs_processed = 0, rs_created = 0,
         rs_duplicates = 0, rs_quarantined = 0\<rparr> = (r, s)"
    and c': "c' = rs_conn s" by metis
  have c1: "settled c1" "events (current c1) = events (committed c)" "deliveries (current c1) = deliveries (committed c)"
    "cursor_value scope (current c1) = Inr (Some k)"
    using start_cursor_Inr [OF k(1) assms(2)] assms(2) by auto
  from take_events_effect [OF te srt] c1
  have eff: "run_effect scope (map se_position (sort_key se_position batch))
      \<lparr>rs_conn = c1, rs_cursor = k, rs_processed = 0, rs_created = 0,
         rs_duplicates = 0, rs_quarantined = 0\<rparr> r s" by (simp add: run_ok_def)
  then obtain new where "events (committed c') = events (committed c) @ new"
    using c1 c' by (auto simp: run_effect_def run_ok_def)
  moreover have "\<forall>e\<in>set batch. se_position e \<le> rr_cursor r" if "rr_failed r = None"
  proof
    fix e assume "e \<in> set batch"
    moreover have "rr_cursor r = Max (insert k (se_position ` set batch))"
      using eff that by (simp add: run_effect_def reached_def Max.set_eq_fold [symmetric])
    ultimately show "se_position e \<le> rr_cursor r" by simp
  qed
  ultimately show ?thesis
    using eff k(2) c' c1 by (intro that [of k batch new]) (auto simp: run_effect_def run_ok_def)
qed

lemma reconcile_refused:
  assumes "reconcile_tautulli sha read_after resolve hook scope initial overlap limit clock c = (Inl e, c')" "settled c"
  shows "events (committed c') = events (committed c) \<and> deliveries (committed c') = deliveries (committed c)"
proof (cases "start_cursor scope initial (clock 0) c")
  case (Pair k c1)
  show ?thesis
  proof (cases k)
    case (Inl x)
    with Pair have "c1 = c" by (auto simp: start_cursor_def split: sum.splits option.splits if_splits)
    with assms(1) Pair Inl show ?thesis by (simp add: reconcile_tautulli_def split: if_splits)
  next
    case (Inr n)
    from start_cursor_Inr [OF Pair [unfolded Inr] assms(2)] assms(2)
    have c1: "settled c1" "events (current c1) = events (committed c)" "deliveries (current c1) = deliveries (committed c)"
      by auto
    have "c' = c \<or> c' = c1 \<or> c' = record_cursor_error scope (clock 1) c1"
      using assms(1) by (simp add: reconcile_tautulli_def Let_def Pair Inr split: if_splits sum.splits prod.splits)
    with c1 show ?thesis by auto
  qed
qed

end
