(* ===== verification/Tautulli_Properties.thy ===== *)
theory Tautulli_Properties
  imports Tautulli_Behaviour Ledger_Properties
begin

text \<open>
  The claims about reconciliation and identity resolution, with a run over a fresh ledger whose
  source returns one film.
\<close>

definition sample_payload :: "(pyval \<times> pyval) list" where
  "sample_payload = [(PStr ''history_id'', PStr ''9''), (PStr ''watched_at'', PInt 1767225600),
     (PStr ''media_type'', PStr ''movie''), (PStr ''rating_key'', PStr ''5''),
     (PStr ''guid'', PStr ''tmdb://7''), (PStr ''guids'', PList [])]"

definition sample_source :: event_source where
  "sample_source position limit = Inr (filter (\<lambda>e. position < se_position e)
     [\<lparr>se_position = 9, se_payload = sample_payload\<rparr>])"

definition quiet :: hook where
  "quiet e res = Inr ()"

definition sample_clock :: "nat \<Rightarrow> string" where
  "sample_clock n = sample_now"

definition sample_run :: "ReconciliationResult result \<times> connection" where
  "sample_run = reconcile_tautulli (\<lambda>s. s) sample_source resolve_tmdb_identity quiet ''plex-main''
     (Some 4) 2 100 sample_clock fresh_connection"

lemma sample_unix: "from_unix 1767225600000000 = Inr ''2026-01-01T00:00:00Z''"
  by (simp add: from_unix_def unix_epoch_def eval_time)

lemma parse_sample_unix:
  "fromisoformat ''2026-01-01T00:00:00+00:00'' = Some \<lparr>dt_date = (2026, 1, 1), dt_hour = 0,
     dt_minute = 0, dt_second = 0, dt_micro = 0, dt_offset = Some 0\<rparr>"
  by code_simp

lemma ledger_sample_unix: "ledger_timestamp ''2026-01-01T00:00:00Z'' = Inr ''2026-01-01T00:00:00Z''"
  by (simp add: ledger_timestamp_def parse_sample_unix eval_time)

lemma sample_resolved: "resolve_tmdb_identity \<lparr>evd_kind = ''movie'', evd_rating_key = Some ''5'',
   evd_guids = [''tmdb://7'']\<rparr> = Inr (Some \<lparr>id_media = 7, id_kind = ''movie'', id_external = Some ''tmdb://7''\<rparr>)"
  by code_simp

lemma sample_normalized:
  "normalize_plex_observation resolve_tmdb_identity ''tautulli_reconciliation'' sample_payload =
   Inr (to_observation ''tautulli_reconciliation'' \<lparr>evd_kind = ''movie'', evd_rating_key = Some ''5'',
     evd_guids = [''tmdb://7'']\<rparr> ''2026-01-01T00:00:00Z'' (Some ''9'')
     (Some \<lparr>id_media = 7, id_kind = ''movie'', id_external = Some ''tmdb://7''\<rparr>))"
  by (simp add: normalize_plex_observation_def normalize_metadata_def sample_payload_def por_def
      Let_def observation_time_def sample_unix opt_text_def payload_guids_def sample_resolved
      source_event_of_def)

lemmas eval_run = reconcile_tautulli_def start_cursor_def cursor_value_def take_event_def
  sample_source_def quiet_def sample_clock_def sample_normalized ledger_sample_unix

lemma sample_run_result: "fst sample_run = Inr \<lparr>rr_read = 1, rr_processed = 1, rr_created = 1,
   rr_duplicates = 0, rr_quarantined = 0, rr_cursor = 9, rr_failed = None, rr_error = None\<rparr>"
  by (simp add: sample_run_def eval_run eval_samples eval_ingest store_cursor_def upsert_cursor_def
      with_connection_def on_current_def is_cursor_def CURSOR_SOURCE_def to_observation_def resolved_def
      opt_str_def tally_def report_def)

lemma sample_run_eq:
  "reconcile_tautulli (\<lambda>s. s) sample_source resolve_tmdb_identity quiet ''plex-main''
     (Some 4) 2 100 sample_clock fresh_connection =
   (Inr \<lparr>rr_read = 1, rr_processed = 1, rr_created = 1, rr_duplicates = 0, rr_quarantined = 0,
      rr_cursor = 9, rr_failed = None, rr_error = None\<rparr>, snd sample_run)"
  using sample_run_result unfolding sample_run_def by (metis prod.collapse)

lemma settled_fresh: "settled fresh_connection"
  by (simp add: eval_samples)

section \<open>A run\<close>

text \<open>C6: A run that returns leaves a stored cursor equal to the one it reports: the old cursor
  advanced over exactly the positions before the first failed event, and the failed position stays
  above it, so that the next run reads that event again.\<close>

theorem reconcile_cursor:
  assumes "reconcile_tautulli sha read_after resolve hook scope initial overlap limit clock c = (Inr r, c')"
    and "committed c = current c"
  shows "\<exists>k c1 batch. start_cursor scope initial (clock 0) c = (Inr k, c1) \<and>
    read_after (max 0 (k - overlap)) limit = Inr batch \<and>
    cursor_value scope (committed c') = Inr (Some (rr_cursor r)) \<and>
    rr_cursor r = Max (insert k {se_position e | e. e \<in> set batch \<and>
      (case rr_failed r of None \<Rightarrow> True | Some p \<Rightarrow> se_position e < p)}) \<and>
    (\<forall>p. rr_failed r = Some p \<longrightarrow> p \<in> se_position ` set batch \<and> rr_cursor r < p)"
proof -
  from reconcile_Inr [OF assms(1)] obtain k c1 batch s where
    k: "start_cursor scope initial (clock 0) c = (Inr k, c1)"
    "read_after (max 0 (k - overlap)) limit = Inr batch"
    and srt: "sorted_wrt (<) (map se_position (sort_key se_position batch))"
    and te: "take_events sha resolve hook scope clock 1 (length (sort_key se_position batch))
       (sort_key se_position batch) \<lparr>rs_conn = c1, rs_cursor = k, rs_processed = 0, rs_created = 0,
         rs_duplicates = 0, rs_quarantined = 0\<rparr> = (r, s)"
    and c': "c' = rs_conn s" by metis
  from start_cursor_Inr [OF k(1) assms(2)] take_events_effect [OF te srt]
  have eff: "run_effect scope (map se_position (sort_key se_position batch))
      \<lparr>rs_conn = c1, rs_cursor = k, rs_processed = 0, rs_created = 0,
         rs_duplicates = 0, rs_quarantined = 0\<rparr> r s" by (simp add: run_ok_def)
  have "reached (rr_failed r) (map se_position (sort_key se_position batch)) k =
      Max (insert k {se_position e | e. e \<in> set batch \<and>
        (case rr_failed r of None \<Rightarrow> True | Some p \<Rightarrow> se_position e < p)})"
    by (cases "rr_failed r")
      (auto simp: reached_def Max.set_eq_fold [symmetric] intro!: arg_cong [where f = Max])
  with eff k c' show ?thesis
    by (intro exI [of _ k] exI [of _ c1] exI [of _ batch]) (auto simp: run_effect_def run_ok_def)
qed

theorem reconcile_cursor_witness:
  "cursor_value ''plex-main'' (committed (snd sample_run)) = Inr (Some 9)"
  using reconcile_cursor [OF sample_run_eq settled_fresh] by auto

text \<open>A run never touches deliveries, only appends watch events, counts each event it stored
  exactly once (one more may be stored when the run stopped at a failure after its ingestion), and
  stores nothing when every position is at or below the cursor: overlap never backfills.\<close>

theorem reconcile_effects:
  assumes "reconcile_tautulli sha read_after resolve hook scope initial overlap limit clock c = (Inr r, c')"
    and "committed c = current c"
  shows "\<exists>k c1 batch new. start_cursor scope initial (clock 0) c = (Inr k, c1) \<and>
    read_after (max 0 (k - overlap)) limit = Inr batch \<and>
    deliveries (current c') = deliveries (current c) \<and>
    events (current c') = events (current c) @ new \<and>
    (rr_failed r = None \<longrightarrow> length new = rr_created r + rr_quarantined r) \<and>
    (rr_failed r \<noteq> None \<longrightarrow>
      length new \<in> {rr_created r + rr_quarantined r, Suc (rr_created r + rr_quarantined r)}) \<and>
    ((\<forall>e\<in>set batch. se_position e \<le> k) \<longrightarrow> new = [])"
proof -
  from reconcile_Inr [OF assms(1)] obtain k c1 batch s where
    k: "start_cursor scope initial (clock 0) c = (Inr k, c1)"
    "read_after (max 0 (k - overlap)) limit = Inr batch"
    and srt: "sorted_wrt (<) (map se_position (sort_key se_position batch))"
    and te: "take_events sha resolve hook scope clock 1 (length (sort_key se_position batch))
       (sort_key se_position batch) \<lparr>rs_conn = c1, rs_cursor = k, rs_processed = 0, rs_created = 0,
         rs_duplicates = 0, rs_quarantined = 0\<rparr> = (r, s)"
    and c': "c' = rs_conn s" by metis
  note start = start_cursor_Inr [OF k(1) assms(2)]
  from start take_events_effect [OF te srt]
  have eff: "run_effect scope (map se_position (sort_key se_position batch))
      \<lparr>rs_conn = c1, rs_cursor = k, rs_processed = 0, rs_created = 0,
         rs_duplicates = 0, rs_quarantined = 0\<rparr> r s" by (simp add: run_ok_def)
  then obtain new where "events (current c') = events (current c1) @ new"
    "if rr_failed r = None then rr_created r + rr_quarantined r = length new
     else length new \<in> {rr_created r + rr_quarantined r, Suc (rr_created r + rr_quarantined r)}"
    "(\<forall>e\<in>set batch. se_position e \<le> k) \<longrightarrow> new = []"
    unfolding run_effect_def c' by (simp add: stored_def cong: if_cong) blast
  with eff start k c' show ?thesis
    by (intro exI [of _ k] exI [of _ c1] exI [of _ batch] exI [of _ new])
      (auto simp: run_effect_def split: if_splits)
qed

theorem reconcile_effects_witness:
  "length (events (current (snd sample_run))) = 1 \<and> deliveries (current (snd sample_run)) = []"
  using reconcile_effects [OF sample_run_eq settled_fresh] by (auto simp: eval_samples)

text \<open>A run, whatever the source, the resolver and the hook answer, keeps the ledger's invariant.\<close>

theorem reconcile_keeps_ledger:
  assumes "conn_ok c"
  shows "conn_ok (snd (reconcile_tautulli sha read_after resolve hook scope initial overlap limit clock c))"
proof -
  have start: "conn_ok (snd (start_cursor scope initial (clock 0) c))"
    using assms by (auto simp: start_cursor_def split: sum.split option.split intro: conn_ok_store_cursor)
  have run: "conn_ok (rs_conn (snd (take_events sha resolve hook scope clock 1 m es
      \<lparr>rs_conn = c1, rs_cursor = k, rs_processed = 0, rs_created = 0, rs_duplicates = 0,
       rs_quarantined = 0\<rparr>)))" if "conn_ok c1" for c1 k m es
    using that by (intro conn_ok_take_events) simp
  obtain t c1 where t: "start_cursor scope initial (clock 0) c = (t, c1)" by fastforce
  with start have c1: "conn_ok c1" by simp
  show ?thesis
    using assms c1 conn_ok_cursor_error [OF c1] run [OF c1]
    by (auto simp: reconcile_tautulli_def t Let_def split: sum.split prod.split) (metis snd_conv)
qed

theorem reconcile_keeps_ledger_witness: "conn_ok (snd sample_run)"
  unfolding sample_run_def
  by (rule reconcile_keeps_ledger)
    (use ledger_reachable_ok [OF ledger_reachable.start] in \<open>simp add: fresh_connection_def\<close>)

section \<open>Restart in the gap\<close>

text \<open>If the process dies after an event was ingested and before the cursor advanced, the next
  run's handling of that event stores nothing again; it names the event stored before and, when the
  hook accepts, moves the cursor onto it.\<close>

theorem gap_restart:
  assumes "normalize_plex_observation resolve ''tautulli_reconciliation'' (se_payload e) = Inr obs"
    and "ingest_observation sha obs None now c = (Inr res, c1)" and "foreign_keys c"
    and "rs_conn s = apply_migrations (rollback c1)" and "0 \<le> rs_cursor s" "rs_cursor s < se_position e"
  shows "\<exists>t s1. take_event sha resolve hook scope clock n e s = (t, s1) \<and>
    events (current (rs_conn s1)) = events (current c1) \<and>
    (\<forall>res'. t = Inr res' \<longrightarrow> res_event_id res' = res_event_id res \<and> rs_cursor s1 = se_position e \<and>
       cursor_value scope (committed (rs_conn s1)) = Inr (Some (se_position e))) \<and>
    ((\<forall>res'. hook e res' = Inr ()) \<longrightarrow> (\<exists>res'. t = Inr res'))"
proof -
  have "settled c1" by (rule ingest_effect_parts(3) [OF assms(2)])
  moreover have "foreign_keys c1" using ingest_observation_frame [OF assms(2)] assms(3) by simp
  ultimately have conn: "rs_conn s = c1"
    by (cases c1) (simp add: assms(4) apply_migrations_def rollback_def commit_def)
  from ingest_again [OF assms(2)] obtain res' where
    again: "ingest_observation sha obs None (clock n) c1 = (Inr res', c1)"
      "res_event_id res' = res_event_id res" by blast
  have m: "max (rs_cursor s) (se_position e) = se_position e" using assms(6) by simp
  show ?thesis
  proof (cases "hook e res'")
    case (Inl x)
    then show ?thesis
      using again by (simp add: take_event_def assms(1) conn) (metis Inl_Inr_False)
  next
    case (Inr u)
    then show ?thesis
      using again assms(5,6) by (simp add: take_event_def assms(1) conn Let_def m cursor_value_store)
  qed
qed

theorem gap_restart_witness:
  "\<exists>obs c1. normalize_plex_observation resolve_tmdb_identity ''tautulli_reconciliation'' sample_payload
      = Inr obs \<and>
    fst (ingest_observation (\<lambda>s. s) obs None sample_now fresh_connection) =
      Inr \<lparr>res_status = ''created'', res_event_id = Some 1, res_outbound = True\<rparr> \<and>
    c1 = snd (ingest_observation (\<lambda>s. s) obs None sample_now fresh_connection) \<and>
    (\<exists>s1 res'. take_event (\<lambda>s. s) resolve_tmdb_identity quiet ''plex-main'' sample_clock 0
      \<lparr>se_position = 9, se_payload = sample_payload\<rparr>
      \<lparr>rs_conn = apply_migrations (rollback c1), rs_cursor = 4, rs_processed = 0, rs_created = 0,
       rs_duplicates = 0, rs_quarantined = 0\<rparr> = (Inr res', s1) \<and> res_event_id res' = Some 1 \<and>
      rs_cursor s1 = 9 \<and> events (current (rs_conn s1)) = events (current c1))"
proof -
  let ?obs = "to_observation ''tautulli_reconciliation'' \<lparr>evd_kind = ''movie'',
     evd_rating_key = Some ''5'', evd_guids = [''tmdb://7'']\<rparr> ''2026-01-01T00:00:00Z'' (Some ''9'')
     (Some \<lparr>id_media = 7, id_kind = ''movie'', id_external = Some ''tmdb://7''\<rparr>)"
  let ?i = "ingest_observation (\<lambda>s. s) ?obs None sample_now fresh_connection"
  have i: "fst ?i = Inr \<lparr>res_status = ''created'', res_event_id = Some 1, res_outbound = True\<rparr>"
    by (simp add: ledger_sample_unix eval_samples eval_ingest is_cursor_def to_observation_def
        resolved_def opt_str_def)
  then have i': "?i = (Inr \<lparr>res_status = ''created'', res_event_id = Some 1, res_outbound = True\<rparr>, snd ?i)"
    by (metis prod.collapse)
  have fk: "foreign_keys fresh_connection" by (simp add: eval_samples)
  let ?s = "\<lparr>rs_conn = apply_migrations (rollback (snd ?i)), rs_cursor = 4, rs_processed = 0,
    rs_created = 0, rs_duplicates = 0, rs_quarantined = 0\<rparr>"
  let ?e = "\<lparr>se_position = 9, se_payload = sample_payload\<rparr>"
  have n: "normalize_plex_observation resolve_tmdb_identity ''tautulli_reconciliation'' (se_payload ?e)
      = Inr ?obs" by (simp add: sample_normalized)
  from gap_restart [OF n i' fk, of ?s quiet "''plex-main''" sample_clock 0] obtain t s1 where
    "take_event (\<lambda>s. s) resolve_tmdb_identity quiet ''plex-main'' sample_clock 0 ?e ?s = (t, s1)"
    "events (current (rs_conn s1)) = events (current (snd ?i))"
    "\<exists>res'. t = Inr res' \<and> res_event_id res' = Some 1 \<and> rs_cursor s1 = 9"
    by (auto simp: quiet_def)
  with i n show ?thesis by (intro exI [of _ ?obs] exI [of _ "snd ?i"]) auto
qed

section \<open>The shared cursor row\<close>

text \<open>Recording a migration boundary for Plex and an account scope stops reconciliation of that
  scope: the two share one cursor row, and every later run refuses it without changing anything.\<close>

theorem boundary_blocks_reconciliation:
  assumes "set_migration_boundary ''plex'' scope maximum at now c = (Inr (), c1)"
    and "0 \<le> overlap" "0 < limit"
  shows "reconcile_tautulli sha read_after resolve hook scope initial overlap limit clock c1 =
    (Inl (ReconciliationError ''invalid Tautulli source cursor''), c1)"
proof -
  let ?f = "\<lambda>r. r\<lparr>cu_text := Some (sdict [(''kind'', PStr ''event_id_lte''), (''value'', PInt maximum)]),
     cu_success := Some (or_now at now)\<rparr>"
  from assms(1) have c1: "current c1 = upsert_cursor CURSOR_SOURCE scope ?f (current c)" and "scope \<noteq> []"
    by (auto simp: set_migration_boundary_def on_current_def CURSOR_SOURCE_def split: if_splits)
  obtain r0 where "find_cursor CURSOR_SOURCE scope (current c1) = Some (?f r0)"
    unfolding c1 using find_cursor_upsert [of ?f CURSOR_SOURCE scope "current c"] by auto
  then have "cursor_value scope (current c1) =
      Inl (ReconciliationError ''invalid Tautulli source cursor'')"
    by (simp add: cursor_value_def cursor_number_def sdict_def dget_def CURSOR_KIND_def)
  with assms \<open>scope \<noteq> []\<close> show ?thesis
    by (simp add: reconcile_tautulli_def start_cursor_def)
qed

theorem boundary_blocks_reconciliation_witness:
  "\<exists>c1. set_migration_boundary ''plex'' ''plex-main'' 40 None sample_now fresh_connection = (Inr (), c1) \<and>
     reconcile_tautulli (\<lambda>s. s) sample_source resolve_tmdb_identity quiet ''plex-main'' None 2 100
       sample_clock c1 = (Inl (ReconciliationError ''invalid Tautulli source cursor''), c1)"
proof -
  have "fst (set_migration_boundary ''plex'' ''plex-main'' 40 None sample_now fresh_connection) = Inr ()"
    by (simp add: set_migration_boundary_def on_current_def SOURCES_def)
  then obtain c1 where
    c1: "set_migration_boundary ''plex'' ''plex-main'' 40 None sample_now fresh_connection = (Inr (), c1)"
    by (metis prod.collapse)
  from boundary_blocks_reconciliation [OF c1, of 2 100] c1 show ?thesis by auto
qed

section \<open>Identity\<close>

lemma digit_not_space: "is_digit c \<Longrightarrow> \<not> is_space c"
  by (auto simp: is_digit_def is_dec_def is_space_def Let_def)

lemma strip_digits: "list_all is_digit s \<Longrightarrow> strip s = s"
proof -
  have id: "dropWhile is_space t = t" if "list_all is_digit t" for t
    using that digit_not_space by (cases t) auto
  assume "list_all is_digit s"
  then have "list_all is_digit (rev s)" by (simp add: list_all_iff)
  with id \<open>list_all is_digit s\<close> show ?thesis by (simp add: strip_def)
qed

lemma int_digits_some:
  "list_all is_digit s \<Longrightarrow> s \<noteq> [] \<Longrightarrow> (int_digits a s = None) = (\<not> list_all is_dec s)"
  by (induction a s rule: int_digits.induct) (auto simp: is_digit_def is_dec_def cp_def)

lemma py_int_digits: "str_isdigit s \<Longrightarrow> (py_int s = None) = (\<not> list_all is_dec s)"
proof -
  assume s: "str_isdigit s"
  then obtain c cs where c: "s = c # cs" "is_digit c" by (cases s) (auto simp: str_isdigit_def)
  from c(2) have "c \<noteq> CHR ''-''" "c \<noteq> CHR ''+''" by (auto simp: is_digit_def is_dec_def cp_def)
  with s c show ?thesis
    using int_digits_some [of s 0] strip_digits [of s] by (simp add: py_int_def str_isdigit_def)
qed

text \<open>The TMDb resolver raises exactly when one distinct GUID matches and its digits are not all
  decimal: \<open>isdigit\<close> accepts superscripts that \<open>int\<close> refuses. Otherwise it resolves that GUID, or
  none when there is none or more than one.\<close>

theorem tmdb_resolution:
  "(\<exists>x. resolve_tmdb_identity ev = Inl x) \<longleftrightarrow>
   (\<exists>g. {h \<in> set (evd_guids ev). tmdb_match h} = {g} \<and> \<not> list_all is_dec (drop 7 g))"
proof -
  let ?m = "from_keys (filter tmdb_match (evd_guids ev))"
  have set_m: "set ?m = {h \<in> set (evd_guids ev). tmdb_match h}" by (auto simp: set_from_keys)
  have dist: "distinct ?m" by (rule distinct_from_keys)
  have one: "set ?m = {g} \<longleftrightarrow> ?m = [g]" for g
    using dist by (cases ?m rule: remdups_adj.cases) auto
  have "(\<exists>x. resolve_tmdb_identity ev = Inl x) \<longleftrightarrow> (\<exists>g. ?m = [g] \<and> py_int (drop 7 g) = None)"
    by (auto simp: resolve_tmdb_identity_def split: list.splits option.splits)
  also have "\<dots> \<longleftrightarrow> (\<exists>g. ?m = [g] \<and> \<not> list_all is_dec (drop 7 g))"
  proof -
    have "tmdb_match g" if "?m = [g]" for g
    proof -
      from that have "set ?m = {g}" by simp
      then show ?thesis unfolding set_m by blast
    qed
    then show ?thesis using py_int_digits by (metis tmdb_match_def)
  qed
  finally show ?thesis by (simp add: one [symmetric] set_m)
qed

section \<open>The history source\<close>

lemma row_events_positions:
  "map_result (row_event gp) rows = Inr batch \<Longrightarrow> map se_position batch = map hr_id rows"
  by (induction rows arbitrary: batch) (auto simp: andThen_Inr_iff row_event_def Let_def)

lemma sorted_take_le:
  assumes "sorted_wrt (<) (xs :: int list)" "x \<in> set xs" "x \<notin> set (take n xs)"
  shows "length (take n xs) = n \<and> (\<forall>y\<in>set (take n xs). y < x)"
proof -
  from assms(2,3) have d: "x \<in> set (drop n xs)"
    by (metis Un_iff append_take_drop_id set_append)
  then have "n < length xs" by (metis drop_all empty_iff empty_set linorder_not_le)
  moreover have "sorted_wrt (<) (take n xs @ drop n xs)" using assms(1) by simp
  then have "\<forall>y\<in>set (take n xs). \<forall>z\<in>set (drop n xs). y < z" unfolding sorted_wrt_append by blast
  ultimately show ?thesis using d by simp
qed

text \<open>The SQLite source keeps the reader's contract: at most \<open>limit\<close> events, strictly ascending and
  all above the requested position, and no qualifying row is passed over: one that is missing lies
  above every returned event of a full batch.\<close>

theorem sqlite_batch:
  assumes "sqlite_read_after user ratio gp rows position limit = Inr batch"
    and "distinct (map hr_id rows)" "0 \<le> limit"
  shows "sorted_wrt (<) (map se_position batch) \<and> (\<forall>e\<in>set batch. position < se_position e) \<and>
    length batch \<le> nat limit \<and>
    (\<forall>r\<in>set rows. selected user ratio position r \<longrightarrow> hr_id r \<in> se_position ` set batch \<or>
       (length batch = nat limit \<and> (\<forall>e\<in>set batch. se_position e < hr_id r)))"
proof -
  let ?sel = "sort_key hr_id (filter (selected user ratio position) rows)"
  have q: "query_history user ratio rows position limit = take (nat limit) ?sel"
    using assms(3) by (simp add: query_history_def Let_def)
  have pos: "map se_position batch = take (nat limit) (map hr_id ?sel)"
    using row_events_positions [OF assms(1) [unfolded sqlite_read_after_def]] by (simp add: q take_map)
  have "distinct (map hr_id ?sel)"
    using assms(2) by (simp add: distinct_map inj_on_def)
  moreover have "sorted (map hr_id ?sel)" by (rule sorted_sort_key)
  ultimately have srt: "sorted_wrt (<) (map hr_id ?sel)" by (simp add: strict_sorted_iff)
  then have "sorted_wrt (<) (map se_position batch)" unfolding pos by (rule sorted_wrt_take)
  moreover have "\<forall>e\<in>set batch. position < se_position e"
  proof
    fix e assume "e \<in> set batch"
    then have "se_position e \<in> set (map se_position batch)" by simp
    then have "se_position e \<in> set (map hr_id ?sel)" unfolding pos by (meson in_set_takeD)
    then show "position < se_position e" by (auto simp: selected_def)
  qed
  moreover have len: "length batch = length (take (nat limit) (map hr_id ?sel))"
    using arg_cong [OF pos, of length] by simp
  moreover have "hr_id r \<in> se_position ` set batch \<or>
      (length batch = nat limit \<and> (\<forall>e\<in>set batch. se_position e < hr_id r))"
    if "r \<in> set rows" "selected user ratio position r" for r
  proof (cases "hr_id r \<in> set (map se_position batch)")
    case False
    have "hr_id r \<in> set (map hr_id ?sel)" using that by auto
    from sorted_take_le [OF srt this False [unfolded pos]] show ?thesis
      unfolding len pos [symmetric] by simp
  qed simp
  ultimately show ?thesis by auto
qed

definition sample_row :: "int \<Rightarrow> history_row" where
  "sample_row i = \<lparr>hr_id = i, hr_user = ''u'', hr_rating_key = PInt 5, hr_media_type = ''movie'',
     hr_stopped = Some 1767225600, hr_view_offset = 95, hr_duration = 100, hr_last_viewed = None,
     hr_guid = None\<rparr>"

theorem sqlite_batch_witness:
  "\<exists>batch. sqlite_read_after ''u'' (9, 10) (\<lambda>key. Inr [])
     [sample_row 12, sample_row 9, sample_row 3] 4 1 = Inr batch \<and> map se_position batch = [9] \<and>
     (\<forall>r\<in>{sample_row 12, sample_row 9, sample_row 3}. selected ''u'' (9, 10) 4 r \<longrightarrow>
       hr_id r \<in> se_position ` set batch \<or> (\<forall>e\<in>set batch. se_position e < hr_id r))"
proof -
  have q: "query_history ''u'' (9, 10) [sample_row 12, sample_row 9, sample_row 3] 4 1 = [sample_row 9]"
    by (simp add: query_history_def selected_def completed_def sample_row_def Let_def)
  obtain e where e: "row_event (\<lambda>key. Inr []) (sample_row 9) = Inr e" "se_position e = 9"
    by (simp add: row_event_def sample_row_def viewed_at_def Let_def)
  have b: "sqlite_read_after ''u'' (9, 10) (\<lambda>key. Inr [])
      [sample_row 12, sample_row 9, sample_row 3] 4 1 = Inr [e]"
    by (simp add: sqlite_read_after_def q e)
  from sqlite_batch [OF b] have "\<forall>r\<in>{sample_row 12, sample_row 9, sample_row 3}.
      selected ''u'' (9, 10) 4 r \<longrightarrow>
       hr_id r \<in> se_position ` set [e] \<or> (\<forall>e\<in>set [e]. se_position e < hr_id r)"
    by (auto simp: sample_row_def)
  with b e show ?thesis by (intro exI [of _ "[e]"]) auto
qed

end
