(* ===== verification/Py_Json.thy ===== *)
theory Py_Json
  imports Py_Value
begin

text \<open>
  \<open>json.loads\<close> from the document's structure on. A document is its size in bytes and the tree its
  text spells out, with repeated keys and the constants \<open>NaN\<close> and \<open>Infinity\<close> still visible, because
  the program's hooks act on them. \<open>JStop\<close> marks the point where the decoder itself gives up
  (malformed text or encoding: \<open>ValueError\<close>; nesting: \<open>RecursionError\<close>). Values are decoded in text
  order; the pairs hook runs when an object closes.
\<close>

datatype json =
    JNull
  | JBool bool
  | JInt int
  | JFloat string "int option"
  | JConst string
  | JStr string
  | JArr "json list"
  | JObj "(string \<times> json) list"
  | JStop exn

record doc =
  doc_size :: nat
  doc_tree :: json

text \<open>
  The hooks: what a repeated key raises (\<open>None\<close>: the last value wins, in the place of the first)
  and what a constant raises (\<open>None\<close>: it becomes a float).
\<close>

definition build_object ::
  "exn option \<Rightarrow> (string \<times> pyval) list \<Rightarrow> pyval result" where
  "build_object dup kvs = (case dup of
      Some e \<Rightarrow> (if distinct (map fst kvs) then Inr (sdict kvs) else Inl e)
    | None \<Rightarrow> Inr (sdict (fold (\<lambda>(k, v). dict_set k v) kvs [])))"

function (sequential) loads :: "exn option \<Rightarrow> exn option \<Rightarrow> json \<Rightarrow> pyval result"
  and loads_list :: "exn option \<Rightarrow> exn option \<Rightarrow> json list \<Rightarrow> pyval list result"
  and loads_pairs :: "exn option \<Rightarrow> exn option \<Rightarrow> (string \<times> json) list \<Rightarrow> (string \<times> pyval) list result"
  where
  "loads dup con JNull = Inr PNone"
| "loads dup con (JBool b) = Inr (PBool b)"
| "loads dup con (JInt i) = Inr (PInt i)"
| "loads dup con (JFloat r n) = Inr (PFloat r n)"
| "loads dup con (JConst c) = (case con of Some e \<Rightarrow> Inl e | None \<Rightarrow> Inr (PFloat c None))"
| "loads dup con (JStr s) = Inr (PStr s)"
| "loads dup con (JArr xs) = andThen (loads_list dup con xs) (\<lambda>vs. Inr (PList vs))"
| "loads dup con (JObj kvs) = andThen (loads_pairs dup con kvs) (build_object dup)"
| "loads dup con (JStop e) = Inl e"
| "loads_list dup con [] = Inr []"
| "loads_list dup con (x # xs) =
     andThen (loads dup con x) (\<lambda>v. andThen (loads_list dup con xs) (\<lambda>vs. Inr (v # vs)))"
| "loads_pairs dup con [] = Inr []"
| "loads_pairs dup con ((k, x) # kvs) =
     andThen (loads dup con x) (\<lambda>v. andThen (loads_pairs dup con kvs) (\<lambda>vs. Inr ((k, v) # vs)))"
  by pat_completeness auto
termination
  by (relation "measure (\<lambda>x. case x of
        Inl (_, _, j) \<Rightarrow> size j
      | Inr (Inl (_, _, js)) \<Rightarrow> size_list size js
      | Inr (Inr (_, _, kvs)) \<Rightarrow> size_list (size_prod (\<lambda>_. 0) size) kvs)") auto

text \<open>
  The tree of what \<open>json.dumps(..., sort_keys=True)\<close> writes: items in key order. A value that is
  not JSON has no tree.
\<close>

fun insert_key :: "string \<Rightarrow> 'a \<Rightarrow> (string \<times> 'a) list \<Rightarrow> (string \<times> 'a) list" where
  "insert_key k v [] = [(k, v)]"
| "insert_key k v ((a, b) # kvs) =
     (if k \<le> a then (k, v) # (a, b) # kvs else (a, b) # insert_key k v kvs)"

function (sequential) tree_of :: "pyval \<Rightarrow> json option"
  and tree_list :: "pyval list \<Rightarrow> json list option"
  and tree_items :: "(pyval \<times> pyval) list \<Rightarrow> (string \<times> json) list option" where
  "tree_of PNone = Some JNull"
| "tree_of (PBool b) = Some (JBool b)"
| "tree_of (PInt i) = Some (JInt i)"
| "tree_of (PFloat r n) = Some (JFloat r n)"
| "tree_of (PStr s) = Some (JStr s)"
| "tree_of (PDate _ _ _) = None"
| "tree_of (PDateTime _ _) = None"
| "tree_of (PList vs) = map_option JArr (tree_list vs)"
| "tree_of (PDict kvs) = map_option JObj (tree_items kvs)"
| "tree_list [] = Some []"
| "tree_list (v # vs) = (case tree_of v of None \<Rightarrow> None | Some t \<Rightarrow> map_option (\<lambda>ts. t # ts) (tree_list vs))"
| "tree_items [] = Some []"
| "tree_items ((k, v) # kvs) = (case (k, tree_of v, tree_items kvs) of
     (PStr s, Some t, Some its) \<Rightarrow> Some (insert_key s t its) | _ \<Rightarrow> None)"
  by pat_completeness auto
termination
  by (relation "measure (case_sum size (case_sum (size_list size) (size_list (size_prod size size))))") auto

text \<open>The document of \<open>json.dumps(value, sort_keys=True, separators=(',', ':'), ensure_ascii=True)\<close>.\<close>

definition encoded_doc :: "pyval \<Rightarrow> doc result" where
  "encoded_doc v = (case (json_dumps True v, tree_of v) of
      (Some text, Some t) \<Rightarrow> Inr \<lparr>doc_size = length text, doc_tree = t\<rparr>
    | _ \<Rightarrow> Inl TypeError)"

section \<open>Dynamic operations\<close>

text \<open>\<open>v[k]\<close>, hashability, \<open>set(v)\<close>, iteration, and comparison with a set of names.\<close>

definition str_val :: "pyval \<Rightarrow> string" where
  "str_val v = (case v of PStr s \<Rightarrow> s | _ \<Rightarrow> [])"

definition subscript :: "pyval \<Rightarrow> string \<Rightarrow> pyval result" where
  "subscript v k = (case v of
      PDict d \<Rightarrow> (case dlookup k d of Some x \<Rightarrow> Inr x | None \<Rightarrow> Inl KeyError)
    | _ \<Rightarrow> Inl TypeError)"

definition hashable :: "pyval \<Rightarrow> bool" where
  "hashable v = (\<not> is_list v \<and> \<not> is_dict v)"

text \<open>\<open>set(v)\<close> as a list.\<close>

definition members :: "pyval \<Rightarrow> pyval list result" where
  "members v = (case v of
      PDict d \<Rightarrow> Inr (map fst d)
    | PList vs \<Rightarrow> (if list_all hashable vs then Inr vs else Inl TypeError)
    | PStr s \<Rightarrow> Inr (map (\<lambda>c. PStr [c]) s)
    | _ \<Rightarrow> Inl TypeError)"

definition same_set :: "pyval list \<Rightarrow> string list \<Rightarrow> bool" where
  "same_set vs names =
     (list_all (\<lambda>v. is_str v \<and> str_val v \<in> set names) vs \<and> list_all (\<lambda>n. PStr n \<in> set vs) names)"

definition iterate :: "pyval \<Rightarrow> pyval list result" where
  "iterate v = (case v of
      PDict d \<Rightarrow> Inr (map fst d)
    | PList vs \<Rightarrow> Inr vs
    | PStr s \<Rightarrow> Inr (map (\<lambda>c. PStr [c]) s)
    | _ \<Rightarrow> Inl TypeError)"

text \<open>\<open>v in names\<close> for a set of names.\<close>

definition in_names :: "string list \<Rightarrow> pyval \<Rightarrow> bool result" where
  "in_names names v = (if hashable v then Inr (v \<in> PStr ` set names) else Inl TypeError)"

text \<open>
  \<open>json.dumps(value)\<close> with the default separators and no sorting; \<open>None\<close> is the \<open>TypeError\<close>.
\<close>

function (sequential) json_default :: "pyval \<Rightarrow> string option"
  and default_list :: "pyval list \<Rightarrow> string list option"
  and default_items :: "(pyval \<times> pyval) list \<Rightarrow> string list option" where
  "json_default PNone = Some ''null''"
| "json_default (PBool b) = Some (if b then ''true'' else ''false'')"
| "json_default (PInt i) = Some (show_int i)"
| "json_default (PFloat r _) = Some r"
| "json_default (PStr s) = Some (json_str True s)"
| "json_default (PDate _ _ _) = None"
| "json_default (PDateTime _ _) = None"
| "json_default (PList vs) = map_option (\<lambda>ss. ''['' @ join '', '' ss @ '']'') (default_list vs)"
| "json_default (PDict kvs) = map_option (\<lambda>ss. ''{'' @ join '', '' ss @ ''}'') (default_items kvs)"
| "default_list [] = Some []"
| "default_list (v # vs) =
     (case json_default v of None \<Rightarrow> None | Some t \<Rightarrow> map_option (\<lambda>ts. t # ts) (default_list vs))"
| "default_items [] = Some []"
| "default_items ((k, v) # kvs) =
     (case (k, json_default v, default_items kvs) of
        (PStr s, Some t, Some ts) \<Rightarrow> Some ((json_str True s @ '': '' @ t) # ts)
      | _ \<Rightarrow> None)"
  by pat_completeness auto
termination
  by (relation "measure (case_sum size (case_sum (size_list size) (size_list (size_prod size size))))") auto

section \<open>Canonical values\<close>

text \<open>A value read back from its encoding: the same value with every object in key order.\<close>

function (sequential) canon :: "pyval \<Rightarrow> pyval"
  and canon_list :: "pyval list \<Rightarrow> pyval list"
  and canon_items :: "(pyval \<times> pyval) list \<Rightarrow> (string \<times> pyval) list" where
  "canon (PList vs) = PList (canon_list vs)"
| "canon (PDict kvs) = sdict (canon_items kvs)"
| "canon v = v"
| "canon_list [] = []"
| "canon_list (v # vs) = canon v # canon_list vs"
| "canon_items [] = []"
| "canon_items ((k, v) # kvs) = (case k of
     PStr s \<Rightarrow> insert_key s (canon v) (canon_items kvs) | _ \<Rightarrow> canon_items kvs)"
  by pat_completeness auto
termination
  by (relation "measure (case_sum size (case_sum (size_list size) (size_list (size_prod size size))))") auto

text \<open>Every object has distinct string keys, as decoded objects have.\<close>

function (sequential) uniq :: "pyval \<Rightarrow> bool"
  and uniq_list :: "pyval list \<Rightarrow> bool"
  and uniq_items :: "(pyval \<times> pyval) list \<Rightarrow> bool" where
  "uniq (PList vs) = uniq_list vs"
| "uniq (PDict kvs) = (list_all is_str (map fst kvs) \<and> distinct (map fst kvs) \<and> uniq_items kvs)"
| "uniq v = True"
| "uniq_list [] = True"
| "uniq_list (v # vs) = (uniq v \<and> uniq_list vs)"
| "uniq_items [] = True"
| "uniq_items ((k, v) # kvs) = (uniq v \<and> uniq_items kvs)"
  by pat_completeness auto
termination
  by (relation "measure (case_sum size (case_sum (size_list size) (size_list (size_prod size size))))") auto

lemma set_insert_key [simp]: "set (map fst (insert_key k v kvs)) = insert k (set (map fst kvs))"
  by (induction k v kvs rule: insert_key.induct) auto

lemma items_insert_key: "set (insert_key k v kvs) = insert (k, v) (set kvs)"
  by (induction k v kvs rule: insert_key.induct) auto

lemma distinct_insert_key:
  "distinct (map fst (insert_key k v kvs)) = (k \<notin> set (map fst kvs) \<and> distinct (map fst kvs))"
proof (induction k v kvs rule: insert_key.induct)
  case (2 k v a b kvs)
  then show ?case using set_insert_key [of k v kvs] by (auto simp del: set_insert_key set_map)
qed simp

lemma sorted_insert_key: "sorted (map fst kvs) \<Longrightarrow> sorted (map fst (insert_key k v kvs))"
proof (induction k v kvs rule: insert_key.induct)
  case (2 k v a b kvs)
  then show ?case using set_insert_key [of k v kvs] by (auto simp del: set_insert_key set_map)
qed simp

lemma map_of_insert_key:
  "k \<notin> set (map fst kvs) \<Longrightarrow> map_of (insert_key k v kvs) = (map_of kvs)(k \<mapsto> v)"
  by (induction k v kvs rule: insert_key.induct) (auto simp: fun_eq_iff)

lemma insert_item_insert_key: "insert_item k v kvs = insert_key k v kvs"
  by (induction k v kvs rule: insert_key.induct) auto

lemma map_insert_key: "map (\<lambda>(k, v). (k, f v)) (insert_key k v kvs) = insert_key k (f v) (map (\<lambda>(k, v). (k, f v)) kvs)"
  by (induction k v kvs rule: insert_key.induct) auto

lemma insert_key_front:
  "\<forall>a\<in>set (map fst kvs). k < a \<Longrightarrow> insert_key k v kvs = (k, v) # kvs"
  by (cases kvs) (auto split: prod.splits)

text \<open>Two association lists in key order with the same items and no key twice are equal.\<close>

lemma sorted_items_unique:
  assumes "sorted (map fst xs)" "distinct (map fst xs)" "sorted (map fst ys)" "distinct (map fst ys)"
    and "set xs = set ys"
  shows "xs = ys"
  using assms by (intro map_sorted_distinct_set_unique [of fst]) (auto simp: distinct_map intro: inj_on_subset)

lemma insert_key_commute:
  assumes "sorted (map fst kvs)" "distinct (map fst kvs)" "j \<noteq> k" "j \<notin> set (map fst kvs)" "k \<notin> set (map fst kvs)"
  shows "insert_key j u (insert_key k v kvs) = insert_key k v (insert_key j u kvs)"
proof (rule sorted_items_unique)
  show "sorted (map fst (insert_key j u (insert_key k v kvs)))" "sorted (map fst (insert_key k v (insert_key j u kvs)))"
    by (simp_all only: sorted_insert_key assms)
  show "distinct (map fst (insert_key j u (insert_key k v kvs)))"
    "distinct (map fst (insert_key k v (insert_key j u kvs)))"
    using assms set_insert_key [of k v kvs] set_insert_key [of j u kvs]
    by (auto simp: distinct_insert_key simp del: set_insert_key set_map)
  show "set (insert_key j u (insert_key k v kvs)) = set (insert_key k v (insert_key j u kvs))"
    by (auto simp: items_insert_key)
qed

lemma dlookup_sdict' [simp]:
  "sdict kvs = PDict d \<Longrightarrow> dlookup k d = map_of kvs k"
  using dlookup_sdict by (auto simp: sdict_def)

lemma loads_pairs_keys: "loads_pairs dup con kvs = Inr vs \<Longrightarrow> map fst vs = map fst kvs"
  by (induction kvs arbitrary: vs) (auto simp: andThen_Inr_iff)

section \<open>Decoding what was encoded\<close>

lemma loads_pairs_insert:
  "loads dup con t = Inr v \<Longrightarrow> loads_pairs dup con its = Inr vs \<Longrightarrow>
   loads_pairs dup con (insert_key k t its) = Inr (insert_key k v vs)"
  by (induction k t its arbitrary: vs rule: insert_key.induct) (auto simp: andThen_Inr_iff)

lemma canon_items_keys: "list_all is_str (map fst kvs) \<Longrightarrow> PStr ` set (map fst (canon_items kvs)) = set (map fst kvs)"
proof (induction kvs)
  case (Cons p kvs)
  obtain k v where p: "p = (k, v)" by (cases p)
  with Cons.prems obtain s where k: "k = PStr s" by (cases k) auto
  from Cons p k show ?case using set_insert_key [of s "canon v" "canon_items kvs"] by (auto simp del: set_insert_key set_map)
qed simp

lemma canon_items_distinct:
  "list_all is_str (map fst kvs) \<Longrightarrow> distinct (map fst kvs) \<Longrightarrow> distinct (map fst (canon_items kvs))"
proof (induction kvs)
  case (Cons p kvs)
  obtain k v where p: "p = (k, v)" by (cases p)
  with Cons.prems obtain s where k: "k = PStr s" by (cases k) auto
  have "PStr ` set (map fst (canon_items kvs)) = set (map fst kvs)"
    using Cons.prems canon_items_keys [of kvs] by simp
  with Cons.prems p k have "s \<notin> set (map fst (canon_items kvs))" by auto
  with Cons p k show ?case by (simp add: distinct_insert_key del: set_map)
qed simp

lemma canon_items_sorted: "sorted (map fst (canon_items kvs))"
proof (induction kvs)
  case (Cons p kvs)
  obtain k v where p: "p = (k, v)" by (cases p)
  from Cons show ?case by (cases k) (simp_all add: p sorted_insert_key)
qed simp

lemma loads_tree_of_all:
  "uniq v \<Longrightarrow> tree_of v = Some t \<Longrightarrow> loads (Some e) con t = Inr (canon v)"
  "uniq_list vs \<Longrightarrow> tree_list vs = Some ts \<Longrightarrow> loads_list (Some e) con ts = Inr (canon_list vs)"
  "uniq_items kvs \<Longrightarrow> tree_items kvs = Some its \<Longrightarrow> loads_pairs (Some e) con its = Inr (canon_items kvs)"
proof (induction v and vs and kvs arbitrary: t and ts and its rule: canon_canon_list_canon_items.induct)
  case (2 kvs)
  then obtain its where its: "t = JObj its" "tree_items kvs = Some its" by auto
  with 2 have "loads_pairs (Some e) con its = Inr (canon_items kvs)" by simp
  with its 2 canon_items_distinct [of kvs] show ?case by (simp add: build_object_def)
next
  case (7 k v kvs)
  then obtain s t1 its1 where "k = PStr s" "tree_of v = Some t1" "tree_items kvs = Some its1"
    "its = insert_key s t1 its1"
    by (auto split: pyval.splits option.splits)
  with 7 show ?case by (auto intro: loads_pairs_insert)
qed (auto split: option.splits)

lemmas loads_tree_of = loads_tree_of_all(1)

section \<open>Encoding canonical values\<close>

text \<open>Items of the encoder as an insertion sort over the items in their order.\<close>

lemma json_items_keys:
  "json_items a kvs = Some its \<Longrightarrow> list_all is_str (map fst kvs) \<and> PStr ` set (map fst its) = set (map fst kvs)"
proof (induction kvs arbitrary: its)
  case (Cons p kvs)
  obtain k v where p: "p = (k, v)" by (cases p)
  with Cons.prems obtain s t its1 where k: "k = PStr s" "json_items a kvs = Some its1" "its = insert_key s t its1"
    by (auto split: pyval.splits option.splits simp: insert_item_insert_key)
  with Cons.IH p show ?case using set_insert_key [of s t its1] by (auto simp del: set_insert_key set_map)
qed simp

lemma json_items_sorted: "json_items a kvs = Some its \<Longrightarrow> sorted (map fst its)"
proof (induction kvs arbitrary: its)
  case (Cons p kvs)
  then show ?case
    by (cases p) (auto split: pyval.splits option.splits simp: insert_item_insert_key intro: sorted_insert_key)
qed simp

lemma json_items_distinct:
  "json_items a kvs = Some its \<Longrightarrow> distinct (map fst kvs) \<Longrightarrow> distinct (map fst its)"
proof (induction kvs arbitrary: its)
  case (Cons p kvs)
  obtain k v where p: "p = (k, v)" by (cases p)
  with Cons.prems obtain s t its1 where k: "k = PStr s" "json_items a kvs = Some its1" "its = insert_key s t its1"
    by (auto split: pyval.splits option.splits simp: insert_item_insert_key)
  have "s \<notin> set (map fst its1)" using json_items_keys [OF k(2)] Cons.prems(2) p k(1) by auto
  with k Cons.IH [OF k(2)] Cons.prems(2) p show ?case by (simp add: distinct_insert_key del: set_map)
qed simp

lemma keys_pairs: "map fst (map (\<lambda>(k, v). (PStr k, v)) kvs) = map PStr (map fst kvs)"
  by (induction kvs) auto

lemma canon_items_fresh:
  assumes "list_all is_str (map fst kvs)" "PStr s \<notin> set (map fst kvs)"
  shows "s \<notin> set (map fst (canon_items kvs))"
proof
  assume "s \<in> set (map fst (canon_items kvs))"
  then have "PStr s \<in> PStr ` set (map fst (canon_items kvs))" by (rule imageI)
  with canon_items_keys [OF assms(1)] assms(2) show False by simp
qed

lemma json_items_insert:
  assumes "json_dumps a v = Some t" "json_items a (map (\<lambda>(k, v). (PStr k, v)) kvs) = Some its"
    and "sorted (map fst kvs)" "distinct (map fst kvs)" "s \<notin> set (map fst kvs)"
  shows "json_items a (map (\<lambda>(k, v). (PStr k, v)) (insert_key s v kvs)) = Some (insert_key s t its)"
  using assms
proof (induction s v kvs arbitrary: its rule: insert_key.induct)
  case (2 s v b x kvs)
  then obtain tx its1 where x: "json_dumps a x = Some tx"
    "json_items a (map (\<lambda>(k, v). (PStr k, v)) kvs) = Some its1" "its = insert_key b tx its1"
    by (auto split: option.splits simp: insert_item_insert_key)
  show ?case
  proof (cases "s \<le> b")
    case True
    with 2 x show ?thesis by (simp add: insert_item_insert_key)
  next
    case False
    have "PStr ` set (map fst its1) = PStr ` set (map fst kvs)"
      using json_items_keys [OF x(2)] unfolding keys_pairs by (simp add: image_image)
    then have keys: "set (map fst its1) = set (map fst kvs)"
      by (simp add: inj_image_eq_iff inj_on_def)
    have "json_items a (map (\<lambda>(k, v). (PStr k, v)) (insert_key s v kvs)) = Some (insert_key s t its1)"
      using 2 False x by auto
    then have "json_items a (map (\<lambda>(k, v). (PStr k, v)) (insert_key s v ((b, x) # kvs))) =
        Some (insert_key b tx (insert_key s t its1))"
      using False x by (simp add: insert_item_insert_key)
    moreover have "insert_key b tx (insert_key s t its1) = insert_key s t (insert_key b tx its1)"
    proof (rule insert_key_commute)
      show "distinct (map fst its1)"
        using json_items_distinct [OF x(2)] 2(5) unfolding keys_pairs by (simp add: distinct_map inj_on_def)
    qed (use json_items_sorted [OF x(2)] 2(5,6) keys in auto)
    ultimately show ?thesis using x by simp
  qed
qed (simp add: insert_item_insert_key)

lemma json_dumps_canon_all:
  "uniq v \<Longrightarrow> json_dumps a v = Some t \<Longrightarrow> json_dumps a (canon v) = Some t"
  "uniq_list vs \<Longrightarrow> json_list a vs = Some ts \<Longrightarrow> json_list a (canon_list vs) = Some ts"
  "list_all is_str (map fst kvs) \<Longrightarrow> distinct (map fst kvs) \<Longrightarrow> uniq_items kvs \<Longrightarrow> json_items a kvs = Some its \<Longrightarrow>
   json_items a (map (\<lambda>(k, v). (PStr k, v)) (canon_items kvs)) = Some its"
proof (induction v and vs and kvs arbitrary: t and ts and its rule: canon_canon_list_canon_items.induct)
  case (7 k v kvs)
  then obtain s t1 its1 where k: "k = PStr s" "json_dumps a v = Some t1" "json_items a kvs = Some its1"
    "its = insert_key s t1 its1"
    by (auto split: pyval.splits option.splits simp: insert_item_insert_key)
  have "s \<notin> set (map fst (canon_items kvs))"
    by (rule canon_items_fresh) (use "7.prems" k(1) in auto)
  with 7 k canon_items_sorted canon_items_distinct [of kvs] show ?case
    by (auto intro: json_items_insert)
qed (auto split: option.splits simp: sdict_def)

lemma json_dumps_canon: "uniq v \<Longrightarrow> json_dumps a v = Some t \<Longrightarrow> json_dumps a (canon v) = Some t"
  by (rule json_dumps_canon_all)

text \<open>Lookups survive.\<close>

lemma map_of_canon_items:
  "list_all is_str (map fst kvs) \<Longrightarrow> distinct (map fst kvs) \<Longrightarrow>
   map_of (canon_items kvs) k = map_option canon (dlookup k kvs)"
proof (induction kvs)
  case (Cons p kvs)
  obtain b v where p: "p = (b, v)" by (cases p)
  with Cons.prems obtain s where b: "b = PStr s" by (cases b) auto
  have "s \<notin> set (map fst (canon_items kvs))"
    by (rule canon_items_fresh) (use Cons.prems p b in auto)
  with Cons p b show ?case by (simp add: map_of_insert_key)
qed simp

lemma dlookup_canon:
  assumes "uniq (PDict kvs)" "canon (PDict kvs) = PDict d"
  shows "dlookup k d = map_option canon (dlookup k kvs)"
  using assms map_of_canon_items [of kvs k] by simp

lemma dget_canon:
  assumes "uniq (PDict kvs)" "canon (PDict kvs) = PDict d"
  shows "dget d k = canon (dget kvs k)"
  using dlookup_canon [OF assms, of k] by (cases "dlookup k kvs") (simp_all add: dget_def)

lemma canon_dict: "\<exists>d. canon (PDict kvs) = PDict d"
  by (simp add: sdict_def)

lemma canon_strings [simp]: "canon_list (map PStr xs) = map PStr xs"
  by (induction xs) auto

text \<open>Decoded values have no repeated keys when repeated keys are refused.\<close>

lemma uniq_items_sdict: "uniq (sdict kvs) = (distinct (map fst kvs) \<and> uniq_items (map (\<lambda>(k, v). (PStr k, v)) kvs))"
proof -
  have "list_all is_str (map PStr (map fst kvs))" by (induction kvs) auto
  then show ?thesis
    unfolding sdict_def uniq.simps keys_pairs by (simp add: distinct_map inj_on_def)
qed

lemma loads_uniq_all:
  "loads (Some e) con j = Inr v \<Longrightarrow> uniq v"
  "loads_list (Some e) con js = Inr vs \<Longrightarrow> uniq_list vs"
  "loads_pairs (Some e) con kvs = Inr ps \<Longrightarrow> uniq_items (map (\<lambda>(k, v). (PStr k, v)) ps)"
proof (induction "Some e" con j and "Some e" con js and "Some e" con kvs arbitrary: v and vs and ps
    rule: loads_loads_list_loads_pairs.induct)
  case (8 con kvs)
  then show ?case
    by (auto simp: andThen_Inr_iff build_object_def uniq_items_sdict split: if_splits)
qed (auto simp: andThen_Inr_iff split: option.splits)

lemmas loads_uniq = loads_uniq_all(1)

section \<open>Where the decoder gives up\<close>

text \<open>The standard decoder stops with a \<open>ValueError\<close> (malformed text or encoding) or a
  \<open>RecursionError\<close> (nesting).\<close>

function (sequential) decoder_stops :: "json \<Rightarrow> bool"
  and decoder_stops_list :: "json list \<Rightarrow> bool"
  and decoder_stops_pairs :: "(string \<times> json) list \<Rightarrow> bool" where
  "decoder_stops (JStop e) = (is_value_error e \<or> e = RecursionError)"
| "decoder_stops (JArr xs) = decoder_stops_list xs"
| "decoder_stops (JObj kvs) = decoder_stops_pairs kvs"
| "decoder_stops j = True"
| "decoder_stops_list [] = True"
| "decoder_stops_list (x # xs) = (decoder_stops x \<and> decoder_stops_list xs)"
| "decoder_stops_pairs [] = True"
| "decoder_stops_pairs ((k, x) # kvs) = (decoder_stops x \<and> decoder_stops_pairs kvs)"
  by pat_completeness auto
termination
  by (relation "measure (case_sum size (case_sum (size_list size) (size_list (size_prod (\<lambda>_. 0) size))))") auto

lemma loads_errors_all:
  assumes "is_value_error e1" "is_value_error e2"
  shows "decoder_stops j \<Longrightarrow> loads (Some e1) (Some e2) j = Inl e \<Longrightarrow> is_value_error e \<or> e = RecursionError"
    "decoder_stops_list js \<Longrightarrow> loads_list (Some e1) (Some e2) js = Inl e \<Longrightarrow> is_value_error e \<or> e = RecursionError"
    "decoder_stops_pairs kvs \<Longrightarrow> loads_pairs (Some e1) (Some e2) kvs = Inl e \<Longrightarrow> is_value_error e \<or> e = RecursionError"
  using assms
  by (induction j and js and kvs rule: decoder_stops_decoder_stops_list_decoder_stops_pairs.induct)
    (auto simp: andThen_Inl_iff build_object_def split: if_splits)

lemmas loads_errors = loads_errors_all(1)

end
