(* ===== verification/Work_Contract.thy ===== *)
theory Work_Contract
  imports Py_Json Py_Time
begin

text \<open>
  \<open>work_contract.py\<close> with the constants of \<open>coding_policy.py\<close>: the strict parser of a work request,
  its age limit, its digest. A request is the dictionary the parser returns.
\<close>

section \<open>Policy constants\<close>

definition POLICY_BASE :: string where
  "POLICY_BASE = ''cde8c424b687c3ef99b98e4764da4a67c973d8b2''"

definition CODING_TYPE :: string where
  "CODING_TYPE = ''coding.patch-test.v1''"

definition CODING_GOAL :: string where
  "CODING_GOAL = ''Implement the reviewed label normalization exercise.''"

definition CODING_CRITERIA :: "string list" where
  "CODING_CRITERIA = [''Normalize Unicode whitespace and case; reject nonstrings.'']"

definition REPOSITORY :: string where
  "REPOSITORY = ''Az1mutt/personal-ai-brain''"

definition TASK_TYPE :: string where
  "TASK_TYPE = ''fixture.patch-test.v1''"

definition GOAL :: string where
  "GOAL = ''Create the deterministic Work Runner fixture artifact.''"

definition CRITERIA :: "string list" where
  "CRITERIA = [''fixture content matches'', ''isolation checks pass'']"

definition FIELDS :: "string list" where
  "FIELDS = [''schema_version'', ''task_id'', ''task_type'', ''repository'', ''base_ref'',
             ''goal'', ''acceptance_criteria'', ''requested_at'', ''deadline_seconds'']"

type_synonym request = "(pyval \<times> pyval) list"

section \<open>Identifiers\<close>

text \<open>
  \<open>str(uuid.UUID(value)) == value\<close>: \<open>UUID\<close> drops braces and dashes and reads 32 hexadecimal digits,
  \<open>str\<close> writes them in lower case in groups of 8, 4, 4, 4 and 12, so exactly the texts of that
  shape come back unchanged.
\<close>

definition is_hex :: "char \<Rightarrow> bool" where
  "is_hex c = (is_dec c \<or> (97 \<le> cp c \<and> cp c \<le> 102))"

definition is_uuid :: "string \<Rightarrow> bool" where
  "is_uuid s = (length s = 36 \<and>
     list_all (\<lambda>(i, c). if i \<in> {8, 13, 18, 23} then c = CHR ''-'' else is_hex c) (zip [0..<36] s))"

definition task_id :: "pyval \<Rightarrow> string result" where
  "task_id v = (case v of
      PStr s \<Rightarrow> (if is_uuid s then Inr s else Inl (Rejected ''invalid_task_id''))
    | _ \<Rightarrow> Inl (Rejected ''invalid_task_id''))"

definition is_commit :: "string \<Rightarrow> bool" where
  "is_commit s = (length s = 40 \<and> list_all is_hex s)"

section \<open>Text fields\<close>

text \<open>\<open>re.search\<close> with the three alternatives: a URL scheme mark, an absolute path after the start or
  white space, a control character.\<close>

fun has_infix :: "string \<Rightarrow> string \<Rightarrow> bool" where
  "has_infix p [] = (p = [])"
| "has_infix p (c # cs) = (starts_with p (c # cs) \<or> has_infix p cs)"

definition is_letter :: "char \<Rightarrow> bool" where
  "is_letter c = ((65 \<le> cp c \<and> cp c \<le> 90) \<or> (97 \<le> cp c \<and> cp c \<le> 122))"

definition path_start :: "string \<Rightarrow> bool" where
  "path_start s = (case s of
      c # d # e # _ \<Rightarrow> c = CHR ''/'' \<or> (is_letter c \<and> d = CHR '':'' \<and> e = bslash)
    | c # _ \<Rightarrow> c = CHR ''/''
    | [] \<Rightarrow> False)"

fun path_after_space :: "string \<Rightarrow> bool" where
  "path_after_space [] = False"
| "path_after_space (c # cs) = ((is_space c \<and> path_start cs) \<or> path_after_space cs)"

definition is_control :: "char \<Rightarrow> bool" where
  "is_control c = (cp c \<le> 8 \<or> (11 \<le> cp c \<and> cp c \<le> 31))"

definition unsafe_text :: "string \<Rightarrow> bool" where
  "unsafe_text t = (has_infix ''://'' t \<or> path_start t \<or> path_after_space t \<or> list_ex is_control t)"

definition text_between :: "nat \<Rightarrow> nat \<Rightarrow> pyval \<Rightarrow> bool" where
  "text_between lo hi v = (case v of PStr t \<Rightarrow> lo \<le> length t \<and> length t \<le> hi | _ \<Rightarrow> False)"

section \<open>The parser\<close>

definition same_keys :: "request \<Rightarrow> string list \<Rightarrow> bool" where
  "same_keys d fs = (list_all (\<lambda>(k, v). is_str k \<and> str_val k \<in> set fs) d \<and>
     list_all (\<lambda>f. has_key f d) fs)"

definition is_coding :: "request \<Rightarrow> bool" where
  "is_coding d = (dget d ''task_type'' = PStr CODING_TYPE)"

definition check_coding :: "request \<Rightarrow> unit result" where
  "check_coding d =
     (let goal = dget d ''goal''; texts = dget d ''acceptance_criteria'' in
      case texts of
        PList ts \<Rightarrow>
          (if \<not> (1 \<le> length ts \<and> length ts \<le> 5) \<or> \<not> list_all (text_between 1 300) ts
              \<or> \<not> text_between 1 2000 goal
           then Inl (Rejected ''invalid_coding_text'')
           else if list_ex (\<lambda>t. unsafe_text (str_val t)) (goal # ts)
             then Inl (Rejected ''invalid_coding_text'')
           else if dget d ''base_ref'' \<noteq> PStr POLICY_BASE then Inl (Rejected ''base_not_allowlisted'')
           else if goal \<noteq> PStr CODING_GOAL \<or> texts \<noteq> PList (map PStr CODING_CRITERIA)
             then Inl (Rejected ''unsupported_coding_profile'')
           else Inr ())
      | _ \<Rightarrow> Inl (Rejected ''invalid_coding_text''))"

definition check_kind :: "request \<Rightarrow> unit result" where
  "check_kind d =
     (if is_coding d then check_coding d
      else guard (dget d ''goal'' = PStr GOAL \<and>
                  dget d ''acceptance_criteria'' = PList (map PStr CRITERIA))
             (Rejected ''unsupported_contract''))"

definition max_deadline :: "request \<Rightarrow> int" where
  "max_deadline d = (if is_coding d then 180 else 60)"

definition deadline_ok :: "request \<Rightarrow> bool" where
  "deadline_ok d = (case dget d ''deadline_seconds'' of
      PInt n \<Rightarrow> 1 \<le> n \<and> n \<le> max_deadline d | _ \<Rightarrow> False)"

definition iso_time :: "pyval \<Rightarrow> datetime result" where
  "iso_time v = (case v of
      PStr s \<Rightarrow> (case fromisoformat (replace_z s) of
          Some t \<Rightarrow> Inr t | None \<Rightarrow> Inl (ValueError ''Invalid isoformat string''))
    | _ \<Rightarrow> Inl AttributeError)"

definition check_contract :: "request \<Rightarrow> request result" where
  "check_contract d =
     andThen (task_id (dget d ''task_id'')) (\<lambda>_.
     andThen (guard (dget d ''schema_version'' = PStr ''0.1'' \<and>
                     (dget d ''task_type'' = PStr TASK_TYPE \<or> is_coding d) \<and>
                     dget d ''repository'' = PStr REPOSITORY) (Rejected ''unsupported_contract'')) (\<lambda>_.
     andThen (check_kind d) (\<lambda>_.
     andThen (guard (case dget d ''base_ref'' of PStr s \<Rightarrow> is_commit s | _ \<Rightarrow> False)
                (Rejected ''immutable_base_required'')) (\<lambda>_.
     andThen (guard (deadline_ok d) (Rejected ''invalid_deadline'')) (\<lambda>_.
     andThen (iso_time (dget d ''requested_at'')) (\<lambda>t.
     andThen (guard (dt_offset t \<noteq> None) (Rejected ''timezone_required'')) (\<lambda>_. Inr d)))))))"

text \<open>\<open>except (ValueError, TypeError, KeyError, AttributeError, UnicodeError)\<close>.\<close>

fun is_rejected :: "exn \<Rightarrow> bool" where
  "is_rejected (Rejected _) = True"
| "is_rejected _ = False"

definition contract_error :: "exn \<Rightarrow> exn" where
  "contract_error e =
     (if \<not> is_rejected e \<and> (is_value_error e \<or> e = TypeError \<or> e = KeyError \<or> e = AttributeError)
      then Rejected ''invalid_json_or_timestamp'' else e)"

definition check_document :: "pyval \<Rightarrow> request result" where
  "check_document v = (case v of
      PDict d \<Rightarrow> (if same_keys d FIELDS then check_contract d else Inl (Rejected ''invalid_fields''))
    | _ \<Rightarrow> Inl (Rejected ''invalid_fields''))"

definition parse_contract :: "doc \<Rightarrow> request result" where
  "parse_contract raw =
     (if 8192 < doc_size raw then Inl (Rejected ''invalid_payload_size'')
      else case andThen (loads (Some (Rejected ''duplicate_json_key'')) (Some (Rejected ''nonfinite_json''))
                  (doc_tree raw)) check_document of
          Inr d \<Rightarrow> Inr d
        | Inl e \<Rightarrow> Inl (contract_error e))"

definition allowed_base :: "request \<Rightarrow> string \<Rightarrow> string" where
  "allowed_base d fixture_base = (if is_coding d then POLICY_BASE else fixture_base)"

text \<open>\<open>fresh\<close>: at most five minutes ahead, at most seven days old; \<open>now\<close> in microseconds of year 1.\<close>

definition fresh_age :: "int \<Rightarrow> bool" where
  "fresh_age age = (- (5 * 60 * 1000000) \<le> age \<and> age \<le> 7 * 86400 * 1000000)"

definition fresh :: "int \<Rightarrow> request \<Rightarrow> unit result" where
  "fresh now d = andThen (iso_time (dget d ''requested_at'')) (\<lambda>t. case dt_offset t of
      None \<Rightarrow> Inl TypeError
    | Some off \<Rightarrow> guard (fresh_age (now - utc_micros t off)) (Rejected ''stale_or_future_request''))"

definition digest :: "(string \<Rightarrow> string) \<Rightarrow> request \<Rightarrow> string result" where
  "digest sha d = (case json_dumps True (PDict d) of Some t \<Rightarrow> Inr (sha t) | None \<Rightarrow> Inl TypeError)"

section \<open>What a parsed request satisfies\<close>

definition request_id :: "request \<Rightarrow> string" where
  "request_id d = str_val (dget d ''task_id'')"

definition valid_request :: "request \<Rightarrow> bool" where
  "valid_request d = (same_keys d FIELDS \<and> is_uuid (request_id d) \<and>
     dget d ''task_id'' = PStr (request_id d) \<and>
     (dget d ''task_type'' = PStr TASK_TYPE \<or> is_coding d) \<and> deadline_ok d \<and>
     (\<exists>b. dget d ''base_ref'' = PStr b \<and> is_commit b) \<and>
     (\<exists>t. iso_time (dget d ''requested_at'') = Inr t \<and> dt_offset t \<noteq> None))"

lemma task_id_Inr: "task_id v = Inr s \<longleftrightarrow> v = PStr s \<and> is_uuid s"
  by (auto simp: task_id_def split: pyval.splits if_splits)

lemma task_id_Inl: "task_id v = Inl e \<Longrightarrow> e = Rejected ''invalid_task_id''"
  by (auto simp: task_id_def split: pyval.splits if_splits)

lemma check_contract_Inr:
  "check_contract d = Inr d' \<Longrightarrow> d' = d \<and>
   is_uuid (request_id d) \<and> dget d ''task_id'' = PStr (request_id d) \<and>
   (dget d ''task_type'' = PStr TASK_TYPE \<or> is_coding d) \<and> check_kind d = Inr () \<and>
   (\<exists>b. dget d ''base_ref'' = PStr b \<and> is_commit b) \<and> deadline_ok d \<and>
   (\<exists>t. iso_time (dget d ''requested_at'') = Inr t \<and> dt_offset t \<noteq> None)"
  by (auto simp: check_contract_def andThen_Inr_iff guard_Inr_iff task_id_Inr request_id_def str_val_def
      split: pyval.splits)

lemma check_document_Inr:
  "check_document v = Inr d \<Longrightarrow> same_keys d FIELDS \<and> check_contract d = Inr d"
  by (cases v) (auto simp: check_document_def split: if_splits dest: check_contract_Inr)

lemma parse_contract_Inr:
  assumes "parse_contract raw = Inr d"
  shows "valid_request d" "doc_size raw \<le> 8192" "check_contract d = Inr d"
proof -
  from assms obtain v where "check_document v = Inr d" "doc_size raw \<le> 8192"
    by (auto simp: parse_contract_def andThen_Inr_iff split: if_splits sum.splits)
  then have c: "check_contract d = Inr d" "same_keys d FIELDS" "doc_size raw \<le> 8192"
    using check_document_Inr by auto
  then show "valid_request d" "doc_size raw \<le> 8192" "check_contract d = Inr d"
    using check_contract_Inr [OF c(1)] by (auto simp: valid_request_def)
qed

lemma parse_contract_kind: "parse_contract raw = Inr d \<Longrightarrow> check_kind d = Inr ()"
  using check_contract_Inr [OF parse_contract_Inr(3)] by blast

lemma check_coding_base: "check_coding d = Inr () \<Longrightarrow> dget d ''base_ref'' = PStr POLICY_BASE"
  by (cases "dget d ''acceptance_criteria''")
    (simp_all add: check_coding_def Let_def split: if_splits)

lemma parse_contract_base:
  "parse_contract raw = Inr d \<Longrightarrow> is_coding d \<Longrightarrow> dget d ''base_ref'' = PStr POLICY_BASE"
  using parse_contract_kind check_coding_base by (fastforce simp: check_kind_def)

section \<open>Refusals\<close>

lemma check_coding_Inl: "check_coding d = Inl e \<Longrightarrow> is_value_error e"
  by (cases "dget d ''acceptance_criteria''") (auto simp: check_coding_def Let_def split: if_splits)

lemma check_kind_Inl: "check_kind d = Inl e \<Longrightarrow> is_value_error e"
  by (cases "is_coding d") (auto simp: check_kind_def guard_Inl_iff dest: check_coding_Inl)

lemma iso_time_Inl: "iso_time v = Inl e \<Longrightarrow> is_value_error e \<or> e = AttributeError"
  by (cases v) (auto simp: iso_time_def split: option.splits)

lemma check_contract_Inl:
  "check_contract d = Inl e \<Longrightarrow> is_value_error e \<or> e = AttributeError"
  unfolding check_contract_def andThen_Inl_iff guard_Inl_iff
  by (elim disjE exE conjE) (auto dest: task_id_Inl check_kind_Inl iso_time_Inl)

lemma check_document_Inl: "check_document v = Inl e \<Longrightarrow> is_value_error e \<or> e = AttributeError"
  by (cases v) (auto simp: check_document_def split: if_splits dest: check_contract_Inl)

lemma parse_contract_Inl:
  assumes "decoder_stops (doc_tree raw)" "parse_contract raw = Inl e"
  shows "is_rejected e \<or> e = RecursionError"
proof -
  have stop: "is_value_error x \<or> x = AttributeError \<or> x = RecursionError"
    if "andThen (loads (Some (Rejected a)) (Some (Rejected b)) (doc_tree raw)) check_document = Inl x" for a b x
  proof -
    from that consider "loads (Some (Rejected a)) (Some (Rejected b)) (doc_tree raw) = Inl x"
      | v where "check_document v = Inl x"
      by (auto simp: andThen_Inl_iff)
    then show ?thesis
    proof cases
      case 1
      from loads_errors [OF _ _ assms(1) 1] show ?thesis by auto
    next
      case 2
      from check_document_Inl [OF 2] show ?thesis by auto
    qed
  qed
  from assms(2) consider "e = Rejected ''invalid_payload_size''"
    | x where "andThen (loads (Some (Rejected ''duplicate_json_key'')) (Some (Rejected ''nonfinite_json''))
        (doc_tree raw)) check_document = Inl x" "e = contract_error x"
    by (auto simp: parse_contract_def split: if_splits sum.splits)
  then show ?thesis
  proof cases
    case 2
    from stop [OF 2(1)] 2(2) show ?thesis by (auto simp: contract_error_def)
  qed simp
qed

section \<open>Parsing a request that was encoded again\<close>

lemma check_kind_criteria:
  "check_kind d = Inr () \<Longrightarrow> \<exists>xs. dget d ''acceptance_criteria'' = PList (map PStr xs) \<and> (\<exists>g. dget d ''goal'' = PStr g)"
  by (cases "is_coding d"; cases "dget d ''acceptance_criteria''")
    (auto simp: check_kind_def check_coding_def Let_def guard_Inr_iff split: if_splits)

lemma check_contract_cong:
  assumes g: "dget d' = dget d" and c: "check_contract d = Inr d"
  shows "check_contract d' = Inr d'"
proof -
  have coding: "is_coding d' = is_coding d" by (simp add: is_coding_def g)
  have kind: "check_kind d' = check_kind d" unfolding check_kind_def coding check_coding_def g ..
  have late: "deadline_ok d' = deadline_ok d" unfolding deadline_ok_def max_deadline_def coding g ..
  from c show ?thesis unfolding check_contract_def andThen_Inr_iff g coding kind late by simp
qed

lemma dlookup_outside:
  "list_all (\<lambda>(k, v). is_str k \<and> str_val k \<in> S) d \<Longrightarrow> f \<notin> S \<Longrightarrow> dlookup f d = None"
  by (induction d) (auto simp: str_val_def)

lemma check_contract_canon:
  assumes c: "check_contract d = Inr d" and k: "same_keys d FIELDS"
  shows "canon (dget d f) = dget d f"
proof (cases "f \<in> set FIELDS")
  case True
  from check_contract_Inr [OF c] have "check_kind d = Inr ()" by blast
  from check_kind_criteria [OF this] obtain xs g where
    "dget d ''acceptance_criteria'' = PList (map PStr xs)" "dget d ''goal'' = PStr g" by blast
  moreover have "dget d ''schema_version'' = PStr ''0.1''" "dget d ''repository'' = PStr REPOSITORY"
    "\<exists>s. dget d ''task_id'' = PStr s" "\<exists>s. dget d ''task_type'' = PStr s" "\<exists>s. dget d ''base_ref'' = PStr s"
    "\<exists>s. dget d ''requested_at'' = PStr s" "\<exists>n. dget d ''deadline_seconds'' = PInt n"
    using c by (auto simp: check_contract_def andThen_Inr_iff guard_Inr_iff task_id_Inr is_coding_def iso_time_def
        deadline_ok_def split: pyval.splits)
  ultimately show ?thesis using True by (auto simp: FIELDS_def)
next
  case False
  have "dlookup f d = None"
    using k False unfolding same_keys_def by (blast intro: dlookup_outside)
  then show ?thesis by (simp add: dget_def)
qed

lemma same_keys_canon:
  assumes k: "same_keys d fs" and u: "uniq (PDict d)" and c: "canon (PDict d) = PDict d'"
  shows "same_keys d' fs"
proof -
  have d': "d' = map (\<lambda>(k, v). (PStr k, v)) (canon_items d)" using c by (simp add: sdict_def)
  have "list_all (\<lambda>(k, v). is_str k \<and> str_val k \<in> set fs) d'"
  proof -
    have "PStr ` set (map fst (canon_items d)) = set (map fst d)"
      using u by (intro canon_items_keys) simp
    moreover have "\<forall>a\<in>set (map fst d). str_val a \<in> set fs"
      using k by (auto simp: same_keys_def list_all_iff)
    ultimately have "\<forall>s\<in>set (map fst (canon_items d)). str_val (PStr s) \<in> set fs" by blast
    then show ?thesis unfolding d' by (auto simp: list_all_iff)
  qed
  moreover have "list_all (\<lambda>f. has_key f d') fs"
    using k dlookup_canon [OF u c] by (auto simp: same_keys_def has_key_def list_all_iff)
  ultimately show ?thesis by (simp add: same_keys_def)
qed

lemma parse_contract_uniq:
  assumes "parse_contract raw = Inr d"
  shows "uniq (PDict d)" "same_keys d FIELDS"
proof -
  from assms obtain v where v: "loads (Some (Rejected ''duplicate_json_key'')) (Some (Rejected ''nonfinite_json''))
      (doc_tree raw) = Inr v" "check_document v = Inr d"
    by (auto simp: parse_contract_def andThen_Inr_iff split: if_splits sum.splits)
  from v(2) have "v = PDict d" "same_keys d FIELDS"
    by (auto simp: check_document_def split: pyval.splits if_splits dest: check_contract_Inr)
  with loads_uniq [OF v(1)] show "uniq (PDict d)" "same_keys d FIELDS" by simp_all
qed

lemma reparse:
  assumes p: "parse_contract raw = Inr d" and e: "encoded_doc (PDict d) = Inr raw'" and s: "doc_size raw' \<le> 8192"
  obtains d' where "canon (PDict d) = PDict d'" "parse_contract raw' = Inr d'" "dget d' = dget d"
    "digest sha d' = digest sha d"
proof -
  obtain d' where d': "canon (PDict d) = PDict d'" using canon_dict by blast
  note u = parse_contract_uniq [OF p] and c = parse_contract_Inr(3) [OF p]
  have g: "dget d' = dget d"
    using dget_canon [OF u(1) d'] check_contract_canon [OF c u(2)] by (simp add: fun_eq_iff)
  from e obtain enc t where t: "json_dumps True (PDict d) = Some enc" "tree_of (PDict d) = Some t"
    "raw' = \<lparr>doc_size = length enc, doc_tree = t\<rparr>"
    by (auto simp: encoded_doc_def split: option.splits)
  have "check_document (PDict d') = Inr d'"
    using same_keys_canon [OF u(2,1) d'] check_contract_cong [OF g c] by (simp add: check_document_def)
  with loads_tree_of [OF u(1) t(2)] t(3) s d' have "parse_contract raw' = Inr d'"
    by (simp add: parse_contract_def)
  moreover have "digest sha d' = digest sha d"
    using json_dumps_canon [OF u(1) t(1)] t(1) unfolding d' digest_def by (simp only: option.simps)
  ultimately show ?thesis using that d' g by blast
qed

end
