(* ===== verification/Effects.thy ===== *)
theory Effects
  imports Prelude
begin

text \<open>
  Stateful code: a step takes a state to an outcome and a state. The outcome is a value, an exception,
  or the death of the process, which no handler sees. A disk carries the fate of its next durable
  writes, so a theorem about an operation covers every crash point in it.
\<close>

datatype 'a outcome = Return 'a | Raise exn | Died

type_synonym ('s, 'a) eff = "'s \<Rightarrow> 'a outcome \<times> 's"

definition io_return :: "'a \<Rightarrow> ('s, 'a) eff" where
  "io_return x w = (Return x, w)"

definition io_raise :: "exn \<Rightarrow> ('s, 'a) eff" where
  "io_raise e w = (Raise e, w)"

definition io_bind :: "('s, 'a) eff \<Rightarrow> ('a \<Rightarrow> ('s, 'b) eff) \<Rightarrow> ('s, 'b) eff" where
  "io_bind m f w = (case m w of
      (Return x, w') \<Rightarrow> f x w'
    | (Raise e, w') \<Rightarrow> (Raise e, w')
    | (Died, w') \<Rightarrow> (Died, w'))"

text \<open>\<open>try ... except\<close>: a killed process runs no handler.\<close>

definition io_catch :: "('s, 'a) eff \<Rightarrow> (exn \<Rightarrow> ('s, 'a) eff) \<Rightarrow> ('s, 'a) eff" where
  "io_catch m h w = (case m w of (Raise e, w') \<Rightarrow> h e w' | r \<Rightarrow> r)"

definition io_result :: "'a result \<Rightarrow> ('s, 'a) eff" where
  "io_result r = (case r of Inl e \<Rightarrow> io_raise e | Inr x \<Rightarrow> io_return x)"

definition io_get :: "('s \<Rightarrow> 'a) \<Rightarrow> ('s, 'a) eff" where
  "io_get f w = (Return (f w), w)"

definition io_guard :: "bool \<Rightarrow> exn \<Rightarrow> ('s, unit) eff" where
  "io_guard b e = (if b then io_return () else io_raise e)"

section \<open>Disks\<close>

text \<open>
  A durable write is done, done but reported as failed (the directory could not be synced), failed, or
  never reached because the process was killed. After the plan's end every write works. The clock gives
  the text of the n-th \<open>timestamp()\<close>.
\<close>

datatype fault = Works | Late | Fails | Dies

record disk =
  plan :: "fault list"
  clock :: "nat \<Rightarrow> string"
  ticks :: nat

definition durable :: "('z disk_scheme \<Rightarrow> 'z disk_scheme) \<Rightarrow> ('z disk_scheme, unit) eff" where
  "durable f w = (case plan w of
      [] \<Rightarrow> (Return (), f w)
    | Works # p \<Rightarrow> (Return (), f (w\<lparr>plan := p\<rparr>))
    | Late # p \<Rightarrow> (Raise OSError, f (w\<lparr>plan := p\<rparr>))
    | Fails # p \<Rightarrow> (Raise OSError, w\<lparr>plan := p\<rparr>)
    | Dies # p \<Rightarrow> (Died, w\<lparr>plan := p\<rparr>))"

definition stamp :: "('z disk_scheme, string) eff" where
  "stamp w = (Return (clock w (ticks w)), w\<lparr>ticks := ticks w + 1\<rparr>)"

section \<open>What a returned step went through\<close>

lemma io_bind_Return:
  "io_bind m f w = (Return y, w') \<longleftrightarrow> (\<exists>x w1. m w = (Return x, w1) \<and> f x w1 = (Return y, w'))"
  by (auto simp: io_bind_def split: prod.splits outcome.splits)

lemma io_bindE:
  assumes "io_bind m f w = (Return y, w')"
  obtains x w1 where "m w = (Return x, w1)" "f x w1 = (Return y, w')"
  using assms by (auto simp: io_bind_Return)

lemma io_result_Return: "io_result r w = (Return x, w') \<longleftrightarrow> r = Inr x \<and> w' = w"
  by (cases r) (auto simp: io_result_def io_return_def io_raise_def)

lemma io_return_Return: "io_return y w = (Return x, w') \<longleftrightarrow> y = x \<and> w' = w"
  by (auto simp: io_return_def)

lemma io_raise_Return: "io_raise e w \<noteq> (Return x, w')"
  by (simp add: io_raise_def)

lemma io_guard_Return: "io_guard b e w = (Return x, w') \<longleftrightarrow> b \<and> w' = w"
  by (auto simp: io_guard_def io_return_def io_raise_def)

lemma stamp_Return: "stamp w = (Return x, w') \<longleftrightarrow> x = clock w (ticks w) \<and> w' = w\<lparr>ticks := ticks w + 1\<rparr>"
  by (auto simp: stamp_def)

lemma io_catch_Return:
  "io_catch m h w = (Return y, w') \<longleftrightarrow>
   m w = (Return y, w') \<or> (\<exists>e w1. m w = (Raise e, w1) \<and> h e w1 = (Return y, w'))"
  by (auto simp: io_catch_def split: prod.splits outcome.splits)

lemma io_bind_unit [simp]: "io_bind m io_return = m"
  by (rule ext) (auto simp: io_bind_def io_return_def split: prod.split outcome.split)

lemmas returned = io_bind_Return io_result_Return io_return_Return io_raise_Return io_guard_Return
  stamp_Return io_catch_Return

lemma durable_Return: "durable f w = (Return x, w') \<Longrightarrow> \<exists>p. w' = f (w\<lparr>plan := p\<rparr>)"
  by (cases "plan w")
    (use arg_cong [of "w\<lparr>plan := plan w\<rparr>" w f] in \<open>auto simp: durable_def intro: sym split: fault.splits\<close>)

section \<open>Evaluating steps\<close>

text \<open>Continuations are not simplified before the step in front of them has been evaluated.\<close>

lemma io_weak:
  "m = m' \<Longrightarrow> w = w' \<Longrightarrow> io_bind m f w = io_bind m' f w'"
  "m = m' \<Longrightarrow> w = w' \<Longrightarrow> io_catch m f w = io_catch m' f w'"
  by simp_all

lemmas run_steps = io_bind_def io_catch_def io_return_def io_raise_def io_result_def io_get_def io_guard_def
  stamp_def durable_def Let_def

section \<open>Relations kept by every step\<close>

text \<open>
  A step keeps a reflexive and transitive relation between the states it starts and ends in, whatever
  its outcome. The rules follow the shape of a program.
\<close>

definition keeps :: "('s \<Rightarrow> 's \<Rightarrow> bool) \<Rightarrow> ('s, 'a) eff \<Rightarrow> bool" where
  "keeps R m = (\<forall>w. R w (snd (m w)))"

lemma keepsD: "keeps R m \<Longrightarrow> R w (snd (m w))"
  by (simp add: keeps_def)

lemma keeps_if [intro!]: "(b \<Longrightarrow> keeps R m) \<Longrightarrow> (\<not> b \<Longrightarrow> keeps R n) \<Longrightarrow> keeps R (if b then m else n)"
  by simp

lemma keeps_option [intro!]:
  "(x = None \<Longrightarrow> keeps R m) \<Longrightarrow> (\<And>y. x = Some y \<Longrightarrow> keeps R (f y)) \<Longrightarrow>
   keeps R (case x of None \<Rightarrow> m | Some y \<Rightarrow> f y)"
  by (cases x) auto

lemma keeps_prod [intro!]: "(\<And>a b. x = (a, b) \<Longrightarrow> keeps R (f a b)) \<Longrightarrow> keeps R (case x of (a, b) \<Rightarrow> f a b)"
  by (cases x) auto

lemma keeps_let [intro!]: "keeps R (f x) \<Longrightarrow> keeps R (let y = x in f y)"
  by simp

locale step_relation =
  fixes R :: "'s \<Rightarrow> 's \<Rightarrow> bool"
  assumes same: "R w w"
    and compose: "R w w' \<Longrightarrow> R w' w'' \<Longrightarrow> R w w''"
begin

lemma keeps_return [intro!]: "keeps R (io_return x)"
  by (simp add: keeps_def io_return_def same)

lemma keeps_raise [intro!]: "keeps R (io_raise e)"
  by (simp add: keeps_def io_raise_def same)

lemma keeps_result [intro!]: "keeps R (io_result r)"
  by (cases r) (auto simp: io_result_def)

lemma keeps_get [intro!]: "keeps R (io_get f)"
  by (simp add: keeps_def io_get_def same)

lemma keeps_guard [intro!]: "keeps R (io_guard b e)"
  by (auto simp: io_guard_def)

lemma keeps_died [intro!]: "keeps R (\<lambda>w. (Died, w))"
  by (simp add: keeps_def same)

lemma keeps_bind [intro!]:
  assumes m: "keeps R m" and f: "\<And>x. keeps R (f x)"
  shows "keeps R (io_bind m f)"
  unfolding keeps_def
proof
  fix w
  obtain a w1 where a: "m w = (a, w1)" by (cases "m w")
  with m have "R w w1" unfolding keeps_def by (metis snd_conv)
  then show "R w (snd (io_bind m f w))"
    using a f unfolding keeps_def by (cases a) (auto simp: io_bind_def intro: compose)
qed

lemma bind_at:
  assumes m: "R w (snd (m w))" and f: "\<And>x w1. m w = (Return x, w1) \<Longrightarrow> R w1 (snd (f x w1))"
  shows "R w (snd (io_bind m f w))"
proof -
  obtain a w1 where a: "m w = (a, w1)" by (cases "m w")
  with m f show ?thesis by (cases a) (auto simp: io_bind_def intro: compose)
qed

lemma keeps_catch [intro!]:
  assumes m: "keeps R m" and h: "\<And>e. keeps R (h e)"
  shows "keeps R (io_catch m h)"
  unfolding keeps_def
proof
  fix w
  obtain a w1 where a: "m w = (a, w1)" by (cases "m w")
  with m have "R w w1" unfolding keeps_def by (metis snd_conv)
  then show "R w (snd (io_catch m h w))"
    using a h unfolding keeps_def by (cases a) (auto simp: io_catch_def intro: compose)
qed

end

end
