(* ===== verification/Work_Store.thy ===== *)
theory Work_Store
  imports Work_Contract Interfaces Effects
begin

text \<open>
  \<open>work_store.py\<close>: task records and artifacts as durable files, written one atomic replacement at a
  time. A world holds what is on disk; its plan says what happens to each durable write (done,
  done but reported as failed because the directory could not be synced, failed, or the process
  killed before it), so every theorem about an operation covers every crash point in it. Locked
  sections are whole operations. \<open>runs\<close> is a ghost: the tasks whose program was started; \<open>held\<close>
  is the report a coding run keeps in memory and writes out again and again.
\<close>

section \<open>Worlds\<close>

record task =
  t_id :: string
  t_request :: request
  t_hash :: string
  t_status :: string
  t_attempts :: int
  t_cancel :: bool
  t_cancel_at :: "string option"
  t_history :: "(string \<times> string \<times> string) list"
  t_started :: "string option"
  t_finished :: "string option"
  t_base :: "pyval option"
  t_branch :: "string option"

datatype content = Bytes string | Json pyval | Record task

record world = disk +
  tasks :: "(string \<times> task) list"
  audit :: "(string \<times> (string \<times> content) list) list"
  workspaces :: "string list"
  moment :: nat
  runs :: "string list"
  held :: "(string \<times> pyval) list"

type_synonym 'a io = "(world, 'a) eff"

section \<open>Files\<close>

definition find_task :: "world \<Rightarrow> string \<Rightarrow> task option" where
  "find_task w i = map_of (tasks w) i"

definition set_task :: "string \<Rightarrow> task \<Rightarrow> world \<Rightarrow> world" where
  "set_task i t w = w\<lparr>tasks := dict_set i t (tasks w)\<rparr>"

definition files :: "world \<Rightarrow> string \<Rightarrow> (string \<times> content) list" where
  "files w i = (case map_of (audit w) i of Some fs \<Rightarrow> fs | None \<Rightarrow> [])"

definition artifact :: "world \<Rightarrow> string \<Rightarrow> string \<Rightarrow> content option" where
  "artifact w i name = map_of (files w i) name"

definition set_artifact :: "string \<Rightarrow> string \<Rightarrow> content \<Rightarrow> world \<Rightarrow> world" where
  "set_artifact i name c w = w\<lparr>audit := dict_set i (dict_set name c (files w i)) (audit w)\<rparr>"

definition has_dir :: "world \<Rightarrow> string \<Rightarrow> bool" where
  "has_dir w i = (map_of (audit w) i \<noteq> None)"

definition put_task :: "string \<Rightarrow> task \<Rightarrow> unit io" where
  "put_task i t = durable (set_task i t)"

definition put_artifact :: "string \<Rightarrow> string \<Rightarrow> content \<Rightarrow> unit io" where
  "put_artifact i name c w =
     (if has_dir w i then durable (set_artifact i name c) w else (Raise OSError, w))"

definition make_dir :: "string \<Rightarrow> unit io" where
  "make_dir i w =
     (if has_dir w i then (Raise FileExistsError, w)
      else durable (\<lambda>w. w\<lparr>audit := dict_set i [] (audit w)\<rparr>) w)"

definition unlink_artifact :: "string \<Rightarrow> string \<Rightarrow> unit io" where
  "unlink_artifact i name w =
     (if has_dir w i
      then durable (\<lambda>w. w\<lparr>audit := dict_set i (filter (\<lambda>(n, c). n \<noteq> name) (files w i)) (audit w)\<rparr>) w
      else (Raise OSError, w))"

section \<open>States\<close>

definition TERMINAL :: "string list" where
  "TERMINAL = [''succeeded'', ''failed'', ''blocked'', ''cancelled'', ''interrupted'']"

definition EDGES :: "string \<Rightarrow> string list" where
  "EDGES s =
     (if s = ''submitted'' then [''reserved'', ''blocked'', ''cancelled'', ''failed'']
      else if s = ''reserved'' then [''running'', ''blocked'', ''failed'', ''cancelled'', ''interrupted'']
      else if s = ''running'' then TERMINAL
      else [])"

definition is_terminal :: "task \<Rightarrow> bool" where
  "is_terminal t = (t_status t \<in> set TERMINAL)"

section \<open>Operations\<close>

definition load :: "string \<Rightarrow> task option io" where
  "load i = (if is_uuid i then io_get (\<lambda>w. find_task w i) else io_raise (Rejected ''invalid_task_id''))"

text \<open>\<open>record = self.load(i)\<close> followed by a subscription: a missing record is a \<open>TypeError\<close>.\<close>

definition load_record :: "string \<Rightarrow> task io" where
  "load_record i = io_bind (load i) (\<lambda>r. case r of Some t \<Rightarrow> io_return t | None \<Rightarrow> io_raise TypeError)"

definition emergency_bytes :: string where
  "emergency_bytes = ''131072 reserved bytes''"

definition new_task :: "request \<Rightarrow> string \<Rightarrow> string \<Rightarrow> task" where
  "new_task req hash at = \<lparr>t_id = request_id req, t_request = req, t_hash = hash,
     t_status = ''submitted'', t_attempts = 0, t_cancel = False, t_cancel_at = None,
     t_history = [(''submitted'', at, ''accepted'')], t_started = None, t_finished = None,
     t_base = None, t_branch = None\<rparr>"

definition line :: "string \<Rightarrow> content" where
  "line t = Bytes (t @ [CHR 0x0A])"

text \<open>
  The reserve file is created, then its space allocated; the other artifacts of a new task follow
  in the order they are written, and the record itself comes last.
\<close>

definition reserve_artifacts :: "(string \<times> content) list" where
  "reserve_artifacts = [(''emergency.reserve'', Bytes []), (''emergency.reserve'', Bytes emergency_bytes)]"

definition coding_artifacts :: "(string \<times> content) list" where
  "coding_artifacts =
     [(''agent-result.json'', Json (sdict [(''schema_version'', PStr ''0.1''),
         (''status'', PStr ''not_started''), (''usage'', PNone)])),
      (''agent.log'', line ''not_started'')]"

definition initial_artifacts :: "task \<Rightarrow> (string \<times> content) list" where
  "initial_artifacts t =
     [(''execution.log'', line ''submitted''), (''patch.diff'', Bytes [])] @
     (if is_coding (t_request t) then coding_artifacts else []) @
     [(''test-result.json'', Json (sdict [(''status'', PStr ''not_run'')])), (''result.json'', Record t)]"

fun put_artifacts :: "string \<Rightarrow> (string \<times> content) list \<Rightarrow> unit io" where
  "put_artifacts i [] = io_return ()"
| "put_artifacts i ((name, c) # fs) = io_bind (put_artifact i name c) (\<lambda>_. put_artifacts i fs)"

definition admit :: "(string \<Rightarrow> string) \<Rightarrow> request \<Rightarrow> (task \<times> bool) io" where
  "admit sha req = (let i = request_id req in
     io_bind (make_dir i) (\<lambda>_.
     io_bind (put_artifacts i reserve_artifacts) (\<lambda>_.
     io_bind (io_result (digest sha req)) (\<lambda>hash.
     io_bind stamp (\<lambda>at. let t = new_task req hash at in
     io_bind (put_artifacts i (initial_artifacts t)) (\<lambda>_.
     io_bind (put_task i t) (\<lambda>_. io_return (t, True))))))))"

definition submit :: "(string \<Rightarrow> string) \<Rightarrow> int \<Rightarrow> string \<Rightarrow> request \<Rightarrow> (task \<times> bool) io" where
  "submit sha now base req =
     io_bind (load (request_id req)) (\<lambda>existing. case existing of
         Some t \<Rightarrow> io_bind (io_result (digest sha req)) (\<lambda>hash.
           if t_hash t \<noteq> hash then io_raise (Rejected ''task_id_payload_conflict'')
           else io_return (t, False))
       | None \<Rightarrow>
           io_bind (io_result (fresh now req)) (\<lambda>_.
           io_bind (io_guard (dget req ''base_ref'' = PStr (allowed_base req base))
                      (Rejected ''base_not_allowlisted'')) (\<lambda>_.
           io_bind (io_get (\<lambda>w. length (tasks w))) (\<lambda>n.
           io_bind (io_guard (n < 256) (Rejected ''retention_capacity_reached'')) (\<lambda>_.
             admit sha req)))))"

definition transition_locked ::
  "task \<Rightarrow> string \<Rightarrow> string \<Rightarrow> (task \<Rightarrow> task) \<Rightarrow> task io" where
  "transition_locked t st code extra =
     (if st \<notin> set (EDGES (t_status t)) then io_raise (ValueError ''invalid_transition'')
      else io_bind stamp (\<lambda>at.
        let t1 = (extra t)\<lparr>t_status := st, t_history := t_history t @ [(st, at, code)]\<rparr> in
        if st \<in> set TERMINAL
        then io_bind stamp (\<lambda>fin. let t2 = t1\<lparr>t_finished := Some fin\<rparr> in
             io_bind (put_artifact (t_id t) ''result.json'' (Record t2)) (\<lambda>_.
             io_bind (put_task (t_id t) t2) (\<lambda>_. io_return t2)))
        else io_bind (put_task (t_id t) t1) (\<lambda>_. io_return t1)))"

definition transition :: "string \<Rightarrow> string \<Rightarrow> string \<Rightarrow> (task \<Rightarrow> task) \<Rightarrow> task io" where
  "transition i st code extra = io_bind (load_record i) (\<lambda>t.
     if is_terminal t then io_return t
     else if t_cancel t \<and> st \<in> {''reserved'', ''running'', ''succeeded''}
     then transition_locked t ''cancelled'' ''cancellation_requested'' extra
     else transition_locked t st code extra)"

definition cancel :: "string \<Rightarrow> task io" where
  "cancel i = io_bind (load i) (\<lambda>r. case r of
      None \<Rightarrow> io_raise (Rejected ''unknown_task'')
    | Some t \<Rightarrow>
        (if is_terminal t then io_return t
         else io_bind stamp (\<lambda>at. let t1 = t\<lparr>t_cancel := True, t_cancel_at := Some at\<rparr> in
           if t_status t = ''submitted''
           then transition_locked t1 ''cancelled'' ''cancelled_before_reservation'' id
           else io_bind (put_task i t1) (\<lambda>_. io_return t1))))"

definition records :: "task list io" where
  "records = io_get (\<lambda>w. map snd (sort_key fst (tasks w)))"

definition not_completed :: "string \<Rightarrow> content" where
  "not_completed code = Json (sdict [(''status'', PStr ''not_completed''), (''code'', PStr code)])"

definition storage_failure :: "string \<Rightarrow> task io" where
  "storage_failure i =
     io_bind (unlink_artifact i ''emergency.reserve'') (\<lambda>_.
     io_bind (load_record i) (\<lambda>t.
       if is_terminal t then io_return t
       else io_bind (put_artifact i ''execution.log'' (line ''storage_error; task not retried'')) (\<lambda>_.
            io_bind (put_artifact i ''test-result.json'' (not_completed ''storage_error'')) (\<lambda>_.
              transition i ''failed'' ''storage_error'' id))))"

section \<open>Contracts\<close>

text \<open>The task table is a durable keyed record store, the states a ranked life cycle.\<close>

interpretation task_table: records find_task set_task
  by unfold_locales (simp add: fun_eq_iff find_task_def set_task_def map_of_dict_set)

definition status_rank :: "string \<Rightarrow> nat" where
  "status_rank s = (if s = ''submitted'' then 3 else if s = ''reserved'' then 2
     else if s = ''running'' then 1 else 0)"

interpretation work: ranked_lifecycle EDGES "\<lambda>s. s \<in> set TERMINAL" status_rank
  by unfold_locales (auto simp: EDGES_def TERMINAL_def status_rank_def split: if_splits)

end
