(* ===== verification/Work_Store_Invariant.thy ===== *)
theory Work_Store_Invariant
  imports Work_Store
begin

text \<open>
  The invariant of the store and what every operation guarantees at every crash point: records are
  well formed, a terminal record's result artifact was published with it, histories only grow, and a
  terminal record never changes again.
\<close>

section \<open>Invariant and guarantee\<close>

definition task_ok :: "string \<Rightarrow> task \<Rightarrow> bool" where
  "task_ok i t =
     (t_id t = i \<and> is_uuid i \<and> request_id (t_request t) = i \<and>
      t_history t \<noteq> [] \<and> fst (hd (t_history t)) = ''submitted'' \<and>
      fst (last (t_history t)) = t_status t \<and> walk EDGES (map fst (t_history t)) \<and>
      (is_terminal t \<longleftrightarrow> t_finished t \<noteq> None) \<and>
      (t_attempts t = 0 \<or> (t_attempts t = 1 \<and> ''reserved'' \<in> fst ` set (t_history t))))"

text \<open>What recovery needs of a task: its artifact directory and, for a coding task, a readable report.\<close>

definition evidence :: "world \<Rightarrow> string \<Rightarrow> bool \<Rightarrow> bool" where
  "evidence w i coding = (has_dir w i \<and>
     (coding \<longrightarrow> (\<exists>d. artifact w i ''agent-result.json'' = Some (Json (PDict d)))))"

definition store_ok :: "world \<Rightarrow> bool" where
  "store_ok w =
     (distinct (map fst (tasks w)) \<and>
      (\<forall>i t. find_task w i = Some t \<longrightarrow> task_ok i t \<and>
         (is_terminal t \<longrightarrow> artifact w i ''result.json'' = Some (Record t)) \<and>
         (t_cancel t \<longrightarrow> t_status t \<noteq> ''submitted'') \<and> evidence w i (is_coding (t_request t))) \<and>
      distinct (runs w) \<and>
      (\<forall>i\<in>set (runs w). \<exists>t. find_task w i = Some t \<and> t_status t \<notin> {''submitted'', ''reserved''}))"

text \<open>The states that a cancelled task must not enter any more.\<close>

definition PROGRESS :: "string list" where
  "PROGRESS = [''reserved'', ''running'', ''succeeded'']"

definition grows :: "task \<Rightarrow> task \<Rightarrow> bool" where
  "grows t t' =
     (t_request t' = t_request t \<and> t_hash t' = t_hash t \<and> (t_cancel t \<longrightarrow> t_cancel t') \<and>
      (t_cancel t \<longrightarrow> t_status t' = t_status t \<or> t_status t' \<notin> set PROGRESS) \<and>
      (\<exists>h. t_history t' = t_history t @ h) \<and> (is_terminal t \<longrightarrow> t' = t))"

definition evolves :: "world \<Rightarrow> world \<Rightarrow> bool" where
  "evolves w w' = (\<forall>i t. find_task w i = Some t \<longrightarrow> (\<exists>t'. find_task w' i = Some t' \<and> grows t t'))"

lemma grows_refl [simp]: "grows t t"
  by (simp add: grows_def)

lemma grows_trans: "grows t t' \<Longrightarrow> grows t' t'' \<Longrightarrow> grows t t''"
  by (auto simp: grows_def)

lemma evolves_refl [simp]: "evolves w w"
  by (simp add: evolves_def)

lemma evolves_trans: "evolves w w' \<Longrightarrow> evolves w' w'' \<Longrightarrow> evolves w w''"
  unfolding evolves_def by (meson grows_trans)

text \<open>What a piece of code leaves behind, whatever happens to its writes.\<close>

definition safe_step :: "world \<Rightarrow> world \<Rightarrow> bool" where
  "safe_step w w' = (store_ok w' \<and> evolves w w' \<and>
     (\<exists>l. runs w' = runs w @ l \<and> (\<forall>i\<in>set l. \<forall>t. find_task w i = Some t \<longrightarrow> \<not> t_cancel t)))"

definition secure :: "(world \<Rightarrow> bool) \<Rightarrow> 'a io \<Rightarrow> ('a \<Rightarrow> world \<Rightarrow> bool) \<Rightarrow> bool" where
  "secure P m Q = (\<forall>w. store_ok w \<longrightarrow> P w \<longrightarrow>
     safe_step w (snd (m w)) \<and> (\<forall>x. fst (m w) = Return x \<longrightarrow> Q x (snd (m w))))"

lemma secureI:
  "(\<And>w r w'. store_ok w \<Longrightarrow> P w \<Longrightarrow> m w = (r, w') \<Longrightarrow>
     safe_step w w' \<and> (\<forall>x. r = Return x \<longrightarrow> Q x w')) \<Longrightarrow> secure P m Q"
  unfolding secure_def by (metis prod.collapse)

lemma secureD:
  "secure P m Q \<Longrightarrow> store_ok w \<Longrightarrow> P w \<Longrightarrow> safe_step w (snd (m w))"
  by (simp add: secure_def)

lemma secure_weaken:
  "secure P m Q \<Longrightarrow> (\<And>w. P' w \<Longrightarrow> P w) \<Longrightarrow> (\<And>x w. Q x w \<Longrightarrow> Q' x w) \<Longrightarrow> secure P' m Q'"
  by (auto simp: secure_def)

lemma safe_step_trans: "safe_step w w' \<Longrightarrow> safe_step w' w'' \<Longrightarrow> safe_step w w''"
proof -
  assume a: "safe_step w w'" and b: "safe_step w' w''"
  then obtain k l where k: "runs w' = runs w @ k" "\<And>i t. i \<in> set k \<Longrightarrow> find_task w i = Some t \<Longrightarrow> \<not> t_cancel t"
    and l: "runs w'' = runs w' @ l" "\<And>i t. i \<in> set l \<Longrightarrow> find_task w' i = Some t \<Longrightarrow> \<not> t_cancel t"
    unfolding safe_step_def by blast
  have e: "evolves w w'" using a by (simp add: safe_step_def)
  have "\<not> t_cancel t" if i: "i \<in> set l" and t: "find_task w i = Some t" for i t
  proof -
    from e t obtain t' where "find_task w' i = Some t'" "grows t t'" unfolding evolves_def by blast
    with l(2) [OF i] show ?thesis by (auto simp: grows_def)
  qed
  with k l have "\<exists>l. runs w'' = runs w @ l \<and> (\<forall>i\<in>set l. \<forall>t. find_task w i = Some t \<longrightarrow> \<not> t_cancel t)"
    by (intro exI [of _ "k @ l"]) auto
  with a b show ?thesis
    unfolding safe_step_def by (auto intro: evolves_trans)
qed

lemma secure_bind:
  assumes m: "secure P m Q" and f: "\<And>x. secure (Q x) (f x) R"
  shows "secure P (io_bind m f) R"
proof (rule secureI)
  fix w r w'
  assume ok: "store_ok w" "P w" and run: "io_bind m f w = (r, w')"
  obtain a w1 where a: "m w = (a, w1)" by (cases "m w")
  have m1: "safe_step w w1" "\<And>x. a = Return x \<Longrightarrow> Q x w1"
    using m ok a by (auto simp: secure_def)
  show "safe_step w w' \<and> (\<forall>x. r = Return x \<longrightarrow> R x w')"
  proof (cases a)
    case (Return x)
    have "store_ok w1" using m1(1) by (simp add: safe_step_def)
    moreover have fx: "f x w1 = (r, w')" using run a Return by (simp add: io_bind_def)
    ultimately have "safe_step w1 w' \<and> (\<forall>y. r = Return y \<longrightarrow> R y w')"
      using f [of x] m1(2) [OF Return] by (auto simp: secure_def)
    with m1(1) show ?thesis by (blast intro: safe_step_trans)
  next
    case (Raise e)
    with run a m1 show ?thesis by (auto simp: io_bind_def)
  next
    case Died
    with run a m1 show ?thesis by (auto simp: io_bind_def)
  qed
qed

lemma secure_bind_same:
  "secure P m (\<lambda>_. P) \<Longrightarrow> (\<And>x. secure P (f x) R) \<Longrightarrow> secure P (io_bind m f) R"
  by (rule secure_bind)

lemma safe_step_refl: "store_ok w \<Longrightarrow> safe_step w w"
  by (simp add: safe_step_def)

lemma secure_return: "(\<And>w. P w \<Longrightarrow> Q x w) \<Longrightarrow> secure P (io_return x) Q"
  by (auto simp: secure_def io_return_def safe_step_refl)

lemma secure_raise [intro!]: "secure P (io_raise e) Q"
  by (auto simp: secure_def io_raise_def safe_step_refl)

lemma secure_result: "(\<And>x w. r = Inr x \<Longrightarrow> P w \<Longrightarrow> Q x w) \<Longrightarrow> secure P (io_result r) Q"
  by (cases r) (auto simp: io_result_def intro: secure_return)

lemma secure_bind_result:
  "(\<And>x. r = Inr x \<Longrightarrow> secure P (f x) Q) \<Longrightarrow> secure P (io_bind (io_result r) f) Q"
  by (cases r) (auto simp: secure_def io_result_def io_bind_def io_return_def io_raise_def safe_step_refl)

lemma secure_guard: "(\<And>w. b \<Longrightarrow> P w \<Longrightarrow> Q () w) \<Longrightarrow> secure P (io_guard b e) Q"
  by (auto simp: io_guard_def intro: secure_return)

lemma secure_get: "(\<And>w. P w \<Longrightarrow> Q (f w) w) \<Longrightarrow> secure P (io_get f) Q"
  by (auto simp: secure_def io_get_def safe_step_refl)

lemma secure_catch:
  assumes m: "secure P m Q" and h: "\<And>e. secure (\<lambda>w. True) (h e) Q"
  shows "secure P (io_catch m h) Q"
proof (rule secureI)
  fix w r w'
  assume ok: "store_ok w" "P w" and run: "io_catch m h w = (r, w')"
  obtain a w1 where a: "m w = (a, w1)" by (cases "m w")
  have m1: "safe_step w w1" "\<And>x. a = Return x \<Longrightarrow> Q x w1"
    using m ok a by (auto simp: secure_def)
  show "safe_step w w' \<and> (\<forall>x. r = Return x \<longrightarrow> Q x w')"
  proof (cases a)
    case (Raise e)
    have "store_ok w1" using m1(1) by (simp add: safe_step_def)
    moreover have "h e w1 = (r, w')" using run a Raise by (simp add: io_catch_def)
    ultimately have "safe_step w1 w' \<and> (\<forall>y. r = Return y \<longrightarrow> Q y w')"
      using h [of e] by (auto simp: secure_def)
    with m1(1) show ?thesis by (blast intro: safe_step_trans)
  qed (use run a m1 in \<open>auto simp: io_catch_def\<close>)
qed

section \<open>Basic steps\<close>

text \<open>Fields that carry no durable state.\<close>

lemma bookkeeping [simp]:
  "find_task (w\<lparr>plan := p\<rparr>) = find_task w" "find_task (w\<lparr>ticks := n\<rparr>) = find_task w"
  "find_task (w\<lparr>moment := n\<rparr>) = find_task w" "find_task (w\<lparr>workspaces := ws\<rparr>) = find_task w"
  "find_task (w\<lparr>clock := k\<rparr>) = find_task w" "find_task (w\<lparr>runs := rs\<rparr>) = find_task w"
  "find_task (w\<lparr>held := v\<rparr>) = find_task w" "artifact (w\<lparr>held := v\<rparr>) = artifact w"
  "artifact (w\<lparr>plan := p\<rparr>) = artifact w" "artifact (w\<lparr>ticks := n\<rparr>) = artifact w"
  "artifact (w\<lparr>moment := n\<rparr>) = artifact w" "artifact (w\<lparr>workspaces := ws\<rparr>) = artifact w"
  "artifact (w\<lparr>clock := k\<rparr>) = artifact w" "artifact (w\<lparr>runs := rs\<rparr>) = artifact w"
  by (simp_all add: fun_eq_iff find_task_def artifact_def files_def)

lemma evidence_bookkeeping [simp]:
  "evidence (w\<lparr>plan := p\<rparr>) = evidence w" "evidence (w\<lparr>ticks := n\<rparr>) = evidence w"
  "evidence (w\<lparr>moment := n\<rparr>) = evidence w" "evidence (w\<lparr>workspaces := ws\<rparr>) = evidence w"
  "evidence (w\<lparr>clock := k\<rparr>) = evidence w" "evidence (w\<lparr>runs := rs\<rparr>) = evidence w"
  "evidence (w\<lparr>held := v\<rparr>) = evidence w"
  by (simp_all add: fun_eq_iff evidence_def has_dir_def)

lemma store_ok_bookkeeping [simp]:
  "store_ok (w\<lparr>plan := p\<rparr>) = store_ok w" "store_ok (w\<lparr>ticks := n\<rparr>) = store_ok w"
  "store_ok (w\<lparr>moment := n\<rparr>) = store_ok w" "store_ok (w\<lparr>workspaces := ws\<rparr>) = store_ok w"
  "store_ok (w\<lparr>clock := k\<rparr>) = store_ok w" "store_ok (w\<lparr>held := v\<rparr>) = store_ok w"
  by (simp_all add: store_ok_def)

lemma evolves_bookkeeping [simp]:
  "evolves w (w'\<lparr>plan := p\<rparr>) = evolves w w'" "evolves w (w'\<lparr>ticks := n\<rparr>) = evolves w w'"
  "evolves w (w'\<lparr>moment := n\<rparr>) = evolves w w'" "evolves w (w'\<lparr>workspaces := ws\<rparr>) = evolves w w'"
  "evolves w (w'\<lparr>clock := k\<rparr>) = evolves w w'" "evolves w (w'\<lparr>runs := rs\<rparr>) = evolves w w'"
  "evolves w (w'\<lparr>held := v\<rparr>) = evolves w w'"
  "evolves (w\<lparr>plan := p\<rparr>) w' = evolves w w'"
  by (simp_all add: evolves_def)

text \<open>A condition on the tasks and artifacts alone.\<close>

definition on_disk :: "(world \<Rightarrow> bool) \<Rightarrow> bool" where
  "on_disk P = (\<forall>w w'. tasks w = tasks w' \<longrightarrow> audit w = audit w' \<longrightarrow> P w = P w')"

lemma on_diskD: "on_disk P \<Longrightarrow> P w \<Longrightarrow> tasks w' = tasks w \<Longrightarrow> audit w' = audit w \<Longrightarrow> P w'"
  unfolding on_disk_def by metis

lemma on_disk_task [simp]: "on_disk (\<lambda>w. find_task w i = x)"
  by (simp add: on_disk_def find_task_def)

lemma on_disk_artifact [simp]: "on_disk (\<lambda>w. artifact w i n = x)"
  by (simp add: on_disk_def artifact_def files_def)

lemma on_disk_conj [simp]: "on_disk P \<Longrightarrow> on_disk Q \<Longrightarrow> on_disk (\<lambda>w. P w \<and> Q w)"
  unfolding on_disk_def by metis

lemma on_disk_const [simp]: "on_disk (\<lambda>w. b)"
  by (simp add: on_disk_def)

lemma secure_stamp: "on_disk P \<Longrightarrow> secure P stamp (\<lambda>_. P)"
  by (auto simp: secure_def stamp_def safe_step_def elim: on_diskD)

lemma secure_durable:
  assumes "\<And>w. store_ok w \<Longrightarrow> P w \<Longrightarrow> safe_step w (f w) \<and> Q (f w)" and "on_disk P"
  shows "secure P (durable f) (\<lambda>_. Q)"
proof (rule secureI)
  fix w r w'
  assume ok: "store_ok w" "P w" and run: "durable f w = (r, w')"
  have p: "safe_step w (f (w\<lparr>plan := p\<rparr>)) \<and> Q (f (w\<lparr>plan := p\<rparr>))" for p
    using assms(1) [of "w\<lparr>plan := p\<rparr>"] ok on_diskD [OF assms(2) ok(2), of "w\<lparr>plan := p\<rparr>"]
    by (simp add: safe_step_def)
  have id: "safe_step w (w\<lparr>plan := p\<rparr>)" for p using ok by (simp add: safe_step_def)
  from run p id assms(1) [OF ok] show "safe_step w w' \<and> (\<forall>x. r = Return x \<longrightarrow> Q w')"
    by (auto simp: durable_def split: list.splits fault.splits)
qed

lemma find_set_task: "find_task (set_task i t w) = (find_task w)(i \<mapsto> t)"
  by (rule task_table.load_store)

lemma artifact_set_task [simp]: "artifact (set_task i t w) = artifact w"
  by (simp add: fun_eq_iff artifact_def files_def set_task_def)

lemma find_set_artifact [simp]: "find_task (set_artifact i n c w) = find_task w"
  by (simp add: fun_eq_iff find_task_def set_artifact_def)

lemma artifact_set_artifact:
  "artifact (set_artifact i n c w) j m = (if j = i \<and> m = n then Some c else artifact w j m)"
  by (simp add: artifact_def files_def set_artifact_def map_of_dict_set)

lemma frame_sets [simp]:
  "runs (set_task i t w) = runs w" "runs (set_artifact i n c w) = runs w"
  "tasks (set_artifact i n c w) = tasks w" "audit (set_task i t w) = audit w"
  by (simp_all add: set_task_def set_artifact_def)

lemma has_dir_sets [simp]:
  "has_dir (set_task i t w) = has_dir w" "has_dir (set_artifact i n c w) j = (j = i \<or> has_dir w j)"
  by (simp_all add: fun_eq_iff has_dir_def set_task_def set_artifact_def map_of_dict_set)

lemma evidence_set_task [simp]: "evidence (set_task i t w) = evidence w"
  by (simp add: fun_eq_iff evidence_def)

text \<open>Artifacts other than a terminal task's result; a coding report is always an object.\<close>

definition agent_ok :: "string \<Rightarrow> content \<Rightarrow> bool" where
  "agent_ok n c = (n = ''agent-result.json'' \<longrightarrow> (\<exists>d. c = Json (PDict d)))"

lemma agent_ok_other [simp]: "n \<noteq> ''agent-result.json'' \<Longrightarrow> agent_ok n c"
  by (simp add: agent_ok_def)

lemma agent_ok_dict [simp]: "agent_ok n (Json (PDict d))" "agent_ok n (Json (sdict kvs))"
  by (simp_all add: agent_ok_def sdict_def)

lemma evidence_set_artifact:
  "evidence w j b \<Longrightarrow> agent_ok n c \<Longrightarrow> evidence (set_artifact i n c w) j b"
  by (auto simp: evidence_def artifact_set_artifact agent_ok_def)

lemma safe_set_artifact:
  assumes "store_ok w" "n = ''result.json'' \<longrightarrow> (\<forall>t. find_task w i = Some t \<longrightarrow> \<not> is_terminal t)"
    and "agent_ok n c"
  shows "safe_step w (set_artifact i n c w)"
proof -
  have "store_ok (set_artifact i n c w)"
    using assms by (auto simp: store_ok_def artifact_set_artifact evidence_set_artifact)
  then show ?thesis by (simp add: safe_step_def evolves_def)
qed

lemma secure_put_artifact:
  assumes "on_disk P" and "\<And>w. P w \<Longrightarrow> Q (set_artifact i n c w)"
    and "n = ''result.json'' \<Longrightarrow> (\<And>w t. P w \<Longrightarrow> find_task w i = Some t \<Longrightarrow> \<not> is_terminal t)"
    and "agent_ok n c"
  shows "secure P (put_artifact i n c) (\<lambda>_. Q)"
proof -
  have d: "secure P (durable (set_artifact i n c)) (\<lambda>_. Q)"
    using assms by (intro secure_durable) (auto intro!: safe_set_artifact)
  show ?thesis
  proof (rule secureI)
    fix w r w'
    assume "store_ok w" "P w" "put_artifact i n c w = (r, w')"
    then show "safe_step w w' \<and> (\<forall>x. r = Return x \<longrightarrow> Q w')"
      using d by (auto simp: put_artifact_def secure_def safe_step_refl split: if_splits)
  qed
qed

lemma secure_put_artifacts:
  assumes "on_disk P" and "\<And>w n c. P w \<Longrightarrow> P (set_artifact i n c w)"
    and "\<And>w t. P w \<Longrightarrow> find_task w i = Some t \<Longrightarrow> \<not> is_terminal t"
    and "list_all (\<lambda>(n, c). agent_ok n c) fs"
  shows "secure P (put_artifacts i fs) (\<lambda>_. P)"
  using assms(4)
proof (induction fs)
  case Nil
  then show ?case by (auto intro: secure_return)
next
  case (Cons f fs)
  then show ?case
    using assms(1-3) by (cases f) (auto intro!: secure_bind [where Q = "\<lambda>_. P"] secure_put_artifact)
qed

text \<open>Storing a record that extends the one stored.\<close>

lemma safe_set_task:
  assumes ok: "store_ok w" and t: "task_ok i t"
    and res: "is_terminal t \<Longrightarrow> artifact w i ''result.json'' = Some (Record t)"
    and old: "\<And>s. find_task w i = Some s \<Longrightarrow> grows s t"
    and run: "i \<in> set (runs w) \<Longrightarrow> t_status t \<notin> {''submitted'', ''reserved''}"
    and can: "t_cancel t \<Longrightarrow> t_status t \<noteq> ''submitted''"
    and ev: "find_task w i = None \<Longrightarrow> evidence w i (is_coding (t_request t))"
  shows "safe_step w (set_task i t w)"
proof -
  have "evidence w i (is_coding (t_request t))"
  proof (cases "find_task w i")
    case (Some s)
    with ok old [OF Some] show ?thesis by (auto simp: store_ok_def grows_def)
  qed (use ev in simp)
  then have "store_ok (set_task i t w)"
    using ok t res run can distinct_dict_set [of "tasks w" i t]
    by (auto simp: store_ok_def find_set_task) (simp add: set_task_def)
  moreover have "evolves w (set_task i t w)"
    using old by (auto simp: evolves_def find_set_task)
  ultimately show ?thesis by (simp add: safe_step_def)
qed

section \<open>Operations\<close>

lemma store_ok_task: "store_ok w \<Longrightarrow> find_task w i = Some t \<Longrightarrow> task_ok i t"
  by (simp add: store_ok_def)

lemma started_status: "store_ok w \<Longrightarrow> i \<in> set (runs w) \<Longrightarrow> find_task w i = Some t \<Longrightarrow>
    t_status t \<notin> {''submitted'', ''reserved''}"
  unfolding store_ok_def by force

lemma walk_extend:
  assumes "walk edges xs" "xs \<noteq> []" "t \<in> set (edges (last xs))"
  shows "walk edges (xs @ [t])"
proof -
  from assms(2) obtain ys s where "xs = ys @ [s]" by (metis rev_exhaust)
  with assms show ?thesis using walk_snoc [of edges ys s t] by simp
qed

text \<open>What \<open>extra\<close> may set on the way to a state.\<close>

definition extra_ok :: "string \<Rightarrow> (task \<Rightarrow> task) \<Rightarrow> task \<Rightarrow> bool" where
  "extra_ok st extra t = (t_id (extra t) = t_id t \<and> t_request (extra t) = t_request t \<and>
     t_hash (extra t) = t_hash t \<and> t_cancel (extra t) = t_cancel t \<and>
     t_finished (extra t) = t_finished t \<and>
     (t_attempts (extra t) = t_attempts t \<or>
      (t_attempts (extra t) = 1 \<and> (st = ''reserved'' \<or> ''reserved'' \<in> fst ` set (t_history t)))))"

definition moved :: "task \<Rightarrow> string \<Rightarrow> (task \<Rightarrow> task) \<Rightarrow> string \<Rightarrow> string \<Rightarrow> task" where
  "moved t st extra at code = (extra t)\<lparr>t_status := st, t_history := t_history t @ [(st, at, code)]\<rparr>"

lemma no_edge_into_reserved:
  "st \<in> set (EDGES s) \<Longrightarrow> st \<noteq> ''submitted''"
  by (auto simp: EDGES_def TERMINAL_def split: if_splits)

lemma task_ok_moved:
  assumes t: "task_ok i t" and st: "st \<in> set (EDGES (t_status t))" and e: "extra_ok st extra t"
    and c: "t_cancel t \<longrightarrow> st \<notin> set PROGRESS"
  shows "st \<notin> set TERMINAL \<Longrightarrow> task_ok i (moved t st extra at code)"
    and "st \<in> set TERMINAL \<Longrightarrow> task_ok i ((moved t st extra at code)\<lparr>t_finished := Some fin\<rparr>)"
    and "\<not> is_terminal t \<Longrightarrow> grows t (moved t st extra at code)"
    and "\<not> is_terminal t \<Longrightarrow> grows t ((moved t st extra at code)\<lparr>t_finished := Some fin\<rparr>)"
proof -
  have nt: "\<not> is_terminal t"
    using st by (auto simp: is_terminal_def TERMINAL_def EDGES_def split: if_splits)
  have w: "walk EDGES (map fst (t_history t) @ [st])"
    using t st by (intro walk_extend) (auto simp: task_ok_def last_map)
  show "st \<notin> set TERMINAL \<Longrightarrow> task_ok i (moved t st extra at code)"
    "st \<in> set TERMINAL \<Longrightarrow> task_ok i ((moved t st extra at code)\<lparr>t_finished := Some fin\<rparr>)"
    using t w e nt no_edge_into_reserved [OF st]
    by (auto simp: task_ok_def moved_def extra_ok_def is_terminal_def)
  show "\<not> is_terminal t \<Longrightarrow> grows t (moved t st extra at code)"
    "\<not> is_terminal t \<Longrightarrow> grows t ((moved t st extra at code)\<lparr>t_finished := Some fin\<rparr>)"
    using e c by (auto simp: grows_def moved_def extra_ok_def)
qed

lemma task_ok_reserved:
  assumes "task_ok i t" "t_status t \<noteq> ''submitted''" "\<not> is_terminal t"
  shows "''reserved'' \<in> fst ` set (t_history t)"
proof -
  let ?h = "map fst (t_history t)"
  from assms(1) have h: "walk EDGES ?h" "?h \<noteq> []" "last ?h = t_status t" "hd ?h = ''submitted''"
    by (auto simp: task_ok_def last_map hd_map)
  then obtain xs where xs: "?h = xs @ [t_status t]" by (metis append_butlast_last_id)
  with h(4) assms(2) have "xs \<noteq> []" by (cases xs) auto
  then obtain ys s where ys: "xs = ys @ [s]" by (metis rev_exhaust)
  with h(1) xs have e: "t_status t \<in> set (EDGES s)" using walk_append [of EDGES ys "[s, t_status t]"] by simp
  show ?thesis
  proof (cases "t_status t = ''reserved''")
    case True
    with xs have "''reserved'' \<in> set ?h" by simp
    then show ?thesis by simp
  next
    case False
    with e assms(2,3) have "s = ''reserved''"
      by (auto simp: EDGES_def TERMINAL_def is_terminal_def split: if_splits)
    with xs ys have "''reserved'' \<in> set ?h" by simp
    then show ?thesis by simp
  qed
qed

lemma secure_load: "secure P (load i) (\<lambda>r w. P w \<and> r = find_task w i \<and> is_uuid i)"
  by (auto simp: load_def intro: secure_get)

lemma secure_load_record: "secure (\<lambda>_. True) (load_record i) (\<lambda>t w. find_task w i = Some t)"
  unfolding load_record_def
proof (rule secure_bind [OF secure_load])
  fix r
  show "secure (\<lambda>w. True \<and> r = find_task w i \<and> is_uuid i)
      (case r of None \<Rightarrow> io_raise TypeError | Some t \<Rightarrow> io_return t) (\<lambda>t w. find_task w i = Some t)"
    by (cases r) (auto intro: secure_return)
qed

lemma edges_after_start:
  "st \<in> set (EDGES s) \<Longrightarrow> s \<notin> {''submitted'', ''reserved''} \<Longrightarrow> st \<notin> {''submitted'', ''reserved''}"
  by (auto simp: EDGES_def TERMINAL_def split: if_splits)

lemma is_terminal_finished [simp]: "is_terminal (t\<lparr>t_finished := f\<rparr>) = is_terminal t"
  by (simp add: is_terminal_def)

lemma is_terminal_moved [simp]: "is_terminal (moved t st extra at code) = (st \<in> set TERMINAL)"
  by (simp add: is_terminal_def moved_def)

lemma moved_simps [simp]: "t_status (moved t st extra at code) = st"
  by (simp add: moved_def)

lemma secure_transition_locked:
  assumes t: "task_ok i t" and g: "grows s t" and same: "t_status t = t_status s"
    and e: "extra_ok st extra t" and c: "t_cancel t \<longrightarrow> st \<notin> set PROGRESS"
  shows "secure (\<lambda>w. find_task w i = Some s) (transition_locked t st code extra)
     (\<lambda>x w. find_task w i = Some x \<and> t_status x = st \<and> grows t x \<and> t_cancel x = t_cancel t \<and>
        (st \<notin> set TERMINAL \<longrightarrow> i \<notin> set (runs w)))"
proof (cases "st \<in> set (EDGES (t_status t))")
  case False
  then show ?thesis by (simp add: transition_locked_def) (rule secure_raise)
next
  case st: True
  have nt: "\<not> is_terminal t" "\<not> is_terminal s"
    using st same by (auto simp: is_terminal_def TERMINAL_def EDGES_def split: if_splits)
  have id: "t_id t = i" using t by (simp add: task_ok_def)
  have run: "st \<notin> {''submitted'', ''reserved''}" if "store_ok w" "find_task w i = Some s" "i \<in> set (runs w)" for w
    using started_status [OF that(1,3,2)] edges_after_start [OF st] same by simp
  note tm = task_ok_moved [OF t st e c]
  have can: "t_cancel (moved t st extra at code) = t_cancel t" for at
    using e by (simp add: moved_def extra_ok_def)
  note nosub = no_edge_into_reserved [OF st]
  show ?thesis
  proof (cases "st \<in> set TERMINAL")
    case True
    let ?t2 = "\<lambda>at fin. (moved t st extra at code)\<lparr>t_finished := Some fin\<rparr>"
    let ?Q = "\<lambda>x w. find_task w i = Some x \<and> t_status x = st \<and> grows t x \<and> t_cancel x = t_cancel t \<and>
      (st \<notin> set TERMINAL \<longrightarrow> i \<notin> set (runs w))"
    have keep: "secure (\<lambda>w. find_task w i = Some s \<and> artifact w i ''result.json'' = Some (Record (?t2 at fin)))
       (io_bind (put_task i (?t2 at fin)) (\<lambda>_. io_return (?t2 at fin))) ?Q" for at fin
      unfolding put_task_def
    proof (rule secure_bind [OF secure_durable])
      fix w
      assume "store_ok w" "find_task w i = Some s \<and> artifact w i ''result.json'' = Some (Record (?t2 at fin))"
      then show "safe_step w (set_task i (?t2 at fin) w) \<and>
          find_task (set_task i (?t2 at fin) w) i = Some (?t2 at fin)"
        using tm(2) [OF True] tm(4) [OF nt(1)] g nosub run
        by (intro conjI safe_set_task) (auto simp: find_set_task intro: grows_trans)
    next
      fix x :: unit
      show "secure (\<lambda>w. find_task w i = Some (?t2 at fin)) (io_return (?t2 at fin)) ?Q"
        using tm(4) [OF nt(1)] True can by (intro secure_return) simp
    qed simp
    have publish: "secure (\<lambda>w. find_task w i = Some s)
       (io_bind (put_artifact i ''result.json'' (Record (?t2 at fin))) (\<lambda>_.
        io_bind (put_task i (?t2 at fin)) (\<lambda>_. io_return (?t2 at fin)))) ?Q" for at fin
      by (rule secure_bind [OF secure_put_artifact keep]) (use nt in \<open>auto simp: artifact_set_artifact\<close>)
    have "secure (\<lambda>w. find_task w i = Some s)
      (io_bind stamp (\<lambda>at. io_bind stamp (\<lambda>fin.
         io_bind (put_artifact i ''result.json'' (Record (?t2 at fin))) (\<lambda>_.
         io_bind (put_task i (?t2 at fin)) (\<lambda>_. io_return (?t2 at fin)))))) ?Q"
      by (intro secure_bind [OF secure_stamp] publish) simp_all
    with True st id show ?thesis by (simp add: transition_locked_def Let_def moved_def)
  next
    case False
    let ?Q = "\<lambda>x w. find_task w i = Some x \<and> t_status x = st \<and> grows t x \<and> t_cancel x = t_cancel t \<and>
      (st \<notin> set TERMINAL \<longrightarrow> i \<notin> set (runs w))"
    have first: "i \<notin> set (runs w)" if "store_ok w" "find_task w i = Some s" for w
      using started_status [OF that(1) _ that(2)] st same False
      by (auto simp: EDGES_def TERMINAL_def split: if_splits)
    have "secure (\<lambda>w. find_task w i = Some s)
      (io_bind stamp (\<lambda>at. io_bind (put_task i (moved t st extra at code))
         (\<lambda>_. io_return (moved t st extra at code)))) ?Q"
    proof (rule secure_bind [OF secure_stamp])
      fix at
      show "secure (\<lambda>w. find_task w i = Some s)
         (io_bind (put_task i (moved t st extra at code)) (\<lambda>_. io_return (moved t st extra at code))) ?Q"
        unfolding put_task_def
      proof (rule secure_bind [OF secure_durable])
        fix w
        assume "store_ok w" "find_task w i = Some s"
        then show "safe_step w (set_task i (moved t st extra at code) w) \<and>
            (find_task (set_task i (moved t st extra at code) w) i = Some (moved t st extra at code) \<and>
             i \<notin> set (runs (set_task i (moved t st extra at code) w)))"
          using tm(1) [OF False] tm(3) [OF nt(1)] g nosub run False first
          by (intro conjI safe_set_task) (auto simp: find_set_task intro: grows_trans)
      next
        fix x :: unit
        show "secure (\<lambda>w. find_task w i = Some (moved t st extra at code) \<and> i \<notin> set (runs w))
           (io_return (moved t st extra at code)) ?Q"
          using tm(3) [OF nt(1)] can by (intro secure_return) simp
      qed simp
    qed simp
    with False st id show ?thesis by (simp add: transition_locked_def Let_def moved_def)
  qed
qed

text \<open>Facts the store's invariant gives about a loaded record.\<close>

lemma secure_assume:
  "(\<And>w. store_ok w \<Longrightarrow> P w \<Longrightarrow> b) \<Longrightarrow> (b \<Longrightarrow> secure P m Q) \<Longrightarrow> secure P m Q"
  unfolding secure_def by blast

lemma secure_transition:
  assumes e: "\<And>t. extra_ok st extra t"
  shows "secure (\<lambda>_. True) (transition i st code extra)
     (\<lambda>x w. find_task w i = Some x \<and>
        (is_terminal x \<or> (t_status x = st \<and> i \<notin> set (runs w) \<and> (t_cancel x \<longrightarrow> st \<notin> set PROGRESS))))"
  unfolding transition_def
proof (rule secure_bind [OF secure_load_record])
  fix t
  let ?Q = "\<lambda>x w. find_task w i = Some x \<and>
     (is_terminal x \<or> (t_status x = st \<and> i \<notin> set (runs w) \<and> (t_cancel x \<longrightarrow> st \<notin> set PROGRESS)))"
  show "secure (\<lambda>w. find_task w i = Some t)
     (if is_terminal t then io_return t
      else if t_cancel t \<and> st \<in> {''reserved'', ''running'', ''succeeded''}
      then transition_locked t ''cancelled'' ''cancellation_requested'' extra
      else transition_locked t st code extra) ?Q"
  proof (rule secure_assume [where b = "task_ok i t \<and> (t_cancel t \<longrightarrow> t_status t \<noteq> ''submitted'')"])
    assume ok: "task_ok i t \<and> (t_cancel t \<longrightarrow> t_status t \<noteq> ''submitted'')"
    have c: "extra_ok ''cancelled'' extra t" if "t_cancel t" "\<not> is_terminal t"
      using e [of t] task_ok_reserved [of i t] ok that
      by (auto simp: extra_ok_def task_ok_def)
    show ?thesis
    proof (cases "is_terminal t")
      case True
      then show ?thesis by (auto intro: secure_return)
    next
      case nt: False
      show ?thesis
      proof (cases "t_cancel t \<and> st \<in> {''reserved'', ''running'', ''succeeded''}")
        case True
        have "secure (\<lambda>w. find_task w i = Some t)
            (transition_locked t ''cancelled'' ''cancellation_requested'' extra) ?Q"
          using ok c nt True
          by (intro secure_weaken [OF secure_transition_locked [of i t t "''cancelled''" extra]])
            (auto simp: is_terminal_def TERMINAL_def PROGRESS_def)
        with True nt show ?thesis by simp
      next
        case False
        have "secure (\<lambda>w. find_task w i = Some t) (transition_locked t st code extra) ?Q"
          using ok e False by (intro secure_weaken [OF secure_transition_locked [of i t t st extra]])
            (auto simp: is_terminal_def PROGRESS_def)
        then show ?thesis by (simp only: if_not_P [OF False] if_not_P [OF nt])
      qed
    qed
  qed (auto simp: store_ok_def)
qed

lemma extra_ok_id: "extra_ok st id t"
  by (simp add: extra_ok_def)

lemma secure_cancel: "secure (\<lambda>_. True) (cancel i) (\<lambda>x w. find_task w i = Some x \<and> (t_cancel x \<or> is_terminal x))"
  unfolding cancel_def
proof (rule secure_bind [OF secure_load])
  fix r
  let ?Q = "\<lambda>x w. find_task w i = Some x \<and> (t_cancel x \<or> is_terminal x)"
  show "secure (\<lambda>w. True \<and> r = find_task w i \<and> is_uuid i)
     (case r of None \<Rightarrow> io_raise (Rejected ''unknown_task'')
      | Some t \<Rightarrow> if is_terminal t then io_return t
         else io_bind stamp (\<lambda>at. let t1 = t\<lparr>t_cancel := True, t_cancel_at := Some at\<rparr> in
           if t_status t = ''submitted''
           then transition_locked t1 ''cancelled'' ''cancelled_before_reservation'' id
           else io_bind (put_task i t1) (\<lambda>_. io_return t1))) ?Q"
  proof (cases r)
    case None
    then show ?thesis by (simp add: secure_raise)
  next
    case (Some t)
    show ?thesis
    proof (cases "is_terminal t")
      case True
      with Some show ?thesis by (auto intro: secure_return)
    next
      case nt: False
      let ?t1 = "\<lambda>at. t\<lparr>t_cancel := True, t_cancel_at := Some at\<rparr>"
      have "secure (\<lambda>w. find_task w i = Some t)
         (io_bind stamp (\<lambda>at. if t_status t = ''submitted''
           then transition_locked (?t1 at) ''cancelled'' ''cancelled_before_reservation'' id
           else io_bind (put_task i (?t1 at)) (\<lambda>_. io_return (?t1 at)))) ?Q"
      proof (rule secure_assume [where b = "task_ok i t"], simp add: store_ok_def,
          rule secure_bind [OF secure_stamp])
        fix at
        assume t: "task_ok i t"
        have t1: "task_ok i (?t1 at)" "grows t (?t1 at)"
          using t nt by (auto simp: task_ok_def grows_def is_terminal_def)
        show "secure (\<lambda>w. find_task w i = Some t) (if t_status t = ''submitted''
           then transition_locked (?t1 at) ''cancelled'' ''cancelled_before_reservation'' id
           else io_bind (put_task i (?t1 at)) (\<lambda>_. io_return (?t1 at))) ?Q"
        proof (cases "t_status t = ''submitted''")
          case True
          have "secure (\<lambda>w. find_task w i = Some t)
              (transition_locked (?t1 at) ''cancelled'' ''cancelled_before_reservation'' id) ?Q"
            using t1 by (intro secure_weaken [OF secure_transition_locked [of i "?t1 at" t "''cancelled''" id]])
              (auto simp: extra_ok_id is_terminal_def TERMINAL_def PROGRESS_def)
          with True show ?thesis by simp
        next
          case False
          have "secure (\<lambda>w. find_task w i = Some t) (io_bind (put_task i (?t1 at)) (\<lambda>_. io_return (?t1 at))) ?Q"
            unfolding put_task_def
          proof (rule secure_bind [OF secure_durable])
            fix w
            assume w: "store_ok w" "find_task w i = Some t"
            show "safe_step w (set_task i (?t1 at) w) \<and> find_task (set_task i (?t1 at) w) i = Some (?t1 at)"
              using t1 w nt False started_status [OF w(1) _ w(2)]
              by (intro conjI safe_set_task) (auto simp: find_set_task is_terminal_def)
          qed (auto intro: secure_return)
          with False show ?thesis by simp
        qed
      qed simp
      with Some nt show ?thesis by (auto simp: Let_def elim: secure_weaken)
    qed
  qed
qed

section \<open>Admission and storage failures\<close>

lemma safe_make_dir:
  assumes "store_ok w" "\<not> has_dir w i"
  shows "safe_step w (w\<lparr>audit := dict_set i [] (audit w)\<rparr>)"
proof -
  let ?w = "w\<lparr>audit := dict_set i [] (audit w)\<rparr>"
  have same: "find_task ?w = find_task w" by (simp add: fun_eq_iff find_task_def)
  have art: "artifact ?w j n = artifact w j n" for j n
    using assms(2) by (cases "j = i") (simp_all add: artifact_def files_def has_dir_def map_of_dict_set)
  have "evidence w j b \<Longrightarrow> evidence ?w j b" for j b
    by (auto simp: evidence_def art) (auto simp: has_dir_def map_of_dict_set)
  then have "store_ok ?w" using assms(1) by (simp add: store_ok_def same art)
  then show ?thesis by (simp add: safe_step_def evolves_def same)
qed

lemma secure_make_dir:
  assumes "on_disk P" and "\<And>w a. P w \<Longrightarrow> Q (w\<lparr>audit := a\<rparr>)"
  shows "secure P (make_dir i) (\<lambda>_. Q)"
proof (rule secureI)
  fix w r w'
  assume ok: "store_ok w" "P w" and run: "make_dir i w = (r, w')"
  have d: "secure (\<lambda>w. P w \<and> \<not> has_dir w i) (durable (\<lambda>w. w\<lparr>audit := dict_set i [] (audit w)\<rparr>)) (\<lambda>_. Q)"
  proof (rule secure_durable)
    show "on_disk (\<lambda>w. P w \<and> \<not> has_dir w i)"
      using assms(1) by (rule on_disk_conj) (simp add: on_disk_def has_dir_def)
  next
    fix w
    assume "store_ok w" "P w \<and> \<not> has_dir w i"
    then show "safe_step w (w\<lparr>audit := dict_set i [] (audit w)\<rparr>) \<and> Q (w\<lparr>audit := dict_set i [] (audit w)\<rparr>)"
      using assms(2) safe_make_dir by blast
  qed
  with ok run show "safe_step w w' \<and> (\<forall>x. r = Return x \<longrightarrow> Q w')"
    by (auto simp: make_dir_def secure_def safe_step_refl split: if_splits)
qed

lemma map_of_filter_other: "n \<noteq> name \<Longrightarrow> map_of (filter (\<lambda>(m, c). m \<noteq> name) fs) n = map_of fs n"
  by (induction fs) auto

lemma safe_unlink:
  assumes "store_ok w" "name \<noteq> ''result.json''" "name \<noteq> ''agent-result.json''"
  shows "safe_step w (w\<lparr>audit := dict_set i (filter (\<lambda>(n, c). n \<noteq> name) (files w i)) (audit w)\<rparr>)"
proof -
  let ?w = "w\<lparr>audit := dict_set i (filter (\<lambda>(n, c). n \<noteq> name) (files w i)) (audit w)\<rparr>"
  have same: "find_task ?w = find_task w" by (simp add: fun_eq_iff find_task_def)
  have art: "artifact ?w j n = artifact w j n" if "n \<noteq> name" for j n
  proof (cases "j = i")
    case True
    then have "files ?w i = filter (\<lambda>(n, c). n \<noteq> name) (files w i)"
      by (simp add: files_def map_of_dict_set)
    then show ?thesis
      using True map_of_filter_other [OF that, of "files w i"] by (simp only: artifact_def)
  next
    case False
    then show ?thesis by (simp add: artifact_def files_def map_of_dict_set)
  qed
  have "evidence w j b \<Longrightarrow> evidence ?w j b" for j b
    using assms(3) by (auto simp: evidence_def art) (auto simp: has_dir_def map_of_dict_set)
  then have "store_ok ?w" using assms by (simp add: store_ok_def same art)
  then show ?thesis by (simp add: safe_step_def evolves_def same)
qed

lemma secure_if_dir:
  assumes "secure P m (\<lambda>_. Q)"
  shows "secure P (\<lambda>w. if has_dir w i then m w else (Raise OSError, w)) (\<lambda>_. Q)"
  using assms by (auto simp: secure_def safe_step_refl)

lemma secure_unlink:
  assumes "name \<noteq> ''result.json''" "name \<noteq> ''agent-result.json''"
  shows "secure (\<lambda>_. True) (unlink_artifact i name) (\<lambda>_ _. True)"
proof -
  have "secure (\<lambda>_. True) (durable (\<lambda>w. w\<lparr>audit :=
      dict_set i (filter (\<lambda>(n, c). n \<noteq> name) (files w i)) (audit w)\<rparr>)) (\<lambda>_ _. True)"
    using assms by (intro secure_durable) (simp_all only: safe_unlink simp_thms on_disk_const)
  then show ?thesis
    using secure_if_dir [of "\<lambda>_. True" _ "\<lambda>_. True" i] by (simp add: unlink_artifact_def [abs_def])
qed

lemma task_ok_new: "is_uuid (request_id req) \<Longrightarrow> task_ok (request_id req) (new_task req hash at)"
  by (simp add: task_ok_def new_task_def is_terminal_def TERMINAL_def)

lemma new_task_status [simp]: "t_status (new_task req hash at) = ''submitted''"
  "t_cancel (new_task req hash at) = False"
  by (simp_all add: new_task_def)

text \<open>A directory that is made is there; a coding task's first artifacts hold its report.\<close>

lemma secure_make_dir_at:
  assumes "on_disk P" and "\<And>w a. P (w\<lparr>audit := a\<rparr>) = P w"
  shows "secure P (make_dir i) (\<lambda>_ w. P w \<and> has_dir w i)"
proof (rule secureI)
  fix w r w'
  assume ok: "store_ok w" "P w" and run: "make_dir i w = (r, w')"
  have "secure P (make_dir i) (\<lambda>_. P)"
    by (rule secure_make_dir) (simp_all add: assms)
  then have s: "safe_step w w' \<and> (\<forall>x. r = Return x \<longrightarrow> P w')"
    using ok run unfolding secure_def by (metis fst_conv snd_conv)
  have "r = Return () \<Longrightarrow> has_dir w' i"
    using run by (auto simp: make_dir_def durable_def has_dir_def map_of_dict_set
        split: if_splits list.splits fault.splits)
  with s show "safe_step w w' \<and> (\<forall>x. r = Return x \<longrightarrow> P w' \<and> has_dir w' i)" by simp
qed

lemma secure_put_evidence:
  assumes "list_all (\<lambda>(n, c). agent_ok n c) fs"
  shows "secure (\<lambda>w. find_task w i = None \<and> has_dir w i \<and>
       (b \<longrightarrow> ''agent-result.json'' \<in> fst ` set fs \<or> evidence w i b))
     (put_artifacts i fs) (\<lambda>_ w. find_task w i = None \<and> evidence w i b)"
  using assms
proof (induction fs)
  case Nil
  then show ?case by (auto intro!: secure_return simp: evidence_def)
next
  case (Cons f fs)
  obtain n c where f: "f = (n, c)" by (cases f)
  have put: "secure (\<lambda>w. find_task w i = None \<and> has_dir w i \<and>
         (b \<longrightarrow> ''agent-result.json'' \<in> fst ` set (f # fs) \<or> evidence w i b))
       (put_artifact i n c)
       (\<lambda>_ w. find_task w i = None \<and> has_dir w i \<and>
         (b \<longrightarrow> ''agent-result.json'' \<in> fst ` set fs \<or> evidence w i b))"
  proof (rule secure_put_artifact)
    show "on_disk (\<lambda>w. find_task w i = None \<and> has_dir w i \<and>
         (b \<longrightarrow> ''agent-result.json'' \<in> fst ` set (f # fs) \<or> evidence w i b))"
      by (simp add: on_disk_def find_task_def has_dir_def evidence_def artifact_def files_def)
  qed (use Cons.prems f in \<open>auto simp: evidence_set_artifact evidence_def artifact_set_artifact agent_ok_def\<close>)
  show ?case
    using secure_bind [OF put Cons.IH] Cons.prems by (simp add: f)
qed

lemma secure_admit:
  assumes "is_uuid (request_id req)"
  shows "secure (\<lambda>w. find_task w (request_id req) = None) (admit sha req)
     (\<lambda>x w. find_task w (request_id req) = Some (fst x))"
proof -
  let ?i = "request_id req" and ?b = "is_coding req"
  let ?P = "\<lambda>w. find_task w ?i = None"
  let ?D = "\<lambda>w. find_task w ?i = None \<and> has_dir w ?i"
  let ?E = "\<lambda>w. find_task w ?i = None \<and> evidence w ?i ?b"
  have dirs: "on_disk ?D" "on_disk ?E"
    by (simp_all add: on_disk_def find_task_def has_dir_def evidence_def artifact_def files_def)
  have put: "secure ?E (io_bind (put_task ?i (new_task req hash at)) (\<lambda>_. io_return (new_task req hash at, True)))
      (\<lambda>x w. find_task w ?i = Some (fst x))" for hash at
    unfolding put_task_def
  proof (rule secure_bind [OF secure_durable])
    fix w
    assume w: "store_ok w" "?E w"
    have "?i \<notin> set (runs w)" using w by (auto simp: store_ok_def)
    with w task_ok_new [OF assms, of hash at]
    show "safe_step w (set_task ?i (new_task req hash at) w) \<and>
        find_task (set_task ?i (new_task req hash at) w) ?i = Some (new_task req hash at)"
      by (intro conjI safe_set_task) (auto simp: find_set_task is_terminal_def TERMINAL_def new_task_def)
  qed (auto intro: secure_return simp: dirs)
  have reserve: "secure ?D (put_artifacts ?i reserve_artifacts) (\<lambda>_. ?D)"
    by (rule secure_put_artifacts) (simp_all add: reserve_artifacts_def dirs)
  have arts: "secure ?D (put_artifacts ?i (initial_artifacts (new_task req hash at))) (\<lambda>_. ?E)" for hash at
    by (rule secure_weaken [OF secure_put_evidence])
      (simp_all add: initial_artifacts_def coding_artifacts_def new_task_def evidence_def)
  have mk: "secure ?P (make_dir ?i) (\<lambda>_. ?D)"
    by (rule secure_make_dir_at) (simp_all add: find_task_def on_disk_def)
  show ?thesis
    unfolding admit_def Let_def
    by (intro secure_bind [OF mk] secure_bind [OF reserve] secure_bind [OF arts put]
        secure_bind_same secure_result secure_stamp) (simp_all add: dirs secure_stamp)
qed

lemma secure_submit:
  "secure (\<lambda>_. True) (submit sha now base req) (\<lambda>x w. find_task w (request_id req) = Some (fst x))"
  unfolding submit_def
proof (rule secure_bind [OF secure_load])
  fix r
  let ?i = "request_id req"
  let ?Q = "\<lambda>x w. find_task w ?i = Some (fst x)"
  show "secure (\<lambda>w. True \<and> r = find_task w ?i \<and> is_uuid ?i) (case r of
         Some t \<Rightarrow> io_bind (io_result (digest sha req)) (\<lambda>hash.
           if t_hash t \<noteq> hash then io_raise (Rejected ''task_id_payload_conflict'')
           else io_return (t, False))
       | None \<Rightarrow>
           io_bind (io_result (fresh now req)) (\<lambda>_.
           io_bind (io_guard (dget req ''base_ref'' = PStr (allowed_base req base))
                      (Rejected ''base_not_allowlisted'')) (\<lambda>_.
           io_bind (io_get (\<lambda>w. length (tasks w))) (\<lambda>n.
           io_bind (io_guard (n < 256) (Rejected ''retention_capacity_reached'')) (\<lambda>_.
             admit sha req))))) ?Q"
  proof (cases r)
    case (Some t)
    have "secure (\<lambda>w. find_task w ?i = Some t) (io_bind (io_result (digest sha req)) (\<lambda>hash.
           if t_hash t \<noteq> hash then io_raise (Rejected ''task_id_payload_conflict'')
           else io_return (t, False))) ?Q"
      by (rule secure_bind [OF secure_result, where Q = "\<lambda>_ w. find_task w ?i = Some t"])
        (auto intro: secure_return)
    with Some show ?thesis by (auto elim: secure_weaken)
  next
    case None
    show ?thesis
    proof (rule secure_assume [where b = "is_uuid ?i"])
      assume u: "is_uuid ?i"
      have "secure (\<lambda>w. find_task w ?i = None)
          (io_bind (io_result (fresh now req)) (\<lambda>_.
           io_bind (io_guard (dget req ''base_ref'' = PStr (allowed_base req base))
                      (Rejected ''base_not_allowlisted'')) (\<lambda>_.
           io_bind (io_get (\<lambda>w. length (tasks w))) (\<lambda>n.
           io_bind (io_guard (n < 256) (Rejected ''retention_capacity_reached'')) (\<lambda>_.
             admit sha req))))) ?Q"
        by (intro secure_bind_same secure_result secure_guard secure_get secure_admit u) simp_all
      with None show ?thesis by (auto elim: secure_weaken)
    qed simp
  qed
qed

lemma secure_put_other:
  "n \<noteq> ''result.json'' \<Longrightarrow> agent_ok n c \<Longrightarrow> secure (\<lambda>_. True) (put_artifact i n c) (\<lambda>_ _. True)"
  by (rule secure_put_artifact) auto

lemma secure_storage_failure: "secure (\<lambda>_. True) (storage_failure i) (\<lambda>_ _. True)"
  unfolding storage_failure_def
proof (rule secure_bind [OF secure_unlink])
  show "''emergency.reserve'' \<noteq> ''agent-result.json''" by simp
  have tr: "secure (\<lambda>_. True) (transition i ''failed'' ''storage_error'' id) (\<lambda>_ _. True)"
    by (rule secure_weaken [OF secure_transition]) (simp_all add: extra_ok_def)
  show "secure (\<lambda>_. True) (io_bind (load_record i) (\<lambda>t.
       if is_terminal t then io_return t
       else io_bind (put_artifact i ''execution.log'' (line ''storage_error; task not retried'')) (\<lambda>_.
            io_bind (put_artifact i ''test-result.json'' (not_completed ''storage_error'')) (\<lambda>_.
              transition i ''failed'' ''storage_error'' id)))) (\<lambda>_ _. True)"
    by (intro secure_bind [OF secure_weaken [OF secure_load_record, where Q' = "\<lambda>_ _. True"]])
      (auto intro!: secure_return secure_bind [OF secure_put_other] tr)
qed simp

end
