(* ===== verification/Work_Runner.thy ===== *)
theory Work_Runner
  imports Work_Store_Invariant
begin

text \<open>
  \<open>Runner\<close> of \<open>work_runner.py\<close>: recovery, the guard, workspace preparation and one tick. The
  receiver process works on the same store: before each observation of the store, the clock or the
  stop flag, others may have acted. A host gives, for the n-th observation, what they did, whether
  the service is stopping and whether the deadline has passed. Git commands are external; each is
  how often it was polled and its return code.
\<close>

record host =
  h_other :: "nat \<Rightarrow> world \<Rightarrow> world"
  h_stop :: "nat \<Rightarrow> bool"
  h_late :: "nat \<Rightarrow> bool"

definition observe :: "host \<Rightarrow> nat io" where
  "observe host w =
     (Return (moment w), h_other host (moment w) (w\<lparr>moment := moment w + 1\<rparr>))"

record policy =
  pol_base :: string
  pol_coding :: bool
  pol_min_free :: int

record preparation =
  pr_git :: "(nat \<times> int) list"
  pr_unsupported :: bool

section \<open>Recovery\<close>

definition agent_interrupted :: "content option \<Rightarrow> content result" where
  "agent_interrupted c = (case c of
      None \<Rightarrow> Inl OSError
    | Some (Json (PDict d)) \<Rightarrow> Inr (Json (PDict
        (dict_set (PStr ''code'') (PStr ''interrupted'')
          (dict_set (PStr ''status'') (PStr ''interrupted'') d))))
    | Some (Json _) \<Rightarrow> Inl TypeError
    | Some _ \<Rightarrow> Inl (ValueError ''''))"

definition recover_task :: "task \<Rightarrow> unit io" where
  "recover_task t = (let i = t_id t in
     io_bind (put_artifact i ''test-result.json'' (not_completed ''interrupted_no_retry'')) (\<lambda>_.
     io_bind (if is_coding (t_request t)
              then io_bind (io_get (\<lambda>w. artifact w i ''agent-result.json'')) (\<lambda>c.
                   io_bind (io_result (agent_interrupted c)) (\<lambda>c'.
                     put_artifact i ''agent-result.json'' c'))
              else io_return ()) (\<lambda>_.
     io_bind (transition i ''interrupted'' ''interrupted_no_retry'' id) (\<lambda>_. io_return ()))))"

fun recover_tasks :: "task list \<Rightarrow> unit io" where
  "recover_tasks [] = io_return ()"
| "recover_tasks (t # ts) =
     io_bind (if t_status t = ''reserved'' \<or> t_status t = ''running'' then recover_task t else io_return ())
       (\<lambda>_. recover_tasks ts)"

definition recovery :: "unit io" where
  "recovery = io_bind records recover_tasks"

section \<open>Guard and preparation\<close>

definition runner_guard :: "host \<Rightarrow> string \<Rightarrow> unit io" where
  "runner_guard host i = io_bind (observe host) (\<lambda>n.
     if h_stop host n then io_raise (Abort ''interrupted'' ''service_stopping'')
     else io_bind (load_record i) (\<lambda>t.
       if t_cancel t then io_raise (Abort ''cancelled'' ''cancellation_requested'')
       else if h_late host n then io_raise (Abort ''failed'' ''deadline_exceeded'')
       else io_return ()))"

fun polling :: "host \<Rightarrow> string \<Rightarrow> nat \<Rightarrow> unit io" where
  "polling host i 0 = runner_guard host i"
| "polling host i (Suc n) = io_bind (runner_guard host i) (\<lambda>_. polling host i n)"

definition git :: "host \<Rightarrow> string \<Rightarrow> nat \<times> int \<Rightarrow> unit io" where
  "git host i command = io_bind (polling host i (fst command)) (\<lambda>_.
     if snd command \<noteq> 0 then io_raise (Abort ''failed'' ''workspace_preparation_failed'')
     else io_return ())"

fun git_all :: "host \<Rightarrow> string \<Rightarrow> (nat \<times> int) list \<Rightarrow> unit io" where
  "git_all host i [] = io_return ()"
| "git_all host i (c # cs) = io_bind (git host i c) (\<lambda>_. git_all host i cs)"

definition make_workspace :: "string \<Rightarrow> unit io" where
  "make_workspace i w =
     (if i \<in> set (workspaces w) then (Raise FileExistsError, w)
      else durable (\<lambda>w. w\<lparr>workspaces := i # workspaces w\<rparr>) w)"

definition prepare :: "host \<Rightarrow> preparation \<Rightarrow> string \<Rightarrow> unit io" where
  "prepare host pr i =
     io_bind (make_workspace i) (\<lambda>_.
     io_bind (git_all host i (pr_git pr)) (\<lambda>_.
       if pr_unsupported pr then io_raise (Abort ''blocked'' ''unsupported_repository_content'')
       else io_return ()))"

section \<open>One tick\<close>

fun first_min :: "('a \<Rightarrow> string) \<Rightarrow> 'a list \<Rightarrow> 'a option" where
  "first_min key [] = None"
| "first_min key (x # xs) = (case first_min key xs of
      None \<Rightarrow> Some x
    | Some y \<Rightarrow> Some (if key y < key x then y else x))"

definition submitted_at :: "task \<Rightarrow> string" where
  "submitted_at t = (case t_history t of (st, at, code) # _ \<Rightarrow> at | [] \<Rightarrow> [])"

definition next_task :: "task list \<Rightarrow> task option" where
  "next_task ts = first_min submitted_at (filter (\<lambda>t. t_status t = ''submitted'') ts)"

definition reserving :: "task \<Rightarrow> task" where
  "reserving t = t\<lparr>t_attempts := 1, t_base := Some (dget (t_request t) ''base_ref''),
     t_branch := Some (''builder/'' @ t_id t)\<rparr>"

definition change :: "host \<Rightarrow> string \<Rightarrow> string \<Rightarrow> string \<Rightarrow> (task \<Rightarrow> task) \<Rightarrow> task io" where
  "change host i st code extra = io_bind (observe host) (\<lambda>_. transition i st code extra)"

text \<open>Starting the task's program: a ghost step that records whose program runs.\<close>

definition start_program :: "string \<Rightarrow> unit io" where
  "start_program i w = (Return (), w\<lparr>runs := runs w @ [i]\<rparr>)"

type_synonym executor = "string \<Rightarrow> (string \<times> string) io"

definition finish_run :: "host \<Rightarrow> string \<Rightarrow> string \<times> string \<Rightarrow> bool io" where
  "finish_run host i result = io_bind (observe host) (\<lambda>n.
     let (st, code) = (if h_stop host n then (''interrupted'', ''service_stopping'') else result)
     in io_bind (change host i st code id) (\<lambda>_. io_return True))"

definition run_task :: "host \<Rightarrow> preparation \<Rightarrow> executor \<Rightarrow> executor \<Rightarrow> task \<Rightarrow> bool io" where
  "run_task host pr exec coding t = (let i = t_id t in
     io_bind (prepare host pr i) (\<lambda>_.
     io_bind (runner_guard host i) (\<lambda>_.
     io_bind stamp (\<lambda>at.
     io_bind (change host i ''running'' ''sandbox_starting'' (\<lambda>t. t\<lparr>t_started := Some at\<rparr>)) (\<lambda>t'.
       if is_terminal t' then io_return True
       else io_bind (start_program i) (\<lambda>_.
            io_bind (if is_coding (t_request t') then coding i else exec i)
              (finish_run host i)))))))"

definition tick_body ::
  "host \<Rightarrow> policy \<Rightarrow> int \<Rightarrow> preparation \<Rightarrow> executor \<Rightarrow> executor \<Rightarrow> string \<Rightarrow> bool io" where
  "tick_body host pol free pr exec coding i =
     io_bind (change host i ''reserved'' ''worker_reserved'' reserving) (\<lambda>t.
       if is_terminal t then io_return True
       else if is_coding (t_request t) \<and> \<not> pol_coding pol
         then io_bind (change host i ''blocked'' ''coding_not_enabled'' id) (\<lambda>_. io_return True)
       else if free < pol_min_free pol
         then io_bind (change host i ''blocked'' ''insufficient_storage'' id) (\<lambda>_. io_return True)
       else run_task host pr exec coding t)"

definition tick_error :: "host \<Rightarrow> string \<Rightarrow> exn \<Rightarrow> bool io" where
  "tick_error host i e = (case e of
      Abort st code \<Rightarrow>
        io_bind (put_artifact i ''test-result.json'' (not_completed code)) (\<lambda>_.
        io_bind (change host i st code id) (\<lambda>_. io_return True))
    | _ \<Rightarrow>
        (if is_os_error e
         then io_bind (observe host) (\<lambda>_. io_bind (storage_failure i) (\<lambda>_. io_return True))
         else io_bind (put_artifact i ''test-result.json'' (not_completed ''runner_error'')) (\<lambda>_.
              io_bind (change host i ''failed'' ''runner_error'' id) (\<lambda>_. io_return True))))"

definition tick ::
  "host \<Rightarrow> policy \<Rightarrow> int \<Rightarrow> preparation \<Rightarrow> executor \<Rightarrow> executor \<Rightarrow> bool io" where
  "tick host pol free pr exec coding =
     io_bind (observe host) (\<lambda>_. io_bind records (\<lambda>ts. case next_task ts of
         None \<Rightarrow> io_return False
       | Some t \<Rightarrow> io_catch (tick_body host pol free pr exec coding (t_id t)) (tick_error host (t_id t))))"

section \<open>Tasks run by a safe environment\<close>

text \<open>
  A host is safe when what other processes do to the store between the runner's own steps keeps the
  store's guarantee; an environment adds task programs that keep it too.
\<close>

locale safe_host =
  fixes host :: host
  assumes other_safe: "store_ok w \<Longrightarrow> safe_step w (h_other host n w)"
begin

lemma observe_safe: "secure P (observe host) (\<lambda>_ _. True)"
proof (rule secureI)
  fix w r w'
  assume "store_ok w" "P w" "observe host w = (r, w')"
  then show "safe_step w w' \<and> (\<forall>x. r = Return x \<longrightarrow> True)"
    using other_safe [of "w\<lparr>moment := moment w + 1\<rparr>" "moment w"]
    by (auto simp: observe_def safe_step_def evolves_def)
qed

lemma load_record_safe: "secure (\<lambda>_. True) (load_record i) (\<lambda>_ _. True)"
  by (rule secure_weaken [OF secure_load_record]) simp_all

lemma guard_safe: "secure (\<lambda>_. True) (runner_guard host i) (\<lambda>_ _. True)"
  unfolding runner_guard_def
  by (intro secure_bind_same observe_safe)
    (auto intro!: secure_bind_same load_record_safe secure_return)

lemma polling_safe: "secure (\<lambda>_. True) (polling host i n) (\<lambda>_ _. True)"
  by (induction n) (auto intro!: secure_bind_same guard_safe)

lemma git_all_safe: "secure (\<lambda>_. True) (git_all host i cs) (\<lambda>_ _. True)"
  by (induction cs) (auto intro!: secure_bind_same polling_safe secure_return simp: git_def)

lemma make_workspace_safe: "secure (\<lambda>_. True) (make_workspace i) (\<lambda>_ _. True)"
proof (rule secureI)
  fix w r w'
  assume ok: "store_ok w" and run: "make_workspace i w = (r, w')"
  have "secure (\<lambda>_. True) (durable (\<lambda>w. w\<lparr>workspaces := i # workspaces w\<rparr>)) (\<lambda>_ _. True)"
    by (rule secure_durable) (auto simp: safe_step_def)
  with ok run show "safe_step w w' \<and> (\<forall>x. r = Return x \<longrightarrow> True)"
    by (auto simp: make_workspace_def secure_def safe_step_refl split: if_splits)
qed

lemma prepare_safe: "secure (\<lambda>_. True) (prepare host pr i) (\<lambda>_ _. True)"
  unfolding prepare_def
  by (intro secure_bind_same make_workspace_safe git_all_safe) (auto intro: secure_return)

lemma change_safe:
  assumes "\<And>t. extra_ok st extra t"
  shows "secure (\<lambda>_. True) (change host i st code extra)
     (\<lambda>x w. find_task w i = Some x \<and> (is_terminal x \<or>
        (t_status x = st \<and> i \<notin> set (runs w) \<and> (t_cancel x \<longrightarrow> st \<notin> set PROGRESS))))"
  unfolding change_def by (intro secure_bind_same observe_safe secure_transition assms)

lemma change_id_safe: "secure (\<lambda>_. True) (change host i st code id) (\<lambda>_ _. True)"
  by (rule secure_weaken [OF change_safe]) (auto simp: extra_ok_id)

end

locale safe_environment = safe_host host for host :: host +
  fixes exec :: executor and coding :: executor
  assumes exec_safe: "secure (\<lambda>_. True) (exec i) (\<lambda>_ _. True)"
    and coding_safe: "secure (\<lambda>_. True) (coding i) (\<lambda>_ _. True)"
begin

lemma start_program_safe:
  "secure (\<lambda>w. find_task w i = Some t \<and> t_status t = ''running'' \<and> i \<notin> set (runs w) \<and> \<not> t_cancel t)
     (start_program i) (\<lambda>_ _. True)"
proof (rule secureI)
  fix w r w'
  assume w: "store_ok w" "find_task w i = Some t \<and> t_status t = ''running'' \<and> i \<notin> set (runs w) \<and> \<not> t_cancel t"
    and run: "start_program i w = (r, w')"
  then have w': "w' = w\<lparr>runs := runs w @ [i]\<rparr>" by (simp add: start_program_def)
  have "store_ok w'" using w unfolding store_ok_def w' by simp
  then show "safe_step w w' \<and> (\<forall>x. r = Return x \<longrightarrow> True)"
    using w by (simp add: safe_step_def w')
qed

lemma finish_safe: "secure (\<lambda>_. True) (finish_run host i result) (\<lambda>_ _. True)"
  unfolding finish_run_def
  by (intro secure_bind_same observe_safe)
    (auto simp: Let_def split: prod.split intro!: secure_bind_same change_id_safe secure_return)

lemma run_task_safe: "secure (\<lambda>_. True) (run_task host pr exec coding t) (\<lambda>_ _. True)"
proof -
  let ?i = "t_id t"
  have run: "secure (\<lambda>w. find_task w ?i = Some t' \<and>
        (is_terminal t' \<or> (t_status t' = ''running'' \<and> ?i \<notin> set (runs w) \<and>
          (t_cancel t' \<longrightarrow> ''running'' \<notin> set PROGRESS))))
      (if is_terminal t' then io_return True
       else io_bind (start_program ?i) (\<lambda>_.
            io_bind (if is_coding (t_request t') then coding ?i else exec ?i) (finish_run host ?i)))
      (\<lambda>_ _. True)" for t'
  proof (cases "is_terminal t'")
    case False
    have "secure (\<lambda>_. True) (io_bind (if is_coding (t_request t') then coding ?i else exec ?i)
        (finish_run host ?i)) (\<lambda>_ _. True)"
      by (intro secure_bind_same finish_safe) (simp add: exec_safe coding_safe)
    then show ?thesis
      using False by (auto simp: PROGRESS_def intro: secure_bind secure_weaken [OF start_program_safe])
  qed (auto intro: secure_return)
  have extra: "extra_ok ''running'' (\<lambda>t. t\<lparr>t_started := Some at\<rparr>) u" for at u
    by (simp add: extra_ok_def)
  show ?thesis
    unfolding run_task_def Let_def
    by (intro secure_bind_same prepare_safe guard_safe secure_stamp secure_bind [OF change_safe run] extra)
      simp
qed

lemma tick_body_safe: "secure (\<lambda>_. True) (tick_body host pol free pr exec coding i) (\<lambda>_ _. True)"
proof -
  have "extra_ok ''reserved'' reserving u" for u by (simp add: extra_ok_def reserving_def)
  then have "secure (\<lambda>_. True) (change host i ''reserved'' ''worker_reserved'' reserving) (\<lambda>_ _. True)"
    by (rule secure_weaken [OF change_safe]) simp_all
  then show ?thesis
    unfolding tick_body_def
    by (rule secure_bind_same)
      (auto intro!: secure_return secure_bind_same change_id_safe run_task_safe)
qed

lemma tick_error_safe: "secure (\<lambda>_. True) (tick_error host i e) (\<lambda>_ _. True)"
  unfolding tick_error_def
  by (cases e) (auto intro!: secure_bind_same secure_put_other change_id_safe observe_safe
      secure_storage_failure secure_return)

lemma tick_safe: "secure (\<lambda>_. True) (tick host pol free pr exec coding) (\<lambda>_ _. True)"
  unfolding tick_def
proof (intro secure_bind_same observe_safe)
  show "secure (\<lambda>_. True) records (\<lambda>_ _. True)"
    by (simp add: records_def secure_get)
  fix ts
  show "secure (\<lambda>_. True) (case next_task ts of None \<Rightarrow> io_return False
     | Some t \<Rightarrow> io_catch (tick_body host pol free pr exec coding (t_id t)) (tick_error host (t_id t)))
     (\<lambda>_ _. True)"
    by (cases "next_task ts") (auto intro!: secure_return secure_catch tick_body_safe tick_error_safe)
qed

end

section \<open>Recovery is safe\<close>

lemma transition_id_safe: "secure (\<lambda>_. True) (transition i st code id) (\<lambda>_ _. True)"
  by (rule secure_weaken [OF secure_transition]) (auto simp: extra_ok_id)

lemma agent_interrupted_ok: "agent_interrupted c = Inr c' \<Longrightarrow> agent_ok n c'"
  by (cases c) (auto simp: agent_interrupted_def split: content.splits pyval.splits)

lemma recover_task_safe: "secure (\<lambda>_. True) (recover_task t) (\<lambda>_ _. True)"
proof -
  have "secure (\<lambda>_. True) (if is_coding (t_request t)
        then io_bind (io_get (\<lambda>w. artifact w (t_id t) ''agent-result.json'')) (\<lambda>c.
             io_bind (io_result (agent_interrupted c)) (\<lambda>c'.
               put_artifact (t_id t) ''agent-result.json'' c'))
        else io_return ()) (\<lambda>_ _. True)"
    by (auto intro!: secure_bind_same secure_get secure_bind_result secure_put_other secure_return
        intro: agent_interrupted_ok)
  then show ?thesis
    unfolding recover_task_def Let_def
    by (intro secure_bind_same secure_put_other transition_id_safe) (auto intro: secure_return simp: not_completed_def)
qed

lemma recovery_safe: "secure (\<lambda>_. True) recovery (\<lambda>_ _. True)"
proof -
  have "secure (\<lambda>_. True) (recover_tasks ts) (\<lambda>_ _. True)" for ts
    by (induction ts) (auto intro!: secure_bind_same recover_task_safe secure_return)
  then show ?thesis
    unfolding recovery_def records_def by (intro secure_bind_same secure_get) simp_all
qed

end
