(* ===== verification/Work_Sandbox.thy ===== *)
theory Work_Sandbox
  imports Work_Runner
begin

text \<open>
  \<open>execute\<close> of \<open>work_sandbox.py\<close>: the supervision loop around the sandboxed program, its output
  bound, the reclassification after the process is reaped, and the validation of its report and
  file. The process is external: a sandbox gives whether it could be spawned, per turn of the loop
  what was read (\<open>None\<close> is end of file) and the exit status if it has ended, how the decoder reads
  the output, and what the fixture file is. When the turns run out, the supervisor was killed.
\<close>

definition CONTENT :: string where
  "CONTENT = ''Personal AI Brain Work Runner v0.1'' @ [CHR 0x0A]"

definition CHECKS :: "string list" where
  "CHECKS = [''core_credential_denied'', ''control_credential_denied'', ''builder_credential_denied'',
     ''other_workspace_denied'', ''production_state_denied'', ''supervisor_state_denied'',
     ''host_shadow_denied'', ''docker_socket_denied'', ''docker_socket_absent'',
     ''non_root'', ''only_primary_group'', ''no_capabilities'', ''no_new_privileges'',
     ''setuid_root_denied'', ''network_denied'', ''git_metadata_readonly'', ''fixture_content_matches'',
     ''transport_absent'']"

definition OUTPUT_LIMIT :: nat where
  "OUTPUT_LIMIT = 16384"

record turn =
  tn_chunks :: "string option list"
  tn_exit :: "int option"

record sandbox =
  sb_spawned :: bool
  sb_turns :: "turn list"
  sb_json :: "string \<Rightarrow> json"
  sb_file :: "(bool \<times> string) result"

section \<open>The loop\<close>

definition append_log :: "string \<Rightarrow> string \<Rightarrow> unit io" where
  "append_log i data = io_bind (io_get (\<lambda>w. artifact w i ''execution.log'')) (\<lambda>c.
     put_artifact i ''execution.log''
       (Bytes ((case c of Some (Bytes old) \<Rightarrow> old | _ \<Rightarrow> []) @ data)))"

text \<open>The events of one \<open>select\<close>: what is kept, end of file, and whether the bound was exceeded.\<close>

fun read_chunks :: "string \<Rightarrow> string option list \<Rightarrow> string \<Rightarrow> bool \<Rightarrow> (string \<times> bool \<times> bool) io" where
  "read_chunks i [] out eof = io_return (out, eof, False)"
| "read_chunks i (None # cs) out eof = read_chunks i cs out True"
| "read_chunks i (Some chunk # cs) out eof =
     (let remaining = OUTPUT_LIMIT - length out; kept = take remaining chunk in
      io_bind (append_log i kept) (\<lambda>_.
        if remaining < length chunk then io_return (out @ kept, eof, True)
        else read_chunks i cs (out @ kept) eof))"

definition cancelled :: "string \<Rightarrow> bool io" where
  "cancelled i = io_bind (load_record i) (\<lambda>t. io_return (t_cancel t))"

fun sandbox_loop ::
  "host \<Rightarrow> string \<Rightarrow> turn list \<Rightarrow> string \<Rightarrow> bool \<Rightarrow> (string \<times> string \<times> string) io" where
  "sandbox_loop host i [] out eof = (\<lambda>w. (Died, w))"
| "sandbox_loop host i (t # ts) out eof = io_bind (observe host) (\<lambda>n.
     if h_stop host n then io_return (out, ''interrupted'', ''service_stopping'')
     else io_bind (cancelled i) (\<lambda>c.
       if c then io_return (out, ''cancelled'', ''cancellation_requested'')
       else if h_late host n then io_return (out, ''failed'', ''deadline_exceeded'')
       else io_bind (read_chunks i (tn_chunks t) out eof) (\<lambda>(out', eof', over).
         if over then io_return (out', ''failed'', ''output_limit'')
         else case tn_exit t of
             Some code \<Rightarrow>
               (if eof' then io_return (out', if code = 0 then (''succeeded'', ''fixture_completed'')
                                             else (''failed'', ''sandbox_failed''))
                else sandbox_loop host i ts out' eof')
           | None \<Rightarrow> sandbox_loop host i ts out' eof')))"

text \<open>After the process is reaped: stop and cancellation are classified again.\<close>

definition reclassify :: "host \<Rightarrow> string \<Rightarrow> string \<times> string \<Rightarrow> (string \<times> string) io" where
  "reclassify host i result = io_bind (observe host) (\<lambda>n.
     if h_stop host n then io_return (''interrupted'', ''service_stopping'')
     else io_bind (cancelled i) (\<lambda>c.
       io_return (if c then (''cancelled'', ''cancellation_requested'') else result)))"

section \<open>The report\<close>

text \<open>The assertions on the report: \<open>Inr False\<close> is a failed one, \<open>Inl\<close> another exception.\<close>

definition checks_pass :: "string list \<Rightarrow> pyval \<Rightarrow> bool result" where
  "checks_pass names checks = andThen (members checks) (\<lambda>ms.
     if \<not> same_set ms names then Inr False
     else case checks of
         PDict d \<Rightarrow> Inr (list_all (\<lambda>(k, v). v = PBool True) d)
       | _ \<Rightarrow> Inl AttributeError)"

definition report_passes :: "pyval \<Rightarrow> bool result" where
  "report_passes report = andThen (subscript report ''ok'') (\<lambda>ok.
     if ok \<noteq> PBool True then Inr False
     else andThen (subscript report ''fixture'') (\<lambda>f.
       if f \<noteq> PStr ''fixture.patch-test.v1'' then Inr False
       else andThen (subscript report ''checks'') (checks_pass CHECKS)))"

definition validate_run :: "sandbox \<Rightarrow> string \<Rightarrow> (request option) result" where
  "validate_run sb out =
     (case andThen (loads None None (sb_json sb out)) (\<lambda>report.
        andThen (report_passes report) (\<lambda>ok. if \<not> ok then Inr None
          else andThen (sb_file sb) (\<lambda>(regular, text).
            Inr (if regular \<and> text = CONTENT then (case report of PDict d \<Rightarrow> Some d | _ \<Rightarrow> None)
                 else None)))) of
        Inr r \<Rightarrow> Inr r
      | Inl e \<Rightarrow> (if is_value_error e \<or> e = KeyError \<or> e = TypeError \<or> is_os_error e
                 then Inr None else Inl e))"

definition patch_text :: string where
  "patch_text = ''diff --git a/builder-fixture.txt b/builder-fixture.txt'' @ [CHR 0x0A] @
     ''new file mode 100644'' @ [CHR 0x0A] @ ''--- /dev/null'' @ [CHR 0x0A] @
     ''+++ b/builder-fixture.txt'' @ [CHR 0x0A] @ ''@@ -0,0 +1 @@'' @ [CHR 0x0A] @ ''+'' @ CONTENT"

text \<open>\<open>{'status': 'passed', **report}\<close>.\<close>

definition passed :: "request \<Rightarrow> content" where
  "passed report = Json (PDict (fold (\<lambda>(k, v). dict_set k v) report [(PStr ''status'', PStr ''passed'')]))"

definition conclude :: "sandbox \<Rightarrow> string \<Rightarrow> string \<Rightarrow> string \<times> string \<Rightarrow> (string \<times> string) io" where
  "conclude sb i out result =
     (if fst result \<noteq> ''succeeded''
      then io_bind (put_artifact i ''test-result.json'' (not_completed (snd result)))
             (\<lambda>_. io_return result)
      else io_bind (io_result (validate_run sb out)) (\<lambda>r. case r of
          None \<Rightarrow>
            io_bind (put_artifact i ''test-result.json'' (Json (sdict [(''status'', PStr ''failed''),
                (''code'', PStr ''artifact_validation_failed'')])))
              (\<lambda>_. io_return (''failed'', ''artifact_validation_failed''))
        | Some report \<Rightarrow>
            io_bind (put_artifact i ''test-result.json'' (passed report)) (\<lambda>_.
            io_bind (put_artifact i ''patch.diff'' (Bytes patch_text)) (\<lambda>_. io_return result))))"

definition sandbox_execute :: "host \<Rightarrow> sandbox \<Rightarrow> executor" where
  "sandbox_execute host sb i =
     (if \<not> sb_spawned sb then io_raise OSError
      else io_bind (sandbox_loop host i (sb_turns sb) [] False) (\<lambda>(out, result).
           io_bind (reclassify host i result) (conclude sb i out)))"

section \<open>Safety of the executor\<close>

lemma append_log_safe: "secure (\<lambda>_. True) (append_log i data) (\<lambda>_ _. True)"
  unfolding append_log_def by (intro secure_bind_same secure_get secure_put_other) simp_all

lemma read_chunks_safe: "secure (\<lambda>_. True) (read_chunks i cs out eof) (\<lambda>_ _. True)"
  by (induction i cs out eof rule: read_chunks.induct)
    (auto simp: Let_def intro!: secure_return secure_bind_same append_log_safe)

lemma cancelled_safe: "secure (\<lambda>_. True) (cancelled i) (\<lambda>_ _. True)"
  unfolding cancelled_def
  by (intro secure_bind_same secure_weaken [OF secure_load_record]) (auto intro: secure_return)

lemma died_safe: "secure (\<lambda>_. True) (\<lambda>w. (Died, w)) (\<lambda>_ _. True)"
  by (auto simp: secure_def safe_step_refl)

lemma conclude_safe: "secure (\<lambda>_. True) (conclude sb i out result) (\<lambda>_ _. True)"
  unfolding conclude_def
  by (auto intro!: secure_bind_same secure_put_other secure_return secure_result split: option.split)

context safe_host
begin

lemma sandbox_loop_safe: "secure (\<lambda>_. True) (sandbox_loop host i ts out eof) (\<lambda>_ _. True)"
proof (induction ts arbitrary: out eof)
  case Nil
  then show ?case by (simp add: died_safe)
next
  case (Cons t ts)
  then show ?case
    by (auto intro!: secure_bind_same observe_safe cancelled_safe read_chunks_safe secure_return
        split: prod.split option.split)
qed

lemma reclassify_safe: "secure (\<lambda>_. True) (reclassify host i result) (\<lambda>_ _. True)"
  unfolding reclassify_def
  by (auto intro!: secure_bind_same observe_safe cancelled_safe secure_return)

lemma sandbox_execute_safe: "secure (\<lambda>_. True) (sandbox_execute host sb i) (\<lambda>_ _. True)"
  unfolding sandbox_execute_def
  by (auto intro!: secure_bind_same sandbox_loop_safe reclassify_safe conclude_safe split: prod.split)

end

section \<open>The receiver as the runner's environment\<close>

text \<open>What the receiver process may do to the store between two observations of the runner.\<close>

datatype store_call = Idle | Submits int string request | Cancels string

fun perform :: "(string \<Rightarrow> string) \<Rightarrow> store_call \<Rightarrow> world \<Rightarrow> world" where
  "perform sha Idle w = w"
| "perform sha (Submits now base req) w = snd (submit sha now base req w)"
| "perform sha (Cancels i) w = snd (cancel i w)"

definition receiver_host ::
  "(string \<Rightarrow> string) \<Rightarrow> (nat \<Rightarrow> store_call) \<Rightarrow> (nat \<Rightarrow> bool) \<Rightarrow> (nat \<Rightarrow> bool) \<Rightarrow> host" where
  "receiver_host sha calls stop late =
     \<lparr>h_other = (\<lambda>n. perform sha (calls n)), h_stop = stop, h_late = late\<rparr>"

lemma perform_safe: "store_ok w \<Longrightarrow> safe_step w (perform sha c w)"
  by (cases c) (auto simp: safe_step_refl intro: secureD [OF secure_submit] secureD [OF secure_cancel])

interpretation receiver: safe_host "receiver_host sha calls stop late" for sha calls stop late
  by unfold_locales (simp add: receiver_host_def perform_safe)

end
