(* ===== verification/Coding_Protocol.thy ===== *)
theory Coding_Protocol
  imports Work_Contract Effects "HOL-Library.Word"
begin

text \<open>
  \<open>coding_protocol.py\<close> with the numbers of \<open>coding_policy.py\<close>: the bounded, length-framed JSON messages
  between runner and broker.
\<close>

section \<open>Policy\<close>

definition MODEL :: string where
  "MODEL = ''gpt-6.1-sol''"

definition MAX_TURNS :: nat where
  "MAX_TURNS = 8"

definition LIMIT :: nat where
  "LIMIT = 65536"

definition CODES :: "string list" where
  "CODES = [''model_auth_failed'', ''model_rate_limited'', ''model_quota_or_spend_limit'',
     ''model_network_failed'', ''model_timeout'', ''model_invalid_response'',
     ''model_budget_exceeded'', ''patch_rejected'', ''deterministic_validation_failed'',
     ''tests_failed'', ''interrupted'']"

section \<open>Sending\<close>

definition encodable :: "pyval \<Rightarrow> unit result" where
  "encodable v = (case json_dumps True v of
      None \<Rightarrow> Inl TypeError
    | Some t \<Rightarrow> guard (length t \<le> LIMIT) (CodingFailure ''model_invalid_response''))"

definition send_message :: "bool \<Rightarrow> pyval \<Rightarrow> unit result" where
  "send_message works v = andThen (encodable v) (\<lambda>_. guard works OSError)"

section \<open>Frames\<close>

text \<open>\<open>struct.pack('!I', n)\<close> and its inverse: a 32-bit length, most significant byte first.\<close>

type_synonym byte = "8 word"

definition pack32 :: "32 word \<Rightarrow> byte list" where
  "pack32 n = [ucast (drop_bit 24 n), ucast (drop_bit 16 n), ucast (drop_bit 8 n), ucast n]"

definition unpack32 :: "byte list \<Rightarrow> 32 word" where
  "unpack32 bs = foldl (\<lambda>n b. or (push_bit 8 n) (ucast b)) 0 bs"

definition to_bytes :: "string \<Rightarrow> byte list" where
  "to_bytes s = map (\<lambda>c. of_nat (cp c)) s"

definition frame :: "string \<Rightarrow> byte list" where
  "frame data = pack32 (of_nat (length data)) @ to_bytes data"

text \<open>
  What a connection brings: some bytes of the stream, a timeout of \<open>recv\<close>, or an exception of the guard
  or of \<open>recv\<close>. After the last event the peer has closed. \<open>recv n\<close> returns at most n bytes and leaves
  the rest for the next call.
\<close>

datatype event = Brings "byte list" | Waits | Stops exn

fun read_exact :: "nat \<Rightarrow> byte list \<Rightarrow> event list \<Rightarrow> (byte list \<times> event list) result" where
  "read_exact count acc [] =
     (if count \<le> length acc then Inr (acc, []) else Inl (CodingFailure ''interrupted''))"
| "read_exact count acc (e # es) =
     (if count \<le> length acc then Inr (acc, e # es)
      else case e of
          Stops x \<Rightarrow> Inl x
        | Waits \<Rightarrow> read_exact count acc es
        | Brings bs \<Rightarrow> (let n = count - length acc in
            if bs = [] then Inl (CodingFailure ''interrupted'')
            else if n < length bs then Inr (acc @ take n bs, Brings (drop n bs) # es)
            else read_exact count (acc @ bs) es))"

definition decode_message :: "json \<Rightarrow> request result" where
  "decode_message tree =
     (case andThen (loads (Some (Rejected ''duplicate_json_key'')) (Some (ValueError [])) tree)
        (\<lambda>v. case v of PDict d \<Rightarrow> Inr d | _ \<Rightarrow> Inl (ValueError [])) of
        Inr d \<Rightarrow> Inr d
      | Inl e \<Rightarrow> Inl (if is_value_error e \<or> e = RecursionError
                     then CodingFailure ''model_invalid_response'' else e))"

definition receive :: "(byte list \<Rightarrow> json) \<Rightarrow> event list \<Rightarrow> (request \<times> event list) result" where
  "receive reading es =
     andThen (read_exact 4 [] es) (\<lambda>(head, es1).
       let size = unat (unpack32 head) in
       if \<not> (1 \<le> size \<and> size \<le> LIMIT) then Inl (CodingFailure ''model_invalid_response'')
       else andThen (read_exact size [] es1) (\<lambda>(body, es2).
            andThen (decode_message (reading body)) (\<lambda>d. Inr (d, es2))))"

section \<open>Any fragmentation delivers the message\<close>

lemma unpack_pack: "unpack32 (pack32 n) = n"
proof (rule bit_word_eqI)
  fix k
  assume "k < LENGTH(32)"
  then consider "k < 8" | "8 \<le> k" "k < 16" | "16 \<le> k" "k < 24" | "24 \<le> k" "k < 32" by force
  then show "bit (unpack32 (pack32 n)) k = bit n k"
    unfolding unpack32_def pack32_def by cases (auto simp: bit_simps)
qed

lemma length_pack32 [simp]: "length (pack32 n) = 4"
  by (simp add: pack32_def)

lemma length_to_bytes [simp]: "length (to_bytes s) = length s"
  by (simp add: to_bytes_def)

text \<open>The stream a sequence of events delivers, and that it does so without end of file or exception.\<close>

fun payload :: "event list \<Rightarrow> byte list" where
  "payload [] = []"
| "payload (Brings bs # es) = bs @ payload es"
| "payload (_ # es) = payload es"

fun flowing :: "event list \<Rightarrow> bool" where
  "flowing [] = True"
| "flowing (Brings bs # es) = (bs \<noteq> [] \<and> flowing es)"
| "flowing (Waits # es) = flowing es"
| "flowing (Stops e # es) = False"

lemma read_exact_flowing:
  "flowing es \<Longrightarrow> payload es = xs @ later \<Longrightarrow> count = length acc + length xs \<Longrightarrow>
   \<exists>rest. read_exact count acc es = Inr (acc @ xs, rest) \<and> flowing rest \<and> payload rest = later"
proof (induction es arbitrary: acc xs)
  case Nil
  then show ?case by simp
next
  case (Cons e es)
  show ?case
  proof (cases "xs = []")
    case True
    with Cons.prems show ?thesis by auto
  next
    case xs: False
    show ?thesis
    proof (cases e)
      case Waits
      with Cons xs show ?thesis by simp
    next
      case (Stops x)
      with Cons.prems show ?thesis by simp
    next
      case (Brings bs)
      with Cons.prems have p: "bs @ payload es = xs @ later" "bs \<noteq> []" "flowing es" by simp_all
      show ?thesis
      proof (cases "length xs < length bs")
        case True
        with p(1) have "xs = take (length xs) bs" "later = drop (length xs) bs @ payload es"
          by (auto simp: append_eq_append_conv_if)
        with Brings Cons.prems True p show ?thesis by auto
      next
        case False
        with p(1) obtain ys where ys: "xs = bs @ ys" "payload es = ys @ later"
          by (auto simp: append_eq_append_conv_if) (metis append_take_drop_id)
        with Cons.IH [OF p(3) ys(2), of "acc @ bs"] Brings Cons.prems False xs p(2) show ?thesis by auto
      qed
    qed
  qed
qed

lemma read_exact_bounded:
  "read_exact count acc es = Inr (bs, rest) \<Longrightarrow> length acc \<le> count \<Longrightarrow> length bs = count"
  by (induction count acc es rule: read_exact.induct)
    (auto simp: Let_def split: if_splits event.splits)

lemma receive_frame:
  assumes "flowing es" "payload es = frame data @ later" "data \<noteq> []" "length data \<le> LIMIT"
    and "decode_message (reading (to_bytes data)) = Inr d"
  shows "\<exists>rest. receive reading es = Inr (d, rest) \<and> flowing rest \<and> payload rest = later"
proof -
  let ?n = "of_nat (length data) :: 32 word"
  have n: "unat ?n = length data"
    using assms(4) by (simp add: unat_of_nat LIMIT_def)
  from read_exact_flowing [of es "pack32 ?n" "to_bytes data @ later" 4 "[]"] assms(1,2) obtain es1 where
    r1: "read_exact 4 [] es = Inr (pack32 ?n, es1)" "flowing es1" "payload es1 = to_bytes data @ later"
    by (auto simp: frame_def)
  from read_exact_flowing [OF r1(2,3), of "length data" "[]"] obtain rest where
    r2: "read_exact (length data) [] es1 = Inr (to_bytes data, rest)" "flowing rest" "payload rest = later"
    by auto
  have "1 \<le> length data" using assms(3) by (cases data) auto
  with r1 r2 n assms(4,5) show ?thesis by (simp add: receive_def unpack_pack)
qed

end
