(* ===== verification/Coding_Execute.thy ===== *)
theory Coding_Execute
  imports Work_Sandbox Coding_Protocol
begin

text \<open>
  \<open>execute\<close> of \<open>coding_execute.py\<close> and \<open>BrokerAgent.run\<close> of \<open>coding_agent.py\<close>: the model proposes
  edits through mediated tools, the supervisor validates the patch and runs the tests. The broker's
  messages, the workspace tools, the patch validation, the snapshots and the offline tests are
  arguments; every file written and every classification of a failure is the code's.
\<close>

section \<open>The agent's side of the broker protocol\<close>

text \<open>What comes next on the connection: a decoded message or an exception of \<open>receive\<close>, and whether
  a following \<open>sendall\<close> succeeds.\<close>

record reply =
  rp_message :: "request result"
  rp_send :: bool

definition tool_result :: "(pyval \<Rightarrow> pyval \<Rightarrow> pyval result) \<Rightarrow> pyval \<Rightarrow> pyval \<Rightarrow> pyval result" where
  "tool_result invoke name args = (case invoke name args of
      Inr v \<Rightarrow> Inr v
    | Inl e \<Rightarrow> (if is_os_error e \<or> is_value_error e then Inl (CodingFailure ''patch_rejected'') else Inl e))"

fun agent_loop ::
  "(pyval \<Rightarrow> unit io) \<Rightarrow> unit io \<Rightarrow> (pyval \<Rightarrow> pyval \<Rightarrow> pyval result) \<Rightarrow> nat \<Rightarrow> reply list \<Rightarrow> pyval list
   \<Rightarrow> pyval list io" where
  "agent_loop progress check invoke 0 rs ops = io_raise (CodingFailure ''model_budget_exceeded'')"
| "agent_loop progress check invoke (Suc n) [] ops = (\<lambda>w. (Died, w))"
| "agent_loop progress check invoke (Suc n) (r # rs) ops =
     io_bind check (\<lambda>_. io_bind (io_result (rp_message r)) (\<lambda>m.
       let kind = dget m ''kind'' in
       if kind = PStr ''usage''
       then io_bind (io_result (subscript (PDict m) ''usage'')) (\<lambda>u.
            io_bind (progress u) (\<lambda>_. agent_loop progress check invoke n rs ops))
       else if kind = PStr ''tool''
       then io_bind (io_result (subscript (PDict m) ''name'')) (\<lambda>name.
            io_bind (io_result (andThen (subscript (PDict m) ''arguments'') (tool_result invoke name)))
              (\<lambda>result.
            io_bind check (\<lambda>_.
            io_bind (io_result (send_message (rp_send r)
                (sdict [(''kind'', PStr ''tool_result''), (''result'', result)]))) (\<lambda>_.
              agent_loop progress check invoke n rs (ops @ [name])))))
       else if kind = PStr ''complete''
       then io_bind (io_result (subscript (PDict m) ''usage'')) (\<lambda>u.
            io_bind (progress u) (\<lambda>_. io_return ops))
       else if kind = PStr ''failure'' \<and> (\<exists>c\<in>set CODES. dget m ''code'' = PStr c)
       then io_bind (if dget m ''usage'' \<noteq> PNone then progress (dget m ''usage'') else io_return ()) (\<lambda>_.
            io_raise (CodingFailure (str_val (dget m ''code''))))
       else io_raise (CodingFailure ''model_invalid_response'')))"

record broker =
  br_connect :: "unit result"
  br_replies :: "reply list"

definition broker_agent ::
  "broker \<Rightarrow> (pyval \<Rightarrow> pyval \<Rightarrow> pyval result) \<Rightarrow> request \<Rightarrow> (pyval \<Rightarrow> unit io) \<Rightarrow> unit io
   \<Rightarrow> pyval list io" where
  "broker_agent br invoke task progress check =
     io_bind (io_result (br_connect br)) (\<lambda>_.
     io_bind (io_result (encodable (sdict [(''schema_version'', PStr ''0.1''), (''task'', PDict task)])))
       (\<lambda>_. agent_loop progress check invoke (MAX_TURNS * 3 + 1) (br_replies br) []))"

section \<open>The supervisor's side\<close>

text \<open>The workspace and the tests, as the supervisor sees them.\<close>

record coding_env =
  ce_open :: "unit result"
  ce_broker :: broker
  ce_invoke :: "pyval \<Rightarrow> pyval \<Rightarrow> pyval result"
  ce_validate :: "(string list \<times> string) result"
  ce_snapshot :: "pyval result"
  ce_tests :: "request io"
  ce_snapshot_after :: "pyval result"

type_synonym agent_value = "(string \<times> pyval) list"

definition put_value :: "string \<Rightarrow> agent_value \<Rightarrow> unit io" where
  "put_value i v = put_artifact i ''agent-result.json'' (Json (sdict v))"

definition update_value :: "(string \<times> pyval) list \<Rightarrow> agent_value \<Rightarrow> agent_value" where
  "update_value kvs v = fold (\<lambda>(k, x). dict_set k x) kvs v"

definition start_value :: "string \<Rightarrow> agent_value" where
  "start_value at = [(''schema_version'', PStr ''0.1''), (''status'', PStr ''running''),
     (''usage'', PNone), (''profile'', PStr ''normalize-label-v1''),
     (''model_declares_success'', PBool False), (''provider'', PStr ''openai-responses-v1''),
     (''model'', PStr MODEL), (''started_at'', PStr at)]"

text \<open>\<open>value\<close> is a local of \<open>execute\<close> that \<open>progress\<close> closes over: \<open>held\<close> in the world. A change to it
  stays when the write that follows fails.\<close>

definition value_update :: "(string \<times> pyval) list \<Rightarrow> unit io" where
  "value_update kvs w = (Return (), w\<lparr>held := update_value kvs (held w)\<rparr>)"

definition put_held :: "string \<Rightarrow> unit io" where
  "put_held i = io_bind (io_get held) (put_value i)"

definition agent_progress :: "string \<Rightarrow> pyval \<Rightarrow> unit io" where
  "agent_progress i usage =
     io_bind (value_update [(''usage'', usage)]) (\<lambda>_.
     io_bind (case usage of
         PDict u \<Rightarrow> (if dget u ''provider'' = PStr ''acceptance''
           then value_update [(''provider'', PStr ''acceptance-stub''), (''model'', PNone)]
           else io_return ())
       | _ \<Rightarrow> io_raise AttributeError) (\<lambda>_. put_held i))"

definition failure_class :: "exn \<Rightarrow> string \<times> string" where
  "failure_class e = (case e of
      Abort st code \<Rightarrow> (st, code)
    | CodingFailure c \<Rightarrow> (if c = ''interrupted'' then ''interrupted'' else ''failed'', c)
    | _ \<Rightarrow> (if is_os_error e \<or> e = KeyError then (''failed'', ''model_network_failed'')
           else (''failed'', ''deterministic_validation_failed'')))"

definition coding_success ::
  "(string \<Rightarrow> string) \<Rightarrow> coding_env \<Rightarrow> unit io \<Rightarrow> request \<Rightarrow> string \<Rightarrow> (string \<times> string) io" where
  "coding_success sha env check task i =
     io_bind check (\<lambda>_.
     io_bind (io_result (ce_open env)) (\<lambda>_.
     io_bind (broker_agent (ce_broker env) (ce_invoke env) task (agent_progress i) check) (\<lambda>ops.
     io_bind (value_update [(''operations'', PList ops)]) (\<lambda>_.
     io_bind check (\<lambda>_.
     io_bind (io_result (ce_validate env)) (\<lambda>(changed, patch).
     io_bind (put_artifact i ''patch.diff'' (Bytes patch)) (\<lambda>_.
     io_bind (io_result (ce_snapshot env)) (\<lambda>snap.
     io_bind (ce_tests env) (\<lambda>report.
     io_bind check (\<lambda>_.
     io_bind (io_result (ce_snapshot_after env)) (\<lambda>again.
     io_bind (io_guard (py_eq again snap) (CodingFailure ''deterministic_validation_failed'')) (\<lambda>_.
     io_bind (put_artifact i ''test-result.json'' (passed report)) (\<lambda>_.
     io_bind stamp (\<lambda>at.
     io_bind (value_update [(''status'', PStr ''completed''),
         (''code'', PStr ''deterministically_verified''), (''finished_at'', PStr at),
         (''changed_files'', PList (map PStr changed)), (''patch_sha256'', PStr (sha patch))]) (\<lambda>_.
     io_bind (put_held i) (\<lambda>_.
     io_bind (put_artifact i ''agent.log'' (Bytes (''model_phase_ended'' @ [CHR 0x0A] @
         ''deterministic_validation_passed'' @ [CHR 0x0A] @ ''offline_tests_passed'' @ [CHR 0x0A]))) (\<lambda>_.
       io_return (''succeeded'', ''coding_completed''))))))))))))))))))"

definition coding_failure :: "string \<Rightarrow> exn \<Rightarrow> (string \<times> string) io" where
  "coding_failure i e = (let (st, code) = failure_class e in
     io_bind stamp (\<lambda>at.
     io_bind (value_update [(''status'', PStr st), (''code'', PStr code), (''finished_at'', PStr at)]) (\<lambda>_.
     io_bind (put_held i) (\<lambda>_.
     io_bind (put_artifact i ''test-result.json'' (not_completed code)) (\<lambda>_.
     io_bind (put_artifact i ''agent.log'' (line code)) (\<lambda>_. io_return (st, code)))))))"

definition coding_execute ::
  "(string \<Rightarrow> string) \<Rightarrow> host \<Rightarrow> coding_env \<Rightarrow> request \<Rightarrow> executor" where
  "coding_execute sha host env task i =
     io_bind stamp (\<lambda>at.
     io_bind (\<lambda>w. (Return (), w\<lparr>held := start_value at\<rparr>)) (\<lambda>_.
     io_bind (put_held i) (\<lambda>_.
     io_bind (put_artifact i ''agent.log'' (line ''model_phase_started'')) (\<lambda>_.
       io_catch (coding_success sha env (runner_guard host i) task i) (coding_failure i)))))"

section \<open>The offline tests\<close>

text \<open>\<open>offline_tests\<close>: a failed guard, more than 4096 bytes of output, a bad exit or a report that is
  not the reviewed profile's end the run.\<close>

definition TEST_CHECKS :: "string list" where
  "TEST_CHECKS = [''credentials_absent'', ''broker_socket_absent'', ''other_workspace_absent'',
     ''docker_absent'', ''non_root'', ''no_capabilities'', ''no_new_privileges'', ''network_denied'',
     ''root_denied'']"

definition tests_failed :: exn where
  "tests_failed = CodingFailure ''tests_failed''"

fun read_test_output :: "string option list \<Rightarrow> string \<Rightarrow> bool \<Rightarrow> (string \<times> bool) result" where
  "read_test_output [] out eof = Inr (out, eof)"
| "read_test_output (None # cs) out eof = read_test_output cs out True"
| "read_test_output (Some chunk # cs) out eof =
     (if 4096 < length (out @ chunk) then Inl tests_failed
      else read_test_output cs (out @ chunk) eof)"

fun test_loop :: "unit io \<Rightarrow> turn list \<Rightarrow> string \<Rightarrow> bool \<Rightarrow> (string \<times> int) io" where
  "test_loop check [] out eof = (\<lambda>w. (Died, w))"
| "test_loop check (t # ts) out eof = io_bind check (\<lambda>_.
     io_bind (io_result (read_test_output (tn_chunks t) out eof)) (\<lambda>(out', eof').
       case tn_exit t of
         Some code \<Rightarrow> (if eof' then io_return (out', code) else test_loop check ts out' eof')
       | None \<Rightarrow> test_loop check ts out' eof'))"

definition test_report :: "pyval \<Rightarrow> request result" where
  "test_report report = (case report of
      PDict d \<Rightarrow>
        andThen (checks_pass TEST_CHECKS (dget_or d ''isolation'' (PDict []))) (\<lambda>ok.
          if ok \<and> py_eq (PDict (filter (\<lambda>(k, v). k \<noteq> PStr ''isolation'') d))
                (sdict [(''schema_version'', PStr ''0.1''), (''profile'', PStr ''normalize-label-v1''),
                        (''passed'', PInt 13)])
          then Inr d else Inl tests_failed)
    | _ \<Rightarrow> Inl AttributeError)"

definition offline_tests :: "unit io \<Rightarrow> turn list \<Rightarrow> (string \<Rightarrow> json) \<Rightarrow> request io" where
  "offline_tests check turns reading =
     io_bind (test_loop check turns [] False) (\<lambda>(out, code).
     io_bind check (\<lambda>_.
     io_bind (io_guard (code = 0) tests_failed) (\<lambda>_.
     io_bind (io_result (case loads None None (reading out) of
         Inr v \<Rightarrow> Inr v | Inl e \<Rightarrow> Inl (if is_value_error e then tests_failed else e))) (\<lambda>report.
       io_result (test_report report)))))"

section \<open>Safety\<close>

lemma put_value_safe: "secure (\<lambda>_. True) (put_value i v) (\<lambda>_ _. True)"
  unfolding put_value_def by (rule secure_put_other) simp_all

lemma set_held_safe: "secure (\<lambda>_. True) (\<lambda>w. (Return (), w\<lparr>held := f w\<rparr>)) (\<lambda>_ _. True)"
  by (auto simp: secure_def safe_step_def)

lemma value_update_safe: "secure (\<lambda>_. True) (value_update kvs) (\<lambda>_ _. True)"
  unfolding value_update_def [abs_def] by (rule set_held_safe)

lemma put_held_safe: "secure (\<lambda>_. True) (put_held i) (\<lambda>_ _. True)"
  unfolding put_held_def by (intro secure_bind_same secure_get put_value_safe) simp

lemma progress_safe: "secure (\<lambda>_. True) (agent_progress i usage) (\<lambda>_ _. True)"
  unfolding agent_progress_def
  by (cases usage) (auto intro!: secure_bind_same value_update_safe put_held_safe secure_return)

lemma agent_loop_safe:
  assumes "\<And>u. secure (\<lambda>_. True) (progress u) (\<lambda>_ _. True)" "secure (\<lambda>_. True) check (\<lambda>_ _. True)"
  shows "secure (\<lambda>_. True) (agent_loop progress check invoke n rs ops) (\<lambda>_ _. True)"
proof (induction n arbitrary: rs ops)
  case 0
  then show ?case by (simp add: secure_raise)
next
  case (Suc n)
  then show ?case
    by (cases rs) (auto simp: Let_def died_safe
        intro!: secure_bind_same secure_result secure_return assms)
qed

lemma broker_agent_safe:
  assumes "\<And>u. secure (\<lambda>_. True) (progress u) (\<lambda>_ _. True)" "secure (\<lambda>_. True) check (\<lambda>_ _. True)"
  shows "secure (\<lambda>_. True) (broker_agent br invoke task progress check) (\<lambda>_ _. True)"
  unfolding broker_agent_def
  by (intro secure_bind_same secure_result agent_loop_safe assms) simp_all

lemma coding_failure_safe: "secure (\<lambda>_. True) (coding_failure i e) (\<lambda>_ _. True)"
  unfolding coding_failure_def
  by (auto split: prod.split intro!: secure_bind_same secure_stamp value_update_safe put_held_safe
      secure_put_other secure_return)

lemma offline_tests_safe:
  assumes "secure (\<lambda>_. True) check (\<lambda>_ _. True)"
  shows "secure (\<lambda>_. True) (offline_tests check turns reading) (\<lambda>_ _. True)"
proof -
  have "secure (\<lambda>_. True) (test_loop check ts out eof) (\<lambda>_ _. True)" for ts out eof
    by (induction ts arbitrary: out eof)
      (auto simp: died_safe split: prod.split option.split
        intro!: secure_bind_same secure_result secure_return assms)
  then show ?thesis
    unfolding offline_tests_def case_prod_beta
    by (intro secure_bind_same secure_result secure_guard assms) simp_all
qed

context safe_host
begin

lemma coding_execute_safe:
  assumes "secure (\<lambda>_. True) (ce_tests env) (\<lambda>_ _. True)"
  shows "secure (\<lambda>_. True) (coding_execute sha host env task i) (\<lambda>_ _. True)"
proof -
  have "secure (\<lambda>_. True) (coding_success sha env (runner_guard host i) task i) (\<lambda>_ _. True)"
    unfolding coding_success_def case_prod_beta
    by (intro secure_bind_same secure_result secure_guard secure_stamp guard_safe value_update_safe put_held_safe
        broker_agent_safe progress_safe secure_put_other secure_return assms) simp_all
  then show ?thesis
    unfolding coding_execute_def Let_def
    by (intro secure_bind_same secure_stamp set_held_safe put_held_safe secure_put_other secure_catch
        coding_failure_safe) simp_all
qed

end

end
