(* ===== verification/Work_System.thy ===== *)
theory Work_System
  imports Coding_Execute
begin

text \<open>
  The work system as a whole: the store with its receiver, the runner with both executors, restarts
  with recovery, all interleaved in any order and with any fate of every durable write.
\<close>

text \<open>What one tick of the runner meets: the receiver's calls, the stop flag and the deadline at each
  observation, the free space, the Git commands, the sandboxed process, the broker and the tests.\<close>

record surroundings =
  su_calls :: "nat \<Rightarrow> store_call"
  su_stop :: "nat \<Rightarrow> bool"
  su_late :: "nat \<Rightarrow> bool"
  su_free :: int
  su_preparation :: preparation
  su_sandbox :: sandbox
  su_coding :: coding_env
  su_tests :: "turn list"
  su_json :: "string \<Rightarrow> json"

definition tick_host :: "(string \<Rightarrow> string) \<Rightarrow> surroundings \<Rightarrow> host" where
  "tick_host sha su = receiver_host sha (su_calls su) (su_stop su) (su_late su)"

definition tests_env :: "(string \<Rightarrow> string) \<Rightarrow> surroundings \<Rightarrow> string \<Rightarrow> coding_env" where
  "tests_env sha su i = (su_coding su)\<lparr>ce_tests :=
     offline_tests (runner_guard (tick_host sha su) i) (su_tests su) (su_json su)\<rparr>"

text \<open>The coding executor gets the request of the record the runner has just moved.\<close>

definition coding_executor :: "(string \<Rightarrow> string) \<Rightarrow> surroundings \<Rightarrow> executor" where
  "coding_executor sha su i = io_bind (load_record i) (\<lambda>t.
     coding_execute sha (tick_host sha su) (tests_env sha su i) (t_request t) i)"

definition system_tick :: "(string \<Rightarrow> string) \<Rightarrow> policy \<Rightarrow> surroundings \<Rightarrow> bool io" where
  "system_tick sha pol su = tick (tick_host sha su) pol (su_free su) (su_preparation su)
     (sandbox_execute (tick_host sha su) (su_sandbox su)) (coding_executor sha su)"

interpretation system: safe_environment "tick_host sha su"
    "sandbox_execute (tick_host sha su) sb" "coding_executor sha su" for sha su sb
proof -
  have host: "safe_host (tick_host sha su)"
    unfolding tick_host_def by (rule receiver.safe_host_axioms)
  show "safe_environment (tick_host sha su) (sandbox_execute (tick_host sha su) sb) (coding_executor sha su)"
  proof (intro safe_environment.intro host safe_environment_axioms.intro)
    fix i
    show "secure (\<lambda>_. True) (sandbox_execute (tick_host sha su) sb i) (\<lambda>_ _. True)"
      by (rule safe_host.sandbox_execute_safe [OF host])
    have "secure (\<lambda>_. True) (ce_tests (tests_env sha su i)) (\<lambda>_ _. True)"
      unfolding tests_env_def using offline_tests_safe [OF safe_host.guard_safe [OF host]] by simp
    then show "secure (\<lambda>_. True) (coding_executor sha su i) (\<lambda>_ _. True)"
      unfolding coding_executor_def
      by (intro secure_bind_same safe_host.load_record_safe [OF host] safe_host.coding_execute_safe [OF host])
  qed
qed

section \<open>Steps\<close>

text \<open>A restart loses nothing on disk; the clock, the fate of later writes and the position in the
  observations may be anything.\<close>

definition with_fate :: "fault list \<Rightarrow> (nat \<Rightarrow> string) \<Rightarrow> world \<Rightarrow> world" where
  "with_fate p k w = w\<lparr>plan := p, clock := k\<rparr>"

inductive work_step :: "(string \<Rightarrow> string) \<Rightarrow> world \<Rightarrow> world \<Rightarrow> bool"
  for sha :: "string \<Rightarrow> string" where
  call: "work_step sha w (perform sha c (with_fate p k w))"
| ticks: "work_step sha w (snd (system_tick sha pol su (with_fate p k w)))"
| recovers: "work_step sha w (snd (recovery (with_fate p k w)))"
| fails: "work_step sha w (snd (storage_failure i (with_fate p k w)))"

definition empty_world :: world where
  "empty_world = \<lparr>plan = [], clock = (\<lambda>n. []), ticks = 0, tasks = [], audit = [], workspaces = [],
     moment = 0, runs = [], held = []\<rparr>"

inductive work_steps :: "(string \<Rightarrow> string) \<Rightarrow> world \<Rightarrow> world \<Rightarrow> bool"
  for sha :: "string \<Rightarrow> string" where
  start: "work_steps sha w w"
| more: "work_steps sha w w' \<Longrightarrow> work_step sha w' w'' \<Longrightarrow> work_steps sha w w''"

lemma store_ok_fate: "store_ok w \<Longrightarrow> store_ok (with_fate p k w)"
  by (simp add: with_fate_def)

lemma fate_frame: "safe_step (with_fate p k w) w' = safe_step w w'"
  by (simp add: with_fate_def safe_step_def evolves_def)

lemma work_step_safe: "work_step sha w w' \<Longrightarrow> store_ok w \<Longrightarrow> safe_step w w'"
proof (induction rule: work_step.induct)
  case (call w c p k)
  then show ?case using perform_safe [OF store_ok_fate [OF call]] by (simp add: fate_frame)
next
  case (ticks w pol su p k)
  then show ?case
    using secureD [OF system.tick_safe store_ok_fate [OF ticks]]
    by (simp add: system_tick_def fate_frame)
next
  case (recovers w p k)
  then show ?case using secureD [OF recovery_safe store_ok_fate [OF recovers]] by (simp add: fate_frame)
next
  case (fails w i p k)
  then show ?case using secureD [OF secure_storage_failure store_ok_fate [OF fails]] by (simp add: fate_frame)
qed

lemma work_steps_safe: "work_steps sha w w' \<Longrightarrow> store_ok w \<Longrightarrow> safe_step w w'"
proof (induction rule: work_steps.induct)
  case (more w w' w'')
  then have "safe_step w w'" by simp
  with more.hyps(2) show ?case
    using work_step_safe safe_step_trans by (meson safe_step_def)
qed (rule safe_step_refl)

lemma store_ok_empty: "store_ok empty_world"
  by (simp add: store_ok_def empty_world_def find_task_def)

lemma reachable_ok: "work_steps sha empty_world w \<Longrightarrow> store_ok w"
  using work_steps_safe store_ok_empty safe_step_def by blast

lemma steps_trans: "work_steps sha w1 w2 \<Longrightarrow> work_steps sha w2 w3 \<Longrightarrow> work_steps sha w1 w3"
proof -
  assume "work_steps sha w2 w3" "work_steps sha w1 w2"
  then show ?thesis
    by (induction rule: work_steps.induct) (auto intro: work_steps.more)
qed

end
