(* ===== verification/Work_Sample.thy ===== *)
theory Work_Sample
  imports Work_System
begin

text \<open>
  One concrete run of the work system, evaluated step by step by the simplifier: a request is
  submitted, one tick reserves it, prepares the workspace, runs the sandboxed program and records its
  success; in a second run the process is killed right after the program was started.
\<close>

lemmas run_io = run_steps put_task_def put_artifact_def make_dir_def unlink_artifact_def set_task_def
  set_artifact_def find_task_def files_def artifact_def has_dir_def load_def load_record_def

lemmas run_store = submit_def admit_def initial_artifacts_def reserve_artifacts_def new_task_def
  transition_def transition_locked_def is_terminal_def TERMINAL_def EDGES_def cancel_def

lemmas run_runner = system_tick_def tick_def observe_def records_def next_task_def tick_body_def change_def
  tick_host_def receiver_host_def run_task_def prepare_def make_workspace_def git_def runner_guard_def
  reserving_def start_program_def finish_run_def submitted_at_def

lemmas run_sandbox = sandbox_execute_def cancelled_def append_log_def reclassify_def conclude_def OUTPUT_LIMIT_def

section \<open>The run\<close>

definition sample_id :: string where
  "sample_id = ''00000000-0000-4000-8000-000000000001''"

definition sample_request :: request where
  "sample_request = [(PStr ''schema_version'', PStr ''0.1''), (PStr ''task_id'', PStr sample_id),
     (PStr ''task_type'', PStr TASK_TYPE), (PStr ''repository'', PStr REPOSITORY),
     (PStr ''base_ref'', PStr POLICY_BASE), (PStr ''goal'', PStr GOAL),
     (PStr ''acceptance_criteria'', PList (map PStr CRITERIA)),
     (PStr ''requested_at'', PStr ''2026-07-01T12:00:00Z''), (PStr ''deadline_seconds'', PInt 60)]"

definition sample_sha :: "string \<Rightarrow> string" where
  "sample_sha text = replicate 64 (CHR ''a'')"

definition sample_now :: int where
  "sample_now = (case fromisoformat ''2026-07-01T12:00:05+00:00'' of Some t \<Rightarrow> utc_micros t 0 | None \<Rightarrow> 0)"

definition sample_clock :: "nat \<Rightarrow> string" where
  "sample_clock n = ''2026-07-01T12:00:'' @ pad2 n @ ''.000+00:00''"

definition sample_report :: json where
  "sample_report = JObj [(''ok'', JBool True), (''fixture'', JStr TASK_TYPE),
     (''checks'', JObj (map (\<lambda>c. (c, JBool True)) CHECKS))]"

definition sample_sandbox :: sandbox where
  "sample_sandbox = \<lparr>sb_spawned = True, sb_turns = [\<lparr>tn_chunks = [Some ''report''], tn_exit = None\<rparr>,
     \<lparr>tn_chunks = [None], tn_exit = Some 0\<rparr>], sb_json = (\<lambda>out. sample_report), sb_file = Inr (True, CONTENT)\<rparr>"

definition sample_policy :: policy where
  "sample_policy = \<lparr>pol_base = POLICY_BASE, pol_coding = False, pol_min_free = 8388608\<rparr>"

definition sample_surroundings :: surroundings where
  "sample_surroundings = \<lparr>su_calls = (\<lambda>n. Idle), su_stop = (\<lambda>n. False), su_late = (\<lambda>n. False),
     su_free = 9000000, su_preparation = \<lparr>pr_git = [(1, 0), (0, 0), (0, 0)], pr_unsupported = False\<rparr>,
     su_sandbox = sample_sandbox,
     su_coding = \<lparr>ce_open = Inr (), ce_broker = \<lparr>br_connect = Inr (), br_replies = []\<rparr>,
       ce_invoke = (\<lambda>n a. Inr PNone), ce_validate = Inr ([], []), ce_snapshot = Inr PNone,
       ce_tests = io_return [], ce_snapshot_after = Inr PNone\<rparr>,
     su_tests = [], su_json = (\<lambda>out. JNull)\<rparr>"

definition submitted_world :: world where
  "submitted_world = perform sample_sha (Submits sample_now POLICY_BASE sample_request)
     (with_fate [] sample_clock empty_world)"

definition finished_world :: world where
  "finished_world = snd (system_tick sample_sha sample_policy sample_surroundings
     (with_fate [] sample_clock submitted_world))"

definition crashed_world :: world where
  "crashed_world = snd (system_tick sample_sha sample_policy sample_surroundings
     (with_fate [Works, Works, Works, Dies] sample_clock submitted_world))"



definition sample_checked :: request where
  "sample_checked = [(PStr ''ok'', PBool True), (PStr ''fixture'', PStr TASK_TYPE),
     (PStr ''checks'', PDict (map (\<lambda>c. (PStr c, PBool True)) CHECKS))]"

lemma sample_facts [simp]:
  "is_uuid sample_id" "is_coding sample_request = False" "request_id sample_request = sample_id"
  "fresh sample_now sample_request = Inr ()" "digest sample_sha sample_request = Inr (sample_sha [])"
  "dget sample_request ''base_ref'' = PStr POLICY_BASE" "allowed_base sample_request b = b"
  "validate_run sample_sandbox ''report'' = Inr (Some sample_checked)"
  by (code_simp, code_simp, code_simp, code_simp, code_simp, code_simp, simp add: allowed_base_def, code_simp,
      code_simp)

lemma sample_parts [simp]:
  "sb_spawned sample_sandbox" "pol_min_free sample_policy = 8388608"
  "sb_turns sample_sandbox = [\<lparr>tn_chunks = [Some ''report''], tn_exit = None\<rparr>,
     \<lparr>tn_chunks = [None], tn_exit = Some 0\<rparr>]"
  by (simp_all add: sample_sandbox_def sample_policy_def)

text \<open>The record and the artifacts after the submission.\<close>

definition sample_task :: task where
  "sample_task = \<lparr>t_id = sample_id, t_request = sample_request, t_hash = sample_sha [],
     t_status = ''submitted'', t_attempts = 0, t_cancel = False, t_cancel_at = None,
     t_history = [(''submitted'', sample_clock 0, ''accepted'')],
     t_started = None, t_finished = None, t_base = None, t_branch = None\<rparr>"

definition sample_files :: "(string \<times> content) list" where
  "sample_files = [(''emergency.reserve'', Bytes emergency_bytes), (''execution.log'', line ''submitted''),
     (''patch.diff'', Bytes []), (''test-result.json'', Json (sdict [(''status'', PStr ''not_run'')])),
     (''result.json'', Record sample_task)]"

lemma submitted_world: "submitted_world = empty_world\<lparr>clock := sample_clock, ticks := 1,
    tasks := [(sample_id, sample_task)], audit := [(sample_id, sample_files)]\<rparr>"
  by (simp add: submitted_world_def with_fate_def empty_world_def sample_task_def sample_files_def
      run_io run_store cong: io_weak)

lemmas run_sample = submitted_world with_fate_def empty_world_def sample_task_def sample_files_def
  sample_surroundings_def run_io run_store run_runner run_sandbox

lemma finished_runs: "runs finished_world = [sample_id]"
  by (simp add: finished_world_def run_sample cong: io_weak)

lemma finished_task: "map_option t_status (find_task finished_world sample_id) = Some ''succeeded''"
  by (simp add: finished_world_def run_sample cong: io_weak)

lemma crashed_runs: "runs crashed_world = [sample_id]"
  by (simp add: crashed_world_def run_sample cong: io_weak)

lemma crashed_task: "map_option t_status (find_task crashed_world sample_id) = Some ''running''"
  by (simp add: crashed_world_def run_sample cong: io_weak)

definition recovered_world :: world where
  "recovered_world = snd (recovery (with_fate [] sample_clock crashed_world))"

lemma recovered_task: "map_option t_status (find_task recovered_world sample_id) = Some ''interrupted'' \<and>
    fst (recovery (with_fate [] sample_clock crashed_world)) = Return ()"
  by (simp add: recovered_world_def crashed_world_def recovery_def recover_task_def run_sample cong: io_weak)

lemma recovered_runs: "runs recovered_world = [sample_id]"
  by (simp add: recovered_world_def crashed_world_def recovery_def recover_task_def run_sample cong: io_weak)

definition cancelled_world :: world where
  "cancelled_world = perform sample_sha (Cancels sample_id) (with_fate [] sample_clock submitted_world)"

lemma cancelled_task: "map_option (\<lambda>t. (t_status t, t_cancel t)) (find_task cancelled_world sample_id) =
    Some (''cancelled'', True)"
  by (simp add: cancelled_world_def run_sample cong: io_weak)

text \<open>All of them are reachable.\<close>

lemma sample_reachable:
  "work_steps sample_sha empty_world submitted_world"
  "work_steps sample_sha submitted_world finished_world"
  "work_steps sample_sha submitted_world crashed_world"
  "work_steps sample_sha crashed_world recovered_world"
  "work_steps sample_sha submitted_world cancelled_world"
  unfolding submitted_world_def finished_world_def crashed_world_def recovered_world_def cancelled_world_def
  by (rule work_steps.more [OF work_steps.start], rule work_step.intros)+

end
