(* ===== verification/Work_Behaviour.thy ===== *)
theory Work_Behaviour
  imports Work_System
begin

text \<open>
  What single operations of the work store do: which records they leave alone, what a submission
  does on each branch, and that a recovery which can write completes and leaves nothing in flight.
\<close>

section \<open>Operations on one task leave the others alone\<close>

definition same_others :: "string \<Rightarrow> world \<Rightarrow> world \<Rightarrow> bool" where
  "same_others i w w' = (\<forall>j. j \<noteq> i \<longrightarrow> find_task w' j = find_task w j)"

interpretation others: step_relation "same_others i" for i
  by unfold_locales (auto simp: same_others_def)

abbreviation touches_only :: "string \<Rightarrow> 'a io \<Rightarrow> bool" where
  "touches_only i \<equiv> keeps (same_others i)"

lemma touches_onlyD: "touches_only i m \<Longrightarrow> j \<noteq> i \<Longrightarrow> find_task (snd (m w)) j = find_task w j"
  by (simp add: keeps_def same_others_def)

lemma touches_durable:
  "(\<And>w j. j \<noteq> i \<Longrightarrow> find_task (f w) j = find_task w j) \<Longrightarrow> touches_only i (durable f)"
  by (auto simp: keeps_def same_others_def durable_def find_task_def split: list.split fault.split)

lemma touches_stamp [intro!]: "touches_only i stamp"
  by (simp add: keeps_def same_others_def stamp_def find_task_def)

lemma touches_put_task [intro!]: "touches_only i (put_task i t)"
  unfolding put_task_def by (rule touches_durable) (simp add: find_set_task)

lemma touches_put_artifact [intro!]: "touches_only i (put_artifact k n c)"
proof -
  have "touches_only i (durable (set_artifact k n c))" by (rule touches_durable) simp
  then show ?thesis by (simp add: keeps_def same_others_def put_artifact_def)
qed

lemma touches_load [intro!]: "touches_only i (load k)"
  by (auto simp: load_def)

lemma touches_load_record [intro!]: "touches_only i (load_record k)"
  by (auto simp: load_record_def split: option.split)

lemma touches_transition_locked:
  "t_id (extra t) = t_id t \<Longrightarrow> touches_only (t_id t) (transition_locked t st code extra)"
  unfolding transition_locked_def Let_def by auto

lemma load_record_run: "load_record i w = (if \<not> is_uuid i then (Raise (Rejected ''invalid_task_id''), w)
    else case find_task w i of None \<Rightarrow> (Raise TypeError, w) | Some t \<Rightarrow> (Return t, w))"
  by (auto simp: load_record_def load_def io_bind_def io_get_def io_raise_def io_return_def split: option.split)

lemma transition_other:
  assumes "store_ok w" "\<And>t. t_id (extra t) = t_id t" "j \<noteq> i"
  shows "find_task (snd (transition i st code extra w)) j = find_task w j"
proof (cases "is_uuid i \<and> find_task w i \<noteq> None")
  case True
  then obtain t where t: "find_task w i = Some t" by auto
  with assms(1) have id: "t_id t = i" by (auto dest: store_ok_task simp: task_ok_def)
  have "touches_only i (transition_locked t st' code' extra)" for st' code'
    using touches_transition_locked [of extra t st' code'] assms(2) id by simp
  with True t assms(3) show ?thesis
    by (simp add: transition_def io_bind_def load_record_run touches_onlyD [of i, OF _ assms(3)] io_return_def)
qed (auto simp: transition_def io_bind_def load_record_run)

section \<open>Working storage\<close>

text \<open>With an empty plan every durable write works.\<close>

lemma calm_put_artifact:
  "plan w = [] \<Longrightarrow> has_dir w i \<Longrightarrow> put_artifact i n c w = (Return (), set_artifact i n c w)"
  by (simp add: put_artifact_def durable_def)

lemma calm_put_task: "plan w = [] \<Longrightarrow> put_task i t w = (Return (), set_task i t w)"
  by (simp add: put_task_def durable_def)

lemma calm_sets [simp]:
  "plan (set_task i t w) = plan w" "plan (set_artifact i n c w) = plan w"
  by (simp_all add: set_task_def set_artifact_def)

lemma calm_transition:
  assumes "plan w = []" "store_ok w" "find_task w i = Some t" "is_terminal t \<or> st \<in> set (EDGES (t_status t))"
    and "st \<in> set TERMINAL" "st \<noteq> ''succeeded''"
  shows "\<exists>x w'. transition i st code id w = (Return x, w') \<and> plan w' = []"
proof -
  have t: "task_ok i t" "has_dir w i" using assms(2,3) by (auto simp: store_ok_def evidence_def)
  then have id: "t_id t = i" "is_uuid i" by (auto simp: task_ok_def)
  have np: "st \<notin> {''reserved'', ''running'', ''succeeded''}"
    using assms(5,6) by (auto simp: TERMINAL_def)
  show ?thesis
  proof (cases "is_terminal t")
    case True
    with id assms(1,3) show ?thesis
      by (simp add: transition_def io_bind_def load_record_run io_return_def)
  next
    case False
    have d: "has_dir (w\<lparr>ticks := n\<rparr>) i" for n using t(2) by (simp add: has_dir_def)
    from False np id assms(1,3,4,5) d show ?thesis
      by (auto simp: transition_def transition_locked_def io_bind_def load_record_run io_return_def stamp_def
          Let_def calm_put_artifact calm_put_task)
  qed
qed

section \<open>Recovery\<close>

definition in_flight :: "task \<Rightarrow> bool" where
  "in_flight t = (t_status t = ''reserved'' \<or> t_status t = ''running'')"

lemma in_flight_edges: "in_flight t \<Longrightarrow> ''interrupted'' \<in> set (EDGES (t_status t))"
  by (auto simp: in_flight_def EDGES_def TERMINAL_def)

lemma in_flight_not_terminal: "in_flight t \<Longrightarrow> \<not> is_terminal t"
  by (auto simp: in_flight_def is_terminal_def TERMINAL_def)

lemma set_artifact_evidence:
  "evidence w j b \<Longrightarrow> agent_ok n c \<Longrightarrow> evidence (set_artifact i n c w) j b"
  by (rule evidence_set_artifact)

lemma agent_interrupted_dict: "\<exists>d'. agent_interrupted (Some (Json (PDict d))) = Inr (Json (PDict d'))"
  by (simp add: agent_interrupted_def)

text \<open>Recovering one task: it ends in a terminal state and nothing else moves.\<close>

lemma recover_task_effect:
  assumes ok: "store_ok w" and t: "find_task w (t_id t) \<noteq> None"
  shows "j \<noteq> t_id t \<Longrightarrow> find_task (snd (recover_task t w)) j = find_task w j"
    and "fst (recover_task t w) = Return () \<Longrightarrow>
       \<exists>x. find_task (snd (recover_task t w)) (t_id t) = Some x \<and> is_terminal x"
proof -
  let ?i = "t_id t"
  define coding where "coding = (if is_coding (t_request t)
     then io_bind (io_get (\<lambda>w. artifact w ?i ''agent-result.json'')) (\<lambda>c.
          io_bind (io_result (agent_interrupted c)) (\<lambda>c'. put_artifact ?i ''agent-result.json'' c'))
     else io_return ())"
  have sc: "secure (\<lambda>_. True) coding (\<lambda>_ _. True)"
    unfolding coding_def
    by (auto intro!: secure_bind_same secure_get secure_bind_result secure_put_other secure_return
        intro: agent_interrupted_ok)
  have pre: "secure (\<lambda>_. True) (io_bind (put_artifact ?i ''test-result.json''
      (not_completed ''interrupted_no_retry'')) (\<lambda>_. coding)) (\<lambda>_ _. True)"
    by (intro secure_bind_same secure_put_other sc) (simp_all add: not_completed_def)
  have none: "find_task (snd (io_bind (put_artifact ?i n c) (\<lambda>_. coding) w)) = find_task w" for n c
  proof
    fix k
    have "touches_only k' (io_bind (put_artifact ?i n c) (\<lambda>_. coding))" for k'
      unfolding coding_def by auto
    from this [of "CHR ''x'' # k"] show "find_task (snd (io_bind (put_artifact ?i n c) (\<lambda>_. coding) w)) k = find_task w k"
      by (rule touches_onlyD) simp
  qed
  obtain r w1 where r: "io_bind (put_artifact ?i ''test-result.json''
      (not_completed ''interrupted_no_retry'')) (\<lambda>_. coding) w = (r, w1)" by fastforce
  then have w1: "store_ok w1" "find_task w1 = find_task w"
    using secureD [OF pre ok] none [of "''test-result.json''" "not_completed ''interrupted_no_retry''"]
    by (auto simp: safe_step_def)
  have run: "recover_task t w = (case r of
      Return _ \<Rightarrow> io_bind (transition ?i ''interrupted'' ''interrupted_no_retry'' id) (\<lambda>_. io_return ()) w1
    | Raise e \<Rightarrow> (Raise e, w1) | Died \<Rightarrow> (Died, w1))"
    using r by (auto simp: recover_task_def Let_def io_bind_def coding_def [symmetric]
        split: prod.splits outcome.splits)
  have tr: "secure (\<lambda>_. True) (transition ?i ''interrupted'' ''interrupted_no_retry'' id)
     (\<lambda>x w. find_task w ?i = Some x \<and> is_terminal x)"
    by (rule secure_weaken [OF secure_transition]) (auto simp: extra_ok_id is_terminal_def TERMINAL_def)
  obtain q w2 where q: "transition ?i ''interrupted'' ''interrupted_no_retry'' id w1 = (q, w2)" by fastforce
  have w2: "find_task w2 j = find_task w j" if "j \<noteq> ?i" for j
    using transition_other [OF w1(1), of id j ?i] that q w1(2) by (metis id_apply snd_conv)
  show "j \<noteq> ?i \<Longrightarrow> find_task (snd (recover_task t w)) j = find_task w j"
    using run q w2 w1(2) by (auto simp: io_bind_def io_return_def split: outcome.split)
  show "fst (recover_task t w) = Return () \<Longrightarrow>
       \<exists>x. find_task (snd (recover_task t w)) ?i = Some x \<and> is_terminal x"
    using run q tr w1(1) unfolding secure_def
    by (auto simp: io_bind_def io_return_def split: outcome.splits)
qed

text \<open>With working storage it returns.\<close>

lemma recover_task_returns:
  assumes ok: "store_ok w" and p: "plan w = []" and t: "find_task w (t_id t) = Some t" "in_flight t"
  shows "\<exists>w'. recover_task t w = (Return (), w') \<and> plan w' = []"
proof -
  let ?i = "t_id t"
  let ?w1 = "set_artifact ?i ''test-result.json'' (not_completed ''interrupted_no_retry'') w"
  have ev: "evidence w ?i (is_coding (t_request t))" using ok t(1) by (auto simp: store_ok_def)
  have dirs: "has_dir w ?i" using ev by (simp add: evidence_def)
  have edge: "is_terminal t \<or> ''interrupted'' \<in> set (EDGES (t_status t))" using in_flight_edges [OF t(2)] by simp
  have fin: "''interrupted'' \<in> set TERMINAL" "''interrupted'' \<noteq> ''succeeded''" by (simp_all add: TERMINAL_def)
  have ok1: "store_ok ?w1"
    using safe_set_artifact [OF ok, of "''test-result.json''" ?i "not_completed ''interrupted_no_retry''"]
    by (simp add: safe_step_def)
  have done_: "\<exists>x w'. transition ?i ''interrupted'' ''interrupted_no_retry'' id v = (Return x, w') \<and> plan w' = []"
    if "store_ok v" "plan v = []" "find_task v = find_task w" for v
    using calm_transition [OF that(2,1) _ edge fin] that(3) t(1) by simp
  show ?thesis
  proof (cases "is_coding (t_request t)")
    case True
    then obtain d where d: "artifact w ?i ''agent-result.json'' = Some (Json (PDict d))"
      using ev by (auto simp: evidence_def)
    obtain d' where d': "agent_interrupted (Some (Json (PDict d))) = Inr (Json (PDict d'))"
      using agent_interrupted_dict by blast
    let ?w2 = "set_artifact ?i ''agent-result.json'' (Json (PDict d')) ?w1"
    have "store_ok ?w2"
      using safe_set_artifact [OF ok1, of "''agent-result.json''" ?i "Json (PDict d')"] by (simp add: safe_step_def)
    from done_ [OF this] p obtain x w' where
      "transition ?i ''interrupted'' ''interrupted_no_retry'' id ?w2 = (Return x, w')" "plan w' = []" by auto
    with True p dirs d d' show ?thesis
      by (simp add: recover_task_def Let_def io_bind_def calm_put_artifact io_get_def artifact_set_artifact
          io_result_def io_return_def)
  next
    case False
    from done_ [OF ok1] p obtain x w' where
      "transition ?i ''interrupted'' ''interrupted_no_retry'' id ?w1 = (Return x, w')" "plan w' = []" by auto
    with False p dirs show ?thesis
      by (simp add: recover_task_def Let_def io_bind_def calm_put_artifact io_return_def)
  qed
qed

lemma recover_tasks_Cons_run:
  "recover_tasks (t # ts) w = (if in_flight t then io_bind (recover_task t) (\<lambda>_. recover_tasks ts) w
     else recover_tasks ts w)"
  by (simp add: in_flight_def io_bind_def io_return_def)

lemma recover_tasks_complete:
  assumes "store_ok w" "\<And>i t. find_task w i = Some t \<Longrightarrow> in_flight t \<Longrightarrow> i \<in> t_id ` set (filter in_flight ts)"
    and "\<And>u. u \<in> set ts \<Longrightarrow> find_task w (t_id u) \<noteq> None"
    and "fst (recover_tasks ts w) = Return ()" "find_task (snd (recover_tasks ts w)) i = Some t"
  shows "\<not> in_flight t"
  using assms
proof (induction ts arbitrary: w)
  case Nil
  then show ?case by (auto simp: io_return_def)
next
  case (Cons u ts)
  show ?case
  proof (cases "in_flight u")
    case False
    show ?thesis
      by (rule Cons.IH [of w]) (use False Cons.prems in \<open>auto simp: recover_tasks_Cons_run simp del: recover_tasks.simps split: if_splits\<close>)
  next
    case True
    obtain r w1 where r: "recover_task u w = (r, w1)" by fastforce
    with True Cons.prems(4) have ret: "r = Return ()"
      by (cases r) (auto simp: recover_tasks_Cons_run io_bind_def simp del: recover_tasks.simps)
    have run: "recover_tasks (u # ts) w = recover_tasks ts w1"
      using True r ret by (simp add: recover_tasks_Cons_run io_bind_def del: recover_tasks.simps)
    have ok1: "store_ok w1"
      using secureD [OF recover_task_safe [of u] Cons.prems(1)] r by (simp add: safe_step_def)
    have u: "find_task w (t_id u) \<noteq> None" using Cons.prems(3) by simp
    have other: "j \<noteq> t_id u \<Longrightarrow> find_task w1 j = find_task w j" for j
      using recover_task_effect(1) [OF Cons.prems(1) u] r by simp
    obtain x where x: "find_task w1 (t_id u) = Some x" "is_terminal x"
      using recover_task_effect(2) [OF Cons.prems(1) u] r ret by auto
    show ?thesis
    proof (rule Cons.IH [OF ok1])
      fix j s
      assume js: "find_task w1 j = Some s" "in_flight s"
      with x in_flight_not_terminal have j: "j \<noteq> t_id u" by auto
      with js other have "find_task w j = Some s" by simp
      from Cons.prems(2) [OF this js(2)] j show "j \<in> t_id ` set (filter in_flight ts)" by (auto split: if_splits)
    next
      fix v
      assume "v \<in> set ts"
      then show "find_task w1 (t_id v) \<noteq> None"
        using Cons.prems(3) [of v] other [of "t_id v"] x by (cases "t_id v = t_id u") auto
    qed (use Cons.prems(4,5) run in simp_all)
  qed
qed

lemma recover_tasks_returns:
  assumes "store_ok w" "plan w = []" "distinct (map t_id ts)"
    and "\<And>u. u \<in> set ts \<Longrightarrow> find_task w (t_id u) = Some u"
  shows "fst (recover_tasks ts w) = Return ()"
  using assms
proof (induction ts arbitrary: w)
  case Nil
  then show ?case by (simp add: io_return_def)
next
  case (Cons u ts)
  show ?case
  proof (cases "in_flight u")
    case False
    then show ?thesis
      using Cons.IH [OF Cons.prems(1,2)] Cons.prems(3,4) by (simp add: recover_tasks_Cons_run del: recover_tasks.simps)
  next
    case True
    from recover_task_returns [OF Cons.prems(1,2) _ True] Cons.prems(4) [of u] obtain w1 where
      r: "recover_task u w = (Return (), w1)" "plan w1 = []" by auto
    have ok1: "store_ok w1"
      using secureD [OF recover_task_safe [of u] Cons.prems(1)] r by (simp add: safe_step_def)
    have u: "find_task w (t_id u) \<noteq> None" using Cons.prems(4) by simp
    have rest: "find_task w1 (t_id v) = Some v" if v: "v \<in> set ts" for v
    proof -
      have "t_id v \<in> t_id ` set ts" using v by (rule imageI)
      with Cons.prems(3) have "t_id v \<noteq> t_id u" by auto
      then have "find_task w1 (t_id v) = find_task w (t_id v)"
        using recover_task_effect(1) [OF Cons.prems(1) u] r by simp
      with Cons.prems(4) [of v] v show ?thesis by simp
    qed
    have run: "recover_tasks (u # ts) w = recover_tasks ts w1"
      using True r by (simp add: recover_tasks_Cons_run io_bind_def del: recover_tasks.simps)
    have "distinct (map t_id ts)" using Cons.prems(3) by simp
    from Cons.IH [OF ok1 r(2) this rest] run show ?thesis by simp
  qed
qed

text \<open>The records \<open>recovery\<close> starts from are the tasks on disk.\<close>

lemma records_tasks:
  assumes "store_ok w"
  defines "ts \<equiv> map snd (sort_key fst (tasks w))"
  shows "u \<in> set ts \<longleftrightarrow> find_task w (t_id u) = Some u" and "distinct (map t_id ts)"
proof -
  have d: "distinct (map fst (tasks w))" using assms(1) by (simp add: store_ok_def)
  have find: "find_task w i = Some t" if "(i, t) \<in> set (tasks w)" for i t
    using that d by (simp add: find_task_def)
  have id: "t_id t = i" if "(i, t) \<in> set (tasks w)" for i t
    using store_ok_task [OF assms(1) find [OF that]] by (simp add: task_ok_def)
  show "u \<in> set ts \<longleftrightarrow> find_task w (t_id u) = Some u"
  proof
    assume "u \<in> set ts"
    then obtain i where i: "(i, u) \<in> set (tasks w)" by (auto simp: ts_def)
    with find id show "find_task w (t_id u) = Some u" by blast
  next
    assume "find_task w (t_id u) = Some u"
    then have "(t_id u, u) \<in> set (tasks w)" unfolding find_task_def by (rule map_of_SomeD)
    then show "u \<in> set ts" unfolding ts_def by force
  qed
  have "distinct (map fst (sort_key fst (tasks w)))"
    using d distinct_map [of fst "sort_key fst (tasks w)"] distinct_map [of fst "tasks w"] by simp
  moreover have "map t_id ts = map fst (sort_key fst (tasks w))"
    unfolding ts_def using id by simp
  ultimately show "distinct (map t_id ts)" by simp
qed

lemma recovery_run: "recovery w = recover_tasks (map snd (sort_key fst (tasks w))) w"
  by (simp add: recovery_def records_def io_bind_def io_get_def)

lemma recovery_done:
  assumes "store_ok w" "fst (recovery w) = Return ()" "find_task (snd (recovery w)) i = Some t"
  shows "\<not> in_flight t"
proof (rule recover_tasks_complete [OF assms(1)])
  fix j s
  assume s: "find_task w j = Some s" "in_flight s"
  with assms(1) have "t_id s = j" by (auto dest: store_ok_task simp: task_ok_def)
  with s show "j \<in> t_id ` set (filter in_flight (map snd (sort_key fst (tasks w))))"
    using records_tasks(1) [OF assms(1), of s] by force
qed (use assms records_tasks(1) [OF assms(1)] in \<open>auto simp: recovery_run\<close>)

lemma recovery_returns: "store_ok w \<Longrightarrow> plan w = [] \<Longrightarrow> fst (recovery w) = Return ()"
  unfolding recovery_run using records_tasks by (intro recover_tasks_returns) auto

section \<open>Submission\<close>

lemma submit_known:
  assumes "is_uuid (request_id req)" "find_task w (request_id req) = Some t"
  shows "submit sha now base req w = (case digest sha req of
      Inl e \<Rightarrow> (Raise e, w)
    | Inr hash \<Rightarrow> if t_hash t = hash then (Return (t, False), w)
                  else (Raise (Rejected ''task_id_payload_conflict''), w))"
  using assms
  by (simp add: submit_def load_def io_bind_def io_get_def io_result_def io_raise_def io_return_def split: sum.split)

end
