(* ===== verification/Work_Outcome.thy ===== *)
theory Work_Outcome
  imports Work_Behaviour
begin

text \<open>
  What a returned result of an executor means: the bound on the captured output, and that a success
  is reported only after the evidence for it was validated and written.
\<close>

lemma put_artifact_Return:
  "put_artifact i n c w = (Return u, w') \<Longrightarrow>
   artifact w' = (\<lambda>j m. if j = i \<and> m = n then Some c else artifact w j m)"
  by (auto simp: fun_eq_iff put_artifact_def durable_def artifact_set_artifact
      split: if_splits list.splits fault.splits)

section \<open>The sandbox\<close>

lemma read_chunks_bounded:
  "read_chunks i cs out eof w = (Return (out', eof', over), w') \<Longrightarrow> length out \<le> OUTPUT_LIMIT \<Longrightarrow>
   length out' \<le> OUTPUT_LIMIT"
proof (induction i cs out eof arbitrary: w rule: read_chunks.induct)
  case (3 i chunk cs out eof)
  let ?out = "out @ take (OUTPUT_LIMIT - length out) chunk"
  have b: "length ?out \<le> OUTPUT_LIMIT" using "3.prems"(2) by simp
  show ?case
  proof (cases "OUTPUT_LIMIT - length out < length chunk")
    case True
    with "3.prems"(1) have "out' = ?out"
      by (auto simp: Let_def returned)
    with b show ?thesis by simp
  next
    case False
    with "3.prems"(1) obtain w1 where "read_chunks i cs ?out eof w1 = (Return (out', eof', over), w')"
      by (auto simp: Let_def returned)
    then show ?thesis
      using "3.IH" [OF refl refl _ _ b] False by blast
  qed
qed (auto simp: returned)

text \<open>One turn of the supervision loop either decides or goes on with the output it has read.\<close>

definition after_read :: "host \<Rightarrow> string \<Rightarrow> turn \<Rightarrow> turn list \<Rightarrow> string \<times> bool \<times> bool
    \<Rightarrow> (string \<times> string \<times> string) io" where
  "after_read host i t ts = (\<lambda>(out', eof', over).
     if over then io_return (out', ''failed'', ''output_limit'')
     else case tn_exit t of
         Some code \<Rightarrow>
           (if eof' then io_return (out', if code = 0 then (''succeeded'', ''fixture_completed'')
                                         else (''failed'', ''sandbox_failed''))
            else sandbox_loop host i ts out' eof')
       | None \<Rightarrow> sandbox_loop host i ts out' eof')"

lemma after_read_Return:
  assumes "after_read host i t ts (o3, e3, over) w = (Return (out', st, code), w')"
  obtains "out' = o3" "st = ''succeeded'' \<longrightarrow> code = ''fixture_completed''"
    | "sandbox_loop host i ts o3 e3 w = (Return (out', st, code), w')"
proof (cases over)
  case True
  with assms show ?thesis by (auto simp: after_read_def io_return_Return intro: that)
next
  case False
  with assms show ?thesis
    by (cases "tn_exit t"; cases e3) (auto simp: after_read_def io_return_Return split: if_splits intro: that)
qed

lemma sandbox_loop_Return:
  assumes "sandbox_loop host i (t # ts) out eof w = (Return (out', st, code), w')"
  obtains "out' = out" "st \<noteq> ''succeeded''"
    | o3 e3 over w2 w3 where "read_chunks i (tn_chunks t) out eof w2 = (Return (o3, e3, over), w3)"
      "after_read host i t ts (o3, e3, over) w3 = (Return (out', st, code), w')"
proof -
  let ?read = "io_bind (read_chunks i (tn_chunks t) out eof) (after_read host i t ts)"
  from assms obtain n w1 where r1: "(if h_stop host n then io_return (out, ''interrupted'', ''service_stopping'')
     else io_bind (cancelled i) (\<lambda>c.
       if c then io_return (out, ''cancelled'', ''cancellation_requested'')
       else if h_late host n then io_return (out, ''failed'', ''deadline_exceeded'')
       else ?read)) w1 = (Return (out', st, code), w')"
    unfolding sandbox_loop.simps after_read_def by (simp only: io_bind_Return) blast
  show ?thesis
  proof (cases "h_stop host n")
    case True
    with r1 show ?thesis by (auto simp: io_return_Return intro: that(1))
  next
    case False
    with r1 obtain c w2 where r2: "(if c then io_return (out, ''cancelled'', ''cancellation_requested'')
       else if h_late host n then io_return (out, ''failed'', ''deadline_exceeded'')
       else ?read) w2 = (Return (out', st, code), w')"
      by (auto simp: io_bind_Return)
    then show ?thesis
      by (auto simp: io_return_Return io_bind_Return split: if_splits intro: that)
  qed
qed

lemma sandbox_loop_bounded:
  "sandbox_loop host i ts out eof w = (Return (out', st, code), w') \<Longrightarrow> length out \<le> OUTPUT_LIMIT \<Longrightarrow>
   length out' \<le> OUTPUT_LIMIT \<and> (st = ''succeeded'' \<longrightarrow> code = ''fixture_completed'')"
proof (induction ts arbitrary: out eof w)
  case (Cons t ts)
  from Cons.prems(1) show ?case
  proof (cases rule: sandbox_loop_Return)
    case 1
    with Cons.prems(2) show ?thesis by simp
  next
    case (2 o3 e3 over w2 w3)
    from read_chunks_bounded [OF 2(1) Cons.prems(2)] have b: "length o3 \<le> OUTPUT_LIMIT" .
    from 2(2) show ?thesis
      by (cases rule: after_read_Return) (use b Cons.IH [OF _ b] in auto)
  qed
qed simp

lemma conclude_succeeded:
  assumes "conclude sb i out (st, code) w = (Return (''succeeded'', code'), w')"
  shows "st = ''succeeded'' \<and> code' = code \<and> (\<exists>report. validate_run sb out = Inr (Some report) \<and>
     artifact w' i ''test-result.json'' = Some (passed report) \<and>
     artifact w' i ''patch.diff'' = Some (Bytes patch_text))"
  using assms
  by (auto simp: conclude_def returned split: if_splits option.splits dest!: put_artifact_Return)

lemma reclassify_succeeded:
  "reclassify host i result w = (Return (''succeeded'', code), w') \<Longrightarrow> result = (''succeeded'', code)"
  by (auto simp: reclassify_def returned split: if_splits)

lemma sandbox_success:
  assumes "sandbox_execute host sb i w = (Return (''succeeded'', code), w')"
  shows "\<exists>out report. length out \<le> OUTPUT_LIMIT \<and> validate_run sb out = Inr (Some report) \<and>
     code = ''fixture_completed'' \<and>
     artifact w' i ''test-result.json'' = Some (passed report) \<and>
     artifact w' i ''patch.diff'' = Some (Bytes patch_text)"
proof -
  from assms obtain out st code1 st2 code2 w1 w2 where
    loop: "sandbox_loop host i (sb_turns sb) [] False w = (Return (out, st, code1), w1)" and
    re: "reclassify host i (st, code1) w1 = (Return (st2, code2), w2)" and
    co: "conclude sb i out (st2, code2) w2 = (Return (''succeeded'', code), w')"
    by (auto simp: sandbox_execute_def returned split: if_splits)
  from conclude_succeeded [OF co] re have "st2 = ''succeeded''" "code2 = code" by auto
  with re reclassify_succeeded have "st = ''succeeded''" "code1 = code" by blast+
  with sandbox_loop_bounded [OF loop] conclude_succeeded [OF co] show ?thesis by auto
qed

section \<open>The coding run\<close>

lemma put_held_Return:
  "put_held i w = (Return u, w') \<Longrightarrow>
   artifact w' = (\<lambda>j m. if j = i \<and> m = ''agent-result.json'' then Some (Json (sdict (held w))) else artifact w j m)"
  by (auto simp: put_held_def put_value_def returned io_get_def dest!: put_artifact_Return)

lemma value_update_Return:
  "value_update kvs w = (Return u, w') \<longleftrightarrow> w' = w\<lparr>held := update_value kvs (held w)\<rparr>"
  by (auto simp: value_update_def)

lemma coding_failure_not_succeeded:
  assumes "coding_failure i e w = (Return (st, code), w')"
  shows "(st, code) = failure_class e"
  using assms by (auto simp: coding_failure_def Let_def returned split: prod.splits)

text \<open>What must have happened for \<open>execute\<close> to report success from its \<open>try\<close> block.\<close>

lemma coding_success_evidence:
  assumes "coding_success sha env check task i w = (Return r, w')"
  shows "r = (''succeeded'', ''coding_completed'') \<and>
     (\<exists>changed patch report snap again.
        ce_validate env = Inr (changed, patch) \<and> ce_snapshot env = Inr snap \<and>
        ce_snapshot_after env = Inr again \<and> py_eq again snap \<and>
        (\<exists>w1 w2. ce_tests env w1 = (Return report, w2)) \<and>
        artifact w' i ''test-result.json'' = Some (passed report))"
  using assms
  by (auto simp: coding_success_def returned case_prod_beta value_update_Return
      dest!: put_artifact_Return put_held_Return) (blast intro: prod.collapse)+

section \<open>Submission\<close>

lemma load_Return: "load i w = (Return r, w') \<longleftrightarrow> is_uuid i \<and> r = find_task w i \<and> w' = w"
  by (auto simp: load_def io_get_def io_raise_def)

text \<open>A new task passed every gate, its identifier had no artifact directory, and its digest is the
  request's.\<close>

lemma submit_new:
  assumes "submit sha now base req w = (Return (t, True), w')"
  shows "find_task w (request_id req) = None \<and> \<not> has_dir w (request_id req) \<and>
    fresh now req = Inr () \<and> dget req ''base_ref'' = PStr (allowed_base req base) \<and>
    length (tasks w) < 256 \<and> digest sha req = Inr (t_hash t) \<and> t_request t = req \<and>
    t_status t = ''submitted'' \<and> t_attempts t = 0"
proof -
  from assms have none: "find_task w (request_id req) = None" and
    gates: "fresh now req = Inr ()" "dget req ''base_ref'' = PStr (allowed_base req base)"
      "length (tasks w) < 256" and
    adm: "admit sha req w = (Return (t, True), w')"
    by (auto simp: submit_def returned load_Return io_get_def split: option.splits if_splits)
  from adm have "make_dir (request_id req) w \<noteq> (Raise FileExistsError, w)"
    by (auto simp: admit_def Let_def returned)
  then have "\<not> has_dir w (request_id req)" by (auto simp: make_dir_def)
  moreover from adm have "digest sha req = Inr (t_hash t)" "t_request t = req" "t_status t = ''submitted''"
    "t_attempts t = 0"
    by (auto simp: admit_def Let_def returned new_task_def)
  ultimately show ?thesis using none gates by simp
qed

lemma submit_old:
  assumes "submit sha now base req w = (Return (t, False), w')"
  shows "find_task w (request_id req) = Some t \<and> digest sha req = Inr (t_hash t) \<and> w' = w"
  using assms
  by (auto simp: submit_def admit_def Let_def returned load_Return io_get_def split: option.splits if_splits)

lemma submit_hash:
  assumes "submit sha now base req w = (Return (t, b), w')"
  shows "is_uuid (request_id req) \<and> digest sha req = Inr (t_hash t)"
proof -
  have "is_uuid (request_id req)" using assms by (auto simp: submit_def returned load_Return)
  with assms show ?thesis by (cases b) (auto dest: submit_new submit_old)
qed

end
