(* ===== verification/Work_Termination.thy ===== *)
theory Work_Termination
  imports Work_Outcome
begin

text \<open>The supervision loop of the sandbox ends: at the latest in the first round after the deadline.\<close>

text \<open>A task on a disk that works: its record can be read, its log can be written.\<close>

definition ready :: "string \<Rightarrow> world \<Rightarrow> bool" where
  "ready i w = (is_uuid i \<and> plan w = [] \<and> has_dir w i \<and> find_task w i \<noteq> None)"

lemma ready_moment [simp]: "ready i (w\<lparr>moment := n\<rparr>) = ready i w"
  by (simp add: ready_def has_dir_def find_task_def)

lemma moment_set_artifact [simp]: "moment (set_artifact i p k w) = moment w"
  by (simp add: set_artifact_def)

lemma append_log_ready:
  assumes "ready i w"
  shows "\<exists>w'. append_log i data w = (Return (), w') \<and> ready i w' \<and> moment w' = moment w"
  using assms
  by (auto simp: append_log_def io_bind_def io_get_def ready_def calm_put_artifact find_set_artifact has_dir_sets
      frame_sets)

lemma read_chunks_ready:
  "ready i w \<Longrightarrow> \<exists>r w'. read_chunks i cs out eof w = (Return r, w') \<and> ready i w' \<and> moment w' = moment w"
proof (induction i cs out eof arbitrary: w rule: read_chunks.induct)
  case (3 i chunk cs out eof)
  let ?kept = "take (OUTPUT_LIMIT - length out) chunk"
  from append_log_ready [OF "3.prems"] obtain w1 where
    w1: "append_log i ?kept w = (Return (), w1)" "ready i w1" "moment w1 = moment w" by blast
  show ?case
  proof (cases "OUTPUT_LIMIT - length out < length chunk")
    case True
    with w1 show ?thesis by (auto simp: Let_def io_bind_def io_return_def)
  next
    case False
    from "3.IH" [OF refl refl False w1(2)] w1 False show ?thesis by (auto simp: Let_def io_bind_def)
  qed
qed (auto simp: io_return_def)

lemma sandbox_loop_ends:
  assumes late: "\<And>n. N \<le> n \<Longrightarrow> h_late host n"
    and calm: "\<And>n w. ready i w \<Longrightarrow> ready i (h_other host n w) \<and> moment (h_other host n w) = moment w"
  shows "ready i w \<Longrightarrow> max N (moment w) < moment w + length ts \<Longrightarrow>
    \<exists>r w'. sandbox_loop host i ts out eof w = (Return r, w') \<and> ready i w' \<and>
      moment w' \<le> max N (moment w) + 1"
proof (induction ts arbitrary: out eof w)
  case Nil
  then show ?case by simp
next
  case (Cons t ts)
  let ?w1 = "h_other host (moment w) (w\<lparr>moment := moment w + 1\<rparr>)"
  have w1: "ready i ?w1" "moment ?w1 = moment w + 1"
    using calm [of "w\<lparr>moment := moment w + 1\<rparr>" "moment w"] Cons.prems(1) by simp_all
  then obtain task where "is_uuid i" "plan ?w1 = []" "find_task ?w1 i = Some task" by (auto simp: ready_def)
  then have task: "cancelled i ?w1 = (Return (t_cancel task), ?w1)"
    by (simp add: cancelled_def io_bind_def load_record_run io_return_def)
  show ?case
  proof (cases "h_stop host (moment w) \<or> t_cancel task \<or> h_late host (moment w)")
    case True
    with task w1 show ?thesis
      by (auto simp: observe_def io_bind_def [of "observe host"] io_bind_def [of "cancelled i"] io_return_def)
  next
    case False
    from read_chunks_ready [OF w1(1)] obtain o2 e2 over w2 where
      w2: "read_chunks i (tn_chunks t) out eof ?w1 = (Return (o2, e2, over), w2)" "ready i w2" "moment w2 = moment w + 1"
      using w1(2) by (metis prod_cases3)
    have step: "sandbox_loop host i (t # ts) out eof w =
      (if over then io_return (o2, ''failed'', ''output_limit'')
       else case tn_exit t of
           Some code \<Rightarrow> (if e2 then io_return (o2, if code = 0 then (''succeeded'', ''fixture_completed'')
               else (''failed'', ''sandbox_failed'')) else sandbox_loop host i ts o2 e2)
         | None \<Rightarrow> sandbox_loop host i ts o2 e2) w2"
      using False task w2(1)
      by (simp add: observe_def io_bind_def [of "observe host"] io_bind_def [of "cancelled i"]
          io_bind_def [of "read_chunks i (tn_chunks t) out eof"])
    have less: "moment w < N" using False late by (meson not_less)
    have rest: "\<exists>r w'. sandbox_loop host i ts o2 e2 w2 = (Return r, w') \<and> ready i w' \<and> moment w' \<le> max N (moment w) + 1"
      using Cons.IH [OF w2(2), of o2 e2] Cons.prems(2) w2(3) less by auto
    show ?thesis
      unfolding step using rest w2(2,3) by (auto simp: io_return_def split: option.split)
  qed
qed

lemma put_artifact_ready:
  "ready i w \<Longrightarrow> \<exists>w'. put_artifact i name c w = (Return (), w') \<and> moment w' = moment w"
  by (simp add: ready_def calm_put_artifact)

lemma conclude_ends:
  assumes "ready i w"
  shows "\<exists>o' w'. conclude sb i out result w = (o', w') \<and> o' \<noteq> Died \<and> moment w' = moment w"
  using assms
  by (auto simp: conclude_def io_bind_def io_return_def io_result_def io_raise_def ready_def
      calm_put_artifact has_dir_sets frame_sets split: option.split sum.split)

lemma reclassify_ends:
  assumes "ready i w"
    and calm: "\<And>n w. ready i w \<Longrightarrow> ready i (h_other host n w) \<and> moment (h_other host n w) = moment w"
  shows "\<exists>r w'. reclassify host i result w = (Return r, w') \<and> ready i w' \<and> moment w' = moment w + 1"
proof -
  let ?w1 = "h_other host (moment w) (w\<lparr>moment := moment w + 1\<rparr>)"
  have w1: "ready i ?w1" "moment ?w1 = moment w + 1"
    using calm [of "w\<lparr>moment := moment w + 1\<rparr>" "moment w"] assms(1) by simp_all
  then obtain task where "is_uuid i" "plan ?w1 = []" "find_task ?w1 i = Some task" by (auto simp: ready_def)
  then have "cancelled i ?w1 = (Return (t_cancel task), ?w1)"
    by (simp add: cancelled_def io_bind_def load_record_run io_return_def)
  then show ?thesis
    using w1 by (auto simp: reclassify_def observe_def io_bind_def io_return_def)
qed

text \<open>The whole execution then ends as well, with a result or with an exception the runner handles.\<close>

lemma sandbox_execute_ends:
  assumes late: "\<And>n. N \<le> n \<Longrightarrow> h_late host n"
    and calm: "\<And>n w. ready i w \<Longrightarrow> ready i (h_other host n w) \<and> moment (h_other host n w) = moment w"
    and start: "ready i w" "max N (moment w) < moment w + length (sb_turns sb)"
  shows "\<exists>o' w'. sandbox_execute host sb i w = (o', w') \<and> o' \<noteq> Died \<and> moment w' \<le> max N (moment w) + 2"
proof (cases "sb_spawned sb")
  case True
  from sandbox_loop_ends [of N host i w "sb_turns sb" "[]" False] late calm start
  obtain out st code w1 where w1: "sandbox_loop host i (sb_turns sb) [] False w = (Return (out, st, code), w1)"
    "ready i w1" "moment w1 \<le> max N (moment w) + 1" by (metis prod_cases3)
  from reclassify_ends [OF w1(2) calm, of "(st, code)"] obtain r w2 where
    w2: "reclassify host i (st, code) w1 = (Return r, w2)" "ready i w2" "moment w2 = moment w1 + 1" by blast
  from conclude_ends [OF w2(2), of sb out r] obtain o' w' where
    "conclude sb i out r w2 = (o', w')" "o' \<noteq> Died" "moment w' = moment w2" by blast
  with w1 w2 True show ?thesis by (auto simp: sandbox_execute_def io_bind_def)
qed (simp add: sandbox_execute_def io_raise_def)

section \<open>The receiver does not prevent it\<close>

text \<open>What a call on the store leaves alone: a task that is ready stays so, and no observation is counted.\<close>

definition undisturbed :: "string \<Rightarrow> world \<Rightarrow> world \<Rightarrow> bool" where
  "undisturbed i w w' = (ready i w \<longrightarrow> ready i w' \<and> moment w' = moment w)"

interpretation undisturbed: step_relation "undisturbed i" for i
  by unfold_locales (auto simp: undisturbed_def)

lemma undisturbed_durable:
  assumes "\<And>w. undisturbed i w (f w)"
  shows "undisturbed i w (snd (durable f w))"
  using assms [of w] by (auto simp: durable_def undisturbed_def ready_def split: list.split fault.split)

lemma ready_sets:
  "ready i w \<Longrightarrow> ready i (set_task j t w)" "ready i w \<Longrightarrow> ready i (set_artifact j n c w)"
  by (auto simp: ready_def find_set_artifact find_set_task frame_sets has_dir_sets)

lemma moment_set_task [simp]: "moment (set_task j t w) = moment w"
  by (simp add: set_task_def)

lemma undisturbed_put_task [intro!]: "keeps (undisturbed i) (put_task j t)"
  unfolding keeps_def put_task_def by (intro allI undisturbed_durable) (simp add: undisturbed_def ready_sets)

lemma undisturbed_put_artifact [intro!]: "keeps (undisturbed i) (put_artifact j n c)"
  unfolding keeps_def put_artifact_def
  using undisturbed_durable [of i "set_artifact j n c"] by (auto simp: undisturbed_def ready_sets)

lemma undisturbed_make_dir [intro!]: "keeps (undisturbed i) (make_dir j)"
proof -
  have "undisturbed i w (w\<lparr>audit := dict_set j [] (audit w)\<rparr>)" for w
    by (auto simp: undisturbed_def ready_def has_dir_def find_task_def map_of_dict_set)
  from undisturbed_durable [OF this] show ?thesis
    by (auto simp: keeps_def make_dir_def undisturbed.same)
qed

lemma undisturbed_put_artifacts [intro!]: "keeps (undisturbed i) (put_artifacts j fs)"
  by (induction j fs rule: put_artifacts.induct) auto

lemma undisturbed_stamp [intro!]: "keeps (undisturbed i) stamp"
  by (simp add: keeps_def stamp_def undisturbed_def ready_def has_dir_def find_task_def)

lemma undisturbed_load [intro!]: "keeps (undisturbed i) (load j)"
  by (auto simp: load_def)

lemma undisturbed_transition_locked [intro!]: "keeps (undisturbed i) (transition_locked t st code extra)"
  by (auto simp: transition_locked_def Let_def)

lemma undisturbed_submit: "keeps (undisturbed i) (submit sha now base req)"
  by (auto simp: submit_def admit_def Let_def)

lemma undisturbed_cancel: "keeps (undisturbed i) (cancel j)"
  by (auto simp: cancel_def Let_def)

lemma undisturbed_perform: "undisturbed i w (perform sha c w)"
  by (cases c) (auto simp: undisturbed.same keepsD [OF undisturbed_submit] keepsD [OF undisturbed_cancel])

lemma receiver_calm:
  "ready i w \<Longrightarrow> ready i (h_other (receiver_host sha calls stop late) n w) \<and>
    moment (h_other (receiver_host sha calls stop late) n w) = moment w"
  using undisturbed_perform [of i w sha "calls n"] by (simp add: receiver_host_def undisturbed_def)

end
