(* ===== verification/Work_Admin.thy ===== *)
theory Work_Admin
  imports Work_Outcome
begin

text \<open>
  The operator's side of \<open>work_runner.py\<close>: the profile that decides what the runner accepts, and the commands
  \<open>submit\<close>, \<open>status\<close> and \<open>cancel\<close> on the store. What a command prints is kept as data: a submission's text, a
  record, a policy code or the fixed text of any other failure. Creating the store's directories is left out.
\<close>

section \<open>The operator's profile\<close>

definition SEED :: string where
  "SEED = ''/opt/personal-ai-brain/builder/repository.git''"

definition PROFILE_FIELDS :: "string list" where
  "PROFILE_FIELDS = [''schema_version'', ''repository'', ''base_ref'', ''seed'', ''min_free_bytes'']"

definition profile_ok :: "request \<Rightarrow> bool" where
  "profile_ok d = (set (map fst d) - {PStr ''coding_enabled''} = PStr ` set PROFILE_FIELDS \<and>
     is_bool (dget_or d ''coding_enabled'' (PBool False)) \<and> dget d ''schema_version'' = PStr ''0.1'' \<and>
     dget d ''repository'' = PStr REPOSITORY \<and>
     (case dget d ''base_ref'' of PStr s \<Rightarrow> is_commit s | _ \<Rightarrow> False) \<and>
     dget d ''seed'' = PStr SEED \<and>
     (case dget d ''min_free_bytes'' of PInt n \<Rightarrow> 8388608 \<le> n | _ \<Rightarrow> False))"

text \<open>A profile that is no object, or whose base is no text, ends in another exception than the one raised here.\<close>

definition profile :: "pyval result \<Rightarrow> request result" where
  "profile loaded = andThen loaded (\<lambda>v. case v of
      PDict d \<Rightarrow> if profile_ok d then Inr d else Inl (ValueError ''invalid_operator_profile'')
    | _ \<Rightarrow> Inl TypeError)"

definition profile_policy :: "request \<Rightarrow> policy" where
  "profile_policy d = \<lparr>pol_base = str_val (dget d ''base_ref''), pol_coding = (dget d ''coding_enabled'' = PBool True),
     pol_min_free = (case dget d ''min_free_bytes'' of PInt n \<Rightarrow> n | _ \<Rightarrow> 0)\<rparr>"

section \<open>The commands\<close>

datatype admin_action = AdminSubmit doc | AdminStatus "string option" | AdminCancel "string option"

datatype printed = SubmissionLine task bool | RecordLine task | ErrorLine string | Unavailable

definition named_task :: "string option \<Rightarrow> string io" where
  "named_task i = (case i of Some s \<Rightarrow> io_return s | None \<Rightarrow> io_raise (Rejected ''invalid_task_id''))"

definition run_admin ::
  "(string \<Rightarrow> string) \<Rightarrow> int \<Rightarrow> request \<Rightarrow> admin_action \<Rightarrow> printed io" where
  "run_admin sha now prof action = (case action of
      AdminSubmit raw \<Rightarrow>
        io_bind (io_result (parse_contract raw)) (\<lambda>req.
        io_bind (submit sha now (str_val (dget prof ''base_ref'')) req) (\<lambda>(t, created).
          io_return (SubmissionLine t created)))
    | AdminCancel i \<Rightarrow> io_bind (named_task i) (\<lambda>s. io_bind (cancel s) (\<lambda>t. io_return (RecordLine t)))
    | AdminStatus i \<Rightarrow> io_bind (named_task i) (\<lambda>s. io_bind (load s) (\<lambda>r. case r of
          None \<Rightarrow> io_raise (Rejected ''unknown_task'')
        | Some t \<Rightarrow> io_return (RecordLine t))))"

definition admin_main ::
  "(string \<Rightarrow> string) \<Rightarrow> int \<Rightarrow> pyval result \<Rightarrow> admin_action \<Rightarrow> (printed \<times> int) io" where
  "admin_main sha now loaded action = io_catch
     (io_bind (io_result (profile loaded)) (\<lambda>prof.
      io_bind (run_admin sha now prof action) (\<lambda>shown. io_return (shown, 0))))
     (\<lambda>e. io_return (case e of Rejected code \<Rightarrow> (ErrorLine code, 2) | _ \<Rightarrow> (Unavailable, 1)))"

section \<open>The commands are steps of the store\<close>

lemma profile_Inr: "profile loaded = Inr d \<Longrightarrow> loaded = Inr (PDict d) \<and> profile_ok d"
  by (cases loaded; cases "projr loaded") (auto simp: profile_def split: if_splits)

lemma profile_policy_bounds:
  "profile_ok d \<Longrightarrow> is_commit (pol_base (profile_policy d)) \<and> 8388608 \<le> pol_min_free (profile_policy d)"
  by (auto simp: profile_ok_def profile_policy_def str_val_def split: pyval.splits)

text \<open>Wherever it stops, a command leaves the store as one call of the store leaves it.\<close>

definition one_call :: "(string \<Rightarrow> string) \<Rightarrow> 'a io \<Rightarrow> bool" where
  "one_call sha m = (\<forall>w. \<exists>c. snd (m w) = perform sha c w)"

lemma one_call_silent: "(\<And>w. snd (m w) = w) \<Longrightarrow> one_call sha m"
  unfolding one_call_def by (metis perform.simps(1))

lemma one_call_then:
  assumes "one_call sha m" "\<And>x w. snd (f x w) = w"
  shows "one_call sha (io_bind m f)"
proof -
  have "snd (io_bind m f w) = snd (m w)" for w
    by (cases "m w"; cases "fst (m w)") (use assms(2) in \<open>auto simp: io_bind_def\<close>)
  with assms(1) show ?thesis by (simp add: one_call_def)
qed

lemma one_call_after:
  assumes "\<And>w. snd (m w) = w" "\<And>x. one_call sha (f x)"
  shows "one_call sha (io_bind m f)"
  unfolding one_call_def
proof
  fix w
  show "\<exists>c. snd (io_bind m f w) = perform sha c w"
  proof (cases "m w")
    case (Pair r w1)
    with assms(1) [of w] have "w1 = w" by simp
    moreover have "\<exists>c. w = perform sha c w" by (metis perform.simps(1))
    ultimately show ?thesis
      using Pair assms(2) by (cases r) (auto simp: io_bind_def one_call_def)
  qed
qed

lemma silent_steps:
  "snd (io_return x w) = w" "snd (io_raise e w) = w" "snd (io_result r w) = w"
  by (auto simp: io_return_def io_raise_def io_result_def split: sum.split)

lemma silent_reads: "snd (named_task i w) = w" "snd (load j w) = w"
  by (auto simp: silent_steps named_task_def load_def io_get_def split: option.split)

lemma run_admin_call: "one_call sha (run_admin sha now prof action)"
proof (cases action)
  case (AdminSubmit raw)
  have "one_call sha (submit sha now base req)" for base req
    unfolding one_call_def by (metis perform.simps(2))
  then show ?thesis unfolding AdminSubmit run_admin_def admin_action.case
    by (intro one_call_after silent_steps silent_reads one_call_then) (auto simp: silent_steps silent_reads split: prod.split)
next
  case (AdminStatus i)
  show ?thesis unfolding AdminStatus run_admin_def admin_action.case
    by (intro one_call_after silent_steps silent_reads one_call_silent) (auto simp: silent_steps silent_reads split: option.split)
next
  case (AdminCancel i)
  have "one_call sha (cancel j)" for j unfolding one_call_def by (metis perform.simps(3))
  then show ?thesis unfolding AdminCancel run_admin_def admin_action.case
    by (intro one_call_after silent_steps silent_reads one_call_then) (auto simp: silent_steps silent_reads)
qed

lemma admin_main_call: "one_call sha (admin_main sha now loaded action)"
proof -
  have inner: "one_call sha (io_bind (io_result (profile loaded)) (\<lambda>prof.
      io_bind (run_admin sha now prof action) (\<lambda>shown. io_return (shown, 0 :: int))))" (is "one_call sha ?m")
    by (intro one_call_after silent_steps silent_reads one_call_then run_admin_call)
  have "snd (admin_main sha now loaded action w) = snd (?m w)" for w
    by (cases "?m w"; cases "fst (?m w)") (simp_all add: admin_main_def io_catch_def io_return_def split: outcome.split)
  with inner show ?thesis by (simp add: one_call_def)
qed

section \<open>What is printed is what is stored\<close>

definition stored_line :: "world \<Rightarrow> printed \<Rightarrow> bool" where
  "stored_line w shown = (case shown of
      SubmissionLine t created \<Rightarrow> find_task w (t_id t) = Some t
    | RecordLine t \<Rightarrow> find_task w (t_id t) = Some t
    | _ \<Rightarrow> False)"

lemma put_task_stores: "put_task i t w = (Return u, w') \<Longrightarrow> find_task w' i = Some t"
  by (auto simp: put_task_def find_set_task dest!: durable_Return)

lemma transition_locked_stores:
  assumes "transition_locked t st code id w = (Return t', w')"
  shows "find_task w' (t_id t') = Some t'"
  using assms
  by (auto simp: transition_locked_def Let_def returned dest!: put_task_stores split: if_splits)

lemma cancel_stores:
  assumes "cancel i w = (Return t, w')" "store_ok w"
  shows "find_task w' (t_id t) = Some t"
  using assms
  by (auto simp: cancel_def Let_def returned task_ok_def load_Return dest!: put_task_stores store_ok_task
      dest: transition_locked_stores split: option.splits if_splits)

lemma submit_stores:
  assumes "submit sha now base req w = (Return (t, created), w')" "store_ok w"
  shows "find_task w' (t_id t) = Some t"
  using assms
  by (auto simp: submit_def admit_def Let_def returned task_ok_def new_task_def load_Return io_get_def
      dest!: put_task_stores dest: store_ok_task split: option.splits if_splits)

lemma run_admin_stored:
  assumes "run_admin sha now prof action w = (Return shown, w')" "store_ok w"
  shows "stored_line w' shown"
proof (cases action)
  case (AdminSubmit raw)
  with assms show ?thesis by (auto simp: run_admin_def returned stored_line_def dest: submit_stores split: prod.splits)
next
  case (AdminStatus i)
  with assms show ?thesis
    by (auto simp: run_admin_def returned stored_line_def named_task_def task_ok_def load_Return
        dest: store_ok_task split: option.splits)
next
  case (AdminCancel i)
  with assms show ?thesis
    by (auto simp: run_admin_def returned stored_line_def named_task_def dest: cancel_stores split: option.splits)
qed

end
