(* ===== verification/Work_Properties.thy ===== *)
theory Work_Properties
  imports Work_Sample Work_Termination Work_Admin
begin

text \<open>
  The properties of the work system: what holds of every task in every state the store can reach,
  whatever the receiver, the runner and restarts do in between and whatever becomes of each write.
\<close>

section \<open>Reachable states\<close>

text \<open>C8: In every state the work system can reach from an empty store, no task's program was started
  twice, and every task whose program was started is recorded past its reservation. This covers every
  interleaving of submissions, cancellations, ticks, restarts and storage failures, and every point at
  which a durable write can fail or the process can be killed.\<close>

theorem at_most_once:
  assumes "work_steps sha empty_world w"
  shows "distinct (runs w) \<and>
    (\<forall>i\<in>set (runs w). \<exists>t. find_task w i = Some t \<and> t_attempts t \<le> 1 \<and>
       t_status t \<notin> {''submitted'', ''reserved''})"
proof -
  from assms have ok: "store_ok w" by (rule reachable_ok)
  moreover have "t_attempts t \<le> 1" if "find_task w i = Some t" for i t
    using store_ok_task [OF ok that] by (auto simp: task_ok_def)
  ultimately show ?thesis unfolding store_ok_def by blast
qed

lemmas sample_steps = sample_reachable
  steps_trans [OF sample_reachable(1,2)] steps_trans [OF sample_reachable(1,3)]
  steps_trans [OF steps_trans [OF sample_reachable(1,3)] sample_reachable(4)]
  steps_trans [OF sample_reachable(3,4)]

theorem at_most_once_witness:
  "runs recovered_world = [sample_id] \<and>
   (\<exists>t. find_task recovered_world sample_id = Some t \<and> t_attempts t \<le> 1)"
  using at_most_once [OF sample_steps(8)] by (auto simp: recovered_runs)

text \<open>C9: A record in a terminal state never changes again, and the artifact result.json of its task is
  that record, in every later state: the published result and the stored truth cannot disagree.\<close>

theorem terminal_truth:
  assumes "work_steps sha empty_world w" "work_steps sha w w'"
    and "find_task w i = Some t" "is_terminal t"
  shows "find_task w' i = Some t \<and> artifact w' i ''result.json'' = Some (Record t)"
proof -
  have s: "safe_step w w'" using work_steps_safe assms(2) reachable_ok [OF assms(1)] .
  with assms(3,4) have t: "find_task w' i = Some t"
    by (auto simp: safe_step_def evolves_def grows_def)
  have "store_ok w'" using s by (simp add: safe_step_def)
  with t assms(4) show ?thesis by (auto simp: store_ok_def)
qed

theorem terminal_truth_witness:
  "\<exists>t. find_task cancelled_world sample_id = Some t \<and> is_terminal t \<and>
     artifact cancelled_world sample_id ''result.json'' = Some (Record t)"
proof -
  obtain t where t: "find_task cancelled_world sample_id = Some t" "t_status t = ''cancelled''"
    using cancelled_task by (auto simp: map_option_eq_Some)
  then have "is_terminal t" by (simp add: is_terminal_def TERMINAL_def)
  with terminal_truth [OF steps_trans [OF sample_reachable(1,5)] work_steps.start t(1)] t
  show ?thesis by blast
qed

text \<open>C10: The history of every reachable record starts with its submission, follows the documented
  edges, has at most four entries and ends with the record's status; its result is dated exactly when
  it is terminal, and it was attempted at most once and only after being reserved.\<close>

theorem task_history:
  assumes "work_steps sha empty_world w" "find_task w i = Some t"
  shows "fst (hd (t_history t)) = ''submitted'' \<and> walk EDGES (map fst (t_history t)) \<and>
     length (t_history t) \<le> 4 \<and> fst (last (t_history t)) = t_status t \<and>
     (is_terminal t = (t_finished t \<noteq> None)) \<and>
     (t_attempts t = 0 \<or> (t_attempts t = 1 \<and> ''reserved'' \<in> fst ` set (t_history t)))"
proof -
  have t: "task_ok i t" using store_ok_task [OF reachable_ok [OF assms(1)] assms(2)] .
  then obtain e h where h: "t_history t = e # h" "fst e = ''submitted''"
    by (cases "t_history t") (auto simp: task_ok_def)
  have "walk EDGES (''submitted'' # map fst h)" using t h by (simp add: task_ok_def)
  from work.walk_bounded [OF this] have "length h \<le> 3" by (simp add: status_rank_def)
  with t h show ?thesis by (auto simp: task_ok_def)
qed

theorem task_history_witness:
  "\<exists>t. find_task finished_world sample_id = Some t \<and> t_status t = ''succeeded'' \<and>
     length (t_history t) \<le> 4 \<and> t_finished t \<noteq> None"
proof -
  obtain t where t: "find_task finished_world sample_id = Some t" "t_status t = ''succeeded''"
    using finished_task by (auto simp: map_option_eq_Some)
  with task_history [OF sample_steps(6) t(1)] show ?thesis
    by (auto simp: is_terminal_def TERMINAL_def)
qed

text \<open>C11: Once a task's cancellation is on disk, nothing that happens later starts its program, and its
  status either stays or becomes one that is neither reserved, running nor succeeded.\<close>

theorem cancelled_never_starts:
  assumes "work_steps sha empty_world w" "work_steps sha w w'"
    and "find_task w i = Some t" "t_cancel t"
  shows "(i \<in> set (runs w') \<longrightarrow> i \<in> set (runs w)) \<and>
     (\<exists>t'. find_task w' i = Some t' \<and> t_cancel t' \<and>
        (t_status t' = t_status t \<or> t_status t' \<notin> {''reserved'', ''running'', ''succeeded''}))"
proof -
  have s: "safe_step w w'" using work_steps_safe assms(2) reachable_ok [OF assms(1)] .
  then have "i \<in> set (runs w') \<longrightarrow> i \<in> set (runs w)"
    using assms(3,4) unfolding safe_step_def by auto
  moreover obtain t' where "find_task w' i = Some t'" "grows t t'"
    using s assms(3) unfolding safe_step_def evolves_def by blast
  ultimately show ?thesis using assms(4) by (auto simp: grows_def PROGRESS_def)
qed

theorem cancelled_never_starts_witness:
  "\<exists>t. find_task cancelled_world sample_id = Some t \<and> t_cancel t \<and>
     (sample_id \<in> set (runs (perform sample_sha Idle (with_fate [] sample_clock cancelled_world))) \<longrightarrow>
      sample_id \<in> set (runs cancelled_world))"
proof -
  obtain t where t: "find_task cancelled_world sample_id = Some t" "t_cancel t"
    using cancelled_task by (auto simp: map_option_eq_Some)
  have "work_steps sample_sha cancelled_world (perform sample_sha Idle (with_fate [] sample_clock cancelled_world))"
    by (rule work_steps.more [OF work_steps.start work_step.call])
  from cancelled_never_starts [OF steps_trans [OF sample_reachable(1,5)] this t] t show ?thesis by blast
qed

text \<open>C12: After any history whatever, a restart whose writes work completes its recovery, and then no
  task is reserved or running: every task that was in flight when the process died is settled.\<close>

theorem recovery_complete:
  assumes "work_steps sha empty_world w"
  shows "fst (recovery (with_fate [] k w)) = Return () \<and>
    (\<forall>i t. find_task (snd (recovery (with_fate [] k w))) i = Some t \<longrightarrow>
       t_status t \<noteq> ''reserved'' \<and> t_status t \<noteq> ''running'')"
proof -
  have ok: "store_ok (with_fate [] k w)" by (rule store_ok_fate [OF reachable_ok [OF assms]])
  have r: "fst (recovery (with_fate [] k w)) = Return ()"
    by (rule recovery_returns [OF ok]) (simp add: with_fate_def)
  with recovery_done [OF ok r] show ?thesis by (auto simp: in_flight_def)
qed

theorem recovery_complete_witness:
  "map_option t_status (find_task crashed_world sample_id) = Some ''running'' \<and>
   fst (recovery (with_fate [] sample_clock crashed_world)) = Return ()"
  using crashed_task recovery_complete [OF sample_steps(7), of sample_clock] by blast

section \<open>Submission\<close>

text \<open>C13: Admission is idempotent for as long as the store lives: once a submission has returned a
  record, submitting the same request again at any later time and under any policy base returns the
  current record of the same task without creating or changing anything, and a different payload under
  the same task id is refused as a conflict.\<close>

theorem submit_replay:
  assumes "work_steps sha empty_world w"
    and sub: "submit sha now base req (with_fate p k w) = (Return (t, b), w1)" and "work_steps sha w1 w2"
  shows "\<exists>t2. find_task w2 (request_id req) = Some t2 \<and> t_hash t2 = t_hash t \<and>
     submit sha now' base' req w2 = (Return (t2, False), w2) \<and>
     (\<forall>other h. request_id other = request_id req \<longrightarrow> digest sha other = Inr h \<longrightarrow> h \<noteq> t_hash t \<longrightarrow>
        submit sha now' base' other w2 = (Raise (Rejected ''task_id_payload_conflict''), w2))"
proof -
  have ok: "store_ok (with_fate p k w)" by (rule store_ok_fate [OF reachable_ok [OF assms(1)]])
  have w1: "store_ok w1" "find_task w1 (request_id req) = Some t"
    using secure_submit [of sha now base req] ok sub
    unfolding secure_def safe_step_def by (metis fst_conv snd_conv)+
  from submit_hash [OF sub] have h: "is_uuid (request_id req)" "digest sha req = Inr (t_hash t)" by simp_all
  from work_steps_safe [OF assms(3) w1(1)] w1(2) obtain t2 where
    t2: "find_task w2 (request_id req) = Some t2" "grows t t2"
    unfolding safe_step_def evolves_def by blast
  then have "t_hash t2 = t_hash t" by (simp add: grows_def)
  with t2 h show ?thesis by (auto simp: submit_known)
qed

lemma sample_submission:
  "submit sample_sha sample_now POLICY_BASE sample_request (with_fate [] sample_clock empty_world) =
   (Return (sample_task, True), submitted_world)"
  by (simp add: submitted_world with_fate_def empty_world_def sample_task_def sample_files_def
      run_io run_store cong: io_weak)

theorem submit_replay_witness:
  "\<exists>t2. find_task finished_world sample_id = Some t2 \<and> t_hash t2 = sample_sha [] \<and>
     submit sample_sha 0 [] sample_request finished_world = (Return (t2, False), finished_world)"
  using submit_replay [OF work_steps.start sample_submission sample_reachable(2), of 0 "[]"]
  by (auto simp: sample_task_def)

text \<open>C14: A task is created only if its request passed every gate: the request is fresh, its base is
  the one policy allows for its kind, fewer than 256 tasks are retained, and no artifact directory of an
  interrupted admission under the same id exists; it then starts as submitted with no attempt.\<close>

theorem admission_gates:
  assumes "submit sha now base req w = (Return (t, True), w')"
  shows "find_task w (request_id req) = None \<and> \<not> has_dir w (request_id req) \<and>
    fresh now req = Inr () \<and> dget req ''base_ref'' = PStr (allowed_base req base) \<and>
    length (tasks w) < 256 \<and> digest sha req = Inr (t_hash t) \<and>
    t_request t = req \<and> t_status t = ''submitted'' \<and> t_attempts t = 0"
  using submit_new [OF assms] by blast

theorem admission_gates_witness:
  "t_status sample_task = ''submitted'' \<and> length (tasks empty_world) < 256"
  using admission_gates [OF sample_submission] by (simp add: empty_world_def)

section \<open>The operator's commands\<close>

text \<open>C15: An operator's command is one more call of the store, wherever it fails or is killed, so everything that
  holds of the store's histories holds with operators in them. Exit code 0 is only given under a valid profile
  and with a record printed that is the one stored; code 2 prints a policy code, code 1 the fixed line.\<close>

theorem admin_faithful:
  assumes "work_steps sha empty_world w"
    and "admin_main sha now loaded action (with_fate p k w) = (result, w')"
  shows "work_step sha w w' \<and> (\<forall>e. result \<noteq> Raise e) \<and>
    (\<forall>shown code. result = Return (shown, code) \<longrightarrow>
      code = 0 \<and> (\<exists>d. loaded = Inr (PDict d) \<and> profile_ok d) \<and> stored_line w' shown \<or>
      code = 2 \<and> (\<exists>c. shown = ErrorLine c) \<or> code = 1 \<and> shown = Unavailable)"
proof -
  have ok: "store_ok (with_fate p k w)" by (rule store_ok_fate [OF reachable_ok [OF assms(1)]])
  from admin_main_call [of sha now loaded action] assms(2) obtain c where "w' = perform sha c (with_fate p k w)"
    unfolding one_call_def by (metis snd_conv)
  then have step: "work_step sha w w'" by (simp add: work_step.call)
  let ?m = "io_bind (io_result (profile loaded)) (\<lambda>prof.
      io_bind (run_admin sha now prof action) (\<lambda>shown. io_return (shown, 0 :: int)))"
  have zero: "code = 0 \<and> (\<exists>d. loaded = Inr (PDict d) \<and> profile_ok d) \<and> stored_line w1 shown"
    if "?m (with_fate p k w) = (Return (shown, code), w1)" for shown code w1
    using that by (auto simp: returned dest!: profile_Inr dest: run_admin_stored [OF _ ok])
  show ?thesis
  proof (cases "?m (with_fate p k w)")
    case (Pair r w1)
    with assms(2) step zero show ?thesis
      by (cases r) (auto simp: admin_main_def io_catch_def io_return_def split: exn.splits)
  qed
qed

definition sample_profile :: pyval where
  "sample_profile = sdict [(''schema_version'', PStr ''0.1''), (''repository'', PStr REPOSITORY),
     (''base_ref'', PStr POLICY_BASE), (''seed'', PStr SEED), (''min_free_bytes'', PInt 8388608)]"

theorem admin_faithful_witness:
  "\<exists>shown w'. admin_main sample_sha sample_now (Inr sample_profile) (AdminStatus (Some sample_id))
     (with_fate [] sample_clock submitted_world) = (Return (shown, 0), w') \<and> stored_line w' shown"
proof -
  have "profile (Inr sample_profile) = Inr (dict_or_empty sample_profile)" by code_simp
  then have run: "\<exists>w'. admin_main sample_sha sample_now (Inr sample_profile) (AdminStatus (Some sample_id))
      (with_fate [] sample_clock submitted_world) = (Return (RecordLine sample_task, 0), w')"
    by (simp add: admin_main_def run_admin_def named_task_def load_def run_sample find_task_def cong: io_weak)
  then obtain w' where "admin_main sample_sha sample_now (Inr sample_profile) (AdminStatus (Some sample_id))
      (with_fate [] sample_clock submitted_world) = (Return (RecordLine sample_task, 0), w')" ..
  from admin_faithful [OF sample_reachable(1) this] this show ?thesis by auto
qed

section \<open>Executors\<close>





text \<open>C17: The sandboxed execution ends, whatever the program does: once the clock stays past the deadline, a
  program that never exits and never closes its output is still left after at most one more round, and the
  execution returns or raises (it is never stuck in the loop), at most two observations after the deadline
  or its start, while the receiver goes on submitting and cancelling tasks in between.\<close>

theorem sandbox_terminates:
  assumes "\<And>n. N \<le> n \<Longrightarrow> late n"
    and "is_uuid i" "find_task w i \<noteq> None" "has_dir w i" "plan w = []"
    and "max N (moment w) < moment w + length (sb_turns sb)"
  shows "\<exists>result w'. sandbox_execute (receiver_host sha calls stop late) sb i w = (result, w') \<and> result \<noteq> Died \<and>
    moment w' \<le> max N (moment w) + 2"
  by (rule sandbox_execute_ends [OF _ receiver_calm _ assms(6)])
    (use assms(1-5) in \<open>simp_all add: ready_def receiver_host_def\<close>)

text \<open>A program that hangs, supervised with a deadline reached at the third observation.\<close>

theorem sandbox_terminates_witness:
  "\<exists>result w'. sandbox_execute (receiver_host sample_sha (\<lambda>n. Idle) (\<lambda>n. False) (\<lambda>n. 3 \<le> n))
     (sample_sandbox\<lparr>sb_turns := replicate 4 \<lparr>tn_chunks = [], tn_exit = None\<rparr>\<rparr>) sample_id submitted_world =
     (result, w') \<and> result \<noteq> Died \<and> moment w' \<le> 5"
proof -
  have "moment submitted_world = 0" by (simp add: submitted_world empty_world_def)
  then show ?thesis
    using sandbox_terminates [of 3 "\<lambda>n. 3 \<le> n" sample_id submitted_world
        "sample_sandbox\<lparr>sb_turns := replicate 4 \<lparr>tn_chunks = [], tn_exit = None\<rparr>\<rparr>" sample_sha "\<lambda>n. Idle" "\<lambda>n. False"]
    by (simp add: submitted_world empty_world_def find_task_def has_dir_def)
qed








end
