(* ===== verification/Work_Handoff.thy ===== *)
theory Work_Handoff
  imports Work_Behaviour
begin

text \<open>
  \<open>work_handoff.py\<close>: the file transport between the control worker and the runner's receiver. A
  directory is what the operations see of it: its entries by name, with what \<open>open\<close> and \<open>fstat\<close> say and
  the document read. Publishing links a complete file under a new name, one durable step.
\<close>

section \<open>Arguments\<close>

definition BASE :: string where
  "BASE = ''71f0d82516d059ba2d65e028742cd73b2b9ee6bc''"

definition TRANSPORT_LIMIT :: nat where
  "TRANSPORT_LIMIT = 8192"

definition CAPACITY :: nat where
  "CAPACITY = 2048"

definition OPERATIONS :: "string list" where
  "OPERATIONS = [''work.submit'', ''work.status'', ''work.cancel'']"

definition sent :: "pyval \<Rightarrow> string result" where
  "sent v = (case json_dumps True v of Some t \<Rightarrow> Inr t | None \<Rightarrow> Inl TypeError)"

definition work_arguments :: "pyval \<Rightarrow> pyval \<Rightarrow> string \<Rightarrow> request result" where
  "work_arguments operation value base =
     (if \<not> hashable operation then Inl TypeError
      else if operation \<notin> PStr ` set OPERATIONS then Inl (Rejected ''unsupported_work_operation'')
      else case value of
        PDict d \<Rightarrow>
          (if operation = PStr ''work.submit''
           then (if \<not> same_keys d [''contract''] then Inl (Rejected ''invalid_work_arguments'')
                 else andThen (encoded_doc (dget d ''contract'')) (\<lambda>raw.
                      andThen (parse_contract raw) (\<lambda>task.
                      andThen (guard (dget task ''base_ref'' = PStr (allowed_base task base))
                                 (Rejected ''base_not_allowlisted'')) (\<lambda>_.
                        Inr [(PStr ''contract'', PDict task)]))))
           else (if \<not> same_keys d [''task_id''] then Inl (Rejected ''invalid_work_arguments'')
                 else andThen (task_id (dget d ''task_id'')) (\<lambda>i. Inr [(PStr ''task_id'', PStr i)])))
      | _ \<Rightarrow> Inl (Rejected ''unsupported_work_operation''))"

definition work_identifier :: "pyval \<Rightarrow> request \<Rightarrow> pyval" where
  "work_identifier operation args =
     (if operation = PStr ''work.submit''
      then (case dget args ''contract'' of PDict task \<Rightarrow> dget task ''task_id'' | _ \<Rightarrow> PNone)
      else dget args ''task_id'')"

section \<open>Directories\<close>

record entry =
  en_opens :: bool
  en_regular :: bool
  en_links :: nat
  en_size :: nat
  en_doc :: doc

type_synonym directory = "(string \<times> entry) list"

definition file_name :: "string \<Rightarrow> string" where
  "file_name i = i @ ''.json''"

definition decode_object :: "doc \<Rightarrow> request result" where
  "decode_object raw =
     andThen (loads (Some (Rejected ''duplicate_json_key'')) (Some (ValueError [])) (doc_tree raw)) (\<lambda>v.
       case v of PDict d \<Rightarrow> Inr d | _ \<Rightarrow> Inl (ValueError ''transport_object''))"

definition dir_read :: "directory \<Rightarrow> pyval \<Rightarrow> (request option) result" where
  "dir_read dir v = andThen (task_id v) (\<lambda>i. case map_of dir (file_name i) of
      None \<Rightarrow> Inr None
    | Some e \<Rightarrow>
        (if \<not> en_opens e then Inl OSError
         else if \<not> en_regular e \<or> en_links e \<noteq> 1 \<or> TRANSPORT_LIMIT < en_size e
           then Inl (ValueError ''invalid_transport_file'')
         else if TRANSPORT_LIMIT < doc_size (en_doc e) then Inl (ValueError ''transport_size'')
         else andThen (decode_object (en_doc e)) (\<lambda>d. Inr (Some d))))"

datatype box = Inbox | Outbox

record surface = disk +
  inbox :: directory
  outbox :: directory
  backend :: world

fun contents :: "box \<Rightarrow> surface \<Rightarrow> directory" where
  "contents Inbox s = inbox s"
| "contents Outbox s = outbox s"

fun put_entry :: "box \<Rightarrow> string \<Rightarrow> entry \<Rightarrow> surface \<Rightarrow> surface" where
  "put_entry Inbox n e s = s\<lparr>inbox := inbox s @ [(n, e)]\<rparr>"
| "put_entry Outbox n e s = s\<lparr>outbox := outbox s @ [(n, e)]\<rparr>"

definition new_entry :: "doc \<Rightarrow> entry" where
  "new_entry raw = \<lparr>en_opens = True, en_regular = True, en_links = 1, en_size = doc_size raw, en_doc = raw\<rparr>"

definition link_file :: "box \<Rightarrow> string \<Rightarrow> entry \<Rightarrow> (surface, unit) eff" where
  "link_file b n e s =
     (if map_of (contents b s) n \<noteq> None then (Raise FileExistsError, s) else durable (put_entry b n e) s)"

definition read_box :: "box \<Rightarrow> pyval \<Rightarrow> (surface, request option) eff" where
  "read_box b v s = io_result (dir_read (contents b s) v) s"

definition publish :: "box \<Rightarrow> string \<Rightarrow> pyval \<Rightarrow> (surface, unit) eff" where
  "publish b i value =
     io_bind (io_result (task_id (PStr i))) (\<lambda>_.
     io_bind (io_result (encoded_doc value)) (\<lambda>raw.
     io_bind (io_guard (doc_size raw \<le> TRANSPORT_LIMIT) (ValueError ''transport_size'')) (\<lambda>_.
     io_bind (read_box b (PStr i)) (\<lambda>existing. case existing of
         Some d \<Rightarrow> (if py_eq (PDict d) value then io_return () else io_raise (Rejected ''transport_id_conflict''))
       | None \<Rightarrow>
           io_bind (io_get (\<lambda>s. length (contents b s))) (\<lambda>n.
           io_bind (io_guard (n < CAPACITY) (Rejected ''transport_capacity'')) (\<lambda>_.
             link_file b (file_name i) (new_entry raw)))))))"

section \<open>The projection of a record\<close>

text \<open>The pattern of a timestamp, as a scanner: date, \<open>T\<close>, clock, optional fraction, zone.\<close>

fun skip_digits :: "nat \<Rightarrow> string \<Rightarrow> string option" where
  "skip_digits 0 s = Some s"
| "skip_digits (Suc n) [] = None"
| "skip_digits (Suc n) (c # s) = (if is_dec c then skip_digits n s else None)"

definition skip_char :: "char \<Rightarrow> string \<Rightarrow> string option" where
  "skip_char c s = (case s of [] \<Rightarrow> None | d # t \<Rightarrow> if d = c then Some t else None)"

definition opt_bind :: "'a option \<Rightarrow> ('a \<Rightarrow> 'b option) \<Rightarrow> 'b option" where
  "opt_bind x f = (case x of None \<Rightarrow> None | Some y \<Rightarrow> f y)"

definition is_zone :: "string \<Rightarrow> bool" where
  "is_zone s = (s = ''Z'' \<or> (case s of
      c # t \<Rightarrow> (c = CHR ''+'' \<or> c = CHR ''-'') \<and>
        opt_bind (skip_digits 2 t) (\<lambda>t. opt_bind (skip_char (CHR '':'') t) (skip_digits 2)) = Some []
    | [] \<Rightarrow> False))"

definition fraction_and_zone :: "string \<Rightarrow> bool" where
  "fraction_and_zone s = (is_zone s \<or> (case s of
      c # t \<Rightarrow> c = CHR ''.'' \<and>
        (let n = length (takeWhile is_dec t) in 1 \<le> n \<and> n \<le> 6 \<and> is_zone (drop n t))
    | [] \<Rightarrow> False))"

definition is_stamp :: "string \<Rightarrow> bool" where
  "is_stamp s = (case
      opt_bind (skip_digits 4 s) (\<lambda>s. opt_bind (skip_char (CHR ''-'') s) (\<lambda>s.
      opt_bind (skip_digits 2 s) (\<lambda>s. opt_bind (skip_char (CHR ''-'') s) (\<lambda>s.
      opt_bind (skip_digits 2 s) (\<lambda>s. opt_bind (skip_char (CHR ''T'') s) (\<lambda>s.
      opt_bind (skip_digits 2 s) (\<lambda>s. opt_bind (skip_char (CHR '':'') s) (\<lambda>s.
      opt_bind (skip_digits 2 s) (\<lambda>s. opt_bind (skip_char (CHR '':'') s) (skip_digits 2)))))))))) of
      None \<Rightarrow> False | Some s \<Rightarrow> fraction_and_zone s)"

definition is_digest :: "string \<Rightarrow> bool" where
  "is_digest s = (length s = 64 \<and> list_all is_hex s)"

definition opt_str :: "string option \<Rightarrow> pyval" where
  "opt_str x = (case x of Some s \<Rightarrow> PStr s | None \<Rightarrow> PNone)"

definition summary :: "task \<Rightarrow> request result" where
  "summary t =
     (if t_status t \<notin> set TERMINAL \<union> {''submitted'', ''reserved'', ''running''}
      then Inl (ValueError ''invalid_state'')
      else if \<not> is_digest (t_hash t) \<or> (t_attempts t \<noteq> 0 \<and> t_attempts t \<noteq> 1)
        then Inl (ValueError ''invalid_state_metadata'')
      else case t_history t of
        [] \<Rightarrow> Inl IndexError
      | (st, at, code) # _ \<Rightarrow>
          (if \<not> list_all is_stamp (at # (case t_started t of Some s \<Rightarrow> [s] | None \<Rightarrow> []) @
                (case t_finished t of Some s \<Rightarrow> [s] | None \<Rightarrow> []))
           then Inl (ValueError ''invalid_state_timestamp'')
           else andThen (task_id (PStr (t_id t))) (\<lambda>i. Inr
             [(PStr ''task_id'', PStr i), (PStr ''status'', PStr (t_status t)),
              (PStr ''payload_hash'', PStr (t_hash t)), (PStr ''attempts'', PInt (t_attempts t)),
              (PStr ''cancel_requested'', PBool (t_cancel t)), (PStr ''submitted_at'', PStr at),
              (PStr ''started_at'', opt_str (t_started t)), (PStr ''finished_at'', opt_str (t_finished t)),
              (PStr ''terminal'', PBool (is_terminal t)),
              (PStr ''result'', if is_terminal t
                 then sdict [(''status'', PStr (t_status t)), (''artifacts_retained'', PBool True)] else PNone)])))"

section \<open>The server\<close>

definition on_backend :: "'a io \<Rightarrow> (surface, 'a) eff" where
  "on_backend m s = (case m (backend s) of (r, w) \<Rightarrow> (r, s\<lparr>backend := w\<rparr>))"

definition request_keys :: "string list" where
  "request_keys = [''schema_version'', ''request_id'', ''capability'', ''arguments'']"

text \<open>The body of the \<open>try\<close>: the data of a completed answer.\<close>

definition server_data ::
  "(string \<Rightarrow> string) \<Rightarrow> int \<Rightarrow> string \<Rightarrow> string \<Rightarrow> request \<Rightarrow> (surface, request) eff" where
  "server_data sha now base i req =
     io_bind (io_guard (same_keys req request_keys \<and> dget req ''schema_version'' = PStr ''0.1'' \<and>
                dget req ''request_id'' = PStr i) (Rejected ''invalid_handoff'')) (\<lambda>_.
     let operation = dget req ''capability'' in
     io_bind (io_result (work_arguments operation (dget req ''arguments'') base)) (\<lambda>args.
       if operation = PStr ''work.submit''
       then io_bind (on_backend (submit sha now base (dict_or_empty (dget args ''contract'')))) (\<lambda>(t, created).
            io_bind (io_result (summary t)) (\<lambda>d. io_return (d @ [(PStr ''created'', PBool created)])))
       else let task = str_val (work_identifier operation args) in
         if operation = PStr ''work.cancel''
         then io_bind (on_backend (cancel task)) (\<lambda>t. io_result (summary t))
         else io_bind (on_backend (load task)) (\<lambda>r. case r of
             None \<Rightarrow> io_raise (Rejected ''unknown_task'')
           | Some t \<Rightarrow> io_result (summary t))))"

definition answer :: "string \<Rightarrow> string \<Rightarrow> (string \<times> pyval) list \<Rightarrow> pyval" where
  "answer i fingerprint rest = sdict ([(''schema_version'', PStr ''0.1''), (''request_id'', PStr i),
     (''request_hash'', PStr fingerprint)] @ rest)"

definition server_answer ::
  "(string \<Rightarrow> string) \<Rightarrow> int \<Rightarrow> string \<Rightarrow> string \<Rightarrow> request \<Rightarrow> string \<Rightarrow> (surface, pyval) eff" where
  "server_answer sha now base i req fingerprint =
     io_catch
       (io_bind (server_data sha now base i req) (\<lambda>d. io_return
          (answer i fingerprint [(''outcome'', PStr ''completed''), (''data'', PDict d)])))
       (\<lambda>e. case e of
           Rejected code \<Rightarrow> io_return
             (answer i fingerprint [(''outcome'', PStr ''rejected''), (''error'', PStr code)])
         | _ \<Rightarrow> io_raise e)"

definition process :: "(string \<Rightarrow> string) \<Rightarrow> int \<Rightarrow> string \<Rightarrow> string \<Rightarrow> (surface, unit) eff" where
  "process sha now base i =
     io_bind (read_box Inbox (PStr i)) (\<lambda>r. case r of
       None \<Rightarrow> io_return ()
     | Some req \<Rightarrow>
         io_bind (io_result (sent (PDict req))) (\<lambda>encoded. let fingerprint = sha encoded in
         io_bind (read_box Outbox (PStr i)) (\<lambda>existing. case existing of
           Some d \<Rightarrow> (case dlookup ''request_hash'' d of
               None \<Rightarrow> io_raise KeyError
             | Some h \<Rightarrow> (if h = PStr fingerprint then io_return ()
                        else io_raise (ValueError ''transport_id_conflict'')))
         | None \<Rightarrow>
             io_bind (server_answer sha now base i req fingerprint) (publish Outbox i))))"

definition poison :: "exn \<Rightarrow> bool" where
  "poison e = (is_value_error e \<or> is_os_error e \<or> e = KeyError \<or> e = TypeError \<or> e = RecursionError)"

definition process_name :: "(string \<Rightarrow> string) \<Rightarrow> int \<Rightarrow> string \<Rightarrow> string \<Rightarrow> (surface, unit) eff" where
  "process_name sha now base name =
     (let n = length name in
      if drop (n - 5) name \<noteq> ''.json'' then io_return ()
      else io_catch
        (io_bind (io_result (task_id (PStr (take (n - 5) name)))) (process sha now base))
        (\<lambda>e. if poison e then io_return () else io_raise e))"

fun process_all :: "(string \<Rightarrow> string) \<Rightarrow> int \<Rightarrow> string \<Rightarrow> string list \<Rightarrow> (surface, unit) eff" where
  "process_all sha now base [] = io_return ()"
| "process_all sha now base (n # ns) =
     io_bind (process_name sha now base n) (\<lambda>_. process_all sha now base ns)"

definition server_tick :: "(string \<Rightarrow> string) \<Rightarrow> int \<Rightarrow> string \<Rightarrow> (surface, unit) eff" where
  "server_tick sha now base =
     io_bind (io_get (\<lambda>s. map fst (inbox s))) (\<lambda>names.
       if CAPACITY < length names then io_raise (ValueError ''transport_capacity'')
       else process_all sha now base (sort names))"

section \<open>The client\<close>

text \<open>Between two looks at the outbox others act on the surface; each look also says whether the
  waiting time is over. When the list of looks ends, the client was killed.\<close>

type_synonym look = "(surface \<Rightarrow> surface) \<times> bool"

definition valid_response :: "string \<Rightarrow> string \<Rightarrow> request \<Rightarrow> bool" where
  "valid_response i fingerprint d = (dget d ''schema_version'' = PStr ''0.1'' \<and>
     dget d ''request_id'' = PStr i \<and> dget d ''request_hash'' = PStr fingerprint)"

fun client_wait :: "string \<Rightarrow> string \<Rightarrow> pyval \<Rightarrow> look list \<Rightarrow> (surface, request) eff" where
  "client_wait i fingerprint task [] = (\<lambda>s. (Died, s))"
| "client_wait i fingerprint task ((others, late) # looks) =
     io_bind (\<lambda>s. (Return (), others s)) (\<lambda>_.
     io_bind (read_box Outbox (PStr i)) (\<lambda>response. case response of
         Some d \<Rightarrow> (if valid_response i fingerprint d then io_return d
                   else io_raise (ValueError ''invalid_response''))
       | None \<Rightarrow>
           (if late then io_return [(PStr ''request_id'', PStr i), (PStr ''task_id'', task),
                (PStr ''outcome'', PStr ''handoff_pending''), (PStr ''durable_handoff'', PBool True)]
            else client_wait i fingerprint task looks)))"

definition client_request :: "string \<Rightarrow> pyval \<Rightarrow> request \<Rightarrow> pyval" where
  "client_request i operation args = sdict [(''schema_version'', PStr ''0.1''), (''request_id'', PStr i),
     (''capability'', operation), (''arguments'', PDict args)]"

definition client_invoke ::
  "(string \<Rightarrow> string) \<Rightarrow> look list \<Rightarrow> pyval \<Rightarrow> pyval \<Rightarrow> pyval \<Rightarrow> (surface, request) eff" where
  "client_invoke sha looks operation args rid =
     io_bind (io_result (work_arguments operation args BASE)) (\<lambda>a.
     io_bind (io_result (task_id rid)) (\<lambda>i. let request = client_request i operation a in
     io_bind (publish Inbox i request) (\<lambda>_.
     io_bind (io_result (sent request)) (\<lambda>encoded.
       client_wait i (sha encoded) (work_identifier operation a) looks))))"

end
