(* ===== verification/Handoff_Behaviour.thy ===== *)
theory Handoff_Behaviour
  imports Work_Handoff
begin

text \<open>
  What the transport guarantees: a published document reads back as its canonical form, the server
  touches the store only through the store's own operations, and a request that was answered is never
  processed again.
\<close>

section \<open>Publishing and reading back\<close>

lemma file_missing: "dir_read dir (PStr i) = Inr None \<Longrightarrow> is_uuid i \<and> map_of dir (file_name i) = None"
  by (cases "map_of dir (file_name i)") (auto simp: dir_read_def task_id_def andThen_Inr_iff split: if_splits)

lemma publish_Return:
  assumes "publish b i value s = (Return u, s')"
  obtains raw where "is_uuid i" "encoded_doc value = Inr raw" "doc_size raw \<le> TRANSPORT_LIMIT"
    "dir_read (contents b s) (PStr i) \<noteq> Inr None \<Longrightarrow> s' = s"
    "dir_read (contents b s) (PStr i) = Inr None \<Longrightarrow>
       contents b s' = contents b s @ [(file_name i, new_entry raw)]"
proof -
  from assms obtain raw r s1 where r: "is_uuid i" "encoded_doc value = Inr raw" "doc_size raw \<le> TRANSPORT_LIMIT"
    "dir_read (contents b s) (PStr i) = Inr r" and
    rest: "(case r of
         Some d \<Rightarrow> (if py_eq (PDict d) value then io_return () else io_raise (Rejected ''transport_id_conflict''))
       | None \<Rightarrow>
           io_bind (io_get (\<lambda>s. length (contents b s))) (\<lambda>n.
           io_bind (io_guard (n < CAPACITY) (Rejected ''transport_capacity'')) (\<lambda>_.
             link_file b (file_name i) (new_entry raw)))) s = (Return u, s')"
    unfolding publish_def returned read_box_def task_id_Inr by blast
  show ?thesis
  proof (cases r)
    case (Some d)
    with r rest that show ?thesis by (auto simp: returned split: if_splits)
  next
    case None
    with rest have "link_file b (file_name i) (new_entry raw) s = (Return u, s')"
      by (auto simp: returned io_get_def)
    then have "contents b s' = contents b s @ [(file_name i, new_entry raw)]"
      by (cases b) (auto simp: link_file_def durable_def split: if_splits list.splits fault.splits)
    with r None that show ?thesis by simp
  qed
qed

lemma read_new_entry:
  assumes "map_of dir (file_name i) = None" "is_uuid i" "encoded_doc (PDict d) = Inr raw"
    and "doc_size raw \<le> TRANSPORT_LIMIT" "uniq (PDict d)" "canon (PDict d) = PDict d'"
  shows "dir_read (dir @ [(file_name i, new_entry raw)]) (PStr i) = Inr (Some d')"
proof -
  from assms(3) have "tree_of (PDict d) = Some (doc_tree raw)"
    by (auto simp: encoded_doc_def split: option.splits)
  from loads_tree_of [OF assms(5) this] assms show ?thesis
    by (simp add: dir_read_def task_id_def new_entry_def decode_object_def map_add_def)
qed

lemma publish_outbox_inbox: "publish Outbox i v s = (Return u, s') \<Longrightarrow> inbox s' = inbox s"
  by (auto simp: publish_def returned read_box_def io_get_def link_file_def durable_def
      split: option.splits if_splits list.splits fault.splits)

lemma publish_inbox_outbox: "publish Inbox i v s = (Return u, s') \<Longrightarrow> outbox s' = outbox s"
  by (auto simp: publish_def returned read_box_def io_get_def link_file_def durable_def
      split: option.splits if_splits list.splits fault.splits)

section \<open>What each step leaves alone\<close>

definition same_boxes :: "surface \<Rightarrow> surface \<Rightarrow> bool" where
  "same_boxes s s' = (inbox s' = inbox s \<and> outbox s' = outbox s)"

interpretation boxes: step_relation same_boxes
  by unfold_locales (auto simp: same_boxes_def)

lemma boxes_backend [intro!]: "keeps same_boxes (on_backend m)"
  by (auto simp: keeps_def same_boxes_def on_backend_def split: prod.split)

lemma server_data_boxes: "keeps same_boxes (server_data sha now base i req)"
  unfolding server_data_def Let_def by auto

lemma server_answer_boxes: "keeps same_boxes (server_answer sha now base i req fp)"
  unfolding server_answer_def
  by (auto intro: server_data_boxes split: exn.split)

text \<open>The backend moves only by steps of the store.\<close>

definition backend_steps :: "(string \<Rightarrow> string) \<Rightarrow> surface \<Rightarrow> surface \<Rightarrow> bool" where
  "backend_steps sha s s' = work_steps sha (backend s) (backend s')"

interpretation backend: step_relation "backend_steps sha" for sha
  by unfold_locales (auto simp: backend_steps_def intro: work_steps.start steps_trans)

lemma perform_step: "work_steps sha w (perform sha c w)"
proof -
  have "with_fate (plan w) (clock w) w = w" by (simp add: with_fate_def)
  then show ?thesis
    using work_steps.more [OF work_steps.start work_step.call [of sha w c "plan w" "clock w"]] by simp
qed

lemma backend_submit [intro!]: "keeps (backend_steps sha) (on_backend (submit sha now base req))"
  using perform_step [of sha _ "Submits now base req"]
  by (auto simp: keeps_def backend_steps_def on_backend_def split: prod.split) (metis snd_conv)

lemma backend_cancel [intro!]: "keeps (backend_steps sha) (on_backend (cancel i))"
  using perform_step [of sha _ "Cancels i"]
  by (auto simp: keeps_def backend_steps_def on_backend_def split: prod.split) (metis snd_conv)

lemma backend_load [intro!]: "keeps (backend_steps sha) (on_backend (load i))"
  by (auto simp: keeps_def backend_steps_def on_backend_def load_def io_get_def io_raise_def
      intro: work_steps.start split: prod.split)

lemma backend_plan [simp]: "backend (s\<lparr>plan := p\<rparr>) = backend s"
  by (cases s) simp

lemma put_entry_backend [simp]: "backend (put_entry b n e s) = backend s"
  by (cases b) simp_all

lemma backend_link [intro!]: "keeps (backend_steps sha) (link_file b n e)"
  by (auto simp: keeps_def backend_steps_def link_file_def durable_def intro: work_steps.start
      split: list.split fault.split)

lemma backend_read [intro!]: "keeps (backend_steps sha) (read_box b v)"
  unfolding keeps_def read_box_def using keepsD [OF backend.keeps_result] by blast

lemma backend_publish [intro!]: "keeps (backend_steps sha) (publish b i v)"
  unfolding publish_def by auto

lemma backend_answer [intro!]: "keeps (backend_steps sha) (server_answer sha now base i req fp)"
  unfolding server_answer_def server_data_def Let_def by (auto split: exn.split)

lemma backend_process [intro!]: "keeps (backend_steps sha) (process sha now base i)"
  unfolding process_def Let_def by auto

lemma backend_process_name [intro!]: "keeps (backend_steps sha) (process_name sha now base n)"
  unfolding process_name_def Let_def by auto

lemma backend_process_all [intro!]: "keeps (backend_steps sha) (process_all sha now base ns)"
  by (induction ns) auto

lemma backend_server_tick: "keeps (backend_steps sha) (server_tick sha now base)"
  unfolding server_tick_def by auto

section \<open>Answers\<close>

definition summary_keys :: "string list" where
  "summary_keys = [''task_id'', ''status'', ''payload_hash'', ''attempts'', ''cancel_requested'',
     ''submitted_at'', ''started_at'', ''finished_at'', ''terminal'', ''result'']"

lemma uniq_opt_str [simp]: "uniq (opt_str x)"
  by (cases x) (simp_all add: opt_str_def)

lemma summary_shape:
  assumes "summary t = Inr d"
  shows "map fst d = map PStr summary_keys" "uniq_items d"
  using assms
  by (auto simp: summary_def summary_keys_def andThen_Inr_iff uniq_items_sdict split: if_splits list.splits prod.splits)

lemma summary_uniq: "summary t = Inr d \<Longrightarrow> uniq (PDict d)"
  using summary_shape [of t d] by (simp add: summary_keys_def)

lemma summary_created_uniq:
  "summary t = Inr d \<Longrightarrow> uniq (PDict (d @ [(PStr ''created'', PBool b)]))"
proof -
  assume s: "summary t = Inr d"
  have "uniq_items (d @ e)" if "uniq_items d" "uniq_items e" for d e
    using that by (induction d) auto
  with s summary_shape [OF s] show ?thesis by (simp add: summary_keys_def)
qed

lemma server_data_uniq:
  assumes "server_data sha now base i req s = (Return d, s')"
  shows "uniq (PDict d)"
  using assms
  by (auto simp: server_data_def Let_def returned simp del: uniq.simps
      split: if_splits option.splits intro: summary_uniq summary_created_uniq)

lemma answer_shape:
  assumes "uniq (PDict d)"
  shows "uniq (answer i fp [(''outcome'', PStr a), (b, PDict d)]) \<longleftrightarrow>
     b \<notin> {''schema_version'', ''request_id'', ''request_hash'', ''outcome''}"
    and "uniq (answer i fp [(''outcome'', PStr a), (b, PStr c)]) \<longleftrightarrow>
     b \<notin> {''schema_version'', ''request_id'', ''request_hash'', ''outcome''}"
  using assms by (auto simp: answer_def uniq_items_sdict)

lemma server_answer_shape:
  assumes "server_answer sha now base i req fp s = (Return v, s')"
  shows "\<exists>rest. v = answer i fp rest \<and> uniq (answer i fp rest)"
proof -
  from assms consider d where "v = answer i fp [(''outcome'', PStr ''completed''), (''data'', PDict d)]" "uniq (PDict d)"
    | code where "v = answer i fp [(''outcome'', PStr ''rejected''), (''error'', PStr code)]"
  proof -
    have "(\<exists>code. v = answer i fp [(''outcome'', PStr ''rejected''), (''error'', PStr code)])"
      if "(case e of Rejected code \<Rightarrow> io_return
             (answer i fp [(''outcome'', PStr ''rejected''), (''error'', PStr code)])
         | _ \<Rightarrow> io_raise e) w1 = (Return v, s')" for e w1
      using that by (cases e) (auto simp: returned)
    with assms that show ?thesis
      unfolding server_answer_def returned by (metis server_data_uniq)
  qed
  then show ?thesis
  proof cases
    case 1
    then show ?thesis using answer_shape(1) [of d i fp "''completed''" "''data''"] by auto
  next
    case 2
    then show ?thesis using answer_shape(2) [of "[]" i fp "''rejected''" "''error''" code] by auto
  qed
qed

text \<open>An answer read back carries its identifier and fingerprint.\<close>

lemma answer_read_back:
  assumes "uniq (answer i fp rest)"
  obtains d d' where "answer i fp rest = PDict d" "canon (PDict d) = PDict d'" "valid_response i fp d'"
    "dlookup ''request_hash'' d' = Some (PStr fp)"
proof -
  obtain d where d: "answer i fp rest = PDict d" by (simp add: answer_def sdict_def)
  obtain d' where d': "canon (PDict d) = PDict d'" using canon_dict by blast
  have "dlookup k d' = map_option canon (dlookup k d)" for k
    using dlookup_canon [OF _ d'] assms d by metis
  moreover have "dlookup k d = map_of ([(''schema_version'', PStr ''0.1''), (''request_id'', PStr i),
     (''request_hash'', PStr fp)] @ rest) k" for k
    using d unfolding answer_def by (rule dlookup_sdict')
  ultimately have "valid_response i fp d'" "dlookup ''request_hash'' d' = Some (PStr fp)"
    by (simp_all add: valid_response_def dget_def)
  with d d' that show ?thesis by blast
qed

text \<open>What a completed call to \<open>process\<close> leaves in the outbox.\<close>

lemma process_answered:
  assumes p: "process sha now base i s = (Return (), s')"
    and req: "dir_read (inbox s) (PStr i) = Inr (Some req)" "sent (PDict req) = Inr enc"
  shows "inbox s' = inbox s"
    and "\<exists>d. dir_read (outbox s') (PStr i) = Inr (Some d) \<and> dlookup ''request_hash'' d = Some (PStr (sha enc)) \<and>
       (dir_read (outbox s) (PStr i) = Inr None \<longrightarrow> valid_response i (sha enc) d)"
proof -
  from p req obtain existing where ex: "dir_read (outbox s) (PStr i) = Inr existing"
    and rest: "(case existing of
           Some d \<Rightarrow> (case dlookup ''request_hash'' d of
               None \<Rightarrow> io_raise KeyError
             | Some h \<Rightarrow> (if h = PStr (sha enc) then io_return ()
                        else io_raise (ValueError ''transport_id_conflict'')))
         | None \<Rightarrow>
             io_bind (server_answer sha now base i req (sha enc)) (publish Outbox i)) s = (Return (), s')"
    by (auto simp: process_def returned read_box_def Let_def)
  have goal: "inbox s' = inbox s \<and> (\<exists>d. dir_read (outbox s') (PStr i) = Inr (Some d) \<and>
      dlookup ''request_hash'' d = Some (PStr (sha enc)) \<and>
      (dir_read (outbox s) (PStr i) = Inr None \<longrightarrow> valid_response i (sha enc) d))"
  proof (cases existing)
    case (Some d)
    with ex rest show ?thesis by (auto simp: returned split: option.splits if_splits)
  next
    case None
    with rest obtain v s1 where v: "server_answer sha now base i req (sha enc) s = (Return v, s1)"
      and pub: "publish Outbox i v s1 = (Return (), s')"
      by (auto simp: returned)
    have b: "inbox s1 = inbox s" "outbox s1 = outbox s"
      using keepsD [OF server_answer_boxes] v unfolding same_boxes_def by (metis snd_conv)+
    from server_answer_shape [OF v] obtain r where r: "v = answer i (sha enc) r" "uniq (answer i (sha enc) r)" by blast
    from answer_read_back [OF r(2)] obtain d d' where d: "v = PDict d" "canon (PDict d) = PDict d'"
      "valid_response i (sha enc) d'" "dlookup ''request_hash'' d' = Some (PStr (sha enc))"
      using r(1) by metis
    have none: "dir_read (contents Outbox s1) (PStr i) = Inr None" using ex None b by simp
    from publish_Return [OF pub] none obtain raw where raw: "encoded_doc v = Inr raw" "doc_size raw \<le> TRANSPORT_LIMIT"
      "outbox s' = outbox s1 @ [(file_name i, new_entry raw)]" "is_uuid i"
      by (metis contents.simps(2))
    have "dir_read (outbox s') (PStr i) = Inr (Some d')"
      unfolding raw(3) using read_new_entry raw d r file_missing [OF none] by (metis contents.simps(2))
    moreover have "inbox s' = inbox s1" using publish_outbox_inbox [OF pub] .
    ultimately show ?thesis using d b by auto
  qed
  show "inbox s' = inbox s" using goal by blast
  show "\<exists>d. dir_read (outbox s') (PStr i) = Inr (Some d) \<and> dlookup ''request_hash'' d = Some (PStr (sha enc)) \<and>
       (dir_read (outbox s) (PStr i) = Inr None \<longrightarrow> valid_response i (sha enc) d)" using goal by blast
qed

lemma process_idempotent:
  assumes "process sha now base i s = (Return (), s')"
  shows "process sha now' base' i s' = (Return (), s')"
proof -
  from assms obtain r where r: "dir_read (inbox s) (PStr i) = Inr r"
    by (auto simp: process_def returned read_box_def)
  show ?thesis
  proof (cases r)
    case None
    with assms r show ?thesis by (auto simp: process_def returned read_box_def io_bind_def io_result_def io_return_def)
  next
    case (Some req)
    with assms r obtain enc where enc: "sent (PDict req) = Inr enc"
      by (auto simp: process_def returned read_box_def)
    from process_answered [OF assms r [unfolded Some] enc] obtain d where
      "inbox s' = inbox s" "dir_read (outbox s') (PStr i) = Inr (Some d)" "dlookup ''request_hash'' d = Some (PStr (sha enc))"
      by blast
    with r Some enc show ?thesis
      by (simp add: process_def read_box_def io_bind_def io_result_def io_return_def Let_def)
  qed
qed

section \<open>Requests of the client\<close>

lemma work_arguments_uniq:
  "work_arguments operation args base = Inr a \<Longrightarrow> uniq (PDict a) \<and> (\<exists>s. operation = PStr s)"
  using parse_contract_uniq(1)
  by (auto simp: work_arguments_def andThen_Inr_iff split: if_splits pyval.splits)

lemma client_request_uniq:
  "work_arguments operation args base = Inr a \<Longrightarrow> uniq (client_request i operation a)"
  using work_arguments_uniq [of operation args base a] by (auto simp: client_request_def uniq_items_sdict)

end
