(* ===== verification/Handoff_Properties.thy ===== *)
theory Handoff_Properties
  imports Handoff_Behaviour Work_Sample
begin

text \<open>
  The properties of the work contract and of the transport: requests survive being encoded again, an
  answered request is never processed twice, and the transport adds nothing to what the store does.
\<close>

section \<open>The contract\<close>

text \<open>C19: A request the parser accepted, encoded again as the transport and the broker do and parsed
  again, is accepted with the same value in every field and the same digest, so the identity of a task
  does not depend on the path its request took.\<close>

theorem contract_roundtrip:
  assumes "parse_contract raw = Inr d" "encoded_doc (PDict d) = Inr raw'" "doc_size raw' \<le> 8192"
  shows "\<exists>d'. parse_contract raw' = Inr d' \<and> dget d' = dget d \<and> digest sha d' = digest sha d"
  using reparse [OF assms, of sha] by blast

definition sample_raw :: doc where
  "sample_raw = \<lparr>doc_size = 500, doc_tree = JObj (map (\<lambda>(k, v). (str_val k, case tree_of v of Some t \<Rightarrow> t | None \<Rightarrow> JNull))
     sample_request)\<rparr>"

lemma sample_parse: "parse_contract sample_raw = Inr sample_request"
  by code_simp

lemma sample_encoded: "\<exists>raw. encoded_doc (PDict sample_request) = Inr raw \<and> doc_size raw \<le> 8192"
proof -
  have "(case json_dumps True (PDict sample_request) of Some t \<Rightarrow> length t < 600 | None \<Rightarrow> False)" by code_simp
  moreover have "tree_of (PDict sample_request) \<noteq> None" by code_simp
  ultimately show ?thesis by (auto simp: encoded_doc_def split: option.splits)
qed

theorem contract_roundtrip_witness:
  "\<exists>raw d. parse_contract raw = Inr d \<and> dget d ''task_id'' = PStr sample_id \<and>
     digest sample_sha d = Inr (sample_sha [])"
proof -
  obtain raw where raw: "encoded_doc (PDict sample_request) = Inr raw" "doc_size raw \<le> 8192"
    using sample_encoded by blast
  have "dget sample_request ''task_id'' = PStr sample_id" by code_simp
  with contract_roundtrip [OF sample_parse raw, of sample_sha] show ?thesis by fastforce
qed



section \<open>The transport\<close>

text \<open>A status query for a task the store does not know, from the client's publication to the server's answer.\<close>

definition sample_rid :: string where
  "sample_rid = ''00000000-0000-4000-8000-000000000002''"

definition sample_args :: request where
  "sample_args = [(PStr ''task_id'', PStr sample_id)]"

definition sample_query :: pyval where
  "sample_query = client_request sample_rid (PStr ''work.status'') sample_args"

definition sample_surface :: surface where
  "sample_surface = \<lparr>plan = [], clock = sample_clock, ticks = 0, inbox = [], outbox = [], backend = empty_world\<rparr>"

definition asked_surface :: surface where
  "asked_surface = snd (publish Inbox sample_rid sample_query sample_surface)"

definition answered_surface :: surface where
  "answered_surface = snd (process sample_sha 0 BASE sample_rid asked_surface)"

lemma sample_query_facts:
  "work_arguments (PStr ''work.status'') (PDict sample_args) BASE = Inr sample_args"
  "fst (publish Inbox sample_rid sample_query sample_surface) = Return ()"
  "sent sample_query \<noteq> Inl TypeError"
  by code_simp+

lemma sample_answer: "fst (process sample_sha 0 BASE sample_rid asked_surface) = Return ()"
  by code_simp

text \<open>C21: Once the server has processed a request id, processing it again at any later time and under
  any policy does nothing at all: the response stands, and no store operation is repeated.\<close>

theorem handoff_idempotent:
  assumes "process sha now base i s = (Return (), s')"
  shows "process sha now' base' i s' = (Return (), s')"
  by (rule process_idempotent [OF assms])

lemma process_run: "process sample_sha 0 BASE sample_rid asked_surface = (Return (), answered_surface)"
  using sample_answer by (simp add: answered_surface_def prod_eq_iff)

theorem handoff_idempotent_witness:
  "process sample_sha 1 [] sample_rid answered_surface = (Return (), answered_surface)"
  by (rule handoff_idempotent [OF process_run])


text \<open>C23: A request that the client validated and published, and that the server then processed without
  an exception, is answered in the outbox by a document the client accepts: it names the request and
  carries the fingerprint the client computes from its own copy.\<close>

theorem handoff_roundtrip:
  assumes a: "work_arguments operation args BASE = Inr a"
    and enc: "sent (client_request i operation a) = Inr enc"
    and new: "dir_read (inbox s) (PStr i) = Inr None" "dir_read (outbox s) (PStr i) = Inr None"
    and pub: "publish Inbox i (client_request i operation a) s = (Return (), s1)"
    and p: "process sha now base i s1 = (Return (), s2)"
  shows "\<exists>d. dir_read (outbox s2) (PStr i) = Inr (Some d) \<and> valid_response i (sha enc) d"
proof -
  obtain r where r: "client_request i operation a = PDict r" by (simp add: client_request_def sdict_def)
  have u: "uniq (PDict r)" using client_request_uniq [OF a, of i] r by simp
  obtain r' where r': "canon (PDict r) = PDict r'" using canon_dict by blast
  from pub r obtain raw where raw: "is_uuid i" "encoded_doc (PDict r) = Inr raw" "doc_size raw \<le> TRANSPORT_LIMIT"
    "inbox s1 = inbox s @ [(file_name i, new_entry raw)]"
    by (elim publish_Return) (use new in simp)
  have "dir_read (inbox s1) (PStr i) = Inr (Some r')"
    unfolding raw(4) using read_new_entry raw u r' file_missing [OF new(1)] by blast
  moreover have "sent (PDict r') = Inr enc"
    using enc json_dumps_canon [OF u] r r' by (auto simp: sent_def simp del: json_dumps.simps split: option.splits)
  moreover have "dir_read (outbox s1) (PStr i) = Inr None"
    using publish_inbox_outbox [OF pub] new(2) by simp
  ultimately show ?thesis using process_answered(2) [OF p] by blast
qed

theorem handoff_roundtrip_witness:
  "\<exists>enc d. sent sample_query = Inr enc \<and> dir_read (outbox answered_surface) (PStr sample_rid) = Inr (Some d) \<and>
     valid_response sample_rid (sample_sha enc) d"
proof -
  obtain enc where enc: "sent (client_request sample_rid (PStr ''work.status'') sample_args) = Inr enc"
    using sample_query_facts(3) by (auto simp: sent_def sample_query_def split: option.splits)
  have "is_uuid sample_rid" by code_simp
  then have new: "dir_read (inbox sample_surface) (PStr sample_rid) = Inr None"
    "dir_read (outbox sample_surface) (PStr sample_rid) = Inr None"
    by (simp_all add: dir_read_def task_id_def sample_surface_def)
  have "publish Inbox sample_rid (client_request sample_rid (PStr ''work.status'') sample_args) sample_surface =
      (Return (), asked_surface)"
    using sample_query_facts(2) by (simp add: asked_surface_def sample_query_def prod_eq_iff)
  from handoff_roundtrip [OF sample_query_facts(1) enc new this process_run] enc
  show ?thesis by (auto simp: sample_query_def)
qed

end
