(* ===== verification/Inference_Usage.thy ===== *)
theory Inference_Usage
  imports Coding_Protocol Interfaces
begin

text \<open>
  \<open>Ledger\<close> of \<open>inference_usage.py\<close>: one durable record per task with a reservation per model turn,
  written before the paid request. Amounts are micro-dollars. The locked sections are whole operations;
  the date is an argument. \<open>calls\<close> is a ghost: the tasks for which the provider was called, in order.
\<close>

section \<open>Policy\<close>

definition TURN_RESERVE :: int where
  "TURN_RESERVE = 250000"

definition TASK_BUDGET :: int where
  "TASK_BUDGET = 2000000"

definition MONTH_BUDGET :: int where
  "MONTH_BUDGET = 15000000"

definition PRICE_REVIEW_UNTIL :: string where
  "PRICE_REVIEW_UNTIL = ''2026-11-10''"

section \<open>Records\<close>

record spend =
  sp_month :: string
  sp_at :: string
  sp_reserved :: int
  sp_status :: string
  sp_tokens :: "(int \<times> int) option"
  sp_estimate :: "int option"

record usage =
  us_task :: string
  us_hash :: string
  us_status :: string
  us_started :: string
  us_turns :: "spend list"
  us_provider :: "string option"
  us_finished :: "string option"

record usage_disk = disk +
  accounts :: "(string \<times> usage) list"
  calls :: "string list"

type_synonym 'a ledger = "(usage_disk, 'a) eff"

definition account :: "usage_disk \<Rightarrow> string \<Rightarrow> usage option" where
  "account s i = map_of (accounts s) i"

definition set_account :: "string \<Rightarrow> usage \<Rightarrow> usage_disk \<Rightarrow> usage_disk" where
  "set_account i u s = s\<lparr>accounts := dict_set i u (accounts s)\<rparr>"

definition put_account :: "string \<Rightarrow> usage \<Rightarrow> unit ledger" where
  "put_account i u = durable (set_account i u)"

interpretation usage_table: records account set_account
  by unfold_locales (simp add: fun_eq_iff account_def set_account_def map_of_dict_set)

text \<open>\<open>json.loads(path.read_bytes())\<close>: a missing file is an \<open>OSError\<close>.\<close>

definition read_account :: "string \<Rightarrow> usage ledger" where
  "read_account i = io_bind (io_result (task_id (PStr i))) (\<lambda>_.
     io_bind (io_get (\<lambda>s. account s i)) (\<lambda>r. case r of Some u \<Rightarrow> io_return u | None \<Rightarrow> io_raise OSError))"

definition provider_of :: "usage \<Rightarrow> string" where
  "provider_of u = (case us_provider u of Some p \<Rightarrow> p | None \<Rightarrow> ''openai'')"

definition turn_value :: "spend \<Rightarrow> pyval" where
  "turn_value t = sdict ([(''month'', PStr (sp_month t)), (''reserved_at'', PStr (sp_at t)),
     (''reserved_micro_usd'', PInt (sp_reserved t)), (''status'', PStr (sp_status t))] @
     (case sp_tokens t of None \<Rightarrow> []
      | Some (a, b) \<Rightarrow> [(''input_tokens'', PInt a), (''output_tokens'', PInt b)]) @
     (case sp_estimate t of None \<Rightarrow> [] | Some e \<Rightarrow> [(''estimated_micro_usd'', PInt e)]))"

definition usage_value :: "usage \<Rightarrow> pyval" where
  "usage_value u = sdict ([(''task_id'', PStr (us_task u)), (''payload_hash'', PStr (us_hash u)),
     (''status'', PStr (us_status u)), (''started_at'', PStr (us_started u)),
     (''turns'', PList (map turn_value (us_turns u)))] @
     (case us_provider u of None \<Rightarrow> [] | Some p \<Rightarrow> [(''provider'', PStr p)]) @
     (case us_finished u of None \<Rightarrow> [] | Some f \<Rightarrow> [(''finished_at'', PStr f)]))"

section \<open>Operations\<close>

definition recover_account :: "string \<Rightarrow> unit ledger" where
  "recover_account i = io_bind (io_get (\<lambda>s. account s i)) (\<lambda>r. case r of
       Some u \<Rightarrow>
         (if us_status u = ''reserved''
          then io_bind stamp (\<lambda>at. put_account i (u\<lparr>us_status := ''interrupted'', us_finished := Some at\<rparr>))
          else io_return ())
     | None \<Rightarrow> io_return ())"

fun recover_accounts :: "string list \<Rightarrow> unit ledger" where
  "recover_accounts [] = io_return ()"
| "recover_accounts (i # is) = io_bind (recover_account i) (\<lambda>_. recover_accounts is)"

definition recover :: "unit ledger" where
  "recover = io_bind (io_get (\<lambda>s. map fst (accounts s))) recover_accounts"

definition start :: "(string \<Rightarrow> string) \<Rightarrow> string \<Rightarrow> request \<Rightarrow> usage ledger" where
  "start sha provider task =
     io_bind (io_result (task_id (dget task ''task_id''))) (\<lambda>i.
     io_bind (io_get (\<lambda>s. account s i)) (\<lambda>r.
     io_bind (io_guard (r = None) (CodingFailure ''interrupted'')) (\<lambda>_.
     io_bind (io_get (\<lambda>s. length (accounts s))) (\<lambda>n.
     io_bind (io_guard (n < 256) (CodingFailure ''model_budget_exceeded'')) (\<lambda>_.
     io_bind (io_result (digest sha task)) (\<lambda>hash.
     io_bind stamp (\<lambda>at.
     let u = \<lparr>us_task = i, us_hash = hash, us_status = ''reserved'', us_started = at, us_turns = [],
              us_provider = Some provider, us_finished = None\<rparr>
     in io_bind (put_account i u) (\<lambda>_. io_return u))))))))"

definition month_of :: "nat \<times> nat \<times> nat \<Rightarrow> string" where
  "month_of date = (case date of (y, m, d) \<Rightarrow> pad4 y @ ''-'' @ pad2 m)"

definition month_total :: "string \<Rightarrow> string \<Rightarrow> usage_disk \<Rightarrow> int" where
  "month_total provider month s =
     sum_list (map (\<lambda>u. if provider_of u = provider
       then sum_list (map sp_reserved (filter (\<lambda>t. sp_month t = month) (us_turns u))) else 0)
       (map snd (accounts s)))"

definition reserve :: "string \<Rightarrow> nat \<times> nat \<times> nat \<Rightarrow> string \<Rightarrow> usage ledger" where
  "reserve provider date i =
     io_bind (io_guard (case date of (y, m, d) \<Rightarrow> iso_date y m d \<le> PRICE_REVIEW_UNTIL)
                (CodingFailure ''model_budget_exceeded'')) (\<lambda>_.
     io_bind (read_account i) (\<lambda>u.
     io_bind (io_get (month_total provider (month_of date))) (\<lambda>total.
     let n = length (us_turns u) in
     io_bind (io_guard (\<not> (MAX_TURNS \<le> n \<or> TASK_BUDGET < (int n + 1) * TURN_RESERVE \<or>
                 (provider \<noteq> ''acceptance'' \<and> MONTH_BUDGET < total + TURN_RESERVE)))
                (CodingFailure ''model_budget_exceeded'')) (\<lambda>_.
     io_bind stamp (\<lambda>at.
     let t = \<lparr>sp_month = month_of date, sp_at = at, sp_reserved = TURN_RESERVE,
              sp_status = ''outcome_unknown'', sp_tokens = None, sp_estimate = None\<rparr>;
         u' = u\<lparr>us_turns := us_turns u @ [t]\<rparr>
     in io_bind (put_account i u') (\<lambda>_. io_return u'))))))"

definition token_count :: "request \<Rightarrow> string \<Rightarrow> int option" where
  "token_count d k = (case dget d k of PInt n \<Rightarrow> (if 0 \<le> n \<and> n \<le> 1000000 then Some n else None) | _ \<Rightarrow> None)"

definition token_counts :: "pyval \<Rightarrow> (int \<times> int) result" where
  "token_counts v = (case v of
      PDict d \<Rightarrow> (case (token_count d ''input_tokens'', token_count d ''output_tokens'') of
          (Some a, Some b) \<Rightarrow> Inr (a, b)
        | _ \<Rightarrow> Inl (CodingFailure ''model_invalid_response''))
    | _ \<Rightarrow> Inl (CodingFailure ''model_invalid_response''))"

definition note_usage :: "string \<Rightarrow> pyval \<Rightarrow> usage ledger" where
  "note_usage i v =
     io_bind (io_result (token_counts v)) (\<lambda>(a, b).
     io_bind (read_account i) (\<lambda>u.
       if us_turns u = [] then io_raise IndexError
       else let t = (last (us_turns u))\<lparr>sp_status := ''usage_received'', sp_tokens := Some (a, b),
                sp_estimate := Some (a * 3 + b * 11)\<rparr>;
                u' = u\<lparr>us_turns := butlast (us_turns u) @ [t]\<rparr>
         in io_bind (put_account i u') (\<lambda>_.
            if sp_reserved t < a * 3 + b * 11 then io_raise (CodingFailure ''model_budget_exceeded'')
            else io_return u')))"

definition finish :: "string \<Rightarrow> string \<Rightarrow> usage ledger" where
  "finish i code = io_bind (read_account i) (\<lambda>u. io_bind stamp (\<lambda>at.
     let u' = u\<lparr>us_status := code, us_finished := Some at\<rparr>
     in io_bind (put_account i u') (\<lambda>_. io_return u')))"

end
