(* ===== verification/Broker_Invariant.thy ===== *)
theory Broker_Invariant
  imports Inference_Broker
begin

text \<open>
  The budget invariant of the usage ledger: what every operation and the broker's loop keep of it, at
  every crash point and whatever the provider, the runner and the sends do.
\<close>

section \<open>Spending\<close>

text \<open>What a record has committed: month and amount of each reservation. Nothing else counts.\<close>

definition spent :: "usage \<Rightarrow> (string \<times> int) list" where
  "spent u = map (\<lambda>t. (sp_month t, sp_reserved t)) (us_turns u)"

lemma spent_length: "length (spent u) = length (us_turns u)"
  by (simp add: spent_def)

definition contribution :: "string \<Rightarrow> string \<Rightarrow> usage \<Rightarrow> int" where
  "contribution p m u = (if provider_of u = p then sum_list (map snd (filter (\<lambda>x. fst x = m) (spent u))) else 0)"

lemma filter_spent: "sum_list (map sp_reserved (filter (\<lambda>t. sp_month t = m) ts)) =
    sum_list (map snd (filter (\<lambda>x. fst x = m) (map (\<lambda>t. (sp_month t, sp_reserved t)) ts)))"
  by (induction ts) auto

lemma month_total_contributions: "month_total p m s = sum_list (map (contribution p m) (map snd (accounts s)))"
  unfolding month_total_def contribution_def spent_def filter_spent ..

lemma sum_dict_set:
  "distinct (map fst kvs) \<Longrightarrow> sum_list (map f (map snd (dict_set k v kvs))) =
   sum_list (map f (map snd kvs)) - (case map_of kvs k of Some u \<Rightarrow> f u | None \<Rightarrow> 0) + (f v :: int)"
  by (induction k v kvs rule: dict_set.induct) auto

lemma month_total_set:
  "distinct (map fst (accounts s)) \<Longrightarrow> month_total p m (set_account i u s) = month_total p m s -
     (case account s i of Some old \<Rightarrow> contribution p m old | None \<Rightarrow> 0) + contribution p m u"
  unfolding month_total_contributions by (simp add: set_account_def account_def sum_dict_set del: map_map)

section \<open>Invariant\<close>

definition turns_of :: "usage_disk \<Rightarrow> string \<Rightarrow> nat" where
  "turns_of s i = (case account s i of Some u \<Rightarrow> length (us_turns u) | None \<Rightarrow> 0)"

definition budget_ok :: "usage_disk \<Rightarrow> bool" where
  "budget_ok s =
     (distinct (map fst (accounts s)) \<and>
      (\<forall>i u. account s i = Some u \<longrightarrow>
         length (us_turns u) \<le> MAX_TURNS \<and> (\<forall>x\<in>set (spent u). snd x = TURN_RESERVE)) \<and>
      (\<forall>p m. p \<noteq> ''acceptance'' \<longrightarrow> month_total p m s \<le> MONTH_BUDGET) \<and>
      (\<forall>i. count_list (calls s) i \<le> turns_of s i))"

text \<open>Reservations are never taken back.\<close>

definition no_refund :: "usage_disk \<Rightarrow> usage_disk \<Rightarrow> bool" where
  "no_refund s s' = (\<forall>i u. account s i = Some u \<longrightarrow>
     (\<exists>u' extra. account s' i = Some u' \<and> us_provider u' = us_provider u \<and> spent u' = spent u @ extra))"

definition budget_step :: "usage_disk \<Rightarrow> usage_disk \<Rightarrow> bool" where
  "budget_step s s' = (budget_ok s \<longrightarrow> budget_ok s' \<and> no_refund s s')"

lemma no_refund_refl [simp]: "no_refund s s"
  by (simp add: no_refund_def)

lemma no_refund_trans: "no_refund s s' \<Longrightarrow> no_refund s' s'' \<Longrightarrow> no_refund s s''"
  unfolding no_refund_def by (metis append.assoc)

interpretation budget: step_relation budget_step
  by unfold_locales (auto simp: budget_step_def intro: no_refund_trans)

lemma find_set_account: "account (set_account i u s) = (account s)(i \<mapsto> u)"
  by (rule usage_table.load_store)

lemma account_frame [simp]:
  "account (s\<lparr>plan := p\<rparr>) = account s" "account (s\<lparr>ticks := n\<rparr>) = account s" "account (s\<lparr>calls := c\<rparr>) = account s"
  "calls (set_account i u s) = calls s"
  "plan (set_account i u s) = plan s"
  by (simp_all add: fun_eq_iff account_def set_account_def)

lemma budget_frame [simp]:
  "budget_ok (s\<lparr>plan := p\<rparr>) = budget_ok s" "budget_ok (s\<lparr>ticks := n\<rparr>) = budget_ok s"
  "no_refund s (s'\<lparr>plan := p\<rparr>) = no_refund s s'" "no_refund s (s'\<lparr>ticks := n\<rparr>) = no_refund s s'"
  "no_refund s (s'\<lparr>calls := c\<rparr>) = no_refund s s'" "no_refund (s\<lparr>plan := p\<rparr>) s' = no_refund s s'"
  "no_refund (s\<lparr>ticks := n\<rparr>) s' = no_refund s s'"
  by (simp_all add: budget_ok_def turns_of_def month_total_def no_refund_def)

text \<open>Storing a record whose spending extends the stored one by \<open>extra\<close>.\<close>

lemma safe_set_account:
  assumes ok: "budget_ok s"
    and old: "case account s i of None \<Rightarrow> spent u = extra
        | Some v \<Rightarrow> us_provider u = us_provider v \<and> spent u = spent v @ extra"
    and turns: "length (spent u) \<le> MAX_TURNS" "\<forall>x\<in>set extra. snd x = TURN_RESERVE"
    and month: "\<And>p m. p \<noteq> ''acceptance'' \<Longrightarrow> provider_of u = p \<Longrightarrow>
        month_total p m s + sum_list (map snd (filter (\<lambda>x. fst x = m) extra)) \<le> MONTH_BUDGET"
  shows "budget_ok (set_account i u s) \<and> no_refund s (set_account i u s)"
proof -
  have d: "distinct (map fst (accounts s))" using ok by (simp add: budget_ok_def)
  have prov: "account s i = Some v \<Longrightarrow> provider_of u = provider_of v" for v
    using old by (simp add: provider_of_def)
  have total: "month_total p m (set_account i u s) \<le> MONTH_BUDGET" if p: "p \<noteq> ''acceptance''" for p m
  proof (cases "provider_of u = p")
    case True
    have "month_total p m (set_account i u s) =
        month_total p m s + sum_list (map snd (filter (\<lambda>x. fst x = m) extra))"
      using old True prov by (auto simp: month_total_set [OF d] contribution_def split: option.splits)
    with month [OF p True, of m] show ?thesis by simp
  next
    case False
    have "month_total p m (set_account i u s) = month_total p m s"
      using False prov by (auto simp: month_total_set [OF d] contribution_def split: option.splits)
    then show ?thesis using ok p by (simp add: budget_ok_def)
  qed
  have each: "account (set_account i u s) j = Some v \<Longrightarrow>
      length (us_turns v) \<le> MAX_TURNS \<and> (\<forall>x\<in>set (spent v). snd x = TURN_RESERVE)" for j v
    using ok old turns unfolding budget_ok_def spent_length [symmetric]
    by (cases "j = i") (auto simp: find_set_account split: option.splits)
  have "turns_of s j \<le> turns_of (set_account i u s) j" for j
  proof (cases "account s i")
    case None
    then show ?thesis by (simp add: turns_of_def find_set_account)
  next
    case (Some v)
    with old have "length (spent u) = length (spent v) + length extra" by simp
    with Some show ?thesis by (simp add: turns_of_def find_set_account spent_def)
  qed
  then have "count_list (calls s) j \<le> turns_of (set_account i u s) j" for j
    using ok unfolding budget_ok_def by (meson le_trans)
  with total each d have "budget_ok (set_account i u s)"
    unfolding budget_ok_def
    by (auto simp: set_account_def account_def distinct_dict_set)
  moreover have "no_refund s (set_account i u s)"
    using old by (auto simp: no_refund_def find_set_account split: option.splits)
  ultimately show ?thesis by blast
qed

lemma budget_durable:
  assumes "\<And>s. budget_ok s \<Longrightarrow> P s \<Longrightarrow> budget_ok (f s) \<and> no_refund s (f s)"
    and "\<And>s p. P (s\<lparr>plan := p\<rparr>) = P s" and "P s"
  shows "budget_step s (snd (durable f s))"
proof -
  have "budget_ok s \<Longrightarrow> budget_ok (f (s\<lparr>plan := p\<rparr>)) \<and> no_refund s (f (s\<lparr>plan := p\<rparr>))" for p
    using assms(1) [of "s\<lparr>plan := p\<rparr>"] assms(2,3) by simp
  then show ?thesis
    using assms(1,3) by (auto simp: budget_step_def durable_def split: list.split fault.split)
qed

lemma budget_stamp [intro!]: "keeps budget_step stamp"
  by (simp add: keeps_def budget_step_def stamp_def)

text \<open>A record put back with the same spending and provider.\<close>

lemma same_spending:
  assumes "account s i = Some v" "us_provider u = us_provider v" "spent u = spent v"
  shows "budget_step s (snd (put_account i u s))"
  unfolding put_account_def
proof (rule budget_durable [where P = "\<lambda>s. account s i = Some v"])
  fix s
  assume ok: "budget_ok s" and v: "account s i = Some v"
  show "budget_ok (set_account i u s) \<and> no_refund s (set_account i u s)"
    by (rule safe_set_account [where extra = "[]", OF ok])
      (use ok v assms in \<open>auto simp: budget_ok_def spent_def\<close>)
qed (use assms in simp_all)


section \<open>Operations\<close>

lemma read_account_cases:
  "(\<exists>e. read_account i s = (Raise e, s)) \<or> (\<exists>u. account s i = Some u \<and> read_account i s = (Return u, s))"
  by (auto simp: read_account_def run_steps split: sum.split option.split)

text \<open>Reading a record and storing it with the same spending.\<close>

lemma keeps_update:
  assumes "\<And>s u. account s i = Some u \<Longrightarrow> budget_step s (snd (f u s))"
  shows "keeps budget_step (io_bind (read_account i) f)"
  unfolding keeps_def
proof
  fix s
  show "budget_step s (snd (io_bind (read_account i) f s))"
    using read_account_cases [of i s] assms [of s]
    by (auto simp: io_bind_def budget.same)
qed

lemma update_then:
  assumes "account s i = Some v" "us_provider u = us_provider v" "spent u = spent v" "keeps budget_step g"
  shows "budget_step s (snd (io_bind (put_account i u) (\<lambda>_. g) s))"
  by (rule budget.bind_at, rule same_spending [OF assms(1-3)], rule keepsD [OF assms(4)])

lemma stamped_update:
  assumes "account s i = Some v" "\<And>at. us_provider (u at) = us_provider v \<and> spent (u at) = spent v"
    and "\<And>at. keeps budget_step (g at)"
  shows "budget_step s (snd (io_bind stamp (\<lambda>at. io_bind (put_account i (u at)) (\<lambda>_. g at)) s))"
proof (rule budget.bind_at)
  show "budget_step s (snd (stamp s))" by (rule keepsD [OF budget_stamp])
next
  fix at s1
  assume "stamp s = (Return at, s1)"
  then have "account s1 i = Some v" using assms(1) by (simp add: stamp_def) (metis account_frame(2))
  then show "budget_step s1 (snd (io_bind (put_account i (u at)) (\<lambda>_. g at) s1))"
    using assms(2) [of at] assms(3) [of at] by (metis update_then)
qed

lemma finish_budget [intro!]: "keeps budget_step (finish i code)"
  unfolding finish_def Let_def
proof (rule keeps_update)
  fix s u
  assume "account s i = Some u"
  then show "budget_step s (snd (io_bind stamp (\<lambda>at. io_bind
      (put_account i (u\<lparr>us_status := code, us_finished := Some at\<rparr>))
      (\<lambda>_. io_return (u\<lparr>us_status := code, us_finished := Some at\<rparr>))) s))"
    by (rule stamped_update [where u = "\<lambda>at. u\<lparr>us_status := code, us_finished := Some at\<rparr>"
        and g = "\<lambda>at. io_return (u\<lparr>us_status := code, us_finished := Some at\<rparr>)"])
      (simp_all add: spent_def budget.keeps_return)
qed

lemma note_usage_budget [intro!]: "keeps budget_step (note_usage i v)"
proof -
  define t where "t u a b = (last (us_turns u))\<lparr>sp_status := ''usage_received'', sp_tokens := Some (a, b),
       sp_estimate := Some (a * 3 + b * 11)\<rparr>" for u :: usage and a b :: int
  have same: "spent (u\<lparr>us_turns := butlast (us_turns u) @ [t u a b]\<rparr>) = spent u"
    if "us_turns u \<noteq> []" for u :: usage and a b
  proof -
    have "spent (u\<lparr>us_turns := butlast (us_turns u) @ [t u a b]\<rparr>) =
        spent (u\<lparr>us_turns := butlast (us_turns u) @ [last (us_turns u)]\<rparr>)"
      by (simp add: spent_def t_def)
    with that show ?thesis by (simp add: spent_def)
  qed
  show ?thesis
    unfolding note_usage_def Let_def t_def [symmetric]
  proof (rule budget.keeps_bind [OF budget.keeps_result], rule keeps_prod, rule keeps_update)
    fix x s and u :: usage and a b :: int
    assume u: "account s i = Some u"
    show "budget_step s (snd ((if us_turns u = [] then io_raise IndexError
        else io_bind (put_account i (u\<lparr>us_turns := butlast (us_turns u) @ [t u a b]\<rparr>))
          (\<lambda>_. if sp_reserved (t u a b) < a * 3 + b * 11 then io_raise (CodingFailure ''model_budget_exceeded'')
               else io_return (u\<lparr>us_turns := butlast (us_turns u) @ [t u a b]\<rparr>))) s))"
      by (cases "us_turns u = []")
        (auto simp: io_raise_def budget.same same budget.keeps_return budget.keeps_raise intro!: update_then [OF u])
  qed
qed

lemma recover_account_budget [intro!]: "keeps budget_step (recover_account i)"
proof -
  have "budget_step s (snd (io_bind stamp
      (\<lambda>at. put_account i (u\<lparr>us_status := ''interrupted'', us_finished := Some at\<rparr>)) s))"
    if "account s i = Some u" for s u
    using stamped_update [OF that, of "\<lambda>at. u\<lparr>us_status := ''interrupted'', us_finished := Some at\<rparr>"
      "\<lambda>_. io_return ()", OF _ budget.keeps_return] by (simp add: spent_def)
  then show ?thesis
    unfolding keeps_def recover_account_def
    by (intro allI budget.bind_at) (auto simp: io_get_def io_return_def budget.same split: option.split)
qed

lemma recover_accounts_budget [intro!]: "keeps budget_step (recover_accounts is)"
  by (induction "is") auto

lemma recover_budget [intro!]: "keeps budget_step recover"
  unfolding recover_def by auto


section \<open>Reserving and calling\<close>

text \<open>Inside one task's loop the record names the loop's own provider, and keeps doing so.\<close>

definition owned :: "string \<Rightarrow> string \<Rightarrow> usage_disk \<Rightarrow> bool" where
  "owned i p s = (\<exists>u. account s i = Some u \<and> us_provider u = Some p)"

definition spending :: "string \<Rightarrow> string \<Rightarrow> usage_disk \<Rightarrow> usage_disk \<Rightarrow> bool" where
  "spending i p s s' = (owned i p s \<longrightarrow> budget_step s s')"

lemma owned_kept: "owned i p s \<Longrightarrow> no_refund s s' \<Longrightarrow> owned i p s'"
  unfolding owned_def no_refund_def by metis

lemma owned_frame [simp]: "owned i p (s\<lparr>plan := q\<rparr>) = owned i p s" "owned i p (s\<lparr>ticks := n\<rparr>) = owned i p s"
  by (simp_all add: owned_def)

interpretation spending: step_relation "spending i p" for i p
  by unfold_locales (auto simp: spending_def budget_step_def intro: no_refund_trans owned_kept)

lemma budget_spending: "keeps budget_step m \<Longrightarrow> keeps (spending i p) m"
  by (simp add: keeps_def spending_def)

lemma reserve_cases:
  assumes "reserve p date i s = (r, s')"
  obtains (refused) e where "r = Raise e" "s' = s"
  | (admitted) u t where "account s i = Some u" "sp_month t = month_of date" "sp_reserved t = TURN_RESERVE"
      "length (us_turns u) < MAX_TURNS"
      "p \<noteq> ''acceptance'' \<longrightarrow> month_total p (month_of date) s + TURN_RESERVE \<le> MONTH_BUDGET"
      "s' = snd (put_account i (u\<lparr>us_turns := us_turns u @ [t]\<rparr>) (s\<lparr>ticks := ticks s + 1\<rparr>))"
      "(\<exists>x. r = Return x) \<longrightarrow>
         fst (put_account i (u\<lparr>us_turns := us_turns u @ [t]\<rparr>) (s\<lparr>ticks := ticks s + 1\<rparr>)) = Return ()"
proof -
  consider e where "read_account i s = (Raise e, s)" | u where "account s i = Some u" "read_account i s = (Return u, s)"
    using read_account_cases by blast
  then show thesis
  proof cases
    case 1
    with assms refused show thesis
      by (auto simp: reserve_def io_bind_def io_guard_def io_raise_def io_return_def split: if_splits)
  next
    case (2 u)
    show thesis
    proof (cases "(case date of (y, m, d) \<Rightarrow> iso_date y m d \<le> PRICE_REVIEW_UNTIL) \<and>
        \<not> (MAX_TURNS \<le> length (us_turns u) \<or> TASK_BUDGET < (int (length (us_turns u)) + 1) * TURN_RESERVE \<or>
           (p \<noteq> ''acceptance'' \<and> MONTH_BUDGET < month_total p (month_of date) s + TURN_RESERVE))")
      case False
      with 2 assms refused show thesis
        by (auto simp: reserve_def io_bind_def io_guard_def io_get_def Let_def io_raise_def io_return_def
            split: if_splits prod.splits)
    next
      case True
      with 2 assms show thesis
        by (intro admitted [of u "\<lparr>sp_month = month_of date, sp_at = clock s (ticks s),
              sp_reserved = TURN_RESERVE, sp_status = ''outcome_unknown'', sp_tokens = None,
              sp_estimate = None\<rparr>"])
          (auto simp: reserve_def io_bind_def io_guard_def io_get_def Let_def io_raise_def io_return_def
            stamp_def split: if_splits prod.splits outcome.splits)
    qed
  qed
qed


lemma put_account_Return:
  "put_account i u s = (Return (), s') \<Longrightarrow> account s' = (account s)(i \<mapsto> u) \<and> calls s' = calls s"
  by (auto simp: put_account_def durable_def find_set_account fun_eq_iff split: list.splits fault.splits)

lemma reserve_step:
  assumes r: "reserve p date i s = (r, s')" and ok: "budget_ok s" and own: "owned i p s"
  shows "budget_ok s' \<and> no_refund s s' \<and> ((\<exists>x. r = Return x) \<longrightarrow> count_list (calls s') i < turns_of s' i)"
  using r
proof (cases rule: reserve_cases)
  case refused
  with ok show ?thesis by simp
next
  case (admitted u t)
  let ?u = "u\<lparr>us_turns := us_turns u @ [t]\<rparr>" and ?s = "s\<lparr>ticks := ticks s + 1\<rparr>"
  have prov: "us_provider u = Some p" using own admitted(1) by (auto simp: owned_def)
  have sp: "spent ?u = spent u @ [(month_of date, TURN_RESERVE)]"
    using admitted(2,3) by (simp add: spent_def)
  have safe: "budget_ok (set_account i ?u q) \<and> no_refund q (set_account i ?u q)"
    if "budget_ok q" "account q i = Some u" "\<And>m. month_total p m q = month_total p m s" for q
  proof (rule safe_set_account [where extra = "[(month_of date, TURN_RESERVE)]", OF that(1)])
    show "length (spent ?u) \<le> MAX_TURNS" using admitted(4) by (simp add: spent_length)
    show "month_total p' m q + sum_list (map snd (filter (\<lambda>x. fst x = m) [(month_of date, TURN_RESERVE)]))
        \<le> MONTH_BUDGET" if "p' \<noteq> ''acceptance''" "provider_of ?u = p'" for p' m
      using that admitted(5) \<open>budget_ok q\<close> prov \<open>\<And>m. month_total p m q = month_total p m s\<close>
      by (cases "m = month_of date") (auto simp: provider_of_def budget_ok_def)
  qed (use that sp in auto)
  have step: "budget_step ?s (snd (put_account i ?u ?s))"
    unfolding put_account_def
    by (rule budget_durable [where P = "\<lambda>q. account q i = Some u \<and> (\<forall>m. month_total p m q = month_total p m s)"])
      (use safe admitted(1) in \<open>auto simp: month_total_def\<close>)
  have "budget_ok s' \<and> no_refund s s'"
    using step ok admitted(6) by (auto simp: budget_step_def)
  moreover have "count_list (calls s') i < turns_of s' i" if "\<exists>x. r = Return x"
  proof -
    have "put_account i ?u ?s = (Return (), s')"
      using that admitted(6,7) by (auto intro: prod_eqI)
    from put_account_Return [OF this] have "account s' i = Some ?u" "calls s' = calls s" by simp_all
    with ok admitted(1) show ?thesis
      by (force simp: turns_of_def budget_ok_def le_imp_less_Suc split: option.splits dest: spec [of _ i])
  qed
  ultimately show ?thesis by blast
qed

text \<open>A call made with a free reservation uses that one up.\<close>

lemma reserve_then_call:
  assumes f: "\<And>x. keeps (spending i p) (f x)"
  shows "keeps (spending i p) (io_bind (reserve p date i) (\<lambda>u. io_bind (io_result (g u)) (\<lambda>_.
    io_bind (call_provider i) (\<lambda>_. f u))))"
  unfolding keeps_def
proof
  fix s
  obtain r s1 where r: "reserve p date i s = (r, s1)" by (cases "reserve p date i s")
  show "spending i p s (snd (io_bind (reserve p date i) (\<lambda>u. io_bind (io_result (g u)) (\<lambda>_.
      io_bind (call_provider i) (\<lambda>_. f u))) s))" (is "spending i p s ?t")
    unfolding spending_def budget_step_def
  proof (intro impI)
    assume own: "owned i p s" and ok: "budget_ok s"
    from reserve_step [OF r ok own] have s1: "budget_ok s1" "no_refund s s1"
      and free: "\<And>u. r = Return u \<Longrightarrow> count_list (calls s1) i < turns_of s1 i" by auto
    show "budget_ok ?t \<and> no_refund s ?t"
    proof (cases "\<exists>u x. r = Return u \<and> g u = Inr x")
      case False
      then have "?t = s1"
        using r by (cases r) (auto simp: io_bind_def io_result_def io_raise_def split: sum.split)
      with s1 show ?thesis by simp
    next
      case True
      then obtain u x where u: "r = Return u" "g u = Inr x" by blast
      let ?c = "s1\<lparr>calls := calls s1 @ [i]\<rparr>"
      have t: "?t = snd (f u ?c)"
        using r u by (simp add: io_bind_def io_result_def io_return_def call_provider_def)
      have c: "budget_ok ?c"
        using s1(1) free [OF u(1)] by (auto simp: budget_ok_def turns_of_def month_total_def)
      moreover have "owned i p ?c" using owned_kept [OF own s1(2)] by (simp add: owned_def)
      ultimately have "budget_ok ?t" "no_refund ?c ?t"
        using f [of u] by (auto simp: t keeps_def spending_def budget_step_def)
      moreover have "no_refund s ?c" using s1(2) by simp
      ultimately show ?thesis using no_refund_trans by blast
    qed
  qed
qed


section \<open>The loop\<close>

lemma broker_turn_budget:
  assumes "\<And>items. keeps (spending i p) (rest items)"
  shows "keeps (spending i p) (broker_turn p i x history rest)"
  unfolding broker_turn_def
  by (intro spending.keeps_bind spending.keeps_guard spending.keeps_result reserve_then_call
      budget_spending [OF note_usage_budget] assms)

lemma broker_turns_budget: "keeps (spending i p) (broker_turns p reading i n xs history)"
proof (induction p reading i n xs history rule: broker_turns.induct)
  case (3 p reading i n x xs history)
  then show ?case
    by (auto intro!: broker_turn_budget budget_spending [OF finish_budget] split: list.split)
qed auto

lemma send_failure_budget [intro!]: "keeps budget_step (send_failure works code v)"
  by (auto simp: send_failure_def split: sum.split)

lemma start_step:
  assumes "start sha p task s = (r, s')"
  shows "budget_step s s' \<and> ((\<exists>u. r = Return u) \<longrightarrow> owned (request_id task) p s')"
proof -
  let ?i = "request_id task" and ?s = "s\<lparr>ticks := Suc (ticks s)\<rparr>"
  define new where "new = \<lparr>us_task = ?i, us_hash = projr (digest sha task), us_status = ''reserved'', us_started = clock s (ticks s),
     us_turns = [], us_provider = Some p, us_finished = None\<rparr>"
  have i: "task_id (dget task ''task_id'') = Inr j \<Longrightarrow> j = ?i" for j
    by (auto simp: task_id_def request_id_def str_val_def split: pyval.splits if_splits)
  consider (same) e where "r = Raise e" "s' = s"
    | (fresh)  "account s ?i = None"
      "(r, s') = (case put_account ?i new ?s of (Return _, t) \<Rightarrow> (Return new, t)
         | (Raise e, t) \<Rightarrow> (Raise e, t) | (Died, t) \<Rightarrow> (Died, t))"
  proof (cases "task_id (dget task ''task_id'')"; cases "account s ?i"; cases "digest sha task")
  qed (use assms i in \<open>auto simp: start_def run_steps new_def split: if_splits prod.splits outcome.splits\<close>)
  then show ?thesis
  proof cases
    case same
    then show ?thesis by (simp add: budget.same)
  next
    case fresh
    let ?u = new
    have sp: "spent ?u = []" "us_provider ?u = Some p" by (simp_all add: spent_def new_def)
    have safe: "budget_ok q \<Longrightarrow> account q ?i = None \<Longrightarrow>
        budget_ok (set_account ?i ?u q) \<and> no_refund q (set_account ?i ?u q)" for q
      by (rule safe_set_account [where extra = "[]"]) (simp_all add: sp budget_ok_def)
    have "budget_step ?s (snd (put_account ?i ?u ?s))"
      unfolding put_account_def
      by (rule budget_durable [where P = "\<lambda>q. account q ?i = None"]) (use safe fresh(1) in simp_all)
    then have "budget_step s (snd (put_account ?i ?u ?s))" by (simp add: budget_step_def)
    moreover have "s' = snd (put_account ?i ?u ?s)"
      using fresh(2) by (auto split: prod.splits outcome.splits)
    moreover have "owned ?i p s'" if "r = Return v" for v
    proof -
      from that fresh(2) have "put_account ?i ?u ?s = (Return (), s')"
        by (auto split: prod.splits outcome.splits)
      from put_account_Return [OF this] sp(2) show ?thesis by (simp add: owned_def)
    qed
    ultimately show ?thesis by auto
  qed
qed

lemma broker_loop_budget [intro!]: "keeps budget_step (broker_loop sha p reading xs works task)"
  unfolding keeps_def
proof
  fix s
  obtain r s1 where r: "start sha p task s = (r, s1)" by (cases "start sha p task s")
  note st = start_step [OF r]
  let ?i = "request_id task"
  let ?run = "io_catch
      (io_bind (io_result (first_message task)) (broker_turns p reading ?i MAX_TURNS xs))
      (\<lambda>e. io_bind (finish ?i (broker_code e)) (\<lambda>u. send_failure works (broker_code e) (usage_value u)))"
  have run: "keeps (spending ?i p) ?run"
    by (intro spending.keeps_catch spending.keeps_bind spending.keeps_result broker_turns_budget
        budget_spending [OF finish_budget] budget_spending [OF send_failure_budget])
  show "budget_step s (snd (broker_loop sha p reading xs works task s))"
  proof (cases r)
    case (Return u)
    then have "broker_loop sha p reading xs works task s = ?run s1"
      using r by (simp add: broker_loop_def Let_def io_bind_def io_catch_def io_return_def)
    with run st Return show ?thesis
      by (auto simp: keeps_def spending_def intro: budget.compose)
  next
    case (Raise e)
    then have "broker_loop sha p reading xs works task s = send_failure works (broker_code e) PNone s1"
      using r by (simp add: broker_loop_def Let_def io_bind_def io_catch_def io_return_def)
    with st show ?thesis
      using budget.compose keepsD [OF send_failure_budget] by metis
  next
    case Died
    with r st show ?thesis by (simp add: broker_loop_def Let_def io_bind_def io_catch_def)
  qed
qed

lemma child_budget [intro!]: "keeps budget_step (child_process sha p reading xs works task)"
  unfolding child_process_def by auto

lemma serve_budget [intro!]: "keeps budget_step (serve_connection sha reading message config xs works after)"
proof -
  have "budget_step s (snd (recover (snd (child_process sha p reading xs works task s)\<lparr>plan := after\<rparr>)))"
    for p task s
  proof (rule budget.compose)
    show "budget_step s (snd (child_process sha p reading xs works task s)\<lparr>plan := after\<rparr>)"
      using keepsD [OF child_budget, of s] by (simp add: budget_step_def)
  qed (rule keepsD [OF recover_budget])
  then show ?thesis
    by (auto simp: keeps_def serve_connection_def Let_def budget.same split: sum.split option.split)
qed

section \<open>Every history of the service\<close>

text \<open>The service starts (closing what a killed one left), serves connections one at a time, and may be
  restarted at any point with any clock and any fate of its writes.\<close>

definition rerun :: "fault list \<Rightarrow> (nat \<Rightarrow> string) \<Rightarrow> usage_disk \<Rightarrow> usage_disk" where
  "rerun p c s = s\<lparr>plan := p, clock := c, ticks := 0\<rparr>"

inductive usage_step :: "(string \<Rightarrow> string) \<Rightarrow> (string \<Rightarrow> json) \<Rightarrow> usage_disk \<Rightarrow> usage_disk \<Rightarrow> bool"
  for sha reading where
  booting: "usage_step sha reading s (snd (recover s))"
| serving: "usage_step sha reading s (snd (serve_connection sha reading message config xs works after s))"
| turning: "usage_step sha reading s (rerun p c s)"

inductive usage_history :: "(string \<Rightarrow> string) \<Rightarrow> (string \<Rightarrow> json) \<Rightarrow> usage_disk \<Rightarrow> usage_disk \<Rightarrow> bool"
  for sha reading where
  fresh_disk: "usage_history sha reading s s"
| one_more: "usage_history sha reading s s' \<Longrightarrow> usage_step sha reading s' s'' \<Longrightarrow> usage_history sha reading s s''"

lemma usage_step_budget: "usage_step sha reading s s' \<Longrightarrow> budget_step s s'"
proof (induction rule: usage_step.induct)
  case (turning s p c)
  have "account (rerun p c s) = account s" by (simp add: fun_eq_iff account_def rerun_def)
  then show ?case by (simp add: rerun_def budget_step_def budget_ok_def turns_of_def month_total_def no_refund_def)
qed (auto intro: keepsD)

lemma usage_history_budget: "usage_history sha reading s s' \<Longrightarrow> budget_step s s'"
  by (induction rule: usage_history.induct) (auto simp: budget.same intro: usage_step_budget budget.compose)

lemma reserved_total: "\<forall>x\<in>set (spent u). snd x = c \<Longrightarrow> sum_list (map sp_reserved (us_turns u)) = int (length (us_turns u)) * c"
proof -
  have "\<forall>t\<in>set ts. sp_reserved t = c \<Longrightarrow> sum_list (map sp_reserved ts) = int (length ts) * c" for ts
    by (induction ts) (auto simp: algebra_simps)
  then show "\<forall>x\<in>set (spent u). snd x = c \<Longrightarrow> ?thesis" by (simp add: spent_def)
qed


section \<open>Closing what a killed worker left\<close>

definition closed :: "usage \<Rightarrow> usage \<Rightarrow> bool" where
  "closed u u' = (us_turns u' = us_turns u \<and> us_provider u' = us_provider u \<and>
     us_status u' = (if us_status u = ''reserved'' then ''interrupted'' else us_status u))"

lemma recover_account_closes:
  assumes "plan s = []"
  shows "\<exists>s'. recover_account i s = (Return (), s') \<and> plan s' = [] \<and>
    (\<forall>j. rel_option (if j = i then closed else (=)) (account s j) (account s' j))"
proof (cases "account s i")
  case None
  with assms show ?thesis
    by (auto simp: recover_account_def io_bind_def io_get_def io_return_def option.rel_refl)
next
  case (Some u)
  with assms show ?thesis
    by (auto simp: recover_account_def run_steps put_account_def find_set_account closed_def option.rel_refl)
qed

lemma recover_accounts_closes:
  "plan s = [] \<Longrightarrow> \<exists>s'. recover_accounts is s = (Return (), s') \<and> plan s' = [] \<and>
    (\<forall>j. rel_option (if j \<in> set is then closed else (=)) (account s j) (account s' j))"
proof (induction "is" arbitrary: s)
  case Nil
  then show ?case by (simp add: io_return_def option.rel_refl)
next
  case (Cons i "is")
  from recover_account_closes [OF Cons.prems, of i] obtain s1 where
    s1: "recover_account i s = (Return (), s1)" "plan s1 = []"
      "\<And>j. rel_option (if j = i then closed else (=)) (account s j) (account s1 j)" by blast
  from Cons.IH [OF s1(2)] obtain s2 where s2: "recover_accounts is s1 = (Return (), s2)" "plan s2 = []"
      "\<And>j. rel_option (if j \<in> set is then closed else (=)) (account s1 j) (account s2 j)" by blast
  have "rel_option (if j \<in> set (i # is) then closed else (=)) (account s j) (account s2 j)" for j
    using s1(3) [of j] s2(3) [of j]
    by (cases "account s j"; cases "account s1 j"; cases "account s2 j") (auto simp: closed_def split: if_splits)
  with s1 s2 show ?case by (simp add: io_bind_def)
qed

lemma recover_closes:
  assumes "plan s = []"
  shows "\<exists>s'. recover s = (Return (), s') \<and> (\<forall>j. rel_option closed (account s j) (account s' j))"
proof -
  have all: "account s j = None" if "j \<notin> set (map fst (accounts s))" for j
    using that by (simp add: account_def map_of_eq_None_iff)
  from recover_accounts_closes [OF assms, of "map fst (accounts s)"] obtain s' where
    s': "recover_accounts (map fst (accounts s)) s = (Return (), s')"
      "\<And>j. rel_option (if j \<in> set (map fst (accounts s)) then closed else (=)) (account s j) (account s' j)" by blast
  have "rel_option closed (account s j) (account s' j)" for j
    using s'(2) [of j] all [of j] by (auto split: if_splits)
  with s'(1) show ?thesis by (simp add: recover_def io_bind_def io_get_def)
qed

end
