(* ===== verification/Broker_Properties.thy ===== *)
theory Broker_Properties
  imports Broker_Invariant
begin

text \<open>The properties of the model broker: its frames, its budgets and its recovery.\<close>

section \<open>Frames\<close>






section \<open>Budgets\<close>

definition empty_usage :: "fault list \<Rightarrow> (nat \<Rightarrow> string) \<Rightarrow> usage_disk" where
  "empty_usage p c = \<lparr>plan = p, clock = c, ticks = 0, accounts = [], calls = []\<rparr>"

text \<open>A session for the witnesses: a coding task is admitted, its account is opened, the model's deadline has
  passed, and the account is closed with the failure.\<close>

definition paid_id :: string where
  "paid_id = ''00000000-0000-4000-8000-000000000002''"

definition paid_request :: request where
  "paid_request = [(PStr ''acceptance_criteria'', PList (map PStr CODING_CRITERIA)),
     (PStr ''base_ref'', PStr POLICY_BASE), (PStr ''deadline_seconds'', PInt 60),
     (PStr ''goal'', PStr CODING_GOAL), (PStr ''repository'', PStr REPOSITORY),
     (PStr ''requested_at'', PStr ''2026-07-01T12:00:00Z''), (PStr ''schema_version'', PStr ''0.1''),
     (PStr ''task_id'', PStr paid_id), (PStr ''task_type'', PStr CODING_TYPE)]"

definition paid_message :: request where
  "paid_message = [(PStr ''schema_version'', PStr ''0.1''), (PStr ''task'', PDict paid_request)]"

definition paid_sha :: "string \<Rightarrow> string" where
  "paid_sha t = replicate 64 (CHR ''b'')"

definition paid_exchange :: exchange where
  "paid_exchange = \<lparr>ex_late = True, ex_date = (2026, 7, 1), ex_sends = (True, True, True),
     ex_reply = Inl OSError, ex_answer = Inl OSError\<rparr>"

definition paid_talk :: "pyval list" where
  "paid_talk = projr (first_message paid_request)"

definition paid_tree :: json where
  "paid_tree = the (tree_of (PDict paid_request))"

lemma paid_json: "\<exists>t. json_dumps True (PDict paid_request) = Some t \<and> length t \<le> 600"
proof -
  have "case json_dumps True (PDict paid_request) of Some t \<Rightarrow> length t \<le> 600 | None \<Rightarrow> False" by code_simp
  then show ?thesis by (auto split: option.splits)
qed

lemma paid_check: "andThen (loads (Some (Rejected ''duplicate_json_key'')) (Some (Rejected ''nonfinite_json''))
    paid_tree) check_document = Inr paid_request"
  by code_simp

lemma paid_kind: "dget paid_request ''task_type'' = PStr CODING_TYPE" "dget paid_request ''base_ref'' = PStr POLICY_BASE"
  by code_simp+

lemma paid_admitted: "admit_message paid_message = Inr (Some paid_request)"
proof -
  from paid_json obtain t where t: "json_dumps True (PDict paid_request) = Some t" "length t \<le> 600" by blast
  have tree: "tree_of (PDict paid_request) = Some paid_tree" by code_simp
  have m: "same_keys paid_message [''schema_version'', ''task'']" "dget paid_message ''schema_version'' = PStr ''0.1''"
    "dget paid_message ''task'' = PDict paid_request" by code_simp+
  have "encodable (PDict paid_request) = Inr ()"
    using t(2) unfolding encodable_def t(1) by (simp add: LIMIT_def guard_def)
  moreover have "encoded_doc (PDict paid_request) = Inr \<lparr>doc_size = length t, doc_tree = paid_tree\<rparr>"
    unfolding encoded_doc_def t(1) tree by simp
  moreover have "parse_contract \<lparr>doc_size = length t, doc_tree = paid_tree\<rparr> = Inr paid_request"
    using t(2) by (simp add: parse_contract_def paid_check)
  ultimately show ?thesis
    unfolding admit_message_def m by (simp add: m paid_kind andThen_def)
qed

lemma paid_facts [simp]:
  "task_id (dget paid_request ''task_id'') = Inr paid_id" "task_id (PStr paid_id) = Inr paid_id"
  "request_id paid_request = paid_id"
  "digest paid_sha paid_request = Inr (paid_sha [])" "first_message paid_request = Inr paid_talk"
  by code_simp+

definition paid_usage :: usage_disk where
  "paid_usage = snd (serve_connection paid_sha (\<lambda>t. JNull) (Inr paid_message)
     (Inr (PStr ''openai'', PStr ''success'')) [paid_exchange] True [] (empty_usage [] (\<lambda>n. show_nat n)))"

lemma send_failure_state: "snd (send_failure works code v s) = s"
  by (simp add: send_failure_def io_return_def io_raise_def split: sum.split)

lemma late_turn: "ex_late x \<Longrightarrow> 0 < n \<Longrightarrow>
    broker_turns p reading i n (x # xs) h = io_raise (CodingFailure ''model_timeout'')"
  by (cases n) (simp_all add: broker_turn_def io_guard_def io_bind_def io_raise_def fun_eq_iff)

lemmas run_paid = paid_usage_def serve_connection_def Let_def paid_admitted child_process_def str_val_def
  broker_loop_def start_def read_account_def put_account_def finish_def late_turn MAX_TURNS_def paid_exchange_def
  empty_usage_def account_def set_account_def run_steps broker_code_def CODES_def send_failure_state
  recover_def recover_account_def

lemma paid_usage: "map_option us_status (account paid_usage paid_id) = Some ''model_timeout''"
  by (simp add: run_paid cong: io_weak del: json_dumps.simps)

lemma paid_provider: "map_option us_provider (account paid_usage paid_id) = Some (Some ''openai'')"
  by (simp add: run_paid cong: io_weak del: json_dumps.simps)

lemma paid_history: "usage_history paid_sha (\<lambda>t. JNull) (empty_usage [] (\<lambda>n. show_nat n)) paid_usage"
  unfolding paid_usage_def by (rule usage_history.one_more [OF usage_history.fresh_disk usage_step.serving])

text \<open>C25: Money is bounded: in every history of the service, with workers killed anywhere, writes failing
  anywhere and any answers of the provider, the runner and the operator's configuration, a task never has
  more than eight reserved turns or 2,000,000 micro-dollars, no month exceeds 15,000,000 for a paying
  provider, and the provider was never called more often for a task than turns are reserved on disk.\<close>

theorem budget_caps:
  assumes "usage_history sha reading (empty_usage p c) s"
  shows "(\<forall>i u. account s i = Some u \<longrightarrow> length (us_turns u) \<le> 8 \<and>
      sum_list (map sp_reserved (us_turns u)) \<le> TASK_BUDGET) \<and>
    (\<forall>m. month_total ''openai'' m s \<le> MONTH_BUDGET) \<and>
    (\<forall>i. count_list (calls s) i \<le> (case account s i of Some u \<Rightarrow> length (us_turns u) | None \<Rightarrow> 0))"
proof -
  have "budget_ok (empty_usage p c)"
    by (simp add: budget_ok_def empty_usage_def account_def month_total_def turns_of_def MONTH_BUDGET_def)
  with usage_history_budget [OF assms] have ok: "budget_ok s" by (simp add: budget_step_def)
  have "sum_list (map sp_reserved (us_turns u)) \<le> TASK_BUDGET" if "account s i = Some u" for i u
  proof -
    have "length (us_turns u) \<le> MAX_TURNS" "\<forall>x\<in>set (spent u). snd x = TURN_RESERVE"
      using ok that unfolding budget_ok_def by blast+
    with reserved_total [OF this(2)] show ?thesis
      by (simp add: MAX_TURNS_def TURN_RESERVE_def TASK_BUDGET_def)
  qed
  with ok show ?thesis by (auto simp: budget_ok_def turns_of_def MAX_TURNS_def)
qed

theorem budget_caps_witness:
  "\<exists>u. account paid_usage paid_id = Some u \<and> us_status u = ''model_timeout'' \<and> length (us_turns u) \<le> 8 \<and>
     month_total ''openai'' ''2026-07'' paid_usage \<le> MONTH_BUDGET"
  using budget_caps [OF paid_history] paid_usage by (cases "account paid_usage paid_id") auto

text \<open>What was reserved stays reserved: no later event of the service, a crash and its recovery included,
  removes an account, changes its provider, or takes back or rewrites an earlier reservation's month and
  amount, so a failed or unclear call stays paid for.\<close>

theorem reservations_permanent:
  assumes "usage_history sha reading (empty_usage p c) s" "usage_history sha reading s s'"
    and "account s i = Some u"
  shows "\<exists>u' extra. account s' i = Some u' \<and> us_provider u' = us_provider u \<and>
    map (\<lambda>t. (sp_month t, sp_reserved t)) (us_turns u') =
    map (\<lambda>t. (sp_month t, sp_reserved t)) (us_turns u) @ extra"
proof -
  have "budget_ok (empty_usage p c)"
    by (simp add: budget_ok_def empty_usage_def account_def month_total_def turns_of_def MONTH_BUDGET_def)
  with usage_history_budget [OF assms(1)] have "budget_ok s" by (simp add: budget_step_def)
  with usage_history_budget [OF assms(2)] have "no_refund s s'" by (simp add: budget_step_def)
  with assms(3) show ?thesis by (auto simp: no_refund_def spent_def)
qed

theorem reservations_permanent_witness:
  "\<exists>u' extra. account (snd (recover paid_usage)) paid_id = Some u' \<and> us_provider u' = Some ''openai'' \<and>
     map sp_reserved (us_turns u') = extra"
proof -
  have h: "usage_history paid_sha (\<lambda>t. JNull) paid_usage (snd (recover paid_usage))"
    by (rule usage_history.one_more [OF usage_history.fresh_disk usage_step.booting])
  obtain u where "account paid_usage paid_id = Some u" "us_provider u = Some ''openai''"
    using paid_provider by (cases "account paid_usage paid_id") auto
  with reservations_permanent [OF paid_history h this(1)] show ?thesis by auto
qed

text \<open>Recovery closes accounts: with a working disk it returns, no account is left \<open>reserved\<close>, and apart
  from that status and its time of end every account keeps its turns, provider and status.\<close>

theorem recovery_closes:
  assumes "plan s = []"
  shows "\<exists>s'. recover s = (Return (), s') \<and> (\<forall>i. case account s i of
      None \<Rightarrow> account s' i = None
    | Some u \<Rightarrow> (\<exists>u'. account s' i = Some u' \<and> us_turns u' = us_turns u \<and> us_provider u' = us_provider u \<and>
        us_status u' \<noteq> ''reserved'' \<and> (us_status u = ''reserved'' \<or> us_status u' = us_status u)))"
proof -
  from recover_closes [OF assms] obtain s' where s': "recover s = (Return (), s')"
    "\<And>i. rel_option closed (account s i) (account s' i)" by blast
  have "case account s i of
      None \<Rightarrow> account s' i = None
    | Some u \<Rightarrow> (\<exists>u'. account s' i = Some u' \<and> us_turns u' = us_turns u \<and> us_provider u' = us_provider u \<and>
        us_status u' \<noteq> ''reserved'' \<and> (us_status u = ''reserved'' \<or> us_status u' = us_status u))" for i
    using s'(2) [of i] by (cases "account s i") (auto simp: option_rel_Some1 closed_def split: if_splits)
  with s'(1) show ?thesis by blast
qed


theorem recovery_closes_witness:
  "\<exists>s' u'. recover (paid_usage\<lparr>plan := [], accounts := [(paid_id, \<lparr>us_task = paid_id, us_hash = ''00'',
      us_status = ''reserved'', us_started = ''t'', us_turns = [], us_provider = None, us_finished = None\<rparr>)]\<rparr>) =
      (Return (), s') \<and> account s' paid_id = Some u' \<and> us_status u' \<noteq> ''reserved''"
  using recovery_closes [of "paid_usage\<lparr>plan := [], accounts := [(paid_id, \<lparr>us_task = paid_id, us_hash = ''00'',
      us_status = ''reserved'', us_started = ''t'', us_turns = [], us_provider = None, us_finished = None\<rparr>)]\<rparr>"]
  by (force simp: account_def dest: spec [of _ paid_id])

end
