(* ===== verification/Redaction.thy ===== *)
theory Redaction
  imports Py_Json "HOL-Library.Sublist"
begin

text \<open>
  \<open>Redactor\<close> of \<open>control.py\<close>: replacement of known secrets, of GitHub tokens and of values behind
  credential words, on text and on every string of a JSON value. The two regular expressions are
  matchers that give the length of the match at the head of a text.
\<close>

section \<open>Substitution\<close>

definition REDACTED :: string where
  "REDACTED = ''[REDACTED]''"

text \<open>\<open>str.replace\<close> and \<open>re.sub\<close> with the fixed replacement: leftmost matches, not overlapping.\<close>

fun re_sub :: "(string \<Rightarrow> nat option) \<Rightarrow> string \<Rightarrow> string" where
  "re_sub m [] = []"
| "re_sub m (c # cs) = (case m (c # cs) of
     Some (Suc n) \<Rightarrow> REDACTED @ re_sub m (drop n cs)
   | _ \<Rightarrow> c # re_sub m cs)"

definition secret_match :: "string \<Rightarrow> string \<Rightarrow> nat option" where
  "secret_match secret x = (if starts_with secret x then Some (length secret) else None)"

definition word_char :: "char \<Rightarrow> bool" where
  "word_char c = (is_dec c \<or> (65 \<le> cp c \<and> cp c \<le> 90) \<or> (97 \<le> cp c \<and> cp c \<le> 122) \<or> c = CHR ''_'')"

definition TOKEN_PREFIXES :: "string list" where
  "TOKEN_PREFIXES = [''github_pat_'', ''ghp_'', ''gho_'', ''ghu_'', ''ghs_'', ''ghr_'']"

definition token_match :: "string \<Rightarrow> nat option" where
  "token_match x = (case filter (\<lambda>p. starts_with p x) TOKEN_PREFIXES of
      [] \<Rightarrow> None
    | p # ps \<Rightarrow> (case length (takeWhile word_char (drop (length p) x)) of
          0 \<Rightarrow> None | Suc k \<Rightarrow> Some (length p + Suc k)))"

definition lower :: "char \<Rightarrow> char" where
  "lower c = (if 65 \<le> cp c \<and> cp c \<le> 90 then char_of (cp c + 32) else c)"

definition spaces :: "string \<Rightarrow> nat" where
  "spaces x = length (takeWhile is_space x)"

definition CREDENTIAL_WORDS :: "string list" where
  "CREDENTIAL_WORDS = [''token'', ''password'', ''secret'', ''api_key'', ''api-key'', ''apikey'']"

text \<open>Up to the value: \<open>bearer\s+\<close>, or a credential word and \<open>\s*[:=]\s*\<close>; zero if there is none.\<close>

definition credential_prefix :: "string \<Rightarrow> nat" where
  "credential_prefix x = (let low = map lower x in
     if starts_with ''bearer'' low then (let k = spaces (drop 6 x) in if k = 0 then 0 else 6 + k)
     else case filter (\<lambda>w. starts_with w low) CREDENTIAL_WORDS of
         [] \<Rightarrow> 0
       | w # ws \<Rightarrow> (let n = length w + spaces (drop (length w) x) in case drop n x of
             [] \<Rightarrow> 0
           | c # r \<Rightarrow> if c = CHR '':'' \<or> c = CHR ''='' then n + 1 + spaces r else 0))"

definition value_char :: "char \<Rightarrow> bool" where
  "value_char c = (\<not> is_space c \<and> c \<noteq> CHR '','' \<and> c \<noteq> dquote \<and> c \<noteq> CHR ''}'')"

definition credential_match :: "string \<Rightarrow> nat option" where
  "credential_match x = (let n = credential_prefix x; k = length (takeWhile value_char (drop n x)) in
     if n = 0 \<or> k = 0 then None else Some (n + k))"

section \<open>The redactor\<close>

definition redact :: "string list \<Rightarrow> string \<Rightarrow> string" where
  "redact secrets t = re_sub credential_match (re_sub token_match
     (fold (\<lambda>s. re_sub (secret_match s)) (filter (\<lambda>s. s \<noteq> []) secrets) t))"

function (sequential) clean :: "string list \<Rightarrow> pyval \<Rightarrow> pyval"
  and clean_list :: "string list \<Rightarrow> pyval list \<Rightarrow> pyval list"
  and clean_items :: "string list \<Rightarrow> (pyval \<times> pyval) list \<Rightarrow> (pyval \<times> pyval) list" where
  "clean r (PDict kvs) = PDict (fold (\<lambda>(k, v). dict_set k v) (clean_items r kvs) [])"
| "clean r (PList vs) = PList (clean_list r vs)"
| "clean r (PStr s) = PStr (redact r s)"
| "clean r v = v"
| "clean_list r [] = []"
| "clean_list r (v # vs) = clean r v # clean_list r vs"
| "clean_items r [] = []"
| "clean_items r ((k, v) # kvs) = (PStr (redact r (py_str k)), clean r v) # clean_items r kvs"
  by pat_completeness auto
termination
  by (relation "measure (case_sum (\<lambda>(r, v). size v)
        (case_sum (\<lambda>(r, vs). size_list size vs) (\<lambda>(r, kvs). size_list (size_prod size size) kvs)))") auto

section \<open>What substitution can bring about\<close>

lemma starts_with_prefix: "starts_with p s \<longleftrightarrow> prefix p s"
  by (auto simp: starts_with_def prefix_def) (metis append_take_drop_id)

text \<open>A text free of brackets that is not part of the replacement word.\<close>

definition plain :: "string \<Rightarrow> bool" where
  "plain p = (p \<noteq> [] \<and> CHR ''['' \<notin> set p \<and> CHR '']'' \<notin> set p \<and> \<not> sublist p ''REDACTED'')"

lemma sublist_apart:
  assumes "x \<notin> set p" "sublist p (xs @ x # ys)"
  shows "sublist p xs \<or> sublist p ys"
proof -
  from assms(2) obtain a b where ab: "xs @ x # ys = a @ p @ b" by (auto simp: sublist_def)
  then consider us where "a = xs @ us" "us @ p @ b = x # ys" | us where "xs = a @ us" "us @ x # ys = p @ b"
    by (auto simp: append_eq_append_conv2)
  then show ?thesis
  proof cases
    case 1
    then show ?thesis
    proof (cases us)
      case Nil
      with 1 assms(1) show ?thesis by (cases p) auto
    next
      case (Cons u us')
      with 1 have "ys = us' @ p @ b" by simp
      then show ?thesis by (auto simp: sublist_def)
    qed
  next
    case 2
    from 2(2) consider vs where "us = p @ vs" | vs where "p = us @ vs" "x # ys = vs @ b"
      by (auto simp: append_eq_append_conv2)
    then show ?thesis
    proof cases
      case 1
      with 2(1) show ?thesis by (auto simp: sublist_def)
    next
      case two: 2
      with assms(1) have "vs = []" by (cases vs) auto
      with two 2(1) have "xs = a @ p @ []" by simp
      then show ?thesis unfolding sublist_def by blast
    qed
  qed
qed

lemma plain_redacted:
  assumes "plain p" "sublist p (REDACTED @ r)"
  shows "sublist p r"
proof -
  have p: "CHR ''['' \<notin> set p" "CHR '']'' \<notin> set p" "p \<noteq> []" "\<not> sublist p ''REDACTED''"
    using assms(1) by (simp_all add: plain_def)
  have r: "REDACTED @ r = ''[REDACTED'' @ CHR '']'' # r" by (simp add: REDACTED_def)
  have "\<not> sublist p ''[REDACTED''"
    using sublist_apart [of "CHR ''[''" p "[]" "''REDACTED''"] p by auto
  with sublist_apart [OF p(2) assms(2) [unfolded r]] show ?thesis by blast
qed

lemma prefix_copied: "prefix p (re_sub m s) \<Longrightarrow> CHR ''['' \<notin> set p \<Longrightarrow> prefix p s"
proof (induction m s arbitrary: p rule: re_sub.induct)
  case (2 m c cs)
  show ?case
  proof (cases p)
    case (Cons a q)
    with 2 show ?thesis by (auto simp: REDACTED_def split: option.splits nat.splits)
  qed simp
qed simp

text \<open>No substitution puts a plain text where there was none.\<close>

lemma sublist_copied: "plain p \<Longrightarrow> sublist p (re_sub m s) \<Longrightarrow> sublist p s"
proof (induction s rule: length_induct)
  case (1 s)
  show ?case
  proof (cases s)
    case Nil
    with 1(3) show ?thesis by simp
  next
    case (Cons c cs)
    show ?thesis
    proof (cases "\<exists>n. m s = Some (Suc n)")
      case True
      then obtain n where "m s = Some (Suc n)" by blast
      then have "re_sub m s = REDACTED @ re_sub m (drop n cs)" using Cons by simp
      with 1(2,3) plain_redacted have "sublist p (re_sub m (drop n cs))" by metis
      with 1(1,2) Cons have "sublist p (drop n cs)" by simp
      then have "sublist p cs" by (rule sublist_order.order.trans) simp
      then show ?thesis by (simp add: Cons sublist_Cons_right)
    next
      case False
      then have r: "re_sub m s = c # re_sub m cs" using Cons by (auto split: option.split nat.split)
      with 1(3) consider "prefix p (c # re_sub m cs)" | "sublist p (re_sub m cs)" by (auto simp: sublist_Cons_right)
      then show ?thesis
      proof cases
        case 1
        then have "prefix p s" using prefix_copied [of p m s] r \<open>plain p\<close> by (simp add: plain_def)
        then show ?thesis by (rule prefix_imp_sublist)
      next
        case 2
        with 1(1,2) Cons have "sublist p cs" by simp
        then show ?thesis by (simp add: Cons sublist_Cons_right)
      qed
    qed
  qed
qed

section \<open>What substitution removes\<close>

text \<open>A matcher and the texts that make it match at their place.\<close>

locale pattern =
  fixes m :: "string \<Rightarrow> nat option"
    and W :: "string \<Rightarrow> bool"
  assumes matches: "W p \<Longrightarrow> prefix p s \<Longrightarrow> \<exists>n. m s = Some (Suc n)"
    and W_plain: "W p \<Longrightarrow> plain p"
begin

lemma removed: "W p \<Longrightarrow> \<not> sublist p (re_sub m s)"
proof (induction s rule: length_induct)
  case (1 s)
  have pl: "plain p" using 1(2) by (rule W_plain)
  show ?case
  proof (cases s)
    case Nil
    with pl show ?thesis by (auto simp: plain_def)
  next
    case (Cons c cs)
    show ?thesis
    proof (cases "\<exists>n. m s = Some (Suc n)")
      case True
      then obtain n where "m s = Some (Suc n)" by blast
      then have "re_sub m s = REDACTED @ re_sub m (drop n cs)" using Cons by simp
      moreover have "\<not> sublist p (re_sub m (drop n cs))" using 1 Cons by simp
      ultimately show ?thesis using plain_redacted [OF pl] by metis
    next
      case False
      then have r: "re_sub m s = c # re_sub m cs" using Cons by (auto split: option.split nat.split)
      moreover have "\<not> sublist p (re_sub m cs)" using 1 Cons by simp
      moreover have "\<not> prefix p (c # re_sub m cs)"
      proof
        assume "prefix p (c # re_sub m cs)"
        then have "prefix p s" using r prefix_copied [of p m s] pl by (simp add: plain_def)
        with matches [OF 1(2)] False show False by blast
      qed
      ultimately show ?thesis by (simp add: sublist_Cons_right)
    qed
  qed
qed

lemma stays_removed: "W p \<Longrightarrow> \<not> sublist p (re_sub m' (re_sub m s))"
  using removed sublist_copied W_plain by blast

end

lemma fold_copied: "plain p \<Longrightarrow> sublist p (fold (\<lambda>s. re_sub (secret_match s)) ss t) \<Longrightarrow> sublist p t"
proof (induction ss arbitrary: t)
  case (Cons a ss)
  then have "sublist p (re_sub (secret_match a) t)" by simp
  with Cons.prems(1) show ?case by (rule sublist_copied)
qed simp

definition is_token :: "string \<Rightarrow> bool" where
  "is_token p = (\<exists>q c. q \<in> set TOKEN_PREFIXES \<and> word_char c \<and> p = q @ [c])"

lemma is_token_plain: "is_token p \<Longrightarrow> plain p"
proof -
  assume "is_token p"
  then obtain q c where q: "q \<in> set TOKEN_PREFIXES" "word_char c" "p = q @ [c]" by (auto simp: is_token_def)
  have c: "c \<noteq> CHR ''[''" "c \<noteq> CHR '']''" using q(2) by (auto simp: word_char_def is_dec_def cp_def)
  have "CHR ''_'' \<in> set p" using q(1,3) by (auto simp: TOKEN_PREFIXES_def)
  then have "\<not> sublist p ''REDACTED''" using set_mono_sublist [of p "''REDACTED''"] by auto
  with q c show ?thesis by (auto simp: plain_def TOKEN_PREFIXES_def)
qed

interpretation github_token: pattern token_match is_token
proof
  fix p s
  assume "is_token p" "prefix p s"
  then obtain q c where q: "q \<in> set TOKEN_PREFIXES" "word_char c" "prefix (q @ [c]) s" by (auto simp: is_token_def)
  from q(3) obtain r where r: "s = q @ c # r" by (auto simp: prefix_def)
  have f: "starts_with q s" by (simp add: r starts_with_def)
  then obtain p' ps where ps: "filter (\<lambda>p. starts_with p s) TOKEN_PREFIXES = p' # ps"
    using q(1) by (cases "filter (\<lambda>p. starts_with p s) TOKEN_PREFIXES") (auto simp: filter_empty_conv)
  then have "p' \<in> set (filter (\<lambda>p. starts_with p s) TOKEN_PREFIXES)" by simp
  then have p': "p' \<in> set TOKEN_PREFIXES" "starts_with p' s" by simp_all
  have "p' = q"
    using p' q(1) f by (auto simp: TOKEN_PREFIXES_def r starts_with_def)
  then have "takeWhile word_char (drop (length p') s) = c # takeWhile word_char r"
    using q(2) by (simp add: r)
  with ps show "\<exists>n. token_match s = Some (Suc n)" by (simp add: token_match_def)
qed (rule is_token_plain)

interpretation known_secret: pattern "secret_match secret" "\<lambda>p. p = secret \<and> plain p" for secret
  by unfold_locales (auto simp: secret_match_def starts_with_prefix plain_def Suc_length_conv
      intro!: exI [of _ "length secret - 1"])

lemma no_token: "is_token p \<Longrightarrow> \<not> sublist p (redact secrets t)"
  unfolding redact_def by (rule github_token.stays_removed)

lemma no_secret:
  assumes "s \<in> set secrets" "plain s"
  shows "\<not> sublist s (redact secrets t)"
proof -
  have gone: "\<not> sublist s (fold (\<lambda>s. re_sub (secret_match s)) ss t)" if "s \<in> set ss" for ss t
    using that
  proof (induction ss arbitrary: t)
    case (Cons a ss)
    show ?case
    proof (cases "a = s")
      case True
      then show ?thesis
        using fold_copied [OF assms(2), of ss "re_sub (secret_match a) t"] known_secret.removed [of s s t] assms(2)
        by auto
    next
      case False
      with Cons show ?thesis by simp
    qed
  qed simp
  have "s \<in> set (filter (\<lambda>s. s \<noteq> []) secrets)" using assms by (simp add: plain_def)
  from gone [OF this] show ?thesis
    unfolding redact_def using sublist_copied [OF assms(2)] by blast
qed

section \<open>Values\<close>

text \<open>Every string of a value satisfies \<open>Q\<close>.\<close>

function (sequential) texts_ok :: "(string \<Rightarrow> bool) \<Rightarrow> pyval \<Rightarrow> bool"
  and list_ok :: "(string \<Rightarrow> bool) \<Rightarrow> pyval list \<Rightarrow> bool"
  and items_ok :: "(string \<Rightarrow> bool) \<Rightarrow> (pyval \<times> pyval) list \<Rightarrow> bool" where
  "texts_ok Q (PStr s) = Q s"
| "texts_ok Q (PList vs) = list_ok Q vs"
| "texts_ok Q (PDict kvs) = items_ok Q kvs"
| "texts_ok Q v = True"
| "list_ok Q [] = True"
| "list_ok Q (v # vs) = (texts_ok Q v \<and> list_ok Q vs)"
| "items_ok Q [] = True"
| "items_ok Q ((k, v) # kvs) = (texts_ok Q k \<and> texts_ok Q v \<and> items_ok Q kvs)"
  by pat_completeness auto
termination
  by (relation "measure (case_sum (\<lambda>(r, v). size v)
        (case_sum (\<lambda>(r, vs). size_list size vs) (\<lambda>(r, kvs). size_list (size_prod size size) kvs)))") auto

lemma items_ok_set: "texts_ok Q k \<Longrightarrow> texts_ok Q v \<Longrightarrow> items_ok Q kvs \<Longrightarrow> items_ok Q (dict_set k v kvs)"
  by (induction k v kvs rule: dict_set.induct) auto

lemma items_ok_fold:
  "items_ok Q kvs \<Longrightarrow> items_ok Q acc \<Longrightarrow> items_ok Q (fold (\<lambda>(k, v). dict_set k v) kvs acc)"
  by (induction kvs arbitrary: acc) (auto simp: items_ok_set)

lemma clean_ok:
  assumes "\<And>t. Q (redact r t)"
  shows "texts_ok Q (clean r v)" and "list_ok Q (clean_list r vs)" and "items_ok Q (clean_items r kvs)"
  using assms
  by (induction r v and r vs and r kvs rule: clean_clean_list_clean_items.induct) (auto intro!: items_ok_fold)

lemma texts_ok_mono:
  assumes "\<And>t. Q t \<Longrightarrow> P t"
  shows "texts_ok Q v \<Longrightarrow> texts_ok P v" and "list_ok Q vs \<Longrightarrow> list_ok P vs" and "items_ok Q kvs \<Longrightarrow> items_ok P kvs"
  using assms by (induction Q v and Q vs and Q kvs rule: texts_ok_list_ok_items_ok.induct) auto

end
