(* ===== verification/Control_Request.thy ===== *)
theory Control_Request
  imports Redaction Work_Contract Interfaces Coding_Protocol
begin

text \<open>
  \<open>control.py\<close>: the request parser of the control channel, the argument validators, the registry of
  capabilities and the fixed set it is built with. The capabilities' handlers read the running system
  and are not part of a capability here; the worker's environment says what a handler did.
\<close>

section \<open>Request ids\<close>

text \<open>\<open>UUID(text)\<close> accepts more spellings than the one it prints: the prefixes \<open>urn:\<close> and \<open>uuid:\<close>,
  braces, hyphens anywhere, and whatever \<open>int(text, 16)\<close> reads in the 32 characters left.\<close>

definition hex_digit :: "char \<Rightarrow> bool" where
  "hex_digit c = (is_dec c \<or> (65 \<le> cp c \<and> cp c \<le> 70) \<or> (97 \<le> cp c \<and> cp c \<le> 102))"

text \<open>Digits with single underscores between them.\<close>

fun hex_digits :: "string \<Rightarrow> bool" where
  "hex_digits [] = False"
| "hex_digits [c] = hex_digit c"
| "hex_digits (c # d # cs) =
     (hex_digit c \<and> (if d = CHR ''_'' then hex_digits cs else hex_digits (d # cs)))"

text \<open>Without a sign: \<open>0x\<close> may stand in front, with an underscore behind it.\<close>

definition hex_unsigned :: "string \<Rightarrow> bool" where
  "hex_unsigned s =
     (if take 2 s = ''0x'' \<or> take 2 s = ''0X''
      then hex_digits (if take 1 (drop 2 s) = ''_'' then drop 3 s else drop 2 s)
      else hex_digits s)"

text \<open>Whether \<open>int(text, 16)\<close> succeeds with a number that is not negative.\<close>

definition hex_number :: "string \<Rightarrow> bool" where
  "hex_number s = (case strip s of
      [] \<Rightarrow> False
    | c # cs \<Rightarrow>
        if c = CHR ''+'' then hex_unsigned cs
        else if c = CHR ''-'' then hex_unsigned cs \<and> list_all (\<lambda>d. d \<in> {CHR ''0'', CHR ''x'', CHR ''X'', CHR ''_''}) cs
        else hex_unsigned (c # cs))"

fun remove_all :: "string \<Rightarrow> string \<Rightarrow> string" where
  "remove_all p [] = []"
| "remove_all p (c # cs) =
     (if p \<noteq> [] \<and> starts_with p (c # cs) then remove_all p (drop (length p - 1) cs) else c # remove_all p cs)"

definition strip_braces :: "string \<Rightarrow> string" where
  "strip_braces s = (let drop_braces = dropWhile (\<lambda>c. c = CHR ''{'' \<or> c = CHR ''}'')
     in rev (drop_braces (rev (drop_braces s))))"

definition uuid_reads :: "string \<Rightarrow> bool" where
  "uuid_reads s = (let hex = filter (\<lambda>c. c \<noteq> CHR ''-'') (strip_braces (remove_all ''uuid:'' (remove_all ''urn:'' s)))
     in length hex = 32 \<and> hex_number hex)"

section \<open>Parsing\<close>

definition REQUEST_FIELDS :: "string list" where
  "REQUEST_FIELDS = [''schema_version'', ''request_id'', ''capability'', ''arguments'', ''requested_by'',
     ''requested_at'']"

text \<open>Length in UTF-8.\<close>

definition utf8_length :: "string \<Rightarrow> nat" where
  "utf8_length s = sum_list (map (\<lambda>c. if cp c < 128 then 1 else 2) s)"

definition is_name :: "string \<Rightarrow> bool" where
  "is_name s = (1 \<le> length s \<and> length s \<le> 64 \<and>
     list_all (\<lambda>c. word_char c \<or> c = CHR ''.'' \<or> c = CHR ''-'') s)"

definition all_dec :: "nat \<Rightarrow> string \<Rightarrow> bool" where
  "all_dec n s = (length s = n \<and> list_all is_dec s)"

text \<open>The zone of the pattern: \<open>Z\<close> or a signed \<open>hh:mm\<close>.\<close>

definition zone_shape :: "string \<Rightarrow> bool" where
  "zone_shape z = (z = ''Z'' \<or> (length z = 6 \<and> (hd z = CHR ''+'' \<or> hd z = CHR ''-'') \<and>
     all_dec 2 (take 2 (drop 1 z)) \<and> z ! 3 = CHR '':'' \<and> all_dec 2 (drop 4 z)))"

text \<open>\<open>\d{4}-\d{2}-\d{2}T\d{2}:\d{2}:\d{2}(?:\.\d{1,6})?(?:Z|[+-]\d{2}:\d{2})\<close>.\<close>

definition time_shape :: "string \<Rightarrow> bool" where
  "time_shape s = (20 \<le> length s \<and>
     all_dec 4 (take 4 s) \<and> s ! 4 = CHR ''-'' \<and> all_dec 2 (take 2 (drop 5 s)) \<and> s ! 7 = CHR ''-'' \<and>
     all_dec 2 (take 2 (drop 8 s)) \<and> s ! 10 = CHR ''T'' \<and> all_dec 2 (take 2 (drop 11 s)) \<and> s ! 13 = CHR '':'' \<and>
     all_dec 2 (take 2 (drop 14 s)) \<and> s ! 16 = CHR '':'' \<and> all_dec 2 (take 2 (drop 17 s)) \<and>
     (case drop 19 s of
        [] \<Rightarrow> False
      | c # r \<Rightarrow> if c = CHR ''.''
                then (let k = length (takeWhile is_dec r) in 1 \<le> k \<and> k \<le> 6 \<and> zone_shape (drop k r))
                else zone_shape (c # r)))"

definition check_names :: "request \<Rightarrow> unit result" where
  "check_names d = guard
     (list_all (\<lambda>k. case dget d k of PStr s \<Rightarrow> is_name s | _ \<Rightarrow> False) [''capability'', ''requested_by''])
     (Rejected ''request_schema'')"

definition check_uuid :: "pyval \<Rightarrow> unit result" where
  "check_uuid v = (case v of
      PStr s \<Rightarrow> if is_uuid s then Inr () else if uuid_reads s then Inl (Rejected ''request_id'')
               else Inl (ValueError ''badly formed hexadecimal UUID string'')
    | _ \<Rightarrow> Inl (Rejected ''request_id''))"

definition check_time :: "int \<Rightarrow> pyval \<Rightarrow> unit result" where
  "check_time now v = (case v of
      PStr s \<Rightarrow> if \<not> time_shape s then Inl (Rejected ''requested_at'')
        else andThen (iso_time (PStr s)) (\<lambda>t. case dt_offset t of
            None \<Rightarrow> Inl TypeError
          | Some off \<Rightarrow> guard (fresh_age (now - utc_micros t off)) (Rejected ''request_expired_or_future''))
    | _ \<Rightarrow> Inl (Rejected ''requested_at''))"

definition check_control :: "int \<Rightarrow> pyval \<Rightarrow> request result" where
  "check_control now v = (case v of
      PDict d \<Rightarrow>
        andThen (guard (same_keys d REQUEST_FIELDS \<and> dget d ''schema_version'' = PStr ''0.1'')
                   (Rejected ''request_schema'')) (\<lambda>_.
        andThen (check_uuid (dget d ''request_id'')) (\<lambda>_.
        andThen (check_names d) (\<lambda>_.
        andThen (guard (is_dict (dget d ''arguments'')) (Rejected ''arguments'')) (\<lambda>_.
        andThen (check_time now (dget d ''requested_at'')) (\<lambda>_. Inr d)))))
    | _ \<Rightarrow> Inl (Rejected ''request_schema''))"

definition control_error :: "exn \<Rightarrow> exn" where
  "control_error e =
     (if \<not> is_rejected e \<and> (is_value_error e \<or> e = TypeError \<or> e = OverflowError \<or> e = RecursionError)
      then Rejected ''malformed_request'' else e)"

definition parse_request :: "(string \<Rightarrow> json) \<Rightarrow> int \<Rightarrow> pyval \<Rightarrow> request result" where
  "parse_request reading now body = (case body of
      PStr s \<Rightarrow>
        if 8192 < utf8_length s then Inl (Rejected ''request_size'')
        else (case andThen (loads (Some (Rejected ''duplicate_json_key'')) (Some (ValueError [])) (reading s))
                (check_control now) of
            Inr d \<Rightarrow> Inr d
          | Inl e \<Rightarrow> Inl (control_error e))
    | _ \<Rightarrow> Inl (Rejected ''request_size''))"

section \<open>Arguments\<close>

definition no_arguments :: "request \<Rightarrow> request result" where
  "no_arguments d = (if d \<noteq> [] then Inl (Rejected ''invalid_arguments'') else Inr [])"

definition log_arguments :: "request \<Rightarrow> request result" where
  "log_arguments d =
     (if \<not> list_all (\<lambda>k. k = PStr ''lines'') (map fst d) then Inl (Rejected ''invalid_arguments'')
      else (case dget_or d ''lines'' (PInt 30) of
          PInt n \<Rightarrow> if 1 \<le> n \<and> n \<le> 100 then Inr [(PStr ''lines'', PInt n)] else Inl (Rejected ''invalid_arguments'')
        | _ \<Rightarrow> Inl (Rejected ''invalid_arguments'')))"

section \<open>Capabilities\<close>

record capability =
  cap_id :: string
  cap_about :: string
  cap_risk :: string
  cap_schema :: pyval
  cap_validate :: "request \<Rightarrow> request result"
  cap_effect :: string

definition bounded_work :: "capability \<Rightarrow> bool" where
  "bounded_work c = ((cap_id c = ''work.submit'' \<or> cap_id c = ''work.cancel'') \<and> cap_risk c = ''bounded_work'' \<and>
     cap_effect c = ''local_work_handoff'')"

type_synonym capabilities = "(string \<times> capability) list"

definition register :: "capability \<Rightarrow> capabilities \<Rightarrow> capabilities result" where
  "register c r =
     (if map_of r (cap_id c) \<noteq> None then Inl (Rejected ''duplicate_capability'')
      else if \<not> bounded_work c \<and> (cap_risk c \<noteq> ''read_only'' \<or> cap_effect c \<noteq> ''none'')
        then Inl (Rejected ''capability_policy_denied'')
      else Inr (dict_set (cap_id c) c r))"

fun register_each :: "capability list \<Rightarrow> capabilities \<Rightarrow> capabilities result" where
  "register_each [] r = Inr r"
| "register_each (c # cs) r = andThen (register c r) (register_each cs)"

interpretation capability_registry: registry register "\<lambda>r k. map_of r k" cap_id
  by unfold_locales (auto simp: register_def map_of_dict_set fun_eq_iff split: if_splits)

definition new_registry :: "capability list \<Rightarrow> capabilities result" where
  "new_registry caps = register_each caps []"

lemma register_each_all: "register_each caps r = capability_registry.register_all caps r"
  by (induction caps arbitrary: r) (auto intro: arg_cong [where f = "andThen r" for r])

definition resolve :: "string \<Rightarrow> request \<Rightarrow> capabilities \<Rightarrow> (capability \<times> request) result" where
  "resolve name args r = (case map_of r name of
      None \<Rightarrow> Inl (Rejected ''unknown_capability'')
    | Some c \<Rightarrow> andThen (cap_validate c args) (\<lambda>a. Inr (c, a)))"

section \<open>The fixed registry\<close>

definition empty_schema :: pyval where
  "empty_schema = sdict [(''type'', PStr ''object''), (''additionalProperties'', PBool False), (''properties'', sdict [])]"

definition health_capability :: capability where
  "health_capability = \<lparr>cap_id = ''runtime.health'', cap_about = ''Core process liveness and last manual run'',
     cap_risk = ''read_only'', cap_schema = empty_schema, cap_validate = no_arguments, cap_effect = ''none''\<rparr>"

definition core_capability :: "string \<Rightarrow> capability" where
  "core_capability kind = \<lparr>cap_id = ''core.'' @ kind, cap_about = ''Fresh read-only Core '' @ kind,
     cap_risk = ''read_only'', cap_schema = empty_schema, cap_validate = no_arguments, cap_effect = ''none''\<rparr>"

definition logs_capability :: capability where
  "logs_capability = \<lparr>cap_id = ''runtime.logs_tail'', cap_about = ''Bounded redacted Core lifecycle log'',
     cap_risk = ''read_only'',
     cap_schema = sdict [(''type'', PStr ''object''), (''additionalProperties'', PBool False),
       (''properties'', sdict [(''lines'', sdict [(''type'', PStr ''integer''), (''minimum'', PInt 1),
          (''maximum'', PInt 100)])])],
     cap_validate = log_arguments, cap_effect = ''none''\<rparr>"

text \<open>\<open>except (WorkRejected, ValueError, TypeError, RecursionError)\<close>.\<close>

definition work_validate :: "(string \<Rightarrow> request \<Rightarrow> request result) \<Rightarrow> string \<Rightarrow> request \<Rightarrow> request result" where
  "work_validate arguments operation d = (case arguments operation d of
      Inr a \<Rightarrow> Inr a
    | Inl e \<Rightarrow> Inl (if is_rejected e \<or> is_value_error e \<or> e = TypeError \<or> e = RecursionError
                   then Rejected ''invalid_work_arguments'' else e))"

definition work_capability :: "(string \<Rightarrow> request \<Rightarrow> request result) \<Rightarrow> string \<Rightarrow> capability" where
  "work_capability arguments operation =
     (let field = (if operation = ''work.submit'' then ''contract'' else ''task_id'') in
      \<lparr>cap_id = operation, cap_about = ''Bounded local Work Runner operation'',
       cap_risk = (if operation = ''work.status'' then ''read_only'' else ''bounded_work''),
       cap_schema = sdict [(''type'', PStr ''object''), (''additionalProperties'', PBool False),
         (''required'', PList [PStr field]),
         (''properties'', sdict [(field, sdict [(''type'',
            PStr (if field = ''contract'' then ''object'' else ''string''))])])],
       cap_validate = work_validate arguments operation,
       cap_effect = (if operation = ''work.status'' then ''none'' else ''local_work_handoff'')\<rparr>)"

definition all_capabilities :: "(string \<Rightarrow> request \<Rightarrow> request result) option \<Rightarrow> capability list" where
  "all_capabilities work =
     [health_capability] @ map core_capability [''health'', ''snapshot'', ''report'', ''rollup_proposals''] @
     [logs_capability] @
     (case work of None \<Rightarrow> []
      | Some arguments \<Rightarrow> map (work_capability arguments) [''work.submit'', ''work.status'', ''work.cancel''])"

definition build_registry :: "(string \<Rightarrow> request \<Rightarrow> request result) option \<Rightarrow> capabilities result" where
  "build_registry work = new_registry (all_capabilities work)"

section \<open>Lemmas\<close>

text \<open>What the registry's policy admits under a name.\<close>

definition admitted :: "string \<Rightarrow> capability \<Rightarrow> bool" where
  "admitted k c = (cap_id c = k \<and> (bounded_work c \<or> cap_risk c = ''read_only'' \<and> cap_effect c = ''none''))"

lemma register_admitted:
  "register d r = Inr q \<Longrightarrow> (\<And>k c. map_of r k = Some c \<Longrightarrow> admitted k c) \<Longrightarrow> map_of q j = Some e \<Longrightarrow> admitted j e"
  by (cases "j = cap_id d") (auto simp: register_def map_of_dict_set admitted_def [of "cap_id e" e] split: if_splits)

lemma registered_admitted:
  "register_each caps r = Inr r' \<Longrightarrow> (\<And>k c. map_of r k = Some c \<Longrightarrow> admitted k c) \<Longrightarrow>
   map_of r' k = Some c \<Longrightarrow> admitted k c"
proof (induction caps arbitrary: r)
  case (Cons d caps)
  from Cons.prems(1) obtain q where q: "register d r = Inr q" "register_each caps q = Inr r'"
    by (auto simp: andThen_Inr_iff)
  show ?case
    using register_admitted [OF q(1) Cons.prems(2)] by (intro Cons.IH [OF q(2) _ Cons.prems(3)]) blast
qed simp

lemma parse_request_Inr:
  assumes "parse_request reading now body = Inr d"
  shows "same_keys d REQUEST_FIELDS \<and> (\<exists>i. dget d ''request_id'' = PStr i \<and> is_uuid i) \<and>
    (\<exists>c. dget d ''capability'' = PStr c \<and> is_name c) \<and> (\<exists>a. dget d ''arguments'' = PDict a) \<and> uniq (PDict d)"
proof -
  from assms obtain s v where s: "body = PStr s"
    "loads (Some (Rejected ''duplicate_json_key'')) (Some (ValueError [])) (reading s) = Inr v"
    "check_control now v = Inr d"
    by (auto simp: parse_request_def andThen_Inr_iff split: pyval.splits if_splits sum.splits)
  from loads_uniq [OF s(2)] s(3) show ?thesis
    by (auto simp: check_control_def check_uuid_def check_names_def andThen_Inr_iff guard_Inr_iff
        split: pyval.splits if_splits elim: is_dict.elims)
qed

lemma registered_known: "register_each caps r = Inr r' \<Longrightarrow> map_of r' k = Some c \<Longrightarrow> c \<in> set caps \<or> map_of r k = Some c"
proof (induction caps arbitrary: r)
  case (Cons d caps)
  from Cons.prems(1) obtain q where q: "register d r = Inr q" "register_each caps q = Inr r'"
    by (auto simp: andThen_Inr_iff)
  from Cons.IH [OF q(2) Cons.prems(2)] q(1) show ?case
    by (auto simp: register_def map_of_dict_set split: if_splits)
qed simp

text \<open>Every exception of the parser's body becomes a policy code.\<close>

lemma control_errors:
  assumes "decoder_stops t"
    and "andThen (loads (Some (Rejected ''duplicate_json_key'')) (Some (ValueError [])) t) (check_control now) = Inl e"
  shows "is_rejected (control_error e)"
proof -
  have "is_rejected e \<or> is_value_error e \<or> e = TypeError \<or> e = RecursionError"
  proof (cases "loads (Some (Rejected ''duplicate_json_key'')) (Some (ValueError [])) t")
    case (Inl e')
    with loads_errors [OF _ _ assms(1) Inl] assms(2) show ?thesis by auto
  next
    case (Inr v)
    with assms(2) have "check_control now v = Inl e" by simp
    then show ?thesis
      by (auto simp: check_control_def check_uuid_def check_names_def check_time_def iso_time_def andThen_Inl_iff
          guard_Inl_iff split: pyval.splits if_splits option.splits)
  qed
  then show ?thesis by (auto simp: control_error_def)
qed

end
