(* ===== verification/Control_Worker.thy ===== *)
theory Control_Worker
  imports Control_Request
begin

text \<open>
  \<open>control_worker.py\<close>: a request is written to disk before its handler runs, a delivery before its
  result is posted. Records are the Python dicts that are saved; everything saved or posted has gone
  through the redactor. What the transport, the handlers and the signals do is given per issue; a
  process can die at any durable write and in a handler. \<open>handled\<close> and \<open>comments\<close> are ghosts: the
  request ids whose handler was called, and the comments that reached the issue.
\<close>

section \<open>State\<close>

record control = disk +
  requests :: "(string \<times> pyval) list"
  deliveries :: "(int \<times> pyval) list"
  worker_status :: pyval
  handled :: "string list"
  comments :: "(int \<times> pyval) list"

type_synonym 'a worker = "(control, 'a) eff"

definition dputs :: "request \<Rightarrow> (string \<times> pyval) list \<Rightarrow> request" where
  "dputs d kvs = fold (\<lambda>(k, v). dict_set (PStr k) v) kvs d"

text \<open>\<open>durable_json\<close> fails before it touches the file when the value is not JSON.\<close>

definition encodes :: "pyval \<Rightarrow> unit result" where
  "encodes v = (case json_default v of None \<Rightarrow> Inl TypeError | Some t \<Rightarrow> Inr ())"

definition save_with :: "string list \<Rightarrow> (pyval \<Rightarrow> control \<Rightarrow> control) \<Rightarrow> pyval \<Rightarrow> unit worker" where
  "save_with r put v = io_bind (io_result (encodes (clean r v))) (\<lambda>_. durable (put (clean r v)))"

definition set_request :: "string \<Rightarrow> pyval \<Rightarrow> control \<Rightarrow> control" where
  "set_request i v s = s\<lparr>requests := dict_set i v (requests s)\<rparr>"

definition set_delivery :: "int \<Rightarrow> pyval \<Rightarrow> control \<Rightarrow> control" where
  "set_delivery n v s = s\<lparr>deliveries := dict_set n v (deliveries s)\<rparr>"

definition set_worker_status :: "pyval \<Rightarrow> control \<Rightarrow> control" where
  "set_worker_status v s = s\<lparr>worker_status := v\<rparr>"

definition load_json :: "('k \<times> pyval) list \<Rightarrow> 'k \<Rightarrow> pyval" where
  "load_json files k = (case map_of files k of Some v \<Rightarrow> v | None \<Rightarrow> PNone)"

interpretation request_files: records "\<lambda>s. map_of (requests s)" set_request
  by unfold_locales (simp add: set_request_def map_of_dict_set)

interpretation delivery_files: records "\<lambda>s. map_of (deliveries s)" set_delivery
  by unfold_locales (simp add: set_delivery_def map_of_dict_set)

section \<open>One issue\<close>

definition TITLE :: string where
  "TITLE = ''pab-control/v0.1''"

definition CONTROL_REPOSITORY :: string where
  "CONTROL_REPOSITORY = ''Az1mutt/personal-project-brain''"

datatype handler_outcome = Answers pyval | Throws exn | Kills

text \<open>A comment may arrive although the call failed.\<close>

datatype posting = Posted | Lost exn | Refused exn

record visit =
  vi_stop :: bool
  vi_pulse :: "unit result"
  vi_issue :: "pyval result"
  vi_now :: int
  vi_handler :: handler_outcome
  vi_post :: posting
  vi_close :: "unit result"

definition titled :: "pyval \<Rightarrow> bool result" where
  "titled issue = andThen (vget issue ''title'') (\<lambda>t.
     Inr (t = PStr TITLE \<and> \<not> has_key ''pull_request'' (dict_or_empty issue)))"

definition still_open :: "pyval \<Rightarrow> bool result" where
  "still_open issue = andThen (vget issue ''state'') (\<lambda>st.
     if st \<noteq> PStr ''open'' then Inr False else titled issue)"

definition first_record :: "int \<Rightarrow> string \<Rightarrow> request" where
  "first_record n at = dputs [] [(''received_at'', PStr at),
     (''transport_issue'', PStr (CONTROL_REPOSITORY @ ''#'' @ show_int n)),
     (''request_id'', PStr (''invalid-issue-'' @ show_int n)), (''capability'', PNone), (''arguments'', PDict []),
     (''validation'', PStr ''rejected''), (''execution_start'', PNone), (''execution_end'', PNone)]"

text \<open>The record as far as it got, and the capability with its arguments and the request's id.\<close>

definition admit_request ::
  "(string \<Rightarrow> json) \<Rightarrow> int \<Rightarrow> capabilities \<Rightarrow> pyval \<Rightarrow> request \<Rightarrow>
   request \<times> (capability \<times> request \<times> string) result" where
  "admit_request reading now reg body rec = (case parse_request reading now body of
      Inl e \<Rightarrow> (rec, Inl e)
    | Inr d \<Rightarrow> (let rec1 = dputs rec (map (\<lambda>k. (k, dget d k))
          [''request_id'', ''capability'', ''requested_by'', ''requested_at'']) in
        case resolve (str_val (dget d ''capability'')) (dict_or_empty (dget d ''arguments'')) reg of
          Inl e \<Rightarrow> (rec1, Inl e)
        | Inr (c, args) \<Rightarrow> (dputs rec1 [(''arguments'', PDict args), (''validation'', PStr ''accepted'')],
              Inr (c, args, str_val (dget d ''request_id'')))))"

definition duplicate_record :: "request \<Rightarrow> pyval \<Rightarrow> request result" where
  "duplicate_record rec existing =
     andThen (subscript existing ''status'') (\<lambda>st.
     andThen (subscript existing ''transport_issue'') (\<lambda>issue.
     andThen (vget existing ''result'') (\<lambda>res.
       Inr (dputs rec [(''status'', PStr ''duplicate''), (''original_status'', st), (''original_issue'', issue),
         (''result'', res)]))))"

text \<open>A request found \<open>processing\<close> was interrupted: it is closed, not repeated.\<close>

definition repeated :: "string list \<Rightarrow> string \<Rightarrow> request \<Rightarrow> pyval \<Rightarrow> request worker" where
  "repeated r i rec existing =
     io_bind (io_result (subscript existing ''status'')) (\<lambda>st.
     if st = PStr ''processing''
     then io_bind stamp (\<lambda>at.
       let closed = PDict (dputs (dict_or_empty existing) [(''status'', PStr ''capability_execution_failed''),
             (''error'', PStr ''interrupted_execution_not_retried''), (''execution_end'', PStr at)])
       in io_bind (save_with r (set_request i) closed) (\<lambda>_. io_result (duplicate_record rec closed)))
     else io_result (duplicate_record rec existing))"

definition call_handler :: "string \<Rightarrow> handler_outcome \<Rightarrow> unit worker" where
  "call_handler i h s = ((case h of Kills \<Rightarrow> Died | _ \<Rightarrow> Return ()), s\<lparr>handled := handled s @ [i]\<rparr>)"

definition outcome_record :: "string list \<Rightarrow> request \<Rightarrow> handler_outcome \<Rightarrow> request" where
  "outcome_record r rec h = (case h of
      Answers v \<Rightarrow> dputs rec [(''status'', PStr ''capability_completed''), (''result'', clean r v)]
    | Throws e \<Rightarrow> dputs rec [(''status'', PStr ''capability_execution_failed''), (''error'', PStr (case e of
         CapabilityFailed c \<Rightarrow> ''source_read_failure''
       | ExecutionTimeout \<Rightarrow> ''execution_timeout''
       | _ \<Rightarrow> ''handler_failed''))]
    | Kills \<Rightarrow> rec)"

definition finish_handling :: "string list \<Rightarrow> string \<Rightarrow> request \<Rightarrow> handler_outcome \<Rightarrow> request worker" where
  "finish_handling r i rec h = io_bind stamp (\<lambda>at.
     let done = dputs (outcome_record r rec h) [(''execution_end'', PStr at)] in
     io_bind (save_with r (set_request i) (PDict done)) (\<lambda>_. io_return done))"

definition first_time :: "string list \<Rightarrow> string \<Rightarrow> request \<Rightarrow> handler_outcome \<Rightarrow> request worker" where
  "first_time r i rec h =
     io_bind stamp (\<lambda>at.
     let started = dputs rec [(''status'', PStr ''processing''), (''execution_start'', PStr at)] in
     io_bind (save_with r (set_request i) (PDict started)) (\<lambda>_.
     io_bind (call_handler i h) (\<lambda>_. finish_handling r i started h)))"

definition execute_request :: "string list \<Rightarrow> string \<Rightarrow> request \<Rightarrow> handler_outcome \<Rightarrow> request worker" where
  "execute_request r i rec h = io_bind (io_get (\<lambda>s. load_json (requests s) i)) (\<lambda>existing.
     if truthy existing then repeated r i rec existing else first_time r i rec h)"

definition rejected_record :: "request \<Rightarrow> exn \<Rightarrow> request worker" where
  "rejected_record rec e = (case e of
      Rejected c \<Rightarrow> io_return (dputs rec [(''status'', PStr ''request_rejected''), (''error'', PStr c)])
    | _ \<Rightarrow> io_raise e)"

definition store_delivery :: "string list \<Rightarrow> int \<Rightarrow> request \<Rightarrow> pyval option worker" where
  "store_delivery r n rec =
     (let delivery = sdict [(''record'', PDict rec), (''posted'', PBool False), (''closed'', PBool False)] in
      io_bind (save_with r (set_delivery n) delivery) (\<lambda>_. io_return (Some delivery)))"

definition new_delivery ::
  "string list \<Rightarrow> (string \<Rightarrow> json) \<Rightarrow> capabilities \<Rightarrow> int \<Rightarrow> visit \<Rightarrow> pyval option worker" where
  "new_delivery r reading reg n vi =
     io_bind (io_result (vi_issue vi)) (\<lambda>issue.
     io_bind (io_result (still_open issue)) (\<lambda>ok.
     if \<not> ok then io_return None
     else io_bind stamp (\<lambda>at.
       io_bind (case admit_request reading (vi_now vi) reg (dget (dict_or_empty issue) ''body'') (first_record n at) of
           (rec, Inl e) \<Rightarrow> rejected_record rec e
         | (rec, Inr (c, args, i)) \<Rightarrow> execute_request r i rec (vi_handler vi)) (store_delivery r n))))"

section \<open>Posting\<close>

definition bounded_result :: "string list \<Rightarrow> pyval \<Rightarrow> pyval result" where
  "bounded_result r v = (case json_default (clean r v) of
      None \<Rightarrow> Inl TypeError
    | Some t \<Rightarrow> Inr (if length t \<le> 16000 then clean r v
        else sdict [(''truncated'', PBool True), (''preview_json'', PStr (take 8000 t)),
                    (''full_result'', PStr ''local_private_audit'')]))"

definition envelope :: "string list \<Rightarrow> pyval \<Rightarrow> pyval result" where
  "envelope r rec =
     andThen (map_result (\<lambda>k. andThen (subscript rec k) (\<lambda>v. Inr (k, v)))
        [''request_id'', ''capability'', ''status'']) (\<lambda>fixed.
     andThen (map_result (\<lambda>k. andThen (vget rec k) (\<lambda>v. Inr (k, v)))
        [''execution_start'', ''execution_end'', ''error'', ''original_status'']) (\<lambda>optional.
     andThen (vget rec ''result'') (\<lambda>res.
     andThen (bounded_result r res) (\<lambda>bounded.
       Inr (sdict ([(''schema_version'', PStr ''0.1'')] @ fixed @ optional @ [(''result'', bounded)]))))))"

definition post_comment :: "int \<Rightarrow> pyval \<Rightarrow> posting \<Rightarrow> unit worker" where
  "post_comment n v p s = (let arrived = s\<lparr>comments := comments s @ [(n, v)]\<rparr> in case p of
      Posted \<Rightarrow> (Return (), arrived) | Lost e \<Rightarrow> (Raise e, arrived) | Refused e \<Rightarrow> (Raise e, s))"

definition post_delivery :: "string list \<Rightarrow> int \<Rightarrow> pyval \<Rightarrow> pyval \<Rightarrow> posting \<Rightarrow> pyval worker" where
  "post_delivery r n rec delivery p =
     io_bind (io_result (envelope r rec)) (\<lambda>env.
     io_bind (post_comment n (clean r env) p) (\<lambda>_.
     let posted = PDict (dputs (dict_or_empty delivery) [(''posted'', PBool True)]) in
     io_bind (save_with r (set_delivery n) posted) (\<lambda>_. io_return posted)))"

definition deliver :: "string list \<Rightarrow> int \<Rightarrow> pyval \<Rightarrow> visit \<Rightarrow> pyval worker" where
  "deliver r n delivery vi =
     io_bind (io_result (subscript delivery ''record'')) (\<lambda>rec.
     io_bind (io_result (subscript delivery ''posted'')) (\<lambda>p.
     io_bind (if truthy p then io_return delivery else post_delivery r n rec delivery (vi_post vi)) (\<lambda>posted.
     io_bind (io_result (vi_close vi)) (\<lambda>_.
     let closed = PDict (dputs (dict_or_empty posted) [(''closed'', PBool True)]) in
     io_bind (save_with r (set_delivery n) closed) (\<lambda>_. io_result (subscript rec ''status''))))))"

definition process_issue ::
  "string list \<Rightarrow> (string \<Rightarrow> json) \<Rightarrow> capabilities \<Rightarrow> pyval \<Rightarrow> visit \<Rightarrow> pyval worker" where
  "process_issue r reading reg issue vi =
     (let unavailable = TransportError ''transport_unavailable'' 60 in
     io_bind (io_result (subscript issue ''number'')) (\<lambda>v. case v of
       PInt n \<Rightarrow> (if n < 1 then io_raise unavailable
         else io_bind (io_get (\<lambda>s. load_json (deliveries s) n)) (\<lambda>loaded.
           io_bind (if loaded = PNone then new_delivery r reading reg n vi else io_return (Some loaded)) (\<lambda>d. case d of
             None \<Rightarrow> io_return PNone
           | Some delivery \<Rightarrow> deliver r n delivery vi)))
     | _ \<Rightarrow> io_raise unavailable))"

section \<open>A page of issues\<close>

fun visit_issues ::
  "string list \<Rightarrow> (string \<Rightarrow> json) \<Rightarrow> capabilities \<Rightarrow> pyval list \<Rightarrow> visit list \<Rightarrow> pyval \<Rightarrow> pyval worker" where
  "visit_issues r reading reg [] vs prev = io_return prev"
| "visit_issues r reading reg (i # is) [] prev = (\<lambda>s. (Died, s))"
| "visit_issues r reading reg (i # is) (vi # vs) prev =
     (if vi_stop vi then io_return prev
      else io_bind (io_result (vi_pulse vi)) (\<lambda>_.
        io_bind (io_result (titled i)) (\<lambda>ours.
        io_bind (if ours then io_bind (process_issue r reading reg i vi) (\<lambda>st. io_return (if truthy st then st else prev))
                 else io_return prev) (visit_issues r reading reg is vs))))"

text \<open>What the outside does in one round: whether another worker holds the lock, the page and the visits.\<close>

record round =
  ro_pulse :: "unit result"
  ro_busy :: bool
  ro_page :: "pyval list result"
  ro_visits :: "visit list"

definition control_tick :: "string list \<Rightarrow> (string \<Rightarrow> json) \<Rightarrow> capabilities \<Rightarrow> round \<Rightarrow> pyval worker" where
  "control_tick r reading reg ro =
     (if ro_busy ro then io_return (sdict [(''transport'', PStr ''worker_busy'')])
      else io_bind (io_get worker_status) (\<lambda>loaded.
        let status = (if truthy loaded then loaded else PDict []) in
        io_bind (io_result (andThen (vget status ''last_request_status'') (\<lambda>l.
            Inr (dget_or (dict_or_empty status) ''next_page'' (PInt 1), l)))) (\<lambda>(page, prev).
        io_bind (io_result (ro_page ro)) (\<lambda>issues.
        io_bind (visit_issues r reading reg issues (ro_visits ro) prev) (\<lambda>prev'.
        io_bind stamp (\<lambda>at.
        io_bind (io_result (if length issues = 100 then (case num_val page of Some n \<Rightarrow> Inr (PInt (n + 1))
                   | None \<Rightarrow> Inl TypeError) else Inr (PInt 1))) (\<lambda>next.
        let result = sdict [(''transport'', PStr ''healthy''), (''checked_at'', PStr at), (''next_page'', next),
              (''last_request_status'', prev')]
        in io_bind (save_with r set_worker_status result) (\<lambda>_. io_return result))))))))"

section \<open>The service\<close>

definition backoff :: "nat \<Rightarrow> int \<Rightarrow> int" where
  "backoff failures retry = max retry (min 900 (60 * 2 ^ min (failures - 1) 4))"

definition poll_interval :: "int \<Rightarrow> int" where
  "poll_interval n = max 15 (min 300 n)"

text \<open>One turn of \<open>serve\<close>'s loop: the failures in a row and the delay before the next turn.\<close>

definition serve_round ::
  "string list \<Rightarrow> (string \<Rightarrow> json) \<Rightarrow> capabilities \<Rightarrow> int \<Rightarrow> nat \<Rightarrow> round \<Rightarrow> (nat \<times> int) worker" where
  "serve_round r reading reg interval failures ro =
     io_bind (io_result (ro_pulse ro)) (\<lambda>_.
     io_catch (io_bind (control_tick r reading reg ro) (\<lambda>_. io_return (0, interval))) (\<lambda>e. case e of
       TransportError code retry \<Rightarrow>
         (let f = failures + 1; d = backoff f retry in
          io_bind stamp (\<lambda>at. io_bind (save_with r set_worker_status (sdict [(''transport'', PStr code),
              (''checked_at'', PStr at), (''retry_in_seconds'', PInt d)])) (\<lambda>_. io_return (f, d))))
     | _ \<Rightarrow>
         io_bind stamp (\<lambda>at. io_bind (save_with r set_worker_status (sdict [(''transport'', PStr ''worker_failure''),
              (''checked_at'', PStr at)])) (\<lambda>_. io_return (failures, 60)))))"

text \<open>\<open>health\<close>: the heartbeat as it was read, whether it is recent, and the status file.\<close>

definition control_health :: "pyval result \<Rightarrow> (pyval \<Rightarrow> bool result) \<Rightarrow> pyval result \<Rightarrow> (pyval \<times> nat) result" where
  "control_health beat recent status =
     (case andThen beat (\<lambda>b. if \<not> truthy b then Inl (ValueError [])
          else andThen (subscript b ''time'') (\<lambda>t. andThen (recent t) (\<lambda>ok. if \<not> ok then Inl (ValueError [])
          else andThen status (\<lambda>s0. let s = (if truthy s0 then s0 else sdict [(''transport'', PStr ''not_checked'')]) in
            case s of
              PDict d \<Rightarrow> andThen (subscript s ''transport'') (\<lambda>tr.
                Inr (PDict (fold (\<lambda>(k, v). dict_set k v) d [(PStr ''runtime'', PStr ''healthy'')]),
                     if tr = PStr ''healthy'' then 0 else 3))
            | _ \<Rightarrow> Inl TypeError)))) of
        Inr h \<Rightarrow> Inr h
      | Inl e \<Rightarrow> if is_os_error e \<or> is_value_error e \<or> e = TypeError \<or> e = KeyError
                then Inr (sdict [(''runtime'', PStr ''unavailable'')], 1) else Inl e)"

end
