(* ===== verification/Control_Invariant.thy ===== *)
theory Control_Invariant
  imports Control_Worker
begin

text \<open>
  What every operation of the control worker keeps, at every crash point and whatever the transport and
  the handlers do: one call of a handler per request id, a delivery on disk for every comment, and nothing
  on disk or posted that the redactor removes.
\<close>

section \<open>Invariant\<close>

text \<open>Everything saved or posted.\<close>

definition visible :: "control \<Rightarrow> pyval set" where
  "visible s = snd ` set (requests s) \<union> snd ` set (deliveries s) \<union> {worker_status s} \<union> snd ` set (comments s)"

definition control_ok :: "(string \<Rightarrow> bool) \<Rightarrow> control \<Rightarrow> bool" where
  "control_ok Q s =
     (distinct (handled s) \<and>
      (\<forall>i\<in>set (handled s). truthy (load_json (requests s) i)) \<and>
      (\<forall>n\<in>fst ` set (comments s). load_json (deliveries s) n \<noteq> PNone) \<and>
      (\<forall>v\<in>visible s. texts_ok Q v))"

definition control_step :: "(string \<Rightarrow> bool) \<Rightarrow> control \<Rightarrow> control \<Rightarrow> bool" where
  "control_step Q s s' = (control_ok Q s \<longrightarrow> control_ok Q s')"

interpretation control: step_relation "control_step Q" for Q
  by unfold_locales (auto simp: control_step_def)

lemma control_frame [simp]:
  "control_ok Q (s\<lparr>plan := p\<rparr>) = control_ok Q s" "control_ok Q (s\<lparr>ticks := k\<rparr>) = control_ok Q s"
  by (simp_all add: control_ok_def visible_def)

lemma stamp_control [intro!]: "keeps (control_step Q) stamp"
  by (simp add: keeps_def control_step_def stamp_def)

section \<open>Saving\<close>

lemma dict_set_values: "(j, w) \<in> set (dict_set k v kvs) \<Longrightarrow> w = v \<or> (j, w) \<in> set kvs"
  by (induction k v kvs rule: dict_set.induct) (auto split: if_splits)

lemma load_dict_set: "load_json (dict_set k v kvs) j = (if j = k then v else load_json kvs j)"
  by (simp add: load_json_def map_of_dict_set)

lemma visible_put:
  "visible (set_request i v s) \<subseteq> insert v (visible s)" "visible (set_delivery n v s) \<subseteq> insert v (visible s)"
  by (auto simp: visible_def set_request_def set_delivery_def image_iff dest!: dict_set_values)

lemma set_request_ok:
  assumes "control_ok Q s" "texts_ok Q v" "truthy v"
  shows "control_ok Q (set_request i v s)"
proof -
  have "\<forall>w\<in>visible (set_request i v s). texts_ok Q w"
    using visible_put(1) assms(1,2) unfolding control_ok_def by blast
  with assms(1,3) show ?thesis by (simp add: control_ok_def load_dict_set set_request_def)
qed

lemma set_delivery_ok:
  assumes "control_ok Q s" "texts_ok Q v" "v \<noteq> PNone"
  shows "control_ok Q (set_delivery n v s)"
proof -
  have "\<forall>w\<in>visible (set_delivery n v s). texts_ok Q w"
    using visible_put(2) assms(1,2) unfolding control_ok_def by blast
  with assms(1,3) show ?thesis by (simp add: control_ok_def load_dict_set set_delivery_def)
qed

lemma set_worker_status_ok: "control_ok Q s \<Longrightarrow> texts_ok Q v \<Longrightarrow> control_ok Q (set_worker_status v s)"
  by (auto simp: control_ok_def set_worker_status_def visible_def)

lemma durable_ok:
  assumes "\<And>s. control_ok Q s \<Longrightarrow> control_ok Q (f s)"
  shows "control_step Q s (snd (durable f s))"
  using assms by (auto simp: control_step_def durable_def split: list.split fault.split)

lemma dict_set_not_empty [simp]: "dict_set k v kvs \<noteq> []"
  by (induction k v kvs rule: dict_set.induct) auto

lemma fold_not_empty:
  "acc \<noteq> [] \<Longrightarrow> fold (\<lambda>(k, v). dict_set k v) kvs acc \<noteq> []"
  "acc \<noteq> [] \<Longrightarrow> dputs acc kvs' \<noteq> []"
proof -
  show "acc \<noteq> [] \<Longrightarrow> fold (\<lambda>(k, v). dict_set k v) kvs acc \<noteq> []"
  proof (induction kvs arbitrary: acc)
    case (Cons p ps)
    then show ?case by (cases p) (simp del: fold.simps add: fold_simps)
  qed simp
  show "acc \<noteq> [] \<Longrightarrow> dputs acc kvs' \<noteq> []"
    unfolding dputs_def
  proof (induction kvs' arbitrary: acc)
    case (Cons p ps)
    then show ?case by (cases p) (simp del: fold.simps add: fold_simps)
  qed simp
qed

lemma clean_truthy:
  assumes "kvs \<noteq> []"
  shows "truthy (clean r (PDict kvs))"
proof -
  from assms obtain k v ps where "kvs = (k, v) # ps" by (cases kvs) auto
  then show ?thesis using fold_not_empty(1) by (simp del: fold.simps add: fold_simps)
qed

lemma dputs_not_empty: "kvs \<noteq> [] \<Longrightarrow> dputs d kvs \<noteq> []"
proof (cases kvs)
  case (Cons p ps)
  obtain k v where "p = (k, v)" by (cases p)
  then have "dputs d kvs = dputs (dict_set (PStr k) v d) ps" by (simp add: dputs_def Cons)
  then show ?thesis using fold_not_empty(2) by simp
qed simp

text \<open>Every value cleaned by the redactor \<open>r\<close> satisfies \<open>Q\<close> in all its texts.\<close>

locale redacting =
  fixes r :: "string list" and Q :: "string \<Rightarrow> bool"
  assumes redacted: "Q (redact r t)"
begin

lemma cleaned: "texts_ok Q (clean r v)"
  by (rule clean_ok(1) [where Q = Q]) (rule redacted)

lemma save_ok:
  assumes "\<And>s. control_ok Q s \<Longrightarrow> control_ok Q (put (clean r v) s)"
  shows "keeps (control_step Q) (save_with r put v)"
  unfolding save_with_def using assms
  by (intro control.keeps_bind control.keeps_result) (simp add: keeps_def durable_ok)

lemma save_request_ok: "kvs \<noteq> [] \<Longrightarrow> keeps (control_step Q) (save_with r (set_request i) (PDict kvs))"
  by (intro save_ok set_request_ok cleaned clean_truthy)

lemma save_delivery_ok: "keeps (control_step Q) (save_with r (set_delivery n) (PDict kvs))"
  by (intro save_ok set_delivery_ok cleaned) simp_all

lemma save_status_ok: "keeps (control_step Q) (save_with r set_worker_status v)"
  by (intro save_ok set_worker_status_ok cleaned)

section \<open>Handling a request\<close>

lemma repeated_ok: "keeps (control_step Q) (repeated r i rec existing)"
  unfolding repeated_def Let_def
  by (intro control.keeps_bind control.keeps_result keeps_if stamp_control save_request_ok dputs_not_empty) simp_all

lemma save_request_Return:
  "save_with r (set_request i) v s = (Return (), s') \<Longrightarrow> handled s' = handled s \<and> load_json (requests s') i = clean r v"
  by (auto simp: save_with_def io_bind_Return io_result_Return durable_def set_request_def load_dict_set
      split: list.splits fault.splits)

text \<open>A handler is called once its request is on disk, and only if it was not there.\<close>

lemma finish_handling_ok: "keeps (control_step Q) (finish_handling r i rec h)"
  unfolding finish_handling_def Let_def
  by (intro control.keeps_bind control.keeps_return stamp_control save_request_ok dputs_not_empty) simp_all

lemma call_at:
  assumes "truthy (load_json (requests s) i)" "i \<notin> set (handled s)"
  shows "control_step Q s (snd (call_handler i h s))"
  using assms by (simp add: call_handler_def control_step_def control_ok_def visible_def)

lemma first_time_at:
  assumes new: "\<not> truthy (load_json (requests s) i)"
  shows "control_step Q s (snd (first_time r i rec h s))"
  unfolding control_step_def
proof
  assume ok: "control_ok Q s"
  then have free: "i \<notin> set (handled s)" using new by (auto simp: control_ok_def)
  have "control_step Q s (snd (first_time r i rec h s))"
    unfolding first_time_def Let_def
  proof (rule control.bind_at)
    show "control_step Q s (snd (stamp s))" by (rule keepsD [OF stamp_control])
    fix at s1
    assume "stamp s = (Return at, s1)"
    then have s1: "handled s1 = handled s" by (auto simp: stamp_def)
    let ?d = "dputs rec [(''status'', PStr ''processing''), (''execution_start'', PStr at)]"
    have d: "?d \<noteq> []" by (simp add: dputs_not_empty)
    show "control_step Q s1 (snd (io_bind (save_with r (set_request i) (PDict ?d))
        (\<lambda>_. io_bind (call_handler i h) (\<lambda>_. finish_handling r i ?d h)) s1))"
    proof (rule control.bind_at)
      show "control_step Q s1 (snd (save_with r (set_request i) (PDict ?d) s1))"
        by (rule keepsD [OF save_request_ok [OF d]])
      fix u s2
      assume "save_with r (set_request i) (PDict ?d) s1 = (Return u, s2)"
      then have s2: "handled s2 = handled s1" "load_json (requests s2) i = clean r (PDict ?d)"
        using save_request_Return by auto
      show "control_step Q s2 (snd (io_bind (call_handler i h) (\<lambda>_. finish_handling r i ?d h) s2))"
        using s1 s2 free clean_truthy [OF d]
        by (intro control.bind_at call_at keepsD [OF finish_handling_ok]) simp_all
    qed
  qed
  with ok show "control_ok Q (snd (first_time r i rec h s))" by (simp add: control_step_def)
qed

lemma execute_request_ok: "keeps (control_step Q) (execute_request r i rec h)"
  unfolding keeps_def execute_request_def
  by (auto simp: io_bind_def [of "io_get f" for f] io_get_def intro: first_time_at keepsD [OF repeated_ok])

lemma store_delivery_ok: "keeps (control_step Q) (store_delivery r n rec)"
  unfolding store_delivery_def Let_def sdict_def
  by (intro control.keeps_bind control.keeps_return save_delivery_ok)

lemma new_delivery_ok: "keeps (control_step Q) (new_delivery r reading reg n vi)"
proof -
  have rej: "keeps (control_step Q) (rejected_record rec e)" for rec e
    unfolding rejected_record_def
    by (cases e) (simp_all add: control.keeps_return control.keeps_raise)
  show ?thesis
    unfolding new_delivery_def
    by (intro control.keeps_bind control.keeps_result control.keeps_return keeps_if stamp_control store_delivery_ok)
      (auto split: prod.split sum.split intro: rej execute_request_ok)
qed

lemma save_delivery_Return:
  "save_with r (set_delivery n) v s = (Return u, s') \<Longrightarrow> load_json (deliveries s') n = clean r v"
  by (auto simp: save_with_def io_bind_Return io_result_Return durable_def set_delivery_def load_dict_set
      split: list.splits fault.splits)

lemma store_delivery_stored:
  "store_delivery r n rec s = (Return d, s') \<Longrightarrow> load_json (deliveries s') n \<noteq> PNone"
  unfolding store_delivery_def Let_def sdict_def
  by (erule io_bindE, drule save_delivery_Return) (simp add: io_return_Return)

lemma new_delivery_stored:
  assumes "new_delivery r reading reg n vi s = (Return (Some d), s')"
  shows "load_json (deliveries s') n \<noteq> PNone"
  using assms unfolding new_delivery_def
  apply (elim io_bindE)
  subgoal for issue s1 ok s2
    by (cases ok) (auto elim!: io_bindE dest: store_delivery_stored simp: io_return_def)
  done

lemma post_comment_at:
  assumes "load_json (deliveries s) n \<noteq> PNone" "texts_ok Q v"
  shows "control_step Q s (snd (post_comment n v p s))"
  using assms by (auto simp: post_comment_def control_step_def control_ok_def visible_def Let_def split: posting.split)

lemma post_delivery_at:
  assumes "load_json (deliveries s) n \<noteq> PNone"
  shows "control_step Q s (snd (post_delivery r n rec d p s))"
  unfolding post_delivery_def Let_def
proof (rule control.bind_at)
  show "control_step Q s (snd (io_result (envelope r rec) s))" by (rule keepsD [OF control.keeps_result])
  fix env s1
  assume "io_result (envelope r rec) s = (Return env, s1)"
  then have s1: "s1 = s" by (simp add: io_result_Return)
  show "control_step Q s1 (snd (io_bind (post_comment n (clean r env) p) (\<lambda>_.
      io_bind (save_with r (set_delivery n) (PDict (dputs (dict_or_empty d) [(''posted'', PBool True)])))
        (\<lambda>_. io_return (PDict (dputs (dict_or_empty d) [(''posted'', PBool True)])))) s1))"
    unfolding s1
    by (rule control.bind_at, rule post_comment_at [OF assms cleaned], rule keepsD)
      (intro control.keeps_bind control.keeps_return save_delivery_ok)
qed

definition close_delivery :: "int \<Rightarrow> pyval \<Rightarrow> visit \<Rightarrow> pyval \<Rightarrow> pyval worker" where
  "close_delivery n rec vi posted = io_bind (io_result (vi_close vi)) (\<lambda>_.
     io_bind (save_with r (set_delivery n) (PDict (dputs (dict_or_empty posted) [(''closed'', PBool True)])))
       (\<lambda>_. io_result (subscript rec ''status'')))"

lemma close_delivery_ok: "keeps (control_step Q) (close_delivery n rec vi posted)"
  unfolding close_delivery_def by (intro control.keeps_bind control.keeps_result save_delivery_ok)

lemma deliver_at:
  assumes "load_json (deliveries s) n \<noteq> PNone"
  shows "control_step Q s (snd (deliver r n d vi s))"
  unfolding deliver_def Let_def close_delivery_def [symmetric]
proof (rule control.bind_at)
  fix rec s1
  assume "io_result (subscript d ''record'') s = (Return rec, s1)"
  then have s1: "s1 = s" by (simp add: io_result_Return)
  show "control_step Q s1 (snd (io_bind (io_result (subscript d ''posted'')) (\<lambda>p.
      io_bind (if truthy p then io_return d else post_delivery r n rec d (vi_post vi)) (close_delivery n rec vi)) s1))"
    unfolding s1
  proof (rule control.bind_at)
    fix p s2
    assume "io_result (subscript d ''posted'') s = (Return p, s2)"
    then have s2: "s2 = s" by (simp add: io_result_Return)
    have "control_step Q s (snd ((if truthy p then io_return d else post_delivery r n rec d (vi_post vi)) s))"
      by (simp add: post_delivery_at [OF assms] keepsD [OF control.keeps_return])
    then show "control_step Q s2 (snd (io_bind (if truthy p then io_return d else post_delivery r n rec d (vi_post vi))
        (close_delivery n rec vi) s2))"
      unfolding s2 by (rule control.bind_at) (rule keepsD [OF close_delivery_ok])
  qed (rule keepsD [OF control.keeps_result])
qed (rule keepsD [OF control.keeps_result])

lemma process_issue_ok: "keeps (control_step Q) (process_issue r reading reg issue vi)"
proof -
  have body: "control_step Q s (snd (io_bind (if loaded = PNone then new_delivery r reading reg n vi
        else io_return (Some loaded)) (\<lambda>d. case d of None \<Rightarrow> io_return PNone | Some delivery \<Rightarrow> deliver r n delivery vi) s))"
    if "loaded = load_json (deliveries s) n" for s n loaded
  proof (rule control.bind_at)
    show "control_step Q s (snd ((if loaded = PNone then new_delivery r reading reg n vi else io_return (Some loaded)) s))"
      by (simp add: keepsD [OF new_delivery_ok] keepsD [OF control.keeps_return])
    fix d s1
    assume d: "(if loaded = PNone then new_delivery r reading reg n vi else io_return (Some loaded)) s = (Return d, s1)"
    show "control_step Q s1 (snd ((case d of None \<Rightarrow> io_return PNone | Some delivery \<Rightarrow> deliver r n delivery vi) s1))"
    proof (cases d)
      case None
      then show ?thesis by (simp add: keepsD [OF control.keeps_return])
    next
      case (Some delivery)
      with d that have "load_json (deliveries s1) n \<noteq> PNone"
        by (cases "loaded = PNone") (auto simp: io_return_def dest: new_delivery_stored)
      from deliver_at [OF this] Some show ?thesis by simp
    qed
  qed
  have int: "keeps (control_step Q) (io_bind (io_get (\<lambda>s. load_json (deliveries s) n)) (\<lambda>loaded.
      io_bind (if loaded = PNone then new_delivery r reading reg n vi else io_return (Some loaded)) (\<lambda>d. case d of
        None \<Rightarrow> io_return PNone | Some delivery \<Rightarrow> deliver r n delivery vi)))" for n
    unfolding keeps_def by (intro allI, subst io_bind_def) (simp add: io_get_def body)
  show ?thesis
    unfolding process_issue_def Let_def
  proof (rule control.keeps_bind [OF control.keeps_result])
    fix v
    show "keeps (control_step Q) (case v of
        PInt n \<Rightarrow> (if n < 1 then io_raise (TransportError ''transport_unavailable'' 60)
          else io_bind (io_get (\<lambda>s. load_json (deliveries s) n)) (\<lambda>loaded.
            io_bind (if loaded = PNone then new_delivery r reading reg n vi else io_return (Some loaded)) (\<lambda>d. case d of
              None \<Rightarrow> io_return PNone | Some delivery \<Rightarrow> deliver r n delivery vi)))
      | _ \<Rightarrow> io_raise (TransportError ''transport_unavailable'' 60))"
      by (cases v) (simp_all add: int control.keeps_raise)
  qed
qed

section \<open>The service\<close>

lemma visit_issues_ok: "keeps (control_step Q) (visit_issues r reading reg is vs prev)"
proof (induction "is" arbitrary: vs prev)
  case (Cons i "is")
  then show ?case
    by (cases vs) (auto intro!: process_issue_ok)
qed auto

lemma control_tick_ok: "keeps (control_step Q) (control_tick r reading reg ro)"
  unfolding control_tick_def Let_def
  by (intro keeps_if control.keeps_bind control.keeps_return control.keeps_get control.keeps_result keeps_prod
      stamp_control visit_issues_ok save_status_ok)

lemma serve_round_ok: "keeps (control_step Q) (serve_round r reading reg interval failures ro)"
proof -
  have h: "keeps (control_step Q) (case e of
       TransportError code retry \<Rightarrow>
         (let f = failures + 1; d = backoff f retry in
          io_bind stamp (\<lambda>at. io_bind (save_with r set_worker_status (sdict [(''transport'', PStr code),
              (''checked_at'', PStr at), (''retry_in_seconds'', PInt d)])) (\<lambda>_. io_return (f, d))))
     | _ \<Rightarrow>
         io_bind stamp (\<lambda>at. io_bind (save_with r set_worker_status (sdict [(''transport'', PStr ''worker_failure''),
              (''checked_at'', PStr at)])) (\<lambda>_. io_return (failures, 60))))" for e
    by (cases e) (simp_all add: Let_def, (intro control.keeps_bind control.keeps_return stamp_control save_status_ok)+)
  show ?thesis
    unfolding serve_round_def
    by (intro control.keeps_bind control.keeps_catch control.keeps_result control.keeps_return control_tick_ok h)
qed

end

end
