(* ===== verification/Control_Properties.thy ===== *)
theory Control_Properties
  imports Control_Invariant
begin

text \<open>The properties of the control channel: its parser, its registry, its redactor and its worker.\<close>

section \<open>Histories of the worker\<close>

text \<open>Rounds of the service in any surroundings, and restarts with any clock and any fate of the writes.\<close>

inductive control_history :: "string list \<Rightarrow> (string \<Rightarrow> json) \<Rightarrow> capabilities \<Rightarrow> control \<Rightarrow> control \<Rightarrow> bool"
  for r reading reg where
  no_round: "control_history r reading reg s s"
| a_round: "control_history r reading reg s s' \<Longrightarrow>
    control_history r reading reg s (snd (serve_round r reading reg interval failures ro s'))"
| restarted: "control_history r reading reg s s' \<Longrightarrow>
    control_history r reading reg s (s'\<lparr>plan := p, clock := c, ticks := 0\<rparr>)"

definition empty_control :: "fault list \<Rightarrow> (nat \<Rightarrow> string) \<Rightarrow> control" where
  "empty_control p c = \<lparr>plan = p, clock = c, ticks = 0, requests = [], deliveries = [], worker_status = PNone,
     handled = [], comments = []\<rparr>"

definition sealed :: "string list \<Rightarrow> string \<Rightarrow> bool" where
  "sealed r t = ((\<forall>q c. q \<in> set TOKEN_PREFIXES \<and> word_char c \<longrightarrow> \<not> sublist (q @ [c]) t) \<and>
     (\<forall>x\<in>set r. plain x \<longrightarrow> \<not> sublist x t))"

lemma redact_sealed: "sealed r (redact r t)"
proof -
  have "\<not> sublist (q @ [c]) (redact r t)" if "q \<in> set TOKEN_PREFIXES" "word_char c" for q c
    using that by (intro no_token) (auto simp: is_token_def)
  then show ?thesis using no_secret unfolding sealed_def by blast
qed

interpretation guarded: redacting r "sealed r" for r
  by unfold_locales (rule redact_sealed)

lemma control_history_ok:
  "control_history r reading reg s s' \<Longrightarrow> control_ok (sealed r) s \<Longrightarrow> control_ok (sealed r) s'"
proof (induction rule: control_history.induct)
  case (a_round s s' interval failures ro)
  have "control_step (sealed r) s' (snd (serve_round r reading reg interval failures ro s'))"
    by (rule keepsD [OF guarded.serve_round_ok])
  with a_round show ?case unfolding control_step_def by blast
next
  case (restarted s s')
  have "control_ok (sealed r) (s'\<lparr>plan := p, clock := c, ticks := 0\<rparr>) = control_ok (sealed r) s'" for p c
    by (simp add: control_ok_def visible_def)
  with restarted show ?case by blast
qed

lemma empty_control_ok: "control_ok Q (empty_control p c)"
  by (simp add: control_ok_def empty_control_def visible_def)

section \<open>A run\<close>

text \<open>A value without dates can be saved once it is clean.\<close>

fun dateless :: "pyval \<Rightarrow> bool" where
  "dateless (PDate y m d) = False"
| "dateless (PDateTime s t) = False"
| "dateless (PList vs) = (\<forall>v\<in>set vs. dateless v)"
| "dateless (PDict kvs) = (\<forall>p\<in>set kvs. dateless (snd p))"
| "dateless v = True"

lemma default_items_Cons:
  "default_items ((k, v) # kvs) \<noteq> None \<longleftrightarrow> is_str k \<and> json_default v \<noteq> None \<and> default_items kvs \<noteq> None"
  by (cases k) (auto split: option.splits)

lemma default_items_set:
  "default_items kvs \<noteq> None \<Longrightarrow> is_str k \<Longrightarrow> json_default v \<noteq> None \<Longrightarrow> default_items (dict_set k v kvs) \<noteq> None"
  by (induction k v kvs rule: dict_set.induct) (auto simp: default_items_Cons simp del: default_items.simps(2) not_None_eq)

lemma default_items_fold:
  "default_items acc \<noteq> None \<Longrightarrow> default_items its \<noteq> None \<Longrightarrow>
    default_items (fold (\<lambda>(k, v). dict_set k v) its acc) \<noteq> None"
proof (induction its arbitrary: acc)
  case (Cons p its)
  obtain k v where "p = (k, v)" by (cases p)
  with Cons show ?case
    by (simp add: default_items_Cons default_items_set fold_simps del: default_items.simps(2) not_None_eq)
qed simp

lemma encodes_clean:
  "dateless v \<Longrightarrow> json_default (clean r v) \<noteq> None"
  "(\<forall>v\<in>set vs. dateless v) \<Longrightarrow> default_list (clean_list r vs) \<noteq> None"
  "(\<forall>p\<in>set kvs. dateless (snd p)) \<Longrightarrow> default_items (clean_items r kvs) \<noteq> None"
proof (induction r v and r vs and r kvs rule: clean_clean_list_clean_items.induct)
  case (1 r kvs)
  then have "default_items (clean_items r kvs) \<noteq> None" by simp
  then have "default_items (fold (\<lambda>(k, v). dict_set k v) (clean_items r kvs) []) \<noteq> None"
    by (rule default_items_fold [rotated]) simp
  then show ?case by simp
qed auto

lemma encodes_dateless: "dateless v \<Longrightarrow> encodes (clean r v) = Inr ()"
  using encodes_clean(1) [of v r] by (auto simp: encodes_def)

definition knock_id :: string where
  "knock_id = ''00000000-0000-4000-8000-000000000003''"

definition knock_request :: request where
  "knock_request = [(PStr ''schema_version'', PStr ''0.1''), (PStr ''request_id'', PStr knock_id),
     (PStr ''capability'', PStr ''runtime.health''), (PStr ''arguments'', PDict []),
     (PStr ''requested_by'', PStr ''operator''), (PStr ''requested_at'', PStr ''2026-07-01T12:00:00Z'')]"

definition knock_tree :: json where
  "knock_tree = JObj [(''schema_version'', JStr ''0.1''), (''request_id'', JStr knock_id),
     (''capability'', JStr ''runtime.health''), (''arguments'', JObj []), (''requested_by'', JStr ''operator''),
     (''requested_at'', JStr ''2026-07-01T12:00:00Z'')]"

definition knock_now :: int where
  "knock_now = (case fromisoformat ''2026-07-01T12:00:05+00:00'' of Some t \<Rightarrow> utc_micros t 0 | None \<Rightarrow> 0)"

definition knock_issue :: pyval where
  "knock_issue = sdict [(''number'', PInt 1), (''title'', PStr TITLE), (''state'', PStr ''open''),
     (''body'', PStr ''knock'')]"

definition knock_answer :: pyval where
  "knock_answer = PStr ''key ghp_abc and s3cretvalue''"

definition knock_visit :: visit where
  "knock_visit = \<lparr>vi_stop = False, vi_pulse = Inr (), vi_issue = Inr knock_issue, vi_now = knock_now,
     vi_handler = Answers knock_answer, vi_post = Lost OSError, vi_close = Inr ()\<rparr>"

definition knock_round :: round where
  "knock_round = \<lparr>ro_pulse = Inr (), ro_busy = False, ro_page = Inr [knock_issue], ro_visits = [knock_visit]\<rparr>"

definition knock_secrets :: "string list" where
  "knock_secrets = [''s3cretvalue'']"

definition knock_registry :: capabilities where
  "knock_registry = projr (build_registry None)"

definition knocked :: control where
  "knocked = snd (serve_round knock_secrets (\<lambda>t. knock_tree) knock_registry 30 0 knock_round
     (empty_control [] (\<lambda>n. ''now'')))"

lemma knocked_history:
  "control_history knock_secrets (\<lambda>t. knock_tree) knock_registry (empty_control [] (\<lambda>n. ''now'')) knocked"
  unfolding knocked_def by (rule control_history.a_round [OF control_history.no_round])

lemma knock_parse: "parse_request (\<lambda>t. knock_tree) knock_now (PStr ''knock'') = Inr knock_request"
  by code_simp

lemma knock_resolve: "resolve ''runtime.health'' [] knock_registry = Inr (health_capability, [])"
  by (simp add: knock_registry_def build_registry_def new_registry_def all_capabilities_def resolve_def register_def
      health_capability_def core_capability_def logs_capability_def no_arguments_def)

lemma knock_number: "show_nat (Suc 0) = ''1''"
  by code_simp

lemma knock_admit: "admit_request (\<lambda>t. knock_tree) knock_now knock_registry (PStr ''knock'') (first_record 1 at) =
    ([(PStr ''received_at'', PStr at), (PStr ''transport_issue'', PStr (CONTROL_REPOSITORY @ ''#1'')),
      (PStr ''request_id'', PStr knock_id), (PStr ''capability'', PStr ''runtime.health''),
      (PStr ''arguments'', PDict []), (PStr ''validation'', PStr ''accepted''),
      (PStr ''execution_start'', PNone), (PStr ''execution_end'', PNone), (PStr ''requested_by'', PStr ''operator''),
      (PStr ''requested_at'', PStr ''2026-07-01T12:00:00Z'')], Inr (health_capability, [], knock_id))"
  by (simp add: admit_request_def knock_parse knock_request_def str_val_def dict_or_empty_def knock_resolve
      first_record_def dputs_def show_int_def knock_number)

lemmas run_control = run_steps serve_round_def control_tick_def titled_def still_open_def process_issue_def
  new_delivery_def store_delivery_def execute_request_def first_time_def finish_handling_def call_handler_def
  outcome_record_def deliver_def post_delivery_def post_comment_def envelope_def bounded_result_def save_with_def
  set_request_def set_delivery_def set_worker_status_def load_json_def

lemma knocked_handled: "handled knocked = [knock_id] \<and> map fst (comments knocked) = [1]"
  by (simp add: knocked_def knock_round_def knock_visit_def knock_issue_def empty_control_def knock_answer_def
      run_control subscript_def sdict_def dict_or_empty_def knock_admit dputs_def encodes_dateless TITLE_def has_key_def
      cong: io_weak del: clean.simps(1))

section \<open>The parser and the registry\<close>

text \<open>The parser of control requests returns a well-formed request or a policy code, nothing else,
  whatever text arrives: an accepted request has exactly the six fields, a canonical UUID, a capability name
  of the fixed alphabet and an object of arguments. The decoder's own failures are a \<open>ValueError\<close> or a
  \<open>RecursionError\<close>.\<close>

theorem control_request_type:
  assumes "\<And>t. decoder_stops (reading t)"
  shows "case parse_request reading now body of
      Inr d \<Rightarrow> same_keys d REQUEST_FIELDS \<and> (\<exists>i. dget d ''request_id'' = PStr i \<and> is_uuid i) \<and>
        (\<exists>c. dget d ''capability'' = PStr c \<and> is_name c) \<and> (\<exists>a. dget d ''arguments'' = PDict a)
    | Inl e \<Rightarrow> (\<exists>c. e = Rejected c)"
proof (cases "parse_request reading now body")
  case (Inr d)
  with parse_request_Inr [OF Inr] show ?thesis by simp
next
  case (Inl e)
  have "is_rejected e"
    using Inl control_errors [OF assms] by (auto simp: parse_request_def split: pyval.splits if_splits sum.splits)
  with Inl show ?thesis by (cases e) simp_all
qed

theorem control_request_type_witness:
  "(\<exists>d. parse_request (\<lambda>t. knock_tree) knock_now (PStr ''knock'') = Inr d \<and> (\<exists>i. dget d ''request_id'' = PStr i \<and> is_uuid i)) \<and>
   (\<exists>c. parse_request (\<lambda>t. JObj [(''a'', JNull), (''a'', JNull)]) knock_now (PStr ''x'') = Inl (Rejected c))"
proof
  have "decoder_stops knock_tree" by code_simp
  from control_request_type [of "\<lambda>t. knock_tree" knock_now "PStr ''knock''", OF this] knock_parse
  show "\<exists>d. parse_request (\<lambda>t. knock_tree) knock_now (PStr ''knock'') = Inr d \<and>
    (\<exists>i. dget d ''request_id'' = PStr i \<and> is_uuid i)" by auto
  have "parse_request (\<lambda>t. JObj [(''a'', JNull), (''a'', JNull)]) knock_now (PStr ''x'') = Inl (Rejected ''duplicate_json_key'')"
    by code_simp
  then show "\<exists>c. parse_request (\<lambda>t. JObj [(''a'', JNull), (''a'', JNull)]) knock_now (PStr ''x'') = Inl (Rejected c)" by blast
qed

text \<open>The registry the service is built with exists, with or without the work client, and everything that can
  be called through it is a read-only capability without effects, except the submission and the cancellation
  of bounded work; the same holds of every registry that \<open>register\<close> lets come about.\<close>

theorem registry_policy:
  "(\<exists>reg. build_registry work = Inr reg \<and> map fst reg = [''runtime.health'', ''core.health'', ''core.snapshot'',
      ''core.report'', ''core.rollup_proposals'', ''runtime.logs_tail''] @
      (if work = None then [] else [''work.submit'', ''work.status'', ''work.cancel''])) \<and>
   (\<forall>caps reg name args c a. new_registry caps = Inr reg \<and> resolve name args reg = Inr (c, a) \<longrightarrow>
      cap_id c = name \<and> c \<in> set caps \<and>
      (cap_risk c = ''read_only'' \<and> cap_effect c = ''none'' \<or> name = ''work.submit'' \<or> name = ''work.cancel''))"
proof (intro conjI allI impI)
  show "\<exists>reg. build_registry work = Inr reg \<and> map fst reg = [''runtime.health'', ''core.health'', ''core.snapshot'',
      ''core.report'', ''core.rollup_proposals'', ''runtime.logs_tail''] @
      (if work = None then [] else [''work.submit'', ''work.status'', ''work.cancel''])"
    by (cases work) (simp_all add: build_registry_def new_registry_def all_capabilities_def register_def
      health_capability_def core_capability_def logs_capability_def work_capability_def bounded_work_def Let_def)
next
  fix caps reg name args c a
  assume h: "new_registry caps = Inr reg \<and> resolve name args reg = Inr (c, a)"
  then have c: "map_of reg name = Some c"
    by (auto simp: resolve_def andThen_Inr_iff split: option.splits)
  have reg: "register_each caps [] = Inr reg" using h by (simp add: new_registry_def)
  from registered_admitted [OF this _ c] have ad: "admitted name c" by simp
  then show "cap_id c = name" by (simp add: admitted_def)
  show "c \<in> set caps" using registered_known [OF reg c] by simp
  from ad show "cap_risk c = ''read_only'' \<and> cap_effect c = ''none'' \<or> name = ''work.submit'' \<or> name = ''work.cancel''"
    by (auto simp: admitted_def bounded_work_def)
qed

theorem registry_policy_witness:
  "\<exists>reg c a. build_registry None = Inr reg \<and> resolve ''runtime.health'' [] reg = Inr (c, a) \<and> cap_effect c = ''none''"
proof -
  from registry_policy [of None] obtain reg where reg: "build_registry None = Inr reg" by blast
  then have "new_registry (all_capabilities None) = Inr reg" by (simp add: build_registry_def)
  moreover have "resolve ''runtime.health'' [] reg = Inr (health_capability, [])"
    using knock_resolve reg by (simp add: knock_registry_def)
  ultimately show ?thesis using registry_policy [of None] reg by fastforce
qed

section \<open>The worker\<close>

text \<open>C26: At most once: in every history of the worker, with crashes anywhere, writes failing or done late,
  any answers of the transport and any number of issues with the same request, the handler of a request id
  runs at most once; each handled request has a record on disk, and a comment only ever reached an issue
  whose delivery is on disk.\<close>

theorem handled_once:
  assumes "control_history r reading reg (empty_control p c) s"
  shows "distinct (handled s) \<and> (\<forall>i\<in>set (handled s). truthy (load_json (requests s) i)) \<and>
    (\<forall>n\<in>fst ` set (comments s). load_json (deliveries s) n \<noteq> PNone)"
  using control_history_ok [OF assms empty_control_ok] by (simp add: control_ok_def)

theorem handled_once_witness:
  "handled knocked = [knock_id] \<and> truthy (load_json (requests knocked) knock_id) \<and>
     load_json (deliveries knocked) 1 \<noteq> PNone"
proof -
  have "1 \<in> fst ` set (comments knocked)"
    using knocked_handled by (metis list.set_intros(1) set_map)
  moreover have "knock_id \<in> set (handled knocked)" using knocked_handled by simp
  ultimately show ?thesis using handled_once [OF knocked_history] knocked_handled by blast
qed

text \<open>C27: No leak: nothing the worker ever saves or posts contains, in any string of it, a GitHub token or one of
  the service's own secrets, whatever callers, handlers and the transport put into requests and results. A
  secret counts when it has no bracket and is not part of the word that replaces it.\<close>

theorem no_leak:
  assumes "control_history r reading reg (empty_control p c) s"
    and "v \<in> snd ` set (requests s) \<union> snd ` set (deliveries s) \<union> {worker_status s} \<union> snd ` set (comments s)"
  shows "texts_ok (\<lambda>t. (\<forall>q\<in>set TOKEN_PREFIXES. \<forall>x. word_char x \<longrightarrow> \<not> sublist (q @ [x]) t) \<and>
    (\<forall>x\<in>set r. plain x \<longrightarrow> \<not> sublist x t)) v"
proof -
  have "texts_ok (sealed r) v"
    using control_history_ok [OF assms(1) empty_control_ok] assms(2) unfolding control_ok_def visible_def by blast
  moreover have "sealed r = (\<lambda>t. (\<forall>q\<in>set TOKEN_PREFIXES. \<forall>x. word_char x \<longrightarrow> \<not> sublist (q @ [x]) t) \<and>
      (\<forall>x\<in>set r. plain x \<longrightarrow> \<not> sublist x t))"
    by (auto simp: sealed_def fun_eq_iff)
  ultimately show ?thesis by simp
qed

theorem no_leak_witness:
  "\<exists>v. (1, v) \<in> set (comments knocked) \<and> texts_ok (\<lambda>t. \<not> sublist ''s3cretvalue'' t) v"
proof -
  obtain v where v: "comments knocked = [(1, v)]" using knocked_handled by (cases "comments knocked") auto
  have "CHR ''s'' \<in> set ''s3cretvalue''" "CHR ''s'' \<notin> set ''REDACTED''" by simp_all
  then have "plain ''s3cretvalue''" using set_mono_sublist [of "''s3cretvalue''" "''REDACTED''"] by (auto simp: plain_def)
  moreover from v have "texts_ok (\<lambda>t. (\<forall>q\<in>set TOKEN_PREFIXES. \<forall>x. word_char x \<longrightarrow> \<not> sublist (q @ [x]) t) \<and>
      (\<forall>x\<in>set knock_secrets. plain x \<longrightarrow> \<not> sublist x t)) v"
    by (intro no_leak [OF knocked_history]) simp
  ultimately have "texts_ok (\<lambda>t. \<not> sublist ''s3cretvalue'' t) v"
    by (elim texts_ok_mono(1) [rotated]) (simp add: knock_secrets_def)
  with v show ?thesis by auto
qed

end
