(* ===== verification/Core_Reader.thy ===== *)
theory Core_Reader
  imports Py_Json Interfaces
begin

text \<open>
  How the core reads its sources: \<open>GitHubReader.get_text\<close> on the outcome of the HTTP call, the cache
  \<open>RunReader\<close> of \<open>runtime.py\<close>, and programs that read through it. The HTTP client, the decoding of the
  content and the YAML parser are arguments; a source may answer differently every time it is asked.
\<close>

section \<open>The GitHub reader\<close>

text \<open>Repository, path and ref.\<close>

type_synonym source = "string \<times> string \<times> string"

datatype fetched =
    Payload pyval
  | HttpStatus int
  | NoConnection string
  | Failing exn

definition source_name :: "source \<Rightarrow> string" where
  "source_name q = (case q of (repository, path, ref) \<Rightarrow> repository @ '':'' @ path @ ''@'' @ ref)"

text \<open>\<open>decode\<close> is \<open>base64.b64decode(content).decode("utf-8")\<close>; a failing JSON decoder is a \<open>Failing\<close> call.\<close>

definition get_text :: "(pyval \<Rightarrow> string result) \<Rightarrow> source \<Rightarrow> fetched \<Rightarrow> string result" where
  "get_text decode q got = (case got of
      HttpStatus code \<Rightarrow> Inl (GitHubReadError (''GitHub returned HTTP '' @ show_int code @ '' for '' @ source_name q))
    | NoConnection reason \<Rightarrow> Inl (GitHubReadError (''Could not reach GitHub for '' @ source_name q @ '': '' @ reason))
    | Failing e \<Rightarrow> Inl e
    | Payload v \<Rightarrow>
        andThen (vget v ''type'') (\<lambda>ty.
        if ty \<noteq> PStr ''file''
        then Inl (GitHubReadError (''Expected file at '' @ source_name q @ '', got '' @ py_repr ty))
        else andThen (vget v ''encoding'') (\<lambda>enc.
        if enc \<noteq> PStr ''base64''
        then Inl (GitHubReadError (''Unsupported GitHub content encoding: '' @ py_repr enc))
        else (case andThen (subscript v ''content'') decode of
            Inr t \<Rightarrow> Inr t
          | Inl e \<Rightarrow> Inl (if e = KeyError \<or> is_value_error e
                         then GitHubReadError (''Could not decode '' @ source_name q) else e)))))"

section \<open>The cache of one run\<close>

record run_reader =
  cache :: "(source \<times> string result) list"
  read_failures :: nat
  fetches :: nat

definition new_reader :: run_reader where
  "new_reader = \<lparr>cache = [], read_failures = 0, fetches = 0\<rparr>"

fun is_read_error :: "exn \<Rightarrow> bool" where
  "is_read_error (GitHubReadError _) = True"
| "is_read_error _ = False"

text \<open>What one failed call leaves in the cache; other exceptions pass through and leave nothing.\<close>

definition cached_error :: "exn \<Rightarrow> exn option" where
  "cached_error e =
     (if is_read_error e then Some e
      else if is_os_error e \<or> is_value_error e
        then Some (GitHubReadError ''Source response unavailable or invalid'')
      else None)"

text \<open>\<open>remote n q\<close> is what the n-th call of the underlying reader gives for \<open>q\<close>.\<close>

definition cached_text ::
  "(nat \<Rightarrow> source \<Rightarrow> string result) \<Rightarrow> source \<Rightarrow> run_reader \<Rightarrow> string result \<times> run_reader" where
  "cached_text remote q s = (case map_of (cache s) q of
      Some a \<Rightarrow> (a, s)
    | None \<Rightarrow> (case remote (fetches s) q of
          Inr t \<Rightarrow> (Inr t, s\<lparr>fetches := fetches s + 1, cache := (q, Inr t) # cache s\<rparr>)
        | Inl e \<Rightarrow> (case cached_error e of
              Some e' \<Rightarrow> (Inl e', s\<lparr>fetches := fetches s + 1, cache := (q, Inl e') # cache s,
                 read_failures := read_failures s + 1\<rparr>)
            | None \<Rightarrow> (Inl e, s\<lparr>fetches := fetches s + 1\<rparr>))))"

definition settled_text :: "string result \<Rightarrow> bool" where
  "settled_text a = (case a of Inr t \<Rightarrow> True | Inl e \<Rightarrow> is_read_error e)"

lemma cached_error_read: "cached_error e = Some e' \<Longrightarrow> is_read_error e'"
  by (auto simp: cached_error_def split: if_splits)

lemma cached_error_none: "cached_error e = None \<Longrightarrow> \<not> is_read_error e"
  by (auto simp: cached_error_def split: if_splits)

interpretation run_cache: stable_reader "cached_text remote" "\<lambda>s. map_of (cache s)" settled_text for remote
proof
  fix s s' :: run_reader and q p :: source and a b :: "string result"
  show "map_of (cache s) q = Some a \<Longrightarrow> cached_text remote q s = (a, s)"
    by (simp add: cached_text_def)
  show "cached_text remote q s = (a, s') \<Longrightarrow> settled_text a \<Longrightarrow> map_of (cache s') q = Some a"
    by (auto simp: cached_text_def settled_text_def dest: cached_error_none
        split: option.splits sum.splits)
  show "cached_text remote q s = (a, s') \<Longrightarrow> map_of (cache s) p = Some b \<Longrightarrow> map_of (cache s') p = Some b"
    by (auto simp: cached_text_def split: option.splits sum.splits)
qed

section \<open>Programs that read\<close>

text \<open>A computation that may read a source, throw, or give a value.\<close>

datatype 'a reading = Given 'a | Thrown exn | Reads source "string result \<Rightarrow> 'a reading"

primrec r_bind :: "'a reading \<Rightarrow> ('a \<Rightarrow> 'b reading) \<Rightarrow> 'b reading" where
  "r_bind (Given x) f = f x"
| "r_bind (Thrown e) f = Thrown e"
| "r_bind (Reads q k) f = Reads q (\<lambda>a. r_bind (k a) f)"

definition r_result :: "'a result \<Rightarrow> 'a reading" where
  "r_result r = (case r of Inr x \<Rightarrow> Given x | Inl e \<Rightarrow> Thrown e)"

text \<open>\<open>try: ... except Exception\<close>: the timeout is a \<open>BaseException\<close> and passes.\<close>

primrec attempt :: "'a reading \<Rightarrow> 'a result reading" where
  "attempt (Given x) = Given (Inr x)"
| "attempt (Thrown e) = (if e = ExecutionTimeout then Thrown e else Given (Inl e))"
| "attempt (Reads q k) = Reads q (\<lambda>a. attempt (k a))"

fun r_fold :: "('a \<Rightarrow> 's \<Rightarrow> 's reading) \<Rightarrow> 'a list \<Rightarrow> 's \<Rightarrow> 's reading" where
  "r_fold f [] s = Given s"
| "r_fold f (x # xs) s = r_bind (f x s) (r_fold f xs)"

text \<open>Run through the cache, and on a fixed view of all sources.\<close>

primrec run :: "(nat \<Rightarrow> source \<Rightarrow> string result) \<Rightarrow> 'a reading \<Rightarrow> run_reader \<Rightarrow> 'a result \<times> run_reader" where
  "run remote (Given x) s = (Inr x, s)"
| "run remote (Thrown e) s = (Inl e, s)"
| "run remote (Reads q k) s = (case cached_text remote q s of (a, s') \<Rightarrow> run remote (k a) s')"

primrec view :: "(source \<Rightarrow> string result) \<Rightarrow> 'a reading \<Rightarrow> 'a result" where
  "view v (Given x) = Inr x"
| "view v (Thrown e) = Inl e"
| "view v (Reads q k) = view v (k (v q))"

lemma view_bind [simp]: "view v (r_bind m f) = andThen (view v m) (\<lambda>x. view v (f x))"
  by (induction m) auto

lemma view_result [simp]: "view v (r_result r) = r"
  by (cases r) (simp_all add: r_result_def)

lemma view_attempt:
  "view v (attempt m) = (case view v m of Inr x \<Rightarrow> Inr (Inr x)
     | Inl e \<Rightarrow> if e = ExecutionTimeout then Inl e else Inr (Inl e))"
  by (induction m) auto

section \<open>One consistent view\<close>

lemma run_keeps:
  "run remote m s = (x, s') \<Longrightarrow> map_of (cache s) q = Some a \<Longrightarrow> map_of (cache s') q = Some a"
proof (induction m arbitrary: s)
  case (Reads p k)
  obtain b s1 where b: "cached_text remote p s = (b, s1)" by (cases "cached_text remote p s")
  with Reads.prems(1) have "run remote (k b) s1 = (x, s')" by simp
  then show ?case using Reads.IH [OF rangeI] run_cache.ask_keeps [OF b Reads.prems(2)] by blast
qed auto

text \<open>Every source read answered with an error the cache keeps.\<close>

definition orderly :: "(nat \<Rightarrow> source \<Rightarrow> string result) \<Rightarrow> bool" where
  "orderly remote = (\<forall>n q e. remote n q = Inl e \<longrightarrow> cached_error e \<noteq> None)"

definition settled_cache :: "run_reader \<Rightarrow> bool" where
  "settled_cache s = (\<forall>q a. map_of (cache s) q = Some a \<longrightarrow> settled_text a)"

lemma cached_text_cases:
  assumes "cached_text remote q s = (a, s')"
  obtains (old) "map_of (cache s) q = Some a" "s' = s"
  | (good) t where "map_of (cache s) q = None" "a = Inr t" "cache s' = (q, Inr t) # cache s"
      "read_failures s' = read_failures s"
  | (bad) e where "map_of (cache s) q = None" "a = Inl e" "is_read_error e" "cache s' = (q, Inl e) # cache s"
      "read_failures s' = read_failures s + 1"
  | (lost) n e where "remote n q = Inl e" "cached_error e = None" "cache s' = cache s"
      "read_failures s' = read_failures s"
proof (cases "map_of (cache s) q")
  case (Some b)
  then have "cached_text remote q s = (b, s)" by (simp add: cached_text_def)
  with Some assms show ?thesis by (intro old) auto
next
  case None
  note new = None
  show ?thesis
  proof (cases "remote (fetches s) q")
    case (Inr t)
    have "cached_text remote q s = (Inr t, s\<lparr>fetches := fetches s + 1, cache := (q, Inr t) # cache s\<rparr>)"
      by (simp add: cached_text_def new Inr)
    then show ?thesis using assms by (intro good [OF new]) auto
  next
    case (Inl e)
    note err = Inl
    show ?thesis
    proof (cases "cached_error e")
      case (Some e')
      have "cached_text remote q s = (Inl e', s\<lparr>fetches := fetches s + 1, cache := (q, Inl e') # cache s,
          read_failures := read_failures s + 1\<rparr>)"
        by (simp add: cached_text_def new err Some)
      then show ?thesis using assms cached_error_read [OF Some] by (intro bad [OF new]) auto
    next
      case None
      have "cached_text remote q s = (Inl e, s\<lparr>fetches := fetches s + 1\<rparr>)"
        by (simp add: cached_text_def new err None)
      then show ?thesis using assms by (intro lost [OF err None]) auto
    qed
  qed
qed

lemma orderly_settled:
  assumes "orderly remote" "cached_text remote q s = (a, s')" "settled_cache s"
  shows "settled_text a \<and> settled_cache s'"
  using assms(2)
proof (cases rule: cached_text_cases)
  case (lost n e)
  with assms(1) show ?thesis unfolding orderly_def by blast
qed (use assms(3) in \<open>auto simp: settled_cache_def settled_text_def simp del: split_paired_All\<close>)

lemma run_view:
  assumes "orderly remote"
  shows "run remote m s = (x, s') \<Longrightarrow> settled_cache s \<Longrightarrow>
    (\<And>q a. map_of (cache s') q = Some a \<Longrightarrow> v q = a) \<Longrightarrow> x = view v m"
proof (induction m arbitrary: s)
  case (Reads q k)
  obtain a s1 where a: "cached_text remote q s = (a, s1)" by (cases "cached_text remote q s")
  with Reads.prems(1) have r: "run remote (k a) s1 = (x, s')" by simp
  from orderly_settled [OF assms a Reads.prems(2)] have settled: "settled_text a" "settled_cache s1" by auto
  have "map_of (cache s') q = Some a"
    using run_keeps [OF r run_cache.ask_known [OF a settled(1)]] .
  then have "v q = a" by (rule Reads.prems(3))
  then show ?case using Reads.IH [OF rangeI r settled(2) Reads.prems(3)] by simp
qed auto

text \<open>The failures counted are the failures cached, and no source is fetched twice.\<close>

lemma cached_text_counts:
  assumes "cached_text remote q s = (a, s')"
    and "distinct (map fst (cache s))" "read_failures s = length (filter (isl \<circ> snd) (cache s))"
  shows "distinct (map fst (cache s')) \<and> read_failures s' = length (filter (isl \<circ> snd) (cache s'))"
  using assms(1)
  by (cases rule: cached_text_cases) (use assms(2,3) in \<open>simp_all add: map_of_eq_None_iff del: distinct_map\<close>)

lemma run_counts:
  "run remote m s = (x, s') \<Longrightarrow> distinct (map fst (cache s)) \<Longrightarrow>
   read_failures s = length (filter (isl \<circ> snd) (cache s)) \<Longrightarrow>
   distinct (map fst (cache s')) \<and> read_failures s' = length (filter (isl \<circ> snd) (cache s'))"
proof (induction m arbitrary: s)
  case (Reads q k)
  obtain a s1 where a: "cached_text remote q s = (a, s1)" by (cases "cached_text remote q s")
  with Reads.prems(1) have "run remote (k a) s1 = (x, s')" by simp
  from Reads.IH [OF rangeI this] cached_text_counts [OF a Reads.prems(2,3)] show ?case by blast
qed auto

end
