(* ===== verification/Core_Agent.thy ===== *)
theory Core_Agent
  imports Core_Reader "HOL-Library.Product_Lexorder"
begin

text \<open>
  \<open>core_agent.py\<close>: collecting the states the project map names, validating them, and the report. An
  exception outside a \<open>try\<close> ends the whole collection, so the snapshot is threaded through. The YAML
  parser and the wording of exceptions raised outside the package are arguments.
\<close>

text \<open>A parsed YAML mapping.\<close>

type_synonym yaml_map = "(pyval \<times> pyval) list"

record outside =
  yaml :: "string \<Rightarrow> pyval result"
  wording :: "exn \<Rightarrow> string"
  central :: string
  branch :: string

record finding =
  fi_severity :: string
  fi_code :: string
  fi_subject :: string
  fi_message :: string

record state_record =
  sr_project :: string
  sr_name :: string
  sr_scope :: string
  sr_repository :: string
  sr_path :: string
  sr_attention :: string
  sr_status :: string
  sr_phase :: string
  sr_verified :: string
  sr_sync :: string
  sr_gate :: string
  sr_next :: string

record core_snapshot =
  sn_date :: string
  sn_records :: "state_record list"
  sn_findings :: "finding list"

definition note_finding :: "string \<Rightarrow> string \<Rightarrow> string \<Rightarrow> string \<Rightarrow> core_snapshot \<Rightarrow> core_snapshot" where
  "note_finding severity code subject message s = s\<lparr>sn_findings := sn_findings s @
     [\<lparr>fi_severity = severity, fi_code = code, fi_subject = subject, fi_message = message\<rparr>]\<rparr>"

definition snapshot_errors :: "core_snapshot \<Rightarrow> finding list" where
  "snapshot_errors s = filter (\<lambda>f. fi_severity f = ''error'') (sn_findings s)"

definition snapshot_warnings :: "core_snapshot \<Rightarrow> finding list" where
  "snapshot_warnings s = filter (\<lambda>f. fi_severity f = ''warning'') (sn_findings s)"

section \<open>Reading\<close>

definition CENTRAL :: string where
  "CENTRAL = ''Az1mutt/personal-project-brain''"

definition MAP_PATH :: string where
  "MAP_PATH = ''core/project-map.yaml''"

definition exn_text :: "outside \<Rightarrow> exn \<Rightarrow> string" where
  "exn_text out e = (case e of ValueError m \<Rightarrow> m | GitHubReadError m \<Rightarrow> m | _ \<Rightarrow> wording out e)"

definition read_yaml :: "outside \<Rightarrow> string \<Rightarrow> string \<Rightarrow> (pyval result \<Rightarrow> yaml_map result) \<Rightarrow> yaml_map reading" where
  "read_yaml out repository path check =
     Reads (repository, path, branch out) (\<lambda>a. r_result (case a of Inl e \<Rightarrow> Inl e | Inr t \<Rightarrow> check (yaml out t)))"

definition agent_yaml :: "outside \<Rightarrow> string \<Rightarrow> string \<Rightarrow> string \<Rightarrow> yaml_map reading" where
  "agent_yaml out repository path subject = read_yaml out repository path (\<lambda>parsed. case parsed of
      Inl e \<Rightarrow> Inl (if e = YAMLError then ValueError (''Invalid YAML for '' @ subject @ '': '' @ wording out e) else e)
    | Inr (PDict d) \<Rightarrow> Inr d
    | Inr v \<Rightarrow> Inl (ValueError (''Expected YAML mapping for '' @ subject)))"

text \<open>\<open>v.get(k, d)\<close>, and \<open>v.get(k) or {}\<close>.\<close>

definition vget_or :: "pyval \<Rightarrow> string \<Rightarrow> pyval \<Rightarrow> pyval result" where
  "vget_or v k d = (case v of PDict kvs \<Rightarrow> Inr (dget_or kvs k d) | _ \<Rightarrow> Inl AttributeError)"

definition or_empty :: "pyval \<Rightarrow> pyval" where
  "or_empty v = (if truthy v then v else PDict [])"

definition fold_text :: "pyval \<Rightarrow> string" where
  "fold_text v = (if v = PNone then [] else join '' '' (split_ws (py_str v)))"

definition read_state ::
  "outside \<Rightarrow> string \<Rightarrow> string \<Rightarrow> string \<Rightarrow> string \<Rightarrow> string \<Rightarrow> string \<Rightarrow> core_snapshot \<Rightarrow>
   (state_record option \<times> core_snapshot) reading" where
  "read_state out pid name scope repository path attention s =
     r_bind (attempt (agent_yaml out repository path name)) (\<lambda>r. case r of
       Inl e \<Rightarrow> Given (None, note_finding ''error'' ''state_unreadable'' name (exn_text out e) s)
     | Inr state \<Rightarrow>
         r_bind (r_result (vget_or (or_empty (dget state ''verification'')) ''last_verified'' (PStr []))) (\<lambda>verified.
         r_bind (r_result (vget_or (or_empty (dget state ''sync'')) ''status'' (PStr ''unknown''))) (\<lambda>sync.
           Given (Some \<lparr>sr_project = pid, sr_name = name, sr_scope = scope, sr_repository = repository, sr_path = path,
             sr_attention = attention, sr_status = py_str (dget_or state ''status'' (PStr ''unknown'')),
             sr_phase = py_str (dget_or state ''phase'' (PStr [])), sr_verified = py_str verified,
             sr_sync = py_str sync, sr_gate = fold_text (dget state ''current_gate''),
             sr_next = fold_text (dget state ''exact_next_action'')\<rparr>, s))))"

section \<open>Validation\<close>

definition NON_BLOCKING_ATTENTION :: "string list" where
  "NON_BLOCKING_ATTENTION = [''deferred'', ''parked'', ''none'', ''future'', ''background'']"

definition STALE_STATUSES :: "string list" where
  "STALE_STATUSES = [''stale_needs_refresh'', ''needs_initialization'']"

definition NON_CURRENT_MAP_STATUSES :: "string list" where
  "NON_CURRENT_MAP_STATUSES = [''future_project_not_initialized'', ''future_unassigned'', ''deferred_manual'',
     ''synced_but_old'']"

definition validate_record :: "state_record \<Rightarrow> string \<Rightarrow> core_snapshot \<Rightarrow> core_snapshot" where
  "validate_record r map_status s0 =
     (let quiet = sr_attention r \<in> set NON_BLOCKING_ATTENTION;
          s1 = (if sr_sync r \<noteq> ''synced'' \<and> \<not> quiet
                then note_finding ''warning'' ''state_not_synced'' (sr_name r) (''sync.status is '' @ repr_str (sr_sync r)) s0
                else s0);
          s2 = (if sr_status r \<in> set STALE_STATUSES \<and> \<not> quiet
                then note_finding ''warning'' ''state_needs_refresh'' (sr_name r) (''state status is '' @ repr_str (sr_status r)) s1
                else s1);
          s3 = (if map_status \<in> set NON_CURRENT_MAP_STATUSES \<and> \<not> quiet \<and> sr_status r \<noteq> ''future_unassigned''
                then note_finding ''warning'' ''map_marks_state_non_current'' (sr_name r)
                       (''project map state_status is '' @ repr_str map_status) s2
                else s2)
      in if sr_verified r = [] \<and> \<not> quiet
         then note_finding ''warning'' ''verification_date_missing'' (sr_name r) ''verification.last_verified is empty'' s3
         else s3)"

definition add_record :: "string \<Rightarrow> state_record option \<times> core_snapshot \<Rightarrow> core_snapshot" where
  "add_record map_status rs = (case rs of
      (None, s) \<Rightarrow> s
    | (Some r, s) \<Rightarrow> validate_record r map_status (s\<lparr>sn_records := sn_records s @ [r]\<rparr>))"

section \<open>Collecting\<close>

definition collect_workstream ::
  "outside \<Rightarrow> string \<Rightarrow> string \<Rightarrow> string \<Rightarrow> string \<Rightarrow> pyval \<Rightarrow> core_snapshot \<Rightarrow> core_snapshot reading" where
  "collect_workstream out pid name repository parent w s =
     r_bind (r_result (vget_or w ''id'' (PStr ''unknown''))) (\<lambda>wid.
     let path = dget (dict_or_empty w) ''state_path'' in
     if \<not> truthy path
     then Given (note_finding ''error'' ''workstream_state_path_missing'' (name @ ''/'' @ py_str wid)
            ''Workstream has no state_path'' s)
     else r_bind (read_state out pid (name @ '' / '' @ py_str wid) ''workstream'' repository (py_str path)
              (py_str (dget_or (dict_or_empty w) ''core_attention'' (PStr parent))) s)
            (\<lambda>rs. Given (add_record (py_str (dget_or (dict_or_empty w) ''state_status'' (PStr ''unknown''))) rs)))"

definition repository_of :: "outside \<Rightarrow> yaml_map \<Rightarrow> string" where
  "repository_of out project =
     (if dget project ''storage'' = PStr ''project_repo'' then py_str (dget project ''repository'') else central out)"

definition collect_project :: "outside \<Rightarrow> pyval \<Rightarrow> core_snapshot \<Rightarrow> core_snapshot reading" where
  "collect_project out v s =
     r_bind (r_result (vget_or v ''id'' (PStr ''unknown''))) (\<lambda>id_value.
     let project = dict_or_empty v; pid = py_str id_value;
         name = py_str (dget_or project ''name'' (PStr pid));
         attention = py_str (dget_or project ''core_attention'' (PStr ''unspecified''));
         map_status = py_str (dget_or project ''state_status'' (PStr ''unknown''));
         path = dget project ''state_path''; repository = repository_of out project in
     if \<not> truthy path
     then Given (note_finding ''error'' ''state_path_missing'' name ''Project map entry has no state_path'' s)
     else if repository = [] \<or> repository = ''None''
     then Given (note_finding ''error'' ''repository_missing'' name ''Project repository is not defined'' s)
     else r_bind (read_state out pid name ''project'' repository (py_str path) attention s) (\<lambda>rs.
       let s1 = add_record map_status rs; workstreams = dget project ''workstreams'' in
       if truthy workstreams
       then (case workstreams of
           PList ws \<Rightarrow> r_fold (collect_workstream out pid name repository attention) ws s1
         | _ \<Rightarrow> Given s1)
       else Given s1))"

definition core_collect :: "outside \<Rightarrow> string \<Rightarrow> core_snapshot reading" where
  "core_collect out today =
     (let s = \<lparr>sn_date = today, sn_records = [], sn_findings = []\<rparr> in
      r_bind (attempt (agent_yaml out (central out) MAP_PATH ''Core project map'')) (\<lambda>r. case r of
        Inl e \<Rightarrow> Given (note_finding ''error'' ''project_map_unreadable'' ''Core project map'' (exn_text out e) s)
      | Inr project_map \<Rightarrow> (case dget project_map ''projects'' of
            PList projects \<Rightarrow> r_fold (collect_project out) projects s
          | _ \<Rightarrow> Given (note_finding ''error'' ''project_map_invalid'' ''Core project map''
                   (squote # ''projects'' @ squote # '' must be a list'') s))))"

section \<open>The report\<close>

definition attention_rank :: "string \<Rightarrow> nat" where
  "attention_rank a = (case map_of (zip [''urgent_time_bound'', ''active'', ''active_secondary'', ''background'',
       ''deferred'', ''parked'', ''none'', ''future''] [0..<8]) a of Some n \<Rightarrow> n | None \<Rightarrow> 8)"

definition by_attention :: "state_record list \<Rightarrow> state_record list" where
  "by_attention rs = sort_key (\<lambda>r. (attention_rank (sr_attention r), sr_name r)) rs"

definition cell :: "string \<Rightarrow> string" where
  "cell s = concat (map (\<lambda>c. if c = CHR ''|'' then [bslash, c] else if c = CHR 0x0A then '' '' else [c]) s)"

definition or_text :: "string \<Rightarrow> string \<Rightarrow> string" where
  "or_text s d = (if s = [] then d else s)"

definition upper :: "string \<Rightarrow> string" where
  "upper s = map (\<lambda>c. if 97 \<le> cp c \<and> cp c \<le> 122 then char_of (cp c - 32) else c) s"

text \<open>Two characters of the report lie outside ASCII: the dash of the title and the middle dot.\<close>

definition finding_line :: "string \<Rightarrow> finding \<Rightarrow> string" where
  "finding_line dot f = ''- **'' @ upper (fi_severity f) @ '' '' @ dot @ '' '' @ fi_code f @ '' '' @ dot @ '' '' @
     fi_subject f @ '':** '' @ fi_message f"

definition record_line :: "state_record \<Rightarrow> string" where
  "record_line r = ''| '' @ join '' | '' [cell (sr_attention r), cell (sr_scope r), cell (sr_name r),
     cell (sr_status r), cell (sr_phase r), cell (or_text (sr_verified r) ''unknown'')] @ '' |''"

definition gate_lines :: "state_record \<Rightarrow> string list" where
  "gate_lines r =
     (if sr_attention r = ''none'' \<or> sr_attention r = ''future'' then []
      else [''### '' @ sr_name r, ''- Attention: **'' @ sr_attention r @ ''**'',
            ''- Gate: '' @ or_text (sr_gate r) ''Not specified.'',
            ''- Next: '' @ or_text (sr_next r) ''Not specified.'', []])"

definition rstrip :: "string \<Rightarrow> string" where
  "rstrip s = rev (dropWhile is_space (rev s))"

definition render_markdown :: "string \<Rightarrow> string \<Rightarrow> core_snapshot \<Rightarrow> string" where
  "render_markdown dash dot s =
     rstrip (join [CHR 0x0A]
       ([''# Core Agent Report '' @ dash @ '' '' @ sn_date s, [],
         ''Read-only report generated from durable Project OS state on GitHub.'', [], ''## Health'', [],
         ''- States read: **'' @ show_nat (length (sn_records s)) @ ''**'',
         ''- Errors: **'' @ show_nat (length (snapshot_errors s)) @ ''**'',
         ''- Warnings: **'' @ show_nat (length (snapshot_warnings s)) @ ''**'', []] @
        (if sn_findings s \<noteq> [] then [''## Findings'', []] @ map (finding_line dot) (sn_findings s) @ [[]]
         else [''## Findings'', [], ''No state integrity findings.'', []]) @
        [''## States'', [], ''| Attention | Scope | Project / Workstream | Status | Phase | Verified |'',
         ''|---|---|---|---|---|---|''] @
        map record_line (by_attention (sn_records s)) @
        [[], ''## Current gates and next actions'', []] @
        concat (map gate_lines (by_attention (sn_records s))))) @ [CHR 0x0A]"

end
