(* ===== verification/State_Integrity.thy ===== *)
theory State_Integrity
  imports Core_Agent Py_Time
begin

text \<open>
  \<open>state_integrity.py\<close>: comparing the root state of a project with the states of its workstreams. Sources
  that cannot be read are skipped; anything else that goes wrong ends the check with its exception. Sets of
  paths are lists without regard to order, their differences are reported sorted.
\<close>

record loaded_state =
  ls_path :: string
  ls_attention :: string
  ls_status :: string
  ls_sync :: string
  ls_verified :: string
  ls_raw :: yaml_map

definition FUTURE_STATUSES :: "string list" where
  "FUTURE_STATUSES = [''future_unassigned'', ''future_project_not_initialized'', ''not_active'']"

definition TERMINAL_ROOT_STATUSES :: "string list" where
  "TERMINAL_ROOT_STATUSES = [''completed'', ''paused'', ''inactive'', ''archived'']"

definition quoted :: "string \<Rightarrow> string" where
  "quoted s = squote # s @ [squote]"

text \<open>\<open>sorted(a - b)\<close> of two sets of paths.\<close>

definition sorted_minus :: "string list \<Rightarrow> string list \<Rightarrow> string list" where
  "sorted_minus a b = sort (remdups (filter (\<lambda>p. p \<notin> set b) a))"

definition issue :: "string \<Rightarrow> string \<Rightarrow> string \<Rightarrow> string \<Rightarrow> finding" where
  "issue severity code subject message =
     \<lparr>fi_severity = severity, fi_code = code, fi_subject = subject, fi_message = message\<rparr>"

section \<open>Reading\<close>

definition plain_yaml :: "outside \<Rightarrow> string \<Rightarrow> string \<Rightarrow> yaml_map reading" where
  "plain_yaml out repository path = read_yaml out repository path (\<lambda>parsed. case parsed of
      Inl e \<Rightarrow> Inl e
    | Inr (PDict d) \<Rightarrow> Inr d
    | Inr v \<Rightarrow> Inl (ValueError (''Expected YAML mapping at '' @ repository @ '':'' @ path)))"

text \<open>\<open>x = raw.get(k) or {}\<close>, and \<open>{}\<close> when that is no mapping.\<close>

definition sub_dict :: "yaml_map \<Rightarrow> string \<Rightarrow> yaml_map" where
  "sub_dict raw k = dict_or_empty (dget raw k)"

definition loaded :: "string \<Rightarrow> string \<Rightarrow> yaml_map \<Rightarrow> loaded_state" where
  "loaded path attention raw =
     \<lparr>ls_path = path, ls_attention = attention, ls_status = py_str (dget_or raw ''status'' (PStr ''unknown'')),
      ls_sync = py_str (dget_or (sub_dict raw ''sync'') ''status'' (PStr ''unknown'')),
      ls_verified = py_str (dget_or (sub_dict raw ''verification'') ''last_verified'' (PStr [])), ls_raw = raw\<rparr>"

definition load_state :: "outside \<Rightarrow> string \<Rightarrow> string \<Rightarrow> string \<Rightarrow> loaded_state option reading" where
  "load_state out repository path attention =
     r_bind (attempt (plain_yaml out repository path)) (\<lambda>r. Given (case r of
       Inl e \<Rightarrow> None | Inr raw \<Rightarrow> Some (loaded path attention raw)))"

definition parse_day :: "string \<Rightarrow> int option" where
  "parse_day s = (if s = [] then None else map_option date_ord (date_fromisoformat s))"

definition non_blocking :: "loaded_state \<Rightarrow> bool" where
  "non_blocking c = (ls_attention c \<in> set NON_BLOCKING_ATTENTION \<or> ls_status c \<in> set FUTURE_STATUSES)"

section \<open>The checks\<close>

definition declared_paths :: "yaml_map \<Rightarrow> string list result" where
  "declared_paths raw =
     (let v = dget raw ''workstreams'' in
      andThen (if truthy v then iterate v else Inr []) (\<lambda>items.
        Inr (map (\<lambda>d. py_str (dget d ''path''))
          (filter (\<lambda>d. truthy (dget d ''path'')) (map dict_or_empty items)))))"

definition check_rollup_shape :: "string \<Rightarrow> loaded_state \<Rightarrow> string list \<Rightarrow> finding list result" where
  "check_rollup_shape name root map_paths =
     (let scope = py_str (dget_or (ls_raw root) ''state_scope'' (PStr [])) in
      andThen (declared_paths (ls_raw root)) (\<lambda>declared.
        let missing = sorted_minus map_paths declared; extra = sorted_minus declared map_paths in
        Inr ((if scope \<noteq> ''project_rollup''
              then [issue ''warning'' ''multi_workstream_root_not_rollup'' name
                (''Project map declares workstreams but root state_scope is '' @ repr_str scope @ '', not '' @
                 quoted ''project_rollup'' @ ''.'')] else []) @
             (if missing \<noteq> []
              then [issue ''warning'' ''rollup_missing_workstream_declaration'' name
                (''Root rollup does not declare mapped workstream(s): '' @ join '', '' missing)] else []) @
             (if extra \<noteq> []
              then [issue ''warning'' ''rollup_declares_unknown_workstream'' name
                (''Root rollup declares workstream path(s) absent from project map: '' @ join '', '' extra)] else []))))"

definition generated_from :: "yaml_map \<Rightarrow> string list result" where
  "generated_from raw =
     (let v = dget (sub_dict raw ''rollup_policy'') ''generated_from'' in
      andThen (if truthy v then iterate v else Inr []) (\<lambda>items. Inr (map py_str (filter truthy items))))"

definition check_generated_sources ::
  "string \<Rightarrow> loaded_state \<Rightarrow> loaded_state list \<Rightarrow> string list \<Rightarrow> finding list result" where
  "check_generated_sources name root active map_paths =
     andThen (generated_from (ls_raw root)) (\<lambda>sources.
       let missing = sorted_minus (map ls_path active) sources; extra = sorted_minus sources map_paths in
       Inr ((if missing \<noteq> []
             then [issue ''warning'' ''rollup_missing_active_source'' name
               (''Active workstream state is not listed in rollup_policy.generated_from: '' @ join '', '' missing)]
             else []) @
            (if extra \<noteq> []
             then [issue ''warning'' ''rollup_generated_from_unknown_source'' name
               (''rollup_policy.generated_from references unmapped path(s): '' @ join '', '' extra)] else [])))"

text \<open>Python's \<open>max\<close>: the first element with the greatest key.\<close>

fun first_max :: "('a \<Rightarrow> int) \<Rightarrow> 'a \<Rightarrow> 'a list \<Rightarrow> 'a" where
  "first_max k x [] = x"
| "first_max k x (y # ys) = first_max k (if k x < k y then y else x) ys"

definition day_of :: "loaded_state \<Rightarrow> int" where
  "day_of c = (case parse_day (ls_verified c) of Some d \<Rightarrow> d | None \<Rightarrow> 0)"

definition newer_than :: "int \<Rightarrow> loaded_state \<Rightarrow> bool" where
  "newer_than root_day c = (case parse_day (ls_verified c) of Some d \<Rightarrow> root_day < d | None \<Rightarrow> False)"

definition check_root_freshness :: "string \<Rightarrow> loaded_state \<Rightarrow> loaded_state list \<Rightarrow> finding list" where
  "check_root_freshness name root active = (case parse_day (ls_verified root) of
      None \<Rightarrow> []
    | Some day \<Rightarrow> (case filter (newer_than day) active of
          [] \<Rightarrow> []
        | c # cs \<Rightarrow> (let newest = first_max day_of c cs in
            [issue ''warning'' ''rollup_outdated'' name
              (''Root rollup was verified '' @ ls_verified root @ '', but workstream '' @ ls_path newest @
               '' was verified later on '' @ ls_verified newest @ ''.'')])))"

definition check_sync :: "string \<Rightarrow> loaded_state \<Rightarrow> loaded_state list \<Rightarrow> finding list" where
  "check_sync name root active =
     (let unsynced = filter (\<lambda>c. ls_sync c \<noteq> ''synced'') active in
      if ls_sync root \<noteq> ''synced'' \<or> unsynced = [] then []
      else [issue ''warning'' ''rollup_sync_conflict'' name
        (''Root rollup claims sync.status='' @ quoted ''synced'' @
         '' while active workstream state is not synced: '' @
         join '', '' (map (\<lambda>c. ls_path c @ ''='' @ ls_sync c) unsynced))])"

definition check_status :: "string \<Rightarrow> loaded_state \<Rightarrow> loaded_state list \<Rightarrow> finding list" where
  "check_status name root active =
     (let conflicting = filter (\<lambda>c. ls_status c = ''active'') active in
      if ls_status root \<notin> set TERMINAL_ROOT_STATUSES \<or> conflicting = [] then []
      else [issue ''error'' ''rollup_status_conflict'' name
        (''Root rollup status is '' @ repr_str (ls_status root) @ '', but active workstream(s) still exist: '' @
         join '', '' (map ls_path conflicting))])"

text \<open>The checks of one project whose states are loaded.\<close>

definition check_loaded ::
  "string \<Rightarrow> loaded_state \<Rightarrow> loaded_state list \<Rightarrow> string list \<Rightarrow> finding list result" where
  "check_loaded name root children map_paths =
     (let active = filter (\<lambda>c. \<not> non_blocking c) children in
      andThen (check_rollup_shape name root map_paths) (\<lambda>shape.
      andThen (check_generated_sources name root active map_paths) (\<lambda>sources.
        Inr (shape @ sources @ check_root_freshness name root active @ check_sync name root active @
          check_status name root active))))"

section \<open>The whole check\<close>

definition child_attention :: "yaml_map \<Rightarrow> yaml_map \<Rightarrow> string" where
  "child_attention project w =
     py_str (dget_or w ''core_attention'' (dget_or project ''core_attention'' (PStr ''unspecified'')))"

definition load_child ::
  "outside \<Rightarrow> string \<Rightarrow> yaml_map \<Rightarrow> pyval \<Rightarrow> loaded_state list \<times> string list \<Rightarrow>
   (loaded_state list \<times> string list) reading" where
  "load_child out repository project w acc =
     (let d = dict_or_empty w; path = py_str (dget d ''state_path'') in
      if \<not> truthy (dget d ''state_path'') then Given acc
      else r_bind (load_state out repository path (child_attention project d)) (\<lambda>c.
        Given (fst acc @ (case c of None \<Rightarrow> [] | Some x \<Rightarrow> [x]), snd acc @ [path])))"

definition check_integrity_project :: "outside \<Rightarrow> yaml_map \<Rightarrow> pyval list \<Rightarrow> finding list reading" where
  "check_integrity_project out project workstreams =
     (let name = py_str (dget_or project ''name'' (dget_or project ''id'' (PStr ''unknown'')));
          repository = repository_of out project; path = dget project ''state_path'' in
      if \<not> truthy path \<or> repository = [] \<or> repository = ''None'' then Given []
      else r_bind (load_state out repository (py_str path)
             (py_str (dget_or project ''core_attention'' (PStr ''unspecified'')))) (\<lambda>root.
        case root of None \<Rightarrow> Given [] | Some root \<Rightarrow>
          r_bind (r_fold (load_child out repository project) workstreams ([], [])) (\<lambda>acc.
            if fst acc = [] then Given [] else r_result (check_loaded name root (fst acc) (snd acc)))))"

definition workstreams_of :: "yaml_map \<Rightarrow> pyval list" where
  "workstreams_of project = (case dget project ''workstreams'' of PList ws \<Rightarrow> ws | _ \<Rightarrow> [])"

definition check_integrity_entry :: "outside \<Rightarrow> pyval \<Rightarrow> finding list \<Rightarrow> finding list reading" where
  "check_integrity_entry out v found = (case v of
      PDict project \<Rightarrow>
        (if workstreams_of project = [] then Given found
         else r_bind (check_integrity_project out project (workstreams_of project)) (\<lambda>fs. Given (found @ fs)))
    | _ \<Rightarrow> Given found)"

definition check_integrity :: "outside \<Rightarrow> finding list reading" where
  "check_integrity out =
     r_bind (attempt (plain_yaml out (central out) MAP_PATH)) (\<lambda>r. case r of
       Inl e \<Rightarrow> Given []
     | Inr project_map \<Rightarrow> (case dget project_map ''projects'' of
           PList projects \<Rightarrow> r_fold (check_integrity_entry out) projects []
         | _ \<Rightarrow> Given []))"

section \<open>Facts about the checks\<close>

lemma set_sorted_minus [simp]: "set (sorted_minus a b) = set a - set b"
  by (auto simp: sorted_minus_def)

lemma sorted_minus_empty [simp]: "sorted_minus a b = [] \<longleftrightarrow> set a \<subseteq> set b"
  by (metis Diff_eq_empty_iff set_empty set_sorted_minus)

lemma first_max_in: "first_max k x ys \<in> insert x (set ys)"
  by (induction ys arbitrary: x) auto

lemma first_max_ge: "k x \<le> k (first_max k x ys) \<and> (\<forall>y\<in>set ys. k y \<le> k (first_max k x ys))"
  by (induction ys arbitrary: x) (auto, (smt (verit))+)

end
