(* ===== verification/Rollup_Proposal.thy ===== *)
theory Rollup_Proposal
  imports State_Integrity
begin

text \<open>
  \<open>rollup_proposal.py\<close>: the changes of a root state that follow from the states of its workstreams. The
  changes are an insertion-ordered dictionary of dotted field names.
\<close>

record workstream_state =
  ws_id :: string
  ws_path :: string
  ws_owner :: string
  ws_attention :: string
  ws_status :: string
  ws_verified :: string
  ws_raw :: yaml_map

record rollup_proposal =
  rp_project :: string
  rp_name :: string
  rp_repository :: string
  rp_root :: string
  rp_basis :: "string list"
  rp_changes :: "(string \<times> pyval) list"
  rp_manual :: bool
  rp_notes :: "string list"

definition NON_BLOCKING_STATUSES :: "string list" where
  "NON_BLOCKING_STATUSES =
     [''future_unassigned'', ''future_project_not_initialized'', ''not_active'', ''deferred_manual'']"

definition waiting :: "workstream_state \<Rightarrow> bool" where
  "waiting c = (ws_attention c \<in> set NON_BLOCKING_ATTENTION \<or> ws_status c \<in> set NON_BLOCKING_STATUSES)"

definition strings :: "string list \<Rightarrow> pyval" where
  "strings xs = PList (map PStr xs)"

section \<open>Changes\<close>

definition change :: "string \<Rightarrow> pyval \<Rightarrow> rollup_proposal \<Rightarrow> rollup_proposal" where
  "change k v p = p\<lparr>rp_changes := dict_set k v (rp_changes p)\<rparr>"

definition set_if_changed :: "yaml_map \<Rightarrow> string \<Rightarrow> pyval \<Rightarrow> rollup_proposal \<Rightarrow> rollup_proposal" where
  "set_if_changed root k v p = (if py_eq (dget root k) v then p else change k v p)"

definition desired_entry :: "yaml_map \<Rightarrow> pyval" where
  "desired_entry w = sdict ([(''id'', PStr (py_str (dget_or w ''id'' (PStr ''unknown'')))),
     (''path'', PStr (py_str (dget w ''state_path''))),
     (''owner'', PStr (py_str (dget_or w ''owner'' (PStr ''unassigned''))))] @
     (if truthy (dget w ''state_status'') then [(''status'', PStr (py_str (dget w ''state_status'')))] else []))"

definition mapped :: "pyval list \<Rightarrow> yaml_map list" where
  "mapped workstreams = filter (\<lambda>w. truthy (dget w ''state_path'')) (map dict_or_empty workstreams)"

definition desired_workstreams :: "pyval list \<Rightarrow> pyval" where
  "desired_workstreams workstreams = PList (map desired_entry (mapped workstreams))"

definition propose_structure ::
  "yaml_map \<Rightarrow> pyval list \<Rightarrow> workstream_state list \<Rightarrow> workstream_state list \<Rightarrow> rollup_proposal \<Rightarrow>
   rollup_proposal" where
  "propose_structure root workstreams active children p0 =
     (let p1 = set_if_changed root ''state_scope'' (PStr ''project_rollup'') p0;
          p2 = set_if_changed root ''workstreams'' (desired_workstreams workstreams) p1;
          sources = strings (map ws_path active);
          policy = sub_dict root ''rollup_policy'';
          p3 = (if dget policy ''specialist_writes_root'' = PBool False then p2
                else change ''rollup_policy.specialist_writes_root'' (PBool False) p2);
          p4 = (if py_eq (dget policy ''generated_from'') sources then p3
                else change ''rollup_policy.generated_from'' sources p3)
      in if length active \<noteq> length children \<and>
            dget policy ''future_workstreams_do_not_block_rollup'' \<noteq> PBool True
         then change ''rollup_policy.future_workstreams_do_not_block_rollup'' (PBool True) p4 else p4)"

definition dated :: "workstream_state list \<Rightarrow> (int \<times> workstream_state) list" where
  "dated active = concat (map (\<lambda>c. case parse_day (ws_verified c) of Some d \<Rightarrow> [(d, c)] | None \<Rightarrow> []) active)"

definition propose_freshness :: "yaml_map \<Rightarrow> workstream_state list \<Rightarrow> rollup_proposal \<Rightarrow> rollup_proposal" where
  "propose_freshness root active p = (case dated active of
      [] \<Rightarrow> p
    | x # xs \<Rightarrow> (case first_max fst x xs of (newest_day, newest) \<Rightarrow>
        (case parse_day (py_str (dget_or (sub_dict root ''verification'') ''last_verified'' (PStr []))) of
            Some day \<Rightarrow> if day < newest_day
                        then change ''verification.last_verified'' (PStr (ws_verified newest)) p else p
          | None \<Rightarrow> change ''verification.last_verified'' (PStr (ws_verified newest)) p)))"

definition NARRATIVE :: "string list" where
  "NARRATIVE = [''status'', ''phase'', ''current_gate'', ''exact_next_action'']"

definition narrate :: "yaml_map \<Rightarrow> yaml_map \<Rightarrow> string \<Rightarrow> rollup_proposal \<Rightarrow> rollup_proposal" where
  "narrate root raw k p = (case dlookup k raw of
      None \<Rightarrow> p
    | Some v \<Rightarrow> set_if_changed root k v p)"

definition add_note :: "string \<Rightarrow> rollup_proposal \<Rightarrow> rollup_proposal" where
  "add_note t p = p\<lparr>rp_notes := rp_notes p @ [t]\<rparr>"

definition propose_narrative :: "yaml_map \<Rightarrow> workstream_state list \<Rightarrow> rollup_proposal \<Rightarrow> rollup_proposal" where
  "propose_narrative root active p = (case active of
      [] \<Rightarrow> add_note ''No blocking active workstream exists; only structural rollup fields can be proposed safely.'' p
    | [c] \<Rightarrow> add_note ''Narrative proposal is unambiguous because exactly one blocking workstream is active.''
               (fold (narrate root (ws_raw c)) NARRATIVE p)
    | _ \<Rightarrow> add_note ''Multiple blocking workstreams are active; narrative rollup fields are intentionally not synthesized deterministically.''
               (p\<lparr>rp_manual := True\<rparr>))"

text \<open>The proposal once root and children are read.\<close>

definition propose_loaded ::
  "rollup_proposal \<Rightarrow> yaml_map \<Rightarrow> pyval list \<Rightarrow> workstream_state list \<Rightarrow> rollup_proposal" where
  "propose_loaded p root workstreams children =
     (let active = filter (\<lambda>c. \<not> waiting c) children in
      propose_narrative root active (propose_freshness root active
        (propose_structure root workstreams active children (p\<lparr>rp_basis := map ws_path active\<rparr>))))"

section \<open>Reading\<close>

definition workstream_of :: "yaml_map \<Rightarrow> yaml_map \<Rightarrow> yaml_map \<Rightarrow> workstream_state" where
  "workstream_of project w raw =
     \<lparr>ws_id = py_str (dget_or w ''id'' (PStr ''unknown'')), ws_path = py_str (dget w ''state_path''),
      ws_owner = py_str (dget_or w ''owner'' (PStr ''unassigned'')), ws_attention = child_attention project w,
      ws_status = py_str (dget_or raw ''status'' (dget_or w ''state_status'' (PStr ''unknown''))),
      ws_verified = py_str (dget_or (sub_dict raw ''verification'') ''last_verified'' (PStr [])), ws_raw = raw\<rparr>"

definition read_workstream ::
  "outside \<Rightarrow> string \<Rightarrow> yaml_map \<Rightarrow> pyval \<Rightarrow> workstream_state list \<Rightarrow> workstream_state list reading" where
  "read_workstream out repository project w acc =
     (let d = dict_or_empty w in
      if \<not> truthy (dget d ''state_path'') then Given acc
      else r_bind (attempt (plain_yaml out repository (py_str (dget d ''state_path'')))) (\<lambda>r.
        Given (case r of Inl e \<Rightarrow> acc | Inr raw \<Rightarrow> acc @ [workstream_of project d raw])))"

definition empty_proposal :: "outside \<Rightarrow> yaml_map \<Rightarrow> rollup_proposal" where
  "empty_proposal out project = (let pid = py_str (dget_or project ''id'' (PStr ''unknown'')) in
     \<lparr>rp_project = pid, rp_name = py_str (dget_or project ''name'' (PStr pid)),
      rp_repository = repository_of out project, rp_root = py_str (dget project ''state_path''), rp_basis = [],
      rp_changes = [], rp_manual = False, rp_notes = []\<rparr>)"

definition propose_project :: "outside \<Rightarrow> yaml_map \<Rightarrow> pyval list \<Rightarrow> rollup_proposal option reading" where
  "propose_project out project workstreams =
     (let repository = repository_of out project; path = dget project ''state_path'' in
      if \<not> truthy path \<or> repository = [] \<or> repository = ''None'' then Given None
      else r_bind (attempt (plain_yaml out repository (py_str path))) (\<lambda>r. case r of
        Inl e \<Rightarrow> Given None
      | Inr root \<Rightarrow> r_bind (r_fold (read_workstream out repository project) workstreams []) (\<lambda>children.
          Given (if children = [] then None
                 else Some (propose_loaded (empty_proposal out project) root workstreams children)))))"

definition propose_entry :: "outside \<Rightarrow> pyval \<Rightarrow> rollup_proposal list \<Rightarrow> rollup_proposal list reading" where
  "propose_entry out v found = (case v of
      PDict project \<Rightarrow>
        (if workstreams_of project = [] then Given found
         else r_bind (propose_project out project (workstreams_of project)) (\<lambda>p. Given (case p of
           None \<Rightarrow> found
         | Some q \<Rightarrow> if rp_changes q \<noteq> [] \<or> rp_notes q \<noteq> [] then found @ [q] else found)))
    | _ \<Rightarrow> Given found)"

definition propose_all :: "outside \<Rightarrow> rollup_proposal list reading" where
  "propose_all out =
     r_bind (plain_yaml out (central out) MAP_PATH) (\<lambda>project_map. case dget project_map ''projects'' of
         PList projects \<Rightarrow> r_fold (propose_entry out) projects []
       | _ \<Rightarrow> Given [])"

definition proposal_dict :: "rollup_proposal \<Rightarrow> pyval" where
  "proposal_dict p = sdict [(''project_id'', PStr (rp_project p)), (''project_name'', PStr (rp_name p)),
     (''repository'', PStr (rp_repository p)), (''root_path'', PStr (rp_root p)),
     (''basis_paths'', strings (rp_basis p)), (''manual_synthesis_required'', PBool (rp_manual p)),
     (''changes'', sdict (rp_changes p)), (''notes'', strings (rp_notes p))]"

end
