(* ===== verification/State_Quality.thy ===== *)
theory State_Quality
  imports State_Integrity
begin

text \<open>
  \<open>state_quality.py\<close>: the freshness policy and its parser, the schema of a state document and how old it
  may be. One function per block of the source, each giving the findings it reports in their order.
\<close>

section \<open>Freshness policy\<close>

record freshness_policy =
  default_days :: "int option"
  attention_days :: "(string \<times> int option) list"
  disabled_attention :: "string list"

definition default_policy :: freshness_policy where
  "default_policy = \<lparr>default_days = Some 14,
     attention_days = [(''urgent_time_bound'', Some 2), (''active'', Some 7), (''active_secondary'', Some 14),
       (''needs_refresh'', Some 0), (''background'', Some 30)],
     disabled_attention = [''deferred'', ''deferred_until_feasibility'', ''parked'', ''none'', ''future'']\<rparr>"

text \<open>A threshold: null or an integer that is not negative; a boolean is not an integer here.\<close>

definition threshold_of :: "string \<Rightarrow> pyval \<Rightarrow> int option result" where
  "threshold_of message v = (case v of
      PNone \<Rightarrow> Inr None
    | PInt i \<Rightarrow> if 0 \<le> i then Inr (Some i) else Inl (ValueError message)
    | _ \<Rightarrow> Inl (ValueError message))"

fun attention_table ::
  "(pyval \<times> pyval) list \<Rightarrow> (string \<times> int option) list \<Rightarrow> (string \<times> int option) list result" where
  "attention_table [] t = Inr t"
| "attention_table ((k, v) # kvs) t =
     andThen (threshold_of (''freshness threshold for '' @ py_repr k @
       '' must be a non-negative integer or null'') v) (\<lambda>n. attention_table kvs (dict_set (py_str k) n t))"

definition disabled_of :: "pyval \<Rightarrow> string list result" where
  "disabled_of v =
     (let bad = Inl (ValueError ''freshness disabled_attention must be a list of strings'') in
      case v of PList vs \<Rightarrow> (if list_all (\<lambda>x. is_str x \<and> str_val x \<noteq> []) vs then Inr (map str_val vs) else bad)
      | _ \<Rightarrow> bad)"

definition policy_from_mapping :: "yaml_map \<Rightarrow> freshness_policy result" where
  "policy_from_mapping raw =
     andThen (case dlookup ''default_days'' raw of
         None \<Rightarrow> Inr (default_days default_policy)
       | Some v \<Rightarrow> threshold_of ''freshness default_days must be a non-negative integer or null'' v) (\<lambda>days.
     andThen (case dget_or raw ''attention_days'' (PDict []) of
         PDict kvs \<Rightarrow> attention_table kvs (attention_days default_policy)
       | _ \<Rightarrow> Inl (ValueError ''freshness attention_days must be a mapping'')) (\<lambda>table.
     andThen (case dlookup ''disabled_attention'' raw of
         None \<Rightarrow> Inr (disabled_attention default_policy)
       | Some v \<Rightarrow> disabled_of v) (\<lambda>disabled.
     Inr \<lparr>default_days = days, attention_days = table, disabled_attention = disabled\<rparr>)))"

definition policy_from_yaml :: "outside \<Rightarrow> string \<Rightarrow> freshness_policy result" where
  "policy_from_yaml out text = andThen (yaml out text) (\<lambda>parsed.
     case (if parsed = PNone then PDict [] else parsed) of
       PDict d \<Rightarrow> (let version = dget_or d ''schema_version'' (PStr ''0.1'') in
         if py_str version \<noteq> ''0.1''
         then Inl (ValueError (''unsupported freshness policy schema_version '' @ py_repr version))
         else policy_from_mapping d)
     | _ \<Rightarrow> Inl (ValueError ''freshness policy YAML must contain a mapping''))"

definition max_age_days :: "freshness_policy \<Rightarrow> string \<Rightarrow> int option" where
  "max_age_days p attention =
     (if attention \<in> set (disabled_attention p) then None
      else case map_of (attention_days p) attention of Some n \<Rightarrow> n | None \<Rightarrow> default_days p)"

section \<open>The schema of a state\<close>

definition SUPPORTED_STATE_SCHEMA :: string where
  "SUPPORTED_STATE_SCHEMA = ''0.2''"

definition REQUIRED_TOP_LEVEL :: "string list" where
  "REQUIRED_TOP_LEVEL = [''project'', ''status'', ''phase'', ''current_gate'', ''current_state'',
     ''exact_next_action'', ''blockers'', ''dependencies'', ''important_open_loops'', ''portfolio'',
     ''verification'', ''sync'']"

definition STRING_TOP_LEVEL :: "string list" where
  "STRING_TOP_LEVEL = [''status'', ''phase'', ''current_gate'', ''current_state'', ''exact_next_action'']"

definition LIST_TOP_LEVEL :: "string list" where
  "LIST_TOP_LEVEL = [''blockers'', ''dependencies'', ''important_open_loops'']"

definition ALLOWED_SYNC_STATUSES :: "string list" where
  "ALLOWED_SYNC_STATUSES = [''synced'', ''pending'', ''failed'']"

definition quality_error :: "string \<Rightarrow> string \<Rightarrow> string \<Rightarrow> finding" where
  "quality_error code subject message = issue ''error'' code subject message"

definition quality_warning :: "string \<Rightarrow> string \<Rightarrow> string \<Rightarrow> finding" where
  "quality_warning code subject message = issue ''warning'' code subject message"

definition type_finding :: "string \<Rightarrow> string \<Rightarrow> string \<Rightarrow> pyval \<Rightarrow> finding" where
  "type_finding subject key expected v = quality_error ''state_field_type_invalid'' subject
     (key @ '' must be '' @ expected @ ''; got '' @ type_name v @ ''.'')"

definition missing_nested :: "string \<Rightarrow> string \<Rightarrow> finding" where
  "missing_nested subject key = quality_error ''state_nested_field_missing'' subject (''Missing '' @ key @ ''.'')"

definition non_empty_string :: "pyval \<Rightarrow> bool" where
  "non_empty_string v = (case v of PStr s \<Rightarrow> strip s \<noteq> [] | _ \<Rightarrow> False)"

definition require_string :: "yaml_map \<Rightarrow> string \<Rightarrow> string \<Rightarrow> string \<Rightarrow> finding list" where
  "require_string d key display subject = (if non_empty_string (dget d key) then []
     else [quality_error ''state_nested_field_invalid'' subject (display @ '' must be a non-empty string.'')])"

definition check_version :: "yaml_map \<Rightarrow> string \<Rightarrow> finding list" where
  "check_version raw subject = (let v = dget raw ''schema_version'' in
     if py_str v = SUPPORTED_STATE_SCHEMA then []
     else [quality_error ''state_schema_version_unsupported'' subject
       (''Expected schema_version '' @ repr_str SUPPORTED_STATE_SCHEMA @ '', got '' @ py_repr v @ ''.'')])"

definition check_required :: "yaml_map \<Rightarrow> string \<Rightarrow> finding list" where
  "check_required raw subject = (let missing = filter (\<lambda>k. \<not> has_key k raw) REQUIRED_TOP_LEVEL in
     if missing = [] then []
     else [quality_error ''state_required_field_missing'' subject
       (''Missing required top-level field(s): '' @ join '', '' missing)])"

definition check_typed :: "(pyval \<Rightarrow> bool) \<Rightarrow> string \<Rightarrow> string list \<Rightarrow> yaml_map \<Rightarrow> string \<Rightarrow> finding list" where
  "check_typed ok expected keys raw subject = concat (map (\<lambda>k. case dlookup k raw of
      None \<Rightarrow> []
    | Some v \<Rightarrow> if ok v then [] else [type_finding subject k expected v]) keys)"

text \<open>A block of the schema that must be a mapping if it is there.\<close>

definition check_block :: "yaml_map \<Rightarrow> string \<Rightarrow> string \<Rightarrow> (yaml_map \<Rightarrow> finding list) \<Rightarrow> finding list" where
  "check_block raw key subject inner = (case dlookup key raw of
      None \<Rightarrow> []
    | Some (PDict d) \<Rightarrow> inner d
    | Some v \<Rightarrow> [type_finding subject key ''mapping'' v])"

definition check_project_block :: "string \<Rightarrow> string \<Rightarrow> yaml_map \<Rightarrow> finding list" where
  "check_project_block scope subject d =
     require_string d ''name'' ''project.name'' subject @
     require_string d ''owner'' ''project.owner'' subject @
     (if scope = ''workstream'' then require_string d ''workstream'' ''project.workstream'' subject else [])"

definition check_scope :: "yaml_map \<Rightarrow> string \<Rightarrow> string \<Rightarrow> finding list result" where
  "check_scope raw subject expected = (let v = dget raw ''state_scope'' in
     if expected = ''project_rollup'' \<or> expected = ''workstream''
     then Inr (if v = PStr expected then [] else [quality_error ''state_scope_mismatch'' subject
            (''Expected state_scope '' @ repr_str expected @ '', got '' @ py_repr v @ ''.'')])
     else if v = PNone then Inr []
     else andThen (in_names [''project'', ''project_state''] v) (\<lambda>known.
       Inr (if known then [] else [quality_warning ''state_scope_unexpected'' subject
            (''Single-project state has unexpected state_scope '' @ py_repr v @ ''.'')])))"

text \<open>A field of a nested mapping: there, and of its type; then whatever else is asked of it.\<close>

definition check_nested ::
  "string \<Rightarrow> string \<Rightarrow> string \<Rightarrow> (pyval \<Rightarrow> bool) \<Rightarrow> string \<Rightarrow> (pyval \<Rightarrow> finding list) \<Rightarrow> yaml_map \<Rightarrow> finding list" where
  "check_nested subject block key ok expected inner d = (case dlookup key d of
      None \<Rightarrow> [missing_nested subject (block @ ''.'' @ key)]
    | Some v \<Rightarrow> if ok v then inner v else [type_finding subject (block @ ''.'' @ key) expected v])"

definition check_portfolio :: "string \<Rightarrow> yaml_map \<Rightarrow> finding list" where
  "check_portfolio subject d =
     check_nested subject ''portfolio'' ''milestone'' is_bool ''boolean'' (\<lambda>_. []) d @
     check_nested subject ''portfolio'' ''signal'' is_str ''string'' (\<lambda>_. []) d"

definition check_day :: "string \<Rightarrow> pyval \<Rightarrow> finding list" where
  "check_day subject v = (if str_val v \<noteq> [] \<and> parse_day (str_val v) = None
     then [quality_error ''verification_date_invalid'' subject
       (''verification.last_verified is not ISO date YYYY-MM-DD: '' @ py_repr v @ ''.'')]
     else [])"

definition check_verification :: "string \<Rightarrow> yaml_map \<Rightarrow> finding list" where
  "check_verification subject d =
     check_nested subject ''verification'' ''last_verified'' is_str ''string'' (check_day subject) d @
     check_nested subject ''verification'' ''sources'' is_list ''list'' (\<lambda>_. []) d"

definition check_sync_status :: "string \<Rightarrow> pyval \<Rightarrow> finding list" where
  "check_sync_status subject v = (if str_val v \<in> set ALLOWED_SYNC_STATUSES then []
     else [quality_warning ''sync_status_unknown'' subject (''Unrecognized sync.status '' @ py_repr v @ ''.'')])"

definition check_storage :: "string \<Rightarrow> string \<Rightarrow> pyval \<Rightarrow> finding list" where
  "check_storage subject path v = (if str_val v = path then []
     else [quality_error ''sync_storage_mismatch'' subject (''sync.storage is '' @ py_repr v @
       '', but Project Map resolved this state from '' @ repr_str path @ ''.'')])"

definition check_sync_block :: "string \<Rightarrow> string \<Rightarrow> yaml_map \<Rightarrow> finding list" where
  "check_sync_block subject path d =
     check_nested subject ''sync'' ''status'' is_str ''string'' (check_sync_status subject) d @
     check_nested subject ''sync'' ''storage'' is_str ''string'' (check_storage subject path) d"

definition check_schema :: "yaml_map \<Rightarrow> string \<Rightarrow> string \<Rightarrow> string \<Rightarrow> finding list result" where
  "check_schema raw path subject scope =
     andThen (check_scope raw subject scope) (\<lambda>scope_findings.
       Inr (check_version raw subject @ check_required raw subject @
         check_typed is_str ''string'' STRING_TOP_LEVEL raw subject @
         check_typed is_list ''list'' LIST_TOP_LEVEL raw subject @
         check_block raw ''project'' subject (check_project_block scope subject) @
         scope_findings @
         check_block raw ''portfolio'' subject (check_portfolio subject) @
         check_block raw ''verification'' subject (check_verification subject) @
         check_block raw ''sync'' subject (check_sync_block subject path)))"

section \<open>Freshness of a state\<close>

definition threshold_for ::
  "freshness_policy \<Rightarrow> string \<Rightarrow> yaml_map \<Rightarrow> string \<Rightarrow> int option \<times> finding list" where
  "threshold_for policy attention entry subject = (case dlookup ''freshness_days'' entry of
      None \<Rightarrow> (max_age_days policy attention, [])
    | Some PNone \<Rightarrow> (None, [])
    | Some v \<Rightarrow> (case v of
          PInt i \<Rightarrow> if 0 \<le> i then (Some i, [])
            else (max_age_days policy attention, [quality_warning ''freshness_override_invalid'' subject
              (''Ignoring invalid freshness_days override '' @ py_repr v @ ''.'')])
        | _ \<Rightarrow> (max_age_days policy attention, [quality_warning ''freshness_override_invalid'' subject
              (''Ignoring invalid freshness_days override '' @ py_repr v @ ''.'')])))"

definition age_findings :: "date \<Rightarrow> int \<Rightarrow> string \<Rightarrow> string \<Rightarrow> string \<Rightarrow> int \<Rightarrow> finding list" where
  "age_findings today threshold attention subject raw_date verified =
     (let age = date_ord today - verified in
      if age < 0
      then [quality_warning ''verification_date_in_future'' subject (''verification.last_verified '' @ raw_date @
        '' is '' @ show_int (- age) @ '' day(s) ahead of checker date '' @
        (case today of (y, m, d) \<Rightarrow> iso_date y m d) @ ''.'')]
      else if threshold < age
      then [quality_warning ''state_stale_by_policy'' subject (''State is '' @ show_int age @
        '' day(s) old; attention '' @ repr_str attention @ '' allows at most '' @ show_int threshold @
        '' day(s) without refresh.'')]
      else [])"

definition check_freshness ::
  "freshness_policy \<Rightarrow> date \<Rightarrow> yaml_map \<Rightarrow> string \<Rightarrow> string \<Rightarrow> yaml_map \<Rightarrow> finding list" where
  "check_freshness policy today raw subject attention entry =
     (if py_str (dget_or raw ''status'' (PStr ''unknown'')) \<in> set
           [''future_unassigned'', ''future_project_not_initialized'', ''not_active'', ''deferred_manual'']
      then []
      else (case threshold_for policy attention entry subject of
          (None, found) \<Rightarrow> found
        | (Some threshold, found) \<Rightarrow> found @ (case dget raw ''verification'' of
              PDict d \<Rightarrow> (case dget d ''last_verified'' of
                  PStr s \<Rightarrow> (case parse_day s of
                      None \<Rightarrow> []
                    | Some day \<Rightarrow> age_findings today threshold attention subject s day)
                | _ \<Rightarrow> [])
            | _ \<Rightarrow> [])))"

section \<open>The whole check\<close>

record quality_checker =
  qc_policy :: freshness_policy
  qc_today :: date

definition check_one_state ::
  "outside \<Rightarrow> quality_checker \<Rightarrow> string \<Rightarrow> string \<Rightarrow> string \<Rightarrow> string \<Rightarrow> string \<Rightarrow> yaml_map \<Rightarrow> finding list reading" where
  "check_one_state out qc repository path subject scope attention entry =
     r_bind (attempt (plain_yaml out repository path)) (\<lambda>r. case r of
       Inl e \<Rightarrow> Given []
     | Inr raw \<Rightarrow> r_result (andThen (check_schema raw path subject scope) (\<lambda>found.
         Inr (found @ check_freshness (qc_policy qc) (qc_today qc) raw subject attention entry))))"

definition quality_repository :: "outside \<Rightarrow> yaml_map \<Rightarrow> string option" where
  "quality_repository out project =
     (if dget project ''storage'' = PStr ''project_repo''
      then (if truthy (dget project ''repository'') then Some (py_str (dget project ''repository'')) else None)
      else Some (central out))"

definition check_quality_workstream ::
  "outside \<Rightarrow> quality_checker \<Rightarrow> string \<Rightarrow> string \<Rightarrow> string \<Rightarrow> pyval \<Rightarrow> finding list \<Rightarrow> finding list reading" where
  "check_quality_workstream out qc repository name root_attention w found =
     (let d = dict_or_empty w in
      if \<not> truthy (dget d ''state_path'') then Given found
      else r_bind (check_one_state out qc repository (py_str (dget d ''state_path''))
             (name @ '' / '' @ py_str (dget_or d ''id'' (PStr ''unknown''))) ''workstream''
             (py_str (dget_or d ''core_attention'' (PStr root_attention))) d)
           (\<lambda>fs. Given (found @ fs)))"

definition check_quality_project ::
  "outside \<Rightarrow> quality_checker \<Rightarrow> yaml_map \<Rightarrow> finding list \<Rightarrow> finding list reading" where
  "check_quality_project out qc project found =
     (let name = py_str (dget_or project ''name'' (PStr (py_str (dget_or project ''id'' (PStr ''unknown'')))));
          path = dget project ''state_path''; workstreams = workstreams_of project;
          attention = py_str (dget_or project ''core_attention'' (PStr ''unspecified'')) in
      case quality_repository out project of
        None \<Rightarrow> Given found
      | Some repository \<Rightarrow>
          if repository = [] \<or> \<not> truthy path then Given found
          else r_bind (check_one_state out qc repository (py_str path) name
                 (if workstreams = [] then ''project'' else ''project_rollup'') attention project)
               (\<lambda>fs. r_fold (check_quality_workstream out qc repository name attention) workstreams (found @ fs)))"

definition check_quality_entry :: "outside \<Rightarrow> quality_checker \<Rightarrow> pyval \<Rightarrow> finding list \<Rightarrow> finding list reading" where
  "check_quality_entry out qc v found = (case v of
      PDict project \<Rightarrow> check_quality_project out qc project found
    | _ \<Rightarrow> Given found)"

definition check_quality :: "outside \<Rightarrow> quality_checker \<Rightarrow> finding list reading" where
  "check_quality out qc =
     r_bind (attempt (plain_yaml out (central out) MAP_PATH)) (\<lambda>r. case r of
       Inl e \<Rightarrow> Given []
     | Inr project_map \<Rightarrow> (case dget project_map ''projects'' of
           PList projects \<Rightarrow> r_fold (check_quality_entry out qc) projects []
         | _ \<Rightarrow> Given []))"

end
