(* ===== verification/Core_Run.thy ===== *)
theory Core_Run
  imports Rollup_Proposal State_Quality Effects
begin

text \<open>
  \<open>machine_snapshot.py\<close> and the manual jobs of \<open>runtime.py\<close>: collecting the findings and proposals of one
  run through the cache, the machine snapshot, the artifacts on disk and the health of the container.
\<close>

section \<open>The machine snapshot\<close>

definition record_dict :: "state_record \<Rightarrow> pyval" where
  "record_dict r = sdict [(''project_name'', PStr (sr_name r)), (''scope'', PStr (sr_scope r)),
     (''repository'', PStr (sr_repository r)), (''path'', PStr (sr_path r)), (''attention'', PStr (sr_attention r)),
     (''status'', PStr (sr_status r)), (''phase'', PStr (sr_phase r)), (''last_verified'', PStr (sr_verified r)),
     (''sync_status'', PStr (sr_sync r)), (''current_gate'', PStr (sr_gate r)),
     (''exact_next_action'', PStr (sr_next r))]"

definition finding_dict :: "finding \<Rightarrow> pyval" where
  "finding_dict f = sdict [(''severity'', PStr (fi_severity f)), (''code'', PStr (fi_code f)),
     (''subject'', PStr (fi_subject f)), (''message'', PStr (fi_message f))]"

text \<open>The records of each project, in the order the projects appear.\<close>

definition file_record :: "state_record \<Rightarrow> (string \<times> state_record list) list \<Rightarrow> (string \<times> state_record list) list" where
  "file_record r ps = dict_set (sr_project r)
     ((case map_of ps (sr_project r) of Some rs \<Rightarrow> rs | None \<Rightarrow> []) @ [r]) ps"

definition by_project :: "state_record list \<Rightarrow> (string \<times> state_record list) list" where
  "by_project rs = fold file_record rs []"

definition proposal_index :: "rollup_proposal list \<Rightarrow> (string \<times> rollup_proposal) list" where
  "proposal_index ps = fold (\<lambda>p. dict_set (rp_project p) p) ps []"

definition project_dict :: "rollup_proposal list \<Rightarrow> string \<times> state_record list \<Rightarrow> pyval" where
  "project_dict ps q = (case q of (pid, rs) \<Rightarrow>
     sdict ([(''project_id'', PStr pid), (''records'', PList (map record_dict rs))] @
       (case map_of (proposal_index ps) pid of
          None \<Rightarrow> [] | Some p \<Rightarrow> [(''rollup_proposal'', proposal_dict p)])))"

definition health_counts :: "core_snapshot \<Rightarrow> rollup_proposal list \<Rightarrow> pyval" where
  "health_counts s ps = sdict [(''states_read'', PInt (int (length (sn_records s)))),
     (''errors'', PInt (int (length (snapshot_errors s)))), (''warnings'', PInt (int (length (snapshot_warnings s)))),
     (''rollup_proposals'', PInt (int (length ps)))]"

definition build_machine_snapshot :: "core_snapshot \<Rightarrow> rollup_proposal list \<Rightarrow> pyval" where
  "build_machine_snapshot s ps = sdict [(''schema_version'', PStr ''0.1''), (''generated_on'', PStr (sn_date s)),
     (''health'', health_counts s ps), (''findings'', PList (map finding_dict (sn_findings s))),
     (''projects'', sdict (map (\<lambda>q. (fst q, project_dict ps q)) (by_project (sn_records s)))),
     (''rollup_proposals'', PList (map proposal_dict ps))]"

section \<open>One run\<close>

record job_setup =
  js_out :: outside
  js_checker :: quality_checker
  js_today :: string
  js_dash :: string
  js_dot :: string

definition with_findings :: "finding list \<Rightarrow> core_snapshot \<Rightarrow> core_snapshot" where
  "with_findings fs s = s\<lparr>sn_findings := sn_findings s @ fs\<rparr>"

definition map_failed :: "core_snapshot \<Rightarrow> bool" where
  "map_failed s = list_ex (\<lambda>f. fi_code f = ''project_map_unreadable'' \<or> fi_code f = ''project_map_invalid'')
     (sn_findings s)"

definition run_collect :: "job_setup \<Rightarrow> (core_snapshot \<times> rollup_proposal list) reading" where
  "run_collect j = r_bind (core_collect (js_out j) (js_today j)) (\<lambda>s.
     if map_failed s then Given (s, [])
     else r_bind (check_integrity (js_out j)) (\<lambda>integrity.
          r_bind (check_quality (js_out j) (js_checker j)) (\<lambda>quality.
          r_bind (propose_all (js_out j)) (\<lambda>proposals.
            Given (with_findings quality (with_findings integrity s), proposals)))))"

definition SOURCE_CODES :: "string list" where
  "SOURCE_CODES = [''project_map_unreadable'', ''state_unreadable'']"

definition classify_run :: "core_snapshot \<Rightarrow> nat \<Rightarrow> string \<times> int" where
  "classify_run s failures =
     (if failures \<noteq> 0 \<or> list_ex (\<lambda>f. fi_code f \<in> set SOURCE_CODES) (sn_findings s)
      then (''source_read_failure'', 3)
      else if sn_findings s \<noteq> [] then (''findings'', 0) else (''ok'', 0))"

section \<open>JSON files\<close>

definition newline :: "nat \<Rightarrow> string" where
  "newline n = CHR 0x0A # replicate (2 * n) (CHR '' '')"

definition json_float :: "string \<Rightarrow> string" where
  "json_float r = (if r = ''nan'' then ''NaN'' else if r = ''inf'' then ''Infinity''
     else if r = ''-inf'' then ''-Infinity'' else r)"

definition json_key :: "pyval \<Rightarrow> string option" where
  "json_key k = (case k of
      PStr s \<Rightarrow> Some (json_str True s)
    | PBool b \<Rightarrow> Some (json_str True (if b then ''true'' else ''false''))
    | PNone \<Rightarrow> Some (json_str True ''null'')
    | PInt i \<Rightarrow> Some (json_str True (show_int i))
    | PFloat r _ \<Rightarrow> Some (json_str True (json_float r))
    | _ \<Rightarrow> None)"

definition json_frame :: "nat \<Rightarrow> string \<Rightarrow> string \<Rightarrow> string list \<Rightarrow> string" where
  "json_frame n l r ss = (if ss = [] then l @ r
     else l @ newline (n + 1) @ join ('','' @ newline (n + 1)) ss @ newline n @ r)"

text \<open>\<open>json.dumps(value, indent=2)\<close> at nesting depth \<open>n\<close>; \<open>None\<close> is the \<open>TypeError\<close>.\<close>

function (sequential) json_indent :: "nat \<Rightarrow> pyval \<Rightarrow> string option"
  and indent_list :: "nat \<Rightarrow> pyval list \<Rightarrow> string list option"
  and indent_items :: "nat \<Rightarrow> (pyval \<times> pyval) list \<Rightarrow> string list option" where
  "json_indent n PNone = Some ''null''"
| "json_indent n (PBool b) = Some (if b then ''true'' else ''false'')"
| "json_indent n (PInt i) = Some (show_int i)"
| "json_indent n (PFloat r _) = Some (json_float r)"
| "json_indent n (PStr s) = Some (json_str True s)"
| "json_indent n (PDate _ _ _) = None"
| "json_indent n (PDateTime _ _) = None"
| "json_indent n (PList vs) = map_option (json_frame n ''['' '']'') (indent_list (Suc n) vs)"
| "json_indent n (PDict kvs) = map_option (json_frame n ''{'' ''}'') (indent_items (Suc n) kvs)"
| "indent_list n [] = Some []"
| "indent_list n (v # vs) = (case json_indent n v of
      None \<Rightarrow> None | Some t \<Rightarrow> map_option (\<lambda>ts. t # ts) (indent_list n vs))"
| "indent_items n [] = Some []"
| "indent_items n ((k, v) # kvs) = (case (json_key k, json_indent n v, indent_items n kvs) of
      (Some s, Some t, Some ts) \<Rightarrow> Some ((s @ '': '' @ t) # ts) | _ \<Rightarrow> None)"
  by pat_completeness auto
termination
  by (relation "measure (case_sum (\<lambda>(n, v). size v)
        (case_sum (\<lambda>(n, vs). size_list size vs) (\<lambda>(n, kvs). size_list (size_prod size size) kvs)))") auto

section \<open>The job\<close>

text \<open>Files are texts under their path below the state directory; another process may hold the lock.\<close>

record job_disk = disk +
  jd_locked :: bool
  jd_token :: "string result"
  jd_files :: "(string \<times> string) list"

type_synonym 'a job = "(job_disk, 'a) eff"

definition write_text :: "string \<Rightarrow> string \<Rightarrow> unit job" where
  "write_text path text = durable (\<lambda>w. w\<lparr>jd_files := dict_set path text (jd_files w)\<rparr>)"

definition job_text :: "pyval \<Rightarrow> string result" where
  "job_text v = (case json_indent 0 v of None \<Rightarrow> Inl TypeError | Some t \<Rightarrow> Inr (t @ [CHR 0x0A]))"

definition atomic_json :: "string \<Rightarrow> pyval \<Rightarrow> unit job" where
  "atomic_json path v = io_bind (io_result (job_text v)) (write_text path)"

definition result_update :: "(string \<times> pyval) list \<Rightarrow> (string \<times> pyval) list \<Rightarrow> (string \<times> pyval) list" where
  "result_update kvs d = fold (\<lambda>(k, v). dict_set k v) kvs d"

definition proposals_dict :: "rollup_proposal list \<Rightarrow> pyval" where
  "proposals_dict ps = sdict [(''proposal_count'', PInt (int (length ps))), (''proposals'', PList (map proposal_dict ps))]"

definition write_artifacts ::
  "job_setup \<Rightarrow> string \<Rightarrow> string \<Rightarrow> core_snapshot \<Rightarrow> rollup_proposal list \<Rightarrow> unit job" where
  "write_artifacts j command dir s ps =
     io_bind (atomic_json (dir @ ''/core-snapshot.json'') (build_machine_snapshot s ps)) (\<lambda>_.
     if command = ''core-report'' then write_text (dir @ ''/core-report.md'') (render_markdown (js_dash j) (js_dot j) s)
     else if command = ''rollup-proposals'' then atomic_json (dir @ ''/rollup-proposals.json'') (proposals_dict ps)
     else io_return ())"

text \<open>What the credential file gives: its stripped text, or no credential.\<close>

definition credential :: "job_disk \<Rightarrow> string result" where
  "credential w = andThen (jd_token w) (\<lambda>t. if strip t = [] then Inl OSError else Inr (strip t))"

definition with_sources ::
  "job_setup \<Rightarrow> (nat \<Rightarrow> source \<Rightarrow> string result) \<Rightarrow> string \<Rightarrow> string \<Rightarrow> (string \<times> pyval) list \<Rightarrow>
   ((string \<times> pyval) list \<times> int) job" where
  "with_sources j remote command dir res =
     (case run remote (run_collect j) new_reader of (collected, reader) \<Rightarrow>
      io_bind (io_result collected) (\<lambda>(s, ps).
      io_bind (write_artifacts j command dir s ps) (\<lambda>_.
      case classify_run s (read_failures reader) of (status, code) \<Rightarrow>
        io_return (result_update [(''status'', PStr status), (''health'', health_counts s ps),
          (''source_read_failures'', PInt (int (read_failures reader)))] res, code))))"

definition run_work ::
  "job_setup \<Rightarrow> (string \<Rightarrow> nat \<Rightarrow> source \<Rightarrow> string result) \<Rightarrow> string \<Rightarrow> string \<Rightarrow> (string \<times> pyval) list \<Rightarrow>
   ((string \<times> pyval) list \<times> int) job" where
  "run_work j remote command dir res = io_catch
     (io_bind (io_get credential) (\<lambda>c. case c of
        Inr token \<Rightarrow> with_sources j (remote token) command dir res
      | Inl e \<Rightarrow> if is_os_error e
          then io_return (result_update [(''status'', PStr ''source_read_failure''),
            (''reason'', PStr ''credential_unavailable'')] res, 3)
          else io_raise e))
     (\<lambda>e. if e = ExecutionTimeout then io_raise e
       else io_return (result_update [(''status'', PStr ''runtime_failure''), (''error_type'', PStr (class_name e))] res, 1))"

text \<open>The run itself, under the lock.\<close>

definition locked_job ::
  "job_setup \<Rightarrow> (string \<Rightarrow> nat \<Rightarrow> source \<Rightarrow> string result) \<Rightarrow> string \<Rightarrow> string \<Rightarrow>
   ((string \<times> pyval) list \<times> int) job" where
  "locked_job j remote command run_id =
     (let dir = ''runs/'' @ run_id in
      io_bind (durable id) (\<lambda>_. io_bind stamp (\<lambda>started.
      io_bind (run_work j remote command dir
        [(''run_id'', PStr run_id), (''command'', PStr command), (''started_at'', PStr started)]) (\<lambda>(res, code).
      io_bind stamp (\<lambda>finished.
      let final = result_update [(''finished_at'', PStr finished), (''exit_code'', PInt code),
            (''artifact_dir'', PStr dir)] res in
      io_bind (atomic_json (dir @ ''/result.json'') (sdict final)) (\<lambda>_.
      io_bind (atomic_json ''latest.json'' (sdict final)) (\<lambda>_. io_return (final, code))))))))"

text \<open>The state directory and the lock file first.\<close>

definition run_job ::
  "job_setup \<Rightarrow> (string \<Rightarrow> nat \<Rightarrow> source \<Rightarrow> string result) \<Rightarrow> string \<Rightarrow> string \<Rightarrow>
   ((string \<times> pyval) list \<times> int) job" where
  "run_job j remote command run_id =
     io_bind (durable id) (\<lambda>_. io_bind (durable id) (\<lambda>_. io_bind (io_get jd_locked) (\<lambda>busy.
     if busy then io_return ([(''status'', PStr ''busy'')], 5) else locked_job j remote command run_id)))"

section \<open>Health\<close>

text \<open>
  \<open>latest.json\<close> and the heartbeat, each decoded or the exception of reading or decoding it; a missing file is
  \<open>None\<close>. The comparison of the heartbeat's float with the clock is an argument.
\<close>

definition beat_fresh :: "(pyval \<Rightarrow> bool result) \<Rightarrow> pyval \<Rightarrow> bool result" where
  "beat_fresh recent beat = andThen (subscript beat ''time'') recent"

definition last_run_code :: "pyval \<Rightarrow> int result" where
  "last_run_code final = (case final of
      PDict d \<Rightarrow> (let st = dget d ''status'' in
        if \<not> hashable st then Inl TypeError
        else Inr (if st = PStr ''ok'' \<or> st = PStr ''findings'' then 0 else if st = PStr ''source_read_failure'' then 3 else 1))
    | _ \<Rightarrow> Inr 1)"

definition last_run_health :: "pyval result option \<Rightarrow> (pyval \<times> int) result" where
  "last_run_health latest = (case latest of
      None \<Rightarrow> Inr (sdict [(''runtime'', PStr ''available''), (''last_run'', sdict [(''status'', PStr ''not_checked'')])], 4)
    | Some (Inl e) \<Rightarrow>
        if is_os_error e \<or> is_value_error e
        then Inr (sdict [(''runtime'', PStr ''available''), (''last_run'',
          sdict [(''status'', PStr ''runtime_failure''), (''reason'', PStr ''invalid_status_file'')])], 1)
        else Inl e
    | Some (Inr final) \<Rightarrow> andThen (last_run_code final) (\<lambda>code.
        Inr (sdict [(''runtime'', PStr ''available''), (''last_run'', final),
          (''source_check'', PStr ''last_manual_run_only'')], code)))"

definition job_health :: "(pyval \<Rightarrow> bool result) \<Rightarrow> pyval result \<Rightarrow> pyval result option \<Rightarrow> (pyval \<times> int) result" where
  "job_health recent heartbeat latest = (case andThen heartbeat (beat_fresh recent) of
      Inr True \<Rightarrow> last_run_health latest
    | Inr False \<Rightarrow> Inr (sdict [(''runtime'', PStr ''unavailable'')], 1)
    | Inl e \<Rightarrow> if is_os_error e \<or> is_value_error e \<or> e = KeyError \<or> e = TypeError
        then Inr (sdict [(''runtime'', PStr ''unavailable'')], 1) else Inl e)"

end
