(* ===== verification/Core_Behaviour.thy ===== *)
theory Core_Behaviour
  imports Core_Run
begin

text \<open>
  Facts about the reading of a run, the findings its checkers report, and the agreement of the proposal engine
  with the integrity checker.
\<close>

section \<open>Sources\<close>

text \<open>Calls that give a JSON object with decodable content, or fail in a way the cache records.\<close>

definition well_served :: "(pyval \<Rightarrow> string result) \<Rightarrow> (nat \<Rightarrow> source \<Rightarrow> fetched) \<Rightarrow> bool" where
  "well_served decode answer = (\<forall>n q. case answer n q of
      Payload v \<Rightarrow> is_dict v \<and> (\<forall>c e. decode c = Inl e \<longrightarrow> cached_error e \<noteq> None)
    | Failing e \<Rightarrow> cached_error e \<noteq> None
    | _ \<Rightarrow> True)"

lemma get_text_errors:
  assumes "get_text decode q got = Inl e"
    and "case got of Payload v \<Rightarrow> is_dict v \<and> (\<forall>c e. decode c = Inl e \<longrightarrow> cached_error e \<noteq> None)
      | Failing e \<Rightarrow> cached_error e \<noteq> None | _ \<Rightarrow> True"
  shows "cached_error e \<noteq> None"
proof (cases got)
  case (Payload v)
  with assms(2) obtain d where d: "v = PDict d" by (cases v) auto
  show ?thesis
  proof (cases "andThen (subscript v ''content'') decode")
    case (Inl e')
    from Inl have e': "e' = KeyError \<or> (\<exists>c. decode c = Inl e')"
      by (auto simp: d subscript_def andThen_Inl_iff split: option.splits)
    with assms(2) Payload have "e' = KeyError \<or> cached_error e' \<noteq> None" by auto
    with assms(1) show ?thesis
      by (auto simp: Payload d get_text_def Inl [unfolded d] cached_error_def split: if_splits)
  qed (use assms(1) Payload in \<open>auto simp: d get_text_def cached_error_def split: if_splits\<close>)
qed (use assms in \<open>auto simp: get_text_def cached_error_def split: if_splits\<close>)

lemma orderly_served: "well_served decode answer \<Longrightarrow> orderly (\<lambda>n q. get_text decode q (answer n q))"
  unfolding orderly_def well_served_def using get_text_errors by blast

text \<open>Every cached text came from a call.\<close>

definition sourced :: "(nat \<Rightarrow> source \<Rightarrow> string result) \<Rightarrow> run_reader \<Rightarrow> bool" where
  "sourced remote s = (\<forall>q t. map_of (cache s) q = Some (Inr t) \<longrightarrow> (\<exists>n<fetches s. remote n q = Inr t))"

lemma cached_text_sourced: "sourced remote s \<Longrightarrow> cached_text remote q s = (a, s') \<Longrightarrow> sourced remote s'"
  unfolding sourced_def cached_text_def
  by (auto simp del: split_paired_All split: option.splits sum.splits if_splits) (metis less_SucI less_Suc_eq)+

lemma run_sourced: "run remote m s = (x, s') \<Longrightarrow> sourced remote s \<Longrightarrow> sourced remote s'"
proof (induction m arbitrary: s)
  case (Reads q k)
  obtain a s1 where a: "cached_text remote q s = (a, s1)" by (cases "cached_text remote q s")
  with Reads.prems(1) have "run remote (k a) s1 = (x, s')" by simp
  then show ?case using Reads.IH [OF rangeI] cached_text_sourced [OF Reads.prems(2) a] by blast
qed auto

lemma new_reader_facts:
  "settled_cache new_reader" "sourced remote new_reader" "distinct (map fst (cache new_reader))"
  "read_failures new_reader = length (filter (isl \<circ> snd) (cache new_reader))"
  by (simp_all add: settled_cache_def sourced_def new_reader_def)

text \<open>The sources as the run saw them.\<close>

definition seen :: "run_reader \<Rightarrow> source \<Rightarrow> string result" where
  "seen rd q = (case map_of (cache rd) q of Some a \<Rightarrow> a | None \<Rightarrow> Inl OSError)"

section \<open>Folds\<close>

lemma view_fold:
  assumes "view v (r_fold f xs s) = Inr t" "P s"
    and "\<And>x s s'. x \<in> set xs \<Longrightarrow> view v (f x s) = Inr s' \<Longrightarrow> P s \<Longrightarrow> P s'"
  shows "P t"
  using assms
proof (induction xs arbitrary: s)
  case (Cons x xs)
  from Cons.prems(1) obtain s1 where s1: "view v (f x s) = Inr s1" "view v (r_fold f xs s1) = Inr t"
    by (auto simp: andThen_Inr_iff)
  from Cons.prems(3) [OF _ s1(1) Cons.prems(2)] have "P s1" by simp
  with Cons.IH [OF s1(2)] Cons.prems(3) show ?case by (meson list.set_intros(2))
qed simp

lemma view_fold_sum:
  assumes "view v (r_fold f xs s) = Inr t"
    and "\<And>x s s'. x \<in> set xs \<Longrightarrow> view v (f x s) = Inr s' \<Longrightarrow> adds (cost x) s s'"
    and "\<And>s. adds (0::nat) s s" and "\<And>m n s t u. adds m s t \<Longrightarrow> adds n t u \<Longrightarrow> adds (m + n) s u"
  shows "adds (sum_list (map cost xs)) s t"
  using assms(1,2)
proof (induction xs arbitrary: s)
  case (Cons x xs)
  from Cons.prems(1) obtain s1 where s1: "view v (f x s) = Inr s1" "view v (r_fold f xs s1) = Inr t"
    by (auto simp: andThen_Inr_iff)
  from Cons.prems(2) [OF _ s1(1)] have "adds (cost x) s s1" by simp
  moreover from Cons.IH [OF s1(2)] Cons.prems(2) have "adds (sum_list (map cost xs)) s1 t"
    by (meson list.set_intros(2))
  ultimately show ?case using assms(4) by simp
qed (use assms(3) in simp)

section \<open>One record or one error per entry\<close>

definition graded :: "finding \<Rightarrow> bool" where
  "graded f = (fi_severity f = ''error'' \<or> fi_severity f = ''warning'')"

definition weight :: "core_snapshot \<Rightarrow> nat" where
  "weight s = length (sn_records s) + length (snapshot_errors s)"

text \<open>\<open>n\<close> records or errors were added, and no finding of another severity.\<close>

definition adds :: "nat \<Rightarrow> core_snapshot \<Rightarrow> core_snapshot \<Rightarrow> bool" where
  "adds n s s' = (weight s' = weight s + n \<and>
     (list_all graded (sn_findings s) \<longrightarrow> list_all graded (sn_findings s')))"

lemma adds_refl: "adds 0 s s"
  by (simp add: adds_def)

lemma adds_trans: "adds m s t \<Longrightarrow> adds n t u \<Longrightarrow> adds (m + n) s u"
  by (simp add: adds_def)

lemma adds_warning [simp]: "adds n s (note_finding ''warning'' c k m t) = adds n s t"
  by (simp add: adds_def weight_def note_finding_def snapshot_errors_def graded_def)

lemma adds_error: "adds 1 s (note_finding ''error'' c k m s)"
  by (simp add: adds_def weight_def note_finding_def snapshot_errors_def graded_def)

lemma adds_validate [simp]: "adds n s (validate_record r m t) = adds n s t"
  by (simp add: validate_record_def Let_def)

lemma adds_record: "adds 1 s (s\<lparr>sn_records := sn_records s @ [r]\<rparr>)"
  by (simp add: adds_def weight_def snapshot_errors_def)

lemma read_state_adds:
  assumes "view v (read_state out pid name scope repository path attention s) = Inr rs"
  shows "adds 1 s (add_record m rs)"
proof (cases "view v (agent_yaml out repository path name)")
  case (Inl e)
  with assms show ?thesis
    by (auto simp: read_state_def view_attempt add_record_def split: if_splits intro: adds_error [unfolded One_nat_def])
next
  case (Inr state)
  with assms show ?thesis
    by (auto simp: read_state_def view_attempt add_record_def andThen_Inr_iff intro: adds_record [unfolded One_nat_def])
qed

lemma workstream_adds:
  "view v (collect_workstream out pid name repository parent w s) = Inr s' \<Longrightarrow> adds 1 s s'"
  by (auto simp: collect_workstream_def Let_def andThen_Inr_iff simp del: One_nat_def
      intro: read_state_adds adds_error split: if_splits)

text \<open>How many states an entry of the project map names.\<close>

definition entry_states :: "outside \<Rightarrow> pyval \<Rightarrow> nat" where
  "entry_states out v = (let project = dict_or_empty v; repository = repository_of out project in
     if \<not> truthy (dget project ''state_path'') \<or> repository = [] \<or> repository = ''None'' then 1
     else 1 + length (workstreams_of project))"

lemma project_adds:
  assumes "view v (collect_project out p s) = Inr s'"
  shows "adds (entry_states out p) s s'"
proof -
  let ?d = "dict_or_empty p"
  let ?r = "repository_of out ?d"
  show ?thesis
  proof (cases "truthy (dget ?d ''state_path'') \<and> ?r \<noteq> [] \<and> ?r \<noteq> ''None''")
    case False
    with assms show ?thesis
      by (auto simp: collect_project_def entry_states_def Let_def andThen_Inr_iff simp del: One_nat_def
          intro: adds_error split: if_splits)
  next
    case True
    let ?ws = "dget ?d ''workstreams''"
    from assms True obtain pid name scope path attention m rs where
      rs: "view v (read_state out pid name scope ?r path attention s) = Inr rs" and
      s': "view v (if truthy ?ws then (case ?ws of
             PList ws \<Rightarrow> r_fold (collect_workstream out pid name ?r attention) ws (add_record m rs)
           | _ \<Rightarrow> Given (add_record m rs)) else Given (add_record m rs)) = Inr s'"
      by (auto simp: collect_project_def Let_def andThen_Inr_iff)
    have "adds (length (workstreams_of ?d)) (add_record m rs) s'"
    proof (cases "\<exists>ws. ?ws = PList ws \<and> ws \<noteq> []")
      case True
      then obtain ws where ws: "?ws = PList ws" "ws \<noteq> []" by blast
      with s' have f: "view v (r_fold (collect_workstream out pid name ?r attention) ws (add_record m rs)) = Inr s'"
        by simp
      have "adds (sum_list (map (\<lambda>_. 1) ws)) (add_record m rs) s'"
        by (rule view_fold_sum [where adds = adds, OF f workstream_adds adds_refl adds_trans])
      then show ?thesis by (simp add: workstreams_of_def ws sum_list_triv)
    next
      case False
      with s' show ?thesis by (cases ?ws) (auto simp: workstreams_of_def adds_refl split: if_splits)
    qed
    with adds_trans [OF read_state_adds [OF rs]] True show ?thesis by (simp add: entry_states_def Let_def)
  qed
qed

lemma projects_add:
  "view v (r_fold (collect_project out) ps s) = Inr s' \<Longrightarrow> adds (sum_list (map (entry_states out) ps)) s s'"
  by (rule view_fold_sum [where adds = adds, OF _ project_adds adds_refl adds_trans])

lemma collect_weight:
  assumes "view v (core_collect out today) = Inr s"
    and "view v (agent_yaml out (central out) MAP_PATH ''Core project map'') = Inr m"
    and "dget m ''projects'' = PList projects"
  shows "weight s = sum_list (map (entry_states out) projects)"
proof -
  from assms have "view v (r_fold (collect_project out) projects
      \<lparr>sn_date = today, sn_records = [], sn_findings = []\<rparr>) = Inr s"
    by (simp add: core_collect_def Let_def view_attempt)
  from projects_add [OF this] show ?thesis by (simp add: adds_def weight_def snapshot_errors_def)
qed

lemma collect_graded:
  assumes "view v (core_collect out today) = Inr s"
  shows "list_all graded (sn_findings s)"
proof (cases "view v (agent_yaml out (central out) MAP_PATH ''Core project map'')")
  case (Inl e)
  with assms show ?thesis
    by (auto simp: core_collect_def Let_def view_attempt note_finding_def graded_def split: if_splits)
next
  case (Inr m)
  show ?thesis
  proof (cases "\<exists>ps. dget m ''projects'' = PList ps")
    case True
    then obtain ps where "dget m ''projects'' = PList ps" by blast
    with assms Inr have "view v (r_fold (collect_project out) ps
        \<lparr>sn_date = today, sn_records = [], sn_findings = []\<rparr>) = Inr s"
      by (simp add: core_collect_def Let_def view_attempt)
    from projects_add [OF this] show ?thesis by (simp add: adds_def)
  next
    case False
    with assms Inr show ?thesis
      by (cases "dget m ''projects''") (auto simp: core_collect_def Let_def view_attempt note_finding_def graded_def)
  qed
qed

section \<open>Severities of the checkers\<close>

lemma graded_issue [simp]: "graded (issue ''error'' c n m)" "graded (issue ''warning'' c n m)"
  by (simp_all add: graded_def issue_def)

lemma graded_quality [simp]:
  "graded (quality_error c n m)" "graded (quality_warning c n m)" "graded (type_finding n k e v)"
  "graded (missing_nested n k)"
  by (simp_all add: quality_error_def quality_warning_def type_finding_def missing_nested_def)

lemma check_loaded_graded: "check_loaded name root cs ps = Inr fs \<Longrightarrow> list_all graded fs"
  by (auto simp: check_loaded_def check_rollup_shape_def check_generated_sources_def check_root_freshness_def
      check_sync_def check_status_def Let_def andThen_Inr_iff split: option.splits list.splits)

lemma integrity_graded:
  assumes "view v (check_integrity out) = Inr fs"
  shows "list_all graded fs"
proof -
  have entry: "list_all graded gs'"
    if "view v (check_integrity_entry out p gs) = Inr gs'" "list_all graded gs" for p gs gs'
    using that
    by (auto simp: check_integrity_entry_def check_integrity_project_def Let_def andThen_Inr_iff
        dest: check_loaded_graded split: pyval.splits if_splits option.splits)
  from assms show ?thesis
    by (auto simp: check_integrity_def view_attempt intro: view_fold [where P = "list_all graded", OF _ _ entry]
        split: sum.splits if_splits pyval.splits)
qed

lemma schema_graded: "check_schema raw path subject scope = Inr fs \<Longrightarrow> list_all graded fs"
proof -
  have nested: "list_all graded (check_nested n b k ok e inner d)" if "\<And>v. list_all graded (inner v)" for n b k ok e inner d
    using that by (auto simp: check_nested_def split: option.splits)
  have block: "list_all graded (check_block raw k n inner)" if "\<And>d. list_all graded (inner d)" for k n inner
    using that by (auto simp: check_block_def split: option.splits pyval.splits)
  have typed: "list_all graded (check_typed ok e ks raw n)" for ok e ks n
    by (auto simp: check_typed_def list_all_iff split: option.splits if_splits)
  have blocks: "list_all graded (check_project_block s n d)" "list_all graded (check_portfolio n d)"
    "list_all graded (check_verification n d)" "list_all graded (check_sync_block n p d)" for s n d p
    by (auto simp: check_project_block_def require_string_def check_portfolio_def check_verification_def
        check_sync_block_def check_day_def check_sync_status_def check_storage_def intro!: nested)
  have scope: "list_all graded gs" if "check_scope raw subject scope = Inr gs" for gs
    using that by (auto simp: check_scope_def Let_def andThen_Inr_iff split: if_splits)
  assume "check_schema raw path subject scope = Inr fs"
  then show ?thesis
    by (auto simp: check_schema_def andThen_Inr_iff check_version_def check_required_def Let_def
        intro!: typed block blocks dest: scope)
qed

lemma freshness_graded: "list_all graded (check_freshness policy today raw subject attention entry)"
proof -
  have age: "list_all graded (age_findings today t a n s d)" for t a n s d
    by (simp add: age_findings_def Let_def)
  have "list_all graded (snd (threshold_for policy attention entry subject))"
    by (simp add: threshold_for_def split: option.split pyval.split)
  then show ?thesis
    by (cases "threshold_for policy attention entry subject")
      (simp add: check_freshness_def age split: option.split pyval.split)
qed

lemma one_state_graded:
  assumes "view v (check_one_state out qc repository path subject scope attention entry) = Inr fs"
  shows "list_all graded fs"
proof (cases "view v (plain_yaml out repository path)")
  case (Inl e)
  with assms show ?thesis by (simp add: check_one_state_def view_attempt split: if_splits)
next
  case (Inr raw)
  with assms obtain found where found: "check_schema raw path subject scope = Inr found"
    and fs: "fs = found @ check_freshness (qc_policy qc) (qc_today qc) raw subject attention entry"
    by (auto simp: check_one_state_def view_attempt andThen_Inr_iff)
  show ?thesis using schema_graded [OF found] by (simp add: fs freshness_graded)
qed

lemma quality_graded:
  assumes "view v (check_quality out qc) = Inr fs"
  shows "list_all graded fs"
proof -
  have stream: "list_all graded gs'"
    if "view v (check_quality_workstream out qc r n a w gs) = Inr gs'" "list_all graded gs" for r n a w gs gs'
    using that by (auto simp: check_quality_workstream_def Let_def andThen_Inr_iff dest: one_state_graded split: if_splits)
  have streams: "list_all graded gs'"
    if "view v (r_fold (check_quality_workstream out qc r n a) ws (gs @ fs)) = Inr gs'" "list_all graded gs"
      "list_all graded fs" for r n a ws gs fs gs'
    by (rule view_fold [where P = "list_all graded", OF that(1) _ stream]) (use that in auto)
  have entry: "list_all graded gs'"
    if "view v (check_quality_entry out qc p gs) = Inr gs'" "list_all graded gs" for p gs gs'
    using that
    by (auto simp: check_quality_entry_def check_quality_project_def Let_def andThen_Inr_iff
        dest!: one_state_graded streams split: pyval.splits if_splits option.splits)
  from assms show ?thesis
    by (auto simp: check_quality_def view_attempt intro: view_fold [where P = "list_all graded", OF _ _ entry]
        split: sum.splits if_splits pyval.splits)
qed

end
