(* ===== verification/State_Schema.thy ===== *)
theory State_Schema
  imports Core_Behaviour
begin

text \<open>
  What the schema checker accepts, stated as one predicate on documents, and what the machine snapshot makes of
  the records and findings of a run.
\<close>

section \<open>Grouping and counting\<close>

lemma by_project_snoc: "by_project (rs @ [r]) = file_record r (by_project rs)"
  by (simp add: by_project_def)

lemma by_project_groups:
  "map_of (by_project rs) pid =
     (if filter (\<lambda>r. sr_project r = pid) rs = [] then None else Some (filter (\<lambda>r. sr_project r = pid) rs))"
  by (induction rs rule: rev_induct)
    (auto simp: by_project_snoc file_record_def map_of_dict_set, simp_all add: by_project_def)

lemma by_project_distinct: "distinct (map fst (by_project rs))"
proof (induction rs rule: rev_induct)
  case (snoc r rs)
  then show ?case unfolding by_project_snoc file_record_def by (rule distinct_dict_set)
qed (simp add: by_project_def)

lemma graded_split:
  "list_all graded fs \<Longrightarrow>
   length (filter (\<lambda>f. fi_severity f = ''error'') fs) + length (filter (\<lambda>f. fi_severity f = ''warning'') fs) = length fs"
  by (induction fs) (auto simp: graded_def)

lemma collected_graded:
  assumes "view v (run_collect j) = Inr (s, ps)"
  shows "list_all graded (sn_findings s)"
proof -
  from assms obtain s0 where s0: "view v (core_collect (js_out j) (js_today j)) = Inr s0"
    by (auto simp: run_collect_def andThen_Inr_iff)
  from assms s0 collect_graded [OF s0] show ?thesis
    by (auto simp: run_collect_def andThen_Inr_iff with_findings_def integrity_graded quality_graded split: if_splits)
qed

lemma collected_records:
  assumes "view v (run_collect j) = Inr (s, ps)"
  shows "\<exists>s0. view v (core_collect (js_out j) (js_today j)) = Inr s0 \<and> sn_records s = sn_records s0"
  using assms by (auto simp: run_collect_def andThen_Inr_iff with_findings_def split: if_splits)

section \<open>The schema\<close>

definition required_there :: "yaml_map \<Rightarrow> bool" where
  "required_there raw = list_all (\<lambda>k. has_key k raw) REQUIRED_TOP_LEVEL"

definition block_conforms :: "yaml_map \<Rightarrow> string \<Rightarrow> (yaml_map \<Rightarrow> bool) \<Rightarrow> bool" where
  "block_conforms raw key ok = (case dlookup key raw of Some (PDict d) \<Rightarrow> ok d | _ \<Rightarrow> False)"

definition field_conforms :: "yaml_map \<Rightarrow> string \<Rightarrow> (pyval \<Rightarrow> bool) \<Rightarrow> bool" where
  "field_conforms d key ok = (case dlookup key d of Some v \<Rightarrow> ok v | None \<Rightarrow> False)"

text \<open>A state document as the schema 0.2 wants it.\<close>

definition state_conforms :: "yaml_map \<Rightarrow> string \<Rightarrow> string \<Rightarrow> bool" where
  "state_conforms raw path scope =
     (py_str (dget raw ''schema_version'') = ''0.2'' \<and> required_there raw \<and>
      list_all (\<lambda>k. is_str (dget raw k)) STRING_TOP_LEVEL \<and> list_all (\<lambda>k. is_list (dget raw k)) LIST_TOP_LEVEL \<and>
      block_conforms raw ''project'' (\<lambda>d. non_empty_string (dget d ''name'') \<and> non_empty_string (dget d ''owner'') \<and>
        (scope = ''workstream'' \<longrightarrow> non_empty_string (dget d ''workstream''))) \<and>
      (if scope = ''project_rollup'' \<or> scope = ''workstream'' then dget raw ''state_scope'' = PStr scope
       else hashable (dget raw ''state_scope'')) \<and>
      block_conforms raw ''portfolio'' (\<lambda>d. field_conforms d ''milestone'' is_bool \<and> field_conforms d ''signal'' is_str) \<and>
      block_conforms raw ''verification'' (\<lambda>d. field_conforms d ''last_verified''
          (\<lambda>v. is_str v \<and> (str_val v = [] \<or> parse_day (str_val v) \<noteq> None)) \<and> field_conforms d ''sources'' is_list) \<and>
      block_conforms raw ''sync'' (\<lambda>d. field_conforms d ''status'' is_str \<and> field_conforms d ''storage'' (\<lambda>v. v = PStr path)))"

definition harmless :: "finding list \<Rightarrow> bool" where
  "harmless fs = list_all (\<lambda>f. fi_severity f \<noteq> ''error'') fs"

lemma harmless_simps [simp]:
  "harmless []" "harmless (fs @ gs) = (harmless fs \<and> harmless gs)"
  "harmless (quality_error c n m # fs) = False" "harmless (quality_warning c n m # fs) = harmless fs"
  "harmless (type_finding n k e v # fs) = False" "harmless (missing_nested n k # fs) = False"
  by (simp_all add: harmless_def quality_error_def quality_warning_def type_finding_def missing_nested_def issue_def)

lemma harmless_nested:
  "(\<And>v. ok v \<Longrightarrow> harmless (inner v) = good v) \<Longrightarrow>
   harmless (check_nested n b k ok e inner d) = field_conforms d k (\<lambda>v. ok v \<and> good v)"
  by (auto simp: check_nested_def field_conforms_def split: option.split)

lemma harmless_block:
  "has_key key raw \<Longrightarrow> (\<And>d. harmless (inner d) = ok d) \<Longrightarrow>
   harmless (check_block raw key n inner) = block_conforms raw key ok"
  by (auto simp: check_block_def block_conforms_def has_key_def split: option.split pyval.split)

lemma harmless_typed:
  assumes "list_all (\<lambda>k. has_key k raw) keys"
  shows "harmless (check_typed ok e keys raw n) = list_all (\<lambda>k. ok (dget raw k)) keys"
  using assms by (induction keys) (auto simp: check_typed_def has_key_def dget_def split: if_splits)

lemma harmless_require: "harmless (require_string d k t n) = non_empty_string (dget d k)"
  by (simp add: require_string_def)

lemma harmless_required: "harmless (check_required raw n) = required_there raw"
  by (auto simp: check_required_def required_there_def Let_def filter_empty_conv list_all_iff)

lemma harmless_project:
  "harmless (check_project_block scope n d) = (non_empty_string (dget d ''name'') \<and> non_empty_string (dget d ''owner'') \<and>
     (scope = ''workstream'' \<longrightarrow> non_empty_string (dget d ''workstream'')))"
  by (simp add: check_project_block_def harmless_require)

lemma harmless_portfolio:
  "harmless (check_portfolio n d) = (field_conforms d ''milestone'' is_bool \<and> field_conforms d ''signal'' is_str)"
  by (simp add: check_portfolio_def harmless_nested [where good = "\<lambda>_. True"])

lemma harmless_verification:
  "harmless (check_verification n d) = (field_conforms d ''last_verified''
     (\<lambda>v. is_str v \<and> (str_val v = [] \<or> parse_day (str_val v) \<noteq> None)) \<and> field_conforms d ''sources'' is_list)"
  by (simp add: check_verification_def harmless_nested [where good = "\<lambda>_. True"]
      harmless_nested [where good = "\<lambda>v. str_val v = [] \<or> parse_day (str_val v) \<noteq> None"] check_day_def)

lemma harmless_sync:
  "harmless (check_sync_block n path d) = (field_conforms d ''status'' is_str \<and> field_conforms d ''storage'' (\<lambda>v. v = PStr path))"
proof -
  have storage: "field_conforms d ''storage'' (\<lambda>v. is_str v \<and> str_val v = path) = field_conforms d ''storage'' (\<lambda>v. v = PStr path)"
    by (rule arg_cong [where f = "field_conforms d ''storage''"]) (auto simp: fun_eq_iff str_val_def elim: is_str.elims)
  show ?thesis
    by (simp add: check_sync_block_def check_sync_status_def check_storage_def storage
        harmless_nested [where good = "\<lambda>_. True"] harmless_nested [where good = "\<lambda>v. str_val v = path"])
qed

lemma harmless_scope:
  "(\<exists>fs. check_scope raw n scope = Inr fs \<and> harmless fs) =
   (if scope = ''project_rollup'' \<or> scope = ''workstream'' then dget raw ''state_scope'' = PStr scope
    else hashable (dget raw ''state_scope''))"
  by (auto simp: check_scope_def Let_def in_names_def andThen_Inr_iff hashable_def)


text \<open>C36: The schema checker returns without an error finding exactly for the documents that conform to schema
  0.2 under the path and scope the project map gives: all required fields, each of its type, a named owner, a
  valid date, the declared storage; it fails only on a scope that cannot be looked up in a set.\<close>

theorem schema_exact:
  "(\<exists>fs. check_schema raw path subject scope = Inr fs \<and> harmless fs) = state_conforms raw path scope"
proof (cases "required_there raw")
  case False
  then show ?thesis
    by (auto simp: check_schema_def andThen_Inr_iff state_conforms_def harmless_required)
next
  case True
  then have keys: "has_key ''project'' raw" "has_key ''portfolio'' raw" "has_key ''verification'' raw" "has_key ''sync'' raw"
    "list_all (\<lambda>k. has_key k raw) STRING_TOP_LEVEL" "list_all (\<lambda>k. has_key k raw) LIST_TOP_LEVEL"
    by (auto simp: required_there_def REQUIRED_TOP_LEVEL_def STRING_TOP_LEVEL_def LIST_TOP_LEVEL_def)
  have version: "harmless (check_version raw subject) = (py_str (dget raw ''schema_version'') = ''0.2'')"
    by (simp add: check_version_def Let_def SUPPORTED_STATE_SCHEMA_def)
  have "(\<exists>fs. check_schema raw path subject scope = Inr fs \<and> harmless fs) =
    ((\<exists>fs. check_scope raw subject scope = Inr fs \<and> harmless fs) \<and> harmless (check_version raw subject) \<and>
     harmless (check_typed is_str ''string'' STRING_TOP_LEVEL raw subject) \<and>
     harmless (check_typed is_list ''list'' LIST_TOP_LEVEL raw subject) \<and>
     harmless (check_block raw ''project'' subject (check_project_block scope subject)) \<and>
     harmless (check_block raw ''portfolio'' subject (check_portfolio subject)) \<and>
     harmless (check_block raw ''verification'' subject (check_verification subject)) \<and>
     harmless (check_block raw ''sync'' subject (check_sync_block subject path)))"
    using True by (auto simp: check_schema_def andThen_Inr_iff harmless_required)
  also have "\<dots> = state_conforms raw path scope"
    unfolding harmless_scope version harmless_typed [OF keys(5)] harmless_typed [OF keys(6)]
      harmless_block [OF keys(1) harmless_project] harmless_block [OF keys(2) harmless_portfolio]
      harmless_block [OF keys(3) harmless_verification] harmless_block [OF keys(4) harmless_sync] state_conforms_def
    using True by blast
  finally show ?thesis .
qed

end
