(* ===== verification/Core_Agreement.thy ===== *)
theory Core_Agreement
  imports Core_Behaviour
begin

text \<open>
  The proposal engine and the integrity checker read the same states; what the one no longer wants to change
  the other no longer objects to.
\<close>

section \<open>Values equal to text\<close>

lemma py_eq_str [simp]: "py_eq v (PStr s) \<longleftrightarrow> v = PStr s"
proof (cases v)
  case (PFloat r n)
  then show ?thesis by (cases n) (auto simp: scalar_eq_def)
qed (auto simp: scalar_eq_def)

lemma eq_list_strings: "eq_list vs (map PStr xs) \<longleftrightarrow> vs = map PStr xs"
proof (induction vs arbitrary: xs)
  case (Cons v vs)
  then show ?case by (cases xs) auto
qed auto

lemma py_eq_list: "py_eq v (PList ws) \<longleftrightarrow> (\<exists>vs. v = PList vs \<and> eq_list vs ws)"
proof (cases v)
  case (PFloat r n)
  then show ?thesis by (cases n) (auto simp: scalar_eq_def)
qed (auto simp: scalar_eq_def)

lemma eq_list_all2: "eq_list vs ws \<longleftrightarrow> list_all2 py_eq vs ws"
proof (induction vs arbitrary: ws)
  case (Cons v vs)
  then show ?case by (cases ws) auto
qed auto

lemma py_eq_strings: "py_eq v (strings xs) \<longleftrightarrow> v = strings xs"
  by (auto simp: strings_def py_eq_list eq_list_strings)

text \<open>A dictionary equal to one with text values has them under the same names.\<close>

lemma eq_find_sdict: "eq_find k v (map (\<lambda>(a, b). (PStr a, b)) kvs) \<Longrightarrow>
   \<exists>a b. (a, b) \<in> set kvs \<and> k = PStr a \<and> py_eq v b"
proof (induction kvs)
  case (Cons p kvs)
  obtain a b where p: "p = (a, b)" by (cases p)
  from Cons.prems consider "k = PStr a" "py_eq v b" | "eq_find k v (map (\<lambda>(a, b). (PStr a, b)) kvs)"
    by (auto simp: p)
  then show ?case
    by cases (use Cons.IH in \<open>simp_all add: p, blast+\<close>)
qed simp

lemma eq_items_all: "eq_items kvs b \<Longrightarrow> (k, v) \<in> set kvs \<Longrightarrow> eq_find k v b"
  by (induction kvs) auto

lemma dlookup_in: "dlookup k d = Some v \<Longrightarrow> (PStr k, v) \<in> set d"
  by (induction d rule: dlookup.induct) (auto split: if_splits)

lemma dlookup_absent: "dlookup k d = None \<Longrightarrow> PStr k \<notin> set (map fst d)"
  by (induction d rule: dlookup.induct) (auto split: if_splits)

lemma equal_dict_lookup:
  assumes eq: "py_eq (PDict d) (sdict kvs)" and d: "distinct (map fst d)" and k: "(k, PStr s) \<in> set kvs"
    and kvs: "distinct (map fst kvs)"
  shows "dlookup k d = Some (PStr s)"
proof -
  from eq have len: "length d = length kvs"
    by (simp add: sdict_def)
  have items: "\<exists>b u. (b, u) \<in> set kvs \<and> a = PStr b \<and> py_eq v u" if "(a, v) \<in> set d" for a v
    by (rule eq_find_sdict, rule eq_items_all [OF _ that]) (use eq in \<open>simp add: sdict_def\<close>)
  let ?K = "PStr ` set (map fst kvs)"
  have sub: "set (map fst d) \<subseteq> ?K"
  proof
    fix a assume "a \<in> set (map fst d)"
    then obtain v where "(a, v) \<in> set d" by auto
    from items [OF this] obtain b u where b: "(b, u) \<in> set kvs" "a = PStr b" by blast
    from b(1) have "b \<in> set (map fst kvs)" by force
    with b(2) show "a \<in> ?K" by blast
  qed
  have "card ?K \<le> length kvs" using card_image_le [of "set (map fst kvs)" PStr] card_length [of "map fst kvs"] by simp
  moreover have "card (set (map fst d)) = length kvs" using distinct_card [OF d] len by simp
  ultimately have "set (map fst d) = ?K" by (intro card_seteq sub) simp_all
  moreover from k have "k \<in> set (map fst kvs)" by force
  ultimately have "PStr k \<in> set (map fst d)" by (simp only: imageI)
  then have "dlookup k d \<noteq> None" using dlookup_absent by blast
  then obtain v where v: "dlookup k d = Some v" by auto
  from items [OF dlookup_in [OF v]] obtain u where u: "(k, u) \<in> set kvs" "py_eq v u" by blast
  moreover have "u = PStr s" using eq_key_imp_eq_value [OF kvs u(1) k] .
  ultimately show ?thesis using v by simp
qed

section \<open>The states both components read\<close>

definition path_of :: "yaml_map \<Rightarrow> string" where
  "path_of w = py_str (dget w ''state_path'')"

definition readable ::
  "(source \<Rightarrow> string result) \<Rightarrow> outside \<Rightarrow> string \<Rightarrow> yaml_map list \<Rightarrow> (yaml_map \<times> yaml_map) list" where
  "readable v out repository ws = concat (map (\<lambda>w. case view v (plain_yaml out repository (path_of w)) of
     Inr raw \<Rightarrow> [(w, raw)] | Inl e \<Rightarrow> []) ws)"

definition as_loaded :: "yaml_map \<Rightarrow> yaml_map \<times> yaml_map \<Rightarrow> loaded_state" where
  "as_loaded project x = loaded (path_of (fst x)) (child_attention project (fst x)) (snd x)"

definition as_workstream :: "yaml_map \<Rightarrow> yaml_map \<times> yaml_map \<Rightarrow> workstream_state" where
  "as_workstream project x = workstream_of project (fst x) (snd x)"

lemma mapped_simps [simp]:
  "mapped [] = []"
  "mapped (w # ws) = (if truthy (dget (dict_or_empty w) ''state_path'') then [dict_or_empty w] else []) @ mapped ws"
  by (simp_all add: mapped_def)

lemma readable_simps [simp]:
  "readable v out r [] = []"
  "readable v out r (w # ws) = (case view v (plain_yaml out r (path_of w)) of
     Inr raw \<Rightarrow> [(w, raw)] | Inl e \<Rightarrow> []) @ readable v out r ws"
  by (simp_all add: readable_def)

lemma readable_mapped: "x \<in> set (readable v out r ws) \<Longrightarrow> fst x \<in> set ws"
  by (auto simp: readable_def split: sum.splits)

lemma load_child_view:
  "view v (load_child out r project w acc) =
     (let d = dict_or_empty w in if \<not> truthy (dget d ''state_path'') then Inr acc
      else case view v (plain_yaml out r (path_of d)) of
        Inr raw \<Rightarrow> Inr (fst acc @ [as_loaded project (d, raw)], snd acc @ [path_of d])
      | Inl e \<Rightarrow> if e = ExecutionTimeout then Inl e else Inr (fst acc, snd acc @ [path_of d]))"
  by (simp add: load_child_def load_state_def Let_def view_attempt path_of_def as_loaded_def split: sum.split)

lemma read_workstream_view:
  "view v (read_workstream out r project w acc) =
     (let d = dict_or_empty w in if \<not> truthy (dget d ''state_path'') then Inr acc
      else case view v (plain_yaml out r (path_of d)) of
        Inr raw \<Rightarrow> Inr (acc @ [as_workstream project (d, raw)])
      | Inl e \<Rightarrow> if e = ExecutionTimeout then Inl e else Inr acc)"
  by (simp add: read_workstream_def Let_def view_attempt path_of_def as_workstream_def split: sum.split)

lemma load_children:
  "view v (r_fold (load_child out r project) ws acc) = Inr acc' \<Longrightarrow>
   acc' = (fst acc @ map (as_loaded project) (readable v out r (mapped ws)), snd acc @ map path_of (mapped ws))"
proof (induction ws arbitrary: acc)
  case (Cons w ws)
  from Cons.prems show ?case
    by (auto simp: load_child_view Let_def andThen_Inr_iff dest!: Cons.IH split: if_splits sum.splits)
qed auto

lemma read_children:
  "view v (r_fold (read_workstream out r project) ws acc) = Inr acc' \<Longrightarrow>
   acc' = acc @ map (as_workstream project) (readable v out r (mapped ws))"
proof (induction ws arbitrary: acc)
  case (Cons w ws)
  from Cons.prems show ?case
    by (auto simp: read_workstream_view Let_def andThen_Inr_iff dest!: Cons.IH split: if_splits sum.splits)
qed auto

section \<open>Proposals without changes\<close>

lemma dict_set_not_Nil [simp]: "dict_set k v d \<noteq> []"
  by (induction k v d rule: dict_set.induct) auto

lemma change_not_Nil [simp]: "rp_changes (change k v p) \<noteq> []"
  by (simp add: change_def)

lemma set_if_changed_Nil [simp]:
  "rp_changes (set_if_changed root k v p) = [] \<longleftrightarrow> py_eq (dget root k) v \<and> rp_changes p = []"
  by (simp add: set_if_changed_def)

lemma fold_narrate_Nil: "rp_changes (fold (narrate root raw) ks p) = [] \<Longrightarrow> rp_changes p = []"
  by (induction ks arbitrary: p) (fastforce simp: narrate_def split: option.splits)+

lemma narrative_Nil: "rp_changes (propose_narrative root active p) = [] \<Longrightarrow> rp_changes p = []"
  by (auto simp: propose_narrative_def add_note_def dest: fold_narrate_Nil split: list.splits)

lemma freshness_Nil:
  assumes "rp_changes (propose_freshness root active p) = []"
  shows "rp_changes p = [] \<and> (\<forall>c\<in>set active. \<forall>d. parse_day (ws_verified c) = Some d \<longrightarrow>
    (\<exists>day. parse_day (py_str (dget_or (sub_dict root ''verification'') ''last_verified'' (PStr []))) = Some day \<and> d \<le> day))"
proof (cases "dated active")
  case Nil
  then have "\<forall>c\<in>set active. parse_day (ws_verified c) = None"
    by (auto simp: dated_def split: option.splits)
  with Nil assms show ?thesis by (simp add: propose_freshness_def)
next
  case (Cons x xs)
  obtain n c where m: "first_max fst x xs = (n, c)" by (cases "first_max fst x xs")
  from assms Cons m obtain day where day:
    "parse_day (py_str (dget_or (sub_dict root ''verification'') ''last_verified'' (PStr []))) = Some day" "n \<le> day"
    and p: "rp_changes p = []"
    by (auto simp: propose_freshness_def split: option.splits if_splits)
  have "\<forall>y\<in>set (dated active). fst y \<le> n" using first_max_ge [of fst x xs] Cons m by auto
  then have "d \<le> day" if "c' \<in> set active" "parse_day (ws_verified c') = Some d" for c' d
    using that day(2) by (fastforce simp: dated_def)
  with day p show ?thesis by auto
qed

lemma structure_Nil:
  assumes "rp_changes (propose_structure root ws active children p) = []"
  shows "dget root ''state_scope'' = PStr ''project_rollup'' \<and> py_eq (dget root ''workstreams'') (desired_workstreams ws) \<and>
    dget (sub_dict root ''rollup_policy'') ''generated_from'' = strings (map ws_path active)"
  using assms by (auto simp: propose_structure_def Let_def py_eq_strings split: if_splits)


section \<open>Agreement on one project\<close>

text \<open>
  What the two rely on: paths that are text, declared entries that are dictionaries with distinct keys, and
  children that state a status, none that only the engine takes as waiting.
\<close>

definition comparable :: "(source \<Rightarrow> string result) \<Rightarrow> outside \<Rightarrow> yaml_map \<Rightarrow> yaml_map \<Rightarrow> bool" where
  "comparable v out project root =
     (list_all (\<lambda>w. path_of w \<noteq> []) (mapped (workstreams_of project)) \<and>
      (case dget root ''workstreams'' of PList items \<Rightarrow> list_all (\<lambda>x. distinct (map fst (dict_or_empty x))) items
       | _ \<Rightarrow> True) \<and>
      list_all (\<lambda>x. has_key ''status'' (snd x) \<and> py_str (dget (snd x) ''status'') \<noteq> ''deferred_manual'')
        (readable v out (repository_of out project) (mapped (workstreams_of project))))"

lemma declared_desired:
  assumes eq: "py_eq (dget root ''workstreams'') (desired_workstreams ws)"
    and distinct: "case dget root ''workstreams'' of
      PList items \<Rightarrow> list_all (\<lambda>x. distinct (map fst (dict_or_empty x))) items | _ \<Rightarrow> True"
    and paths: "list_all (\<lambda>w. path_of w \<noteq> []) (mapped ws)"
  shows "declared_paths root = Inr (map path_of (mapped ws))"
proof -
  from eq obtain items where items: "dget root ''workstreams'' = PList items"
    and all: "list_all2 (\<lambda>x w. py_eq x (desired_entry w)) items (mapped ws)"
    by (auto simp: desired_workstreams_def py_eq_list eq_list_all2 list_all2_map2)
  have entry: "dget (dict_or_empty x) ''path'' = PStr (path_of w)"
    if "py_eq x (desired_entry w)" "distinct (map fst (dict_or_empty x))" for x w
  proof -
    from that(1) obtain d where d: "x = PDict d" by (cases x) (auto simp: desired_entry_def sdict_def scalar_eq_def
        split: option.splits)
    have "dlookup ''path'' d = Some (PStr (path_of w))"
      by (rule equal_dict_lookup [OF that(1) [unfolded d desired_entry_def]])
        (use that(2) in \<open>auto simp: d dict_or_empty_def path_of_def\<close>)
    then show ?thesis by (simp add: d dict_or_empty_def dget_def)
  qed
  have all': "map (\<lambda>x. dget (dict_or_empty x) ''path'') items = map (\<lambda>w. PStr (path_of w)) (mapped ws)"
    using all distinct by (simp add: items)
      (induction rule: list_all2_induct, auto simp: entry)
  have "filter (\<lambda>d. truthy (dget d ''path'')) (map dict_or_empty items) = map dict_or_empty items"
  proof (rule filter_True, intro ballI)
    fix d assume "d \<in> set (map dict_or_empty items)"
    then have "dget d ''path'' \<in> set (map (\<lambda>w. PStr (path_of w)) (mapped ws))" unfolding all' [symmetric] by auto
    with paths show "truthy (dget d ''path'')" by (auto simp: list_all_iff)
  qed
  moreover have "map (\<lambda>d. py_str (dget d ''path'')) (map dict_or_empty items) = map path_of (mapped ws)"
    using arg_cong [OF all', of "map py_str"] by (simp add: comp_def)
  ultimately show ?thesis
    by (cases "items = []") (use all in \<open>auto simp: declared_paths_def items iterate_def Let_def\<close>)
qed

lemma active_same:
  assumes "has_key ''status'' (snd x)" "py_str (dget (snd x) ''status'') \<noteq> ''deferred_manual''"
    and "\<not> non_blocking (as_loaded project x)"
  shows "\<not> waiting (as_workstream project x)"
  using assms
  by (auto simp: has_key_def non_blocking_def waiting_def as_loaded_def as_workstream_def loaded_def
      workstream_of_def dget_or_def dget_def NON_BLOCKING_STATUSES_def FUTURE_STATUSES_def)

lemma path_loaded [simp]:
  "ls_path (as_loaded project x) = path_of (fst x)" "ws_path (as_workstream project x) = path_of (fst x)"
  "ws_verified (as_workstream project x) = ls_verified (as_loaded project x)"
  by (simp_all add: as_loaded_def as_workstream_def loaded_def workstream_of_def path_of_def)

lemma sources_settled:
  assumes "dget (sub_dict root ''rollup_policy'') ''generated_from'' = strings ps" "[] \<notin> set ps"
  shows "generated_from root = Inr ps"
proof -
  have "filter truthy (map PStr ps) = map PStr ps" using assms(2) by (intro filter_True) auto
  then show ?thesis using assms(1) by (auto simp: generated_from_def strings_def iterate_def Let_def comp_def)
qed

lemma settled_checks:
  fixes xs :: "(yaml_map \<times> yaml_map) list" and project :: yaml_map
  defines "active \<equiv> filter (\<lambda>c. \<not> waiting c) (map (as_workstream project) xs)"
    and "checked \<equiv> filter (\<lambda>c. \<not> non_blocking c) (map (as_loaded project) xs)"
  assumes "rp_changes (propose_loaded p0 root ws (map (as_workstream project) xs)) = []"
    and paths: "list_all (\<lambda>w. path_of w \<noteq> []) (mapped ws)"
    and entries: "case dget root ''workstreams'' of
      PList items \<Rightarrow> list_all (\<lambda>x. distinct (map fst (dict_or_empty x))) items | _ \<Rightarrow> True"
    and status: "list_all (\<lambda>x. has_key ''status'' (snd x) \<and> py_str (dget (snd x) ''status'') \<noteq> ''deferred_manual'') xs"
    and mapped: "fst ` set xs \<subseteq> set (mapped ws)"
  shows "check_loaded name (loaded path attention root) (map (as_loaded project) xs) (map path_of (mapped ws)) =
    Inr (check_sync name (loaded path attention root) checked @ check_status name (loaded path attention root) checked)"
proof -
  let ?root = "loaded path attention root"
  let ?p0 = "p0\<lparr>rp_basis := map ws_path active\<rparr>"
  from assms(3) have "rp_changes (propose_freshness root active
      (propose_structure root ws active (map (as_workstream project) xs) ?p0)) = []"
    unfolding propose_loaded_def Let_def active_def by (rule narrative_Nil)
  note f = freshness_Nil [OF this]
  from f have "rp_changes (propose_structure root ws active (map (as_workstream project) xs) ?p0) = []" by blast
  note st = structure_Nil [OF this]
  have declared: "declared_paths root = Inr (map path_of (mapped ws))"
    by (rule declared_desired) (use st entries paths in auto)
  have among: "path_of (fst x) \<in> path_of ` set (mapped ws)" if "x \<in> set xs" for x
    using mapped that by blast
  have nonempty: "path_of (fst x) \<noteq> []" if "x \<in> set xs" for x
    using mapped that paths by (auto simp: list_all_iff)
  have sources: "generated_from root = Inr (map ws_path active)"
  proof (rule sources_settled)
    show "dget (sub_dict root ''rollup_policy'') ''generated_from'' = strings (map ws_path active)" using st by blast
    show "[] \<notin> set (map ws_path active)" using nonempty unfolding active_def by (auto simp: path_of_def) metis
  qed
  have sub: "ls_path ` set checked \<subseteq> ws_path ` set active"
  proof
    fix q assume "q \<in> ls_path ` set checked"
    then obtain x where x: "x \<in> set xs" "\<not> non_blocking (as_loaded project x)" "q = path_of (fst x)"
      by (auto simp: checked_def)
    from active_same [OF _ _ x(2)] status x(1) have "as_workstream project x \<in> set active"
      by (auto simp: active_def list_all_iff)
    then show "q \<in> ws_path ` set active" using x(3) by (force simp: rev_image_eqI)
  qed
  have shape: "check_rollup_shape name ?root (map path_of (mapped ws)) = Inr []"
    using declared st by (simp add: check_rollup_shape_def loaded_def Let_def dget_or_def dget_def split: option.splits)
  have gen: "check_generated_sources name ?root checked (map path_of (mapped ws)) = Inr []"
    using sources sub among by (auto simp: check_generated_sources_def loaded_def Let_def active_def)
  have fresh: "check_root_freshness name ?root checked = []"
  proof (cases "parse_day (ls_verified ?root)")
    case (Some day)
    have "\<not> newer_than day c" if "c \<in> set checked" for c
    proof -
      from that obtain x where x: "x \<in> set xs" "\<not> non_blocking (as_loaded project x)" "c = as_loaded project x"
        by (auto simp: checked_def)
      from active_same [OF _ _ x(2)] status x(1) have "as_workstream project x \<in> set active"
        by (auto simp: active_def list_all_iff)
      with f Some show ?thesis
        by (fastforce simp: newer_than_def x(3) loaded_def split: option.splits)
    qed
    then show ?thesis by (simp add: check_root_freshness_def Some filter_empty_conv split: list.split)
  qed (simp add: check_root_freshness_def)
  show ?thesis
    by (simp add: check_loaded_def Let_def shape gen fresh checked_def [symmetric])
qed

end
