(* ===== verification/Core_Job.thy ===== *)
theory Core_Job
  imports Core_Behaviour
begin

text \<open>What a manual job leaves on disk: facts about \<open>run_job\<close> for every fate of its writes.\<close>

section \<open>Writes\<close>

lemma durable_job:
  assumes "durable f w = (r, w')" and "\<And>p. f (w\<lparr>plan := p\<rparr>) = (f w)\<lparr>plan := p\<rparr>"
  shows "\<exists>p. w' = w\<lparr>plan := p\<rparr> \<or> w' = (f w)\<lparr>plan := p\<rparr>"
    and "r = Return () \<Longrightarrow> \<exists>p. w' = (f w)\<lparr>plan := p\<rparr>"
proof -
  have set_plan: "\<exists>p. f w = (f w)\<lparr>plan := p\<rparr>" by (rule exI [of _ "plan (f w)"]) simp
  show "\<exists>p. w' = w\<lparr>plan := p\<rparr> \<or> w' = (f w)\<lparr>plan := p\<rparr>"
  proof (cases "plan w")
    case Nil
    with assms(1) set_plan show ?thesis by (auto simp: durable_def)
  next
    case (Cons a q)
    with assms show ?thesis by (cases a) (auto simp: durable_def)
  qed
  show "\<exists>p. w' = (f w)\<lparr>plan := p\<rparr>" if "r = Return ()"
  proof (cases "plan w")
    case Nil
    with assms(1) set_plan show ?thesis by (auto simp: durable_def)
  next
    case (Cons a q)
    with assms that show ?thesis by (cases a) (auto simp: durable_def)
  qed
qed

lemma write_text_Return:
  "write_text path text w = (Return u, w') \<Longrightarrow>
   jd_files w' = dict_set path text (jd_files w) \<and> jd_token w' = jd_token w"
  unfolding write_text_def by (drule durable_job(2)) auto

lemma atomic_json_Return:
  "atomic_json path v w = (Return u, w') \<Longrightarrow>
   \<exists>t. job_text v = Inr t \<and> jd_files w' = dict_set path t (jd_files w) \<and> jd_token w' = jd_token w"
  by (auto simp: atomic_json_def io_bind_Return io_result_Return dest!: write_text_Return)

text \<open>Only files of the run's own directory change.\<close>

definition own_file :: "string \<Rightarrow> string \<Rightarrow> bool" where
  "own_file dir p = (\<exists>name. p = dir @ CHR ''/'' # name)"

definition framed :: "string \<Rightarrow> job_disk \<Rightarrow> job_disk \<Rightarrow> bool" where
  "framed dir w w' = (jd_token w' = jd_token w \<and>
     (\<forall>p. \<not> own_file dir p \<longrightarrow> map_of (jd_files w') p = map_of (jd_files w) p))"

interpretation frame: step_relation "framed dir" for dir
  by unfold_locales (auto simp: framed_def)

lemma own_suffix: "own_file dir (dir @ CHR ''/'' # name)"
  by (auto simp: own_file_def)

lemma keeps_write: "own_file dir p \<Longrightarrow> keeps (framed dir) (write_text p t)"
  unfolding keeps_def write_text_def
proof
  fix w :: job_disk
  assume own: "own_file dir p"
  let ?f = "\<lambda>w. w\<lparr>jd_files := dict_set p t (jd_files w)\<rparr>"
  obtain r w' where d: "durable ?f w = (r, w')" by (cases "durable ?f w")
  from durable_job(1) [OF d] own show "framed dir w (snd (durable ?f w))"
    unfolding d by (auto simp: framed_def map_of_dict_set)
qed

lemma keeps_atomic: "own_file dir p \<Longrightarrow> keeps (framed dir) (atomic_json p v)"
  unfolding atomic_json_def by (intro frame.keeps_bind frame.keeps_result keeps_write)

lemma keeps_artifacts: "keeps (framed dir) (write_artifacts j command dir s ps)"
  using own_suffix [of dir "''core-snapshot.json''"] own_suffix [of dir "''core-report.md''"]
    own_suffix [of dir "''rollup-proposals.json''"]
  unfolding write_artifacts_def
  by (intro frame.keeps_bind keeps_if keeps_atomic keeps_write frame.keeps_return) simp_all

lemma keeps_sources: "keeps (framed dir) (with_sources j remote command dir res)"
  unfolding with_sources_def
  by (intro keeps_prod frame.keeps_bind frame.keeps_result keeps_artifacts frame.keeps_return)

lemma keeps_work: "keeps (framed dir) (run_work j remote command dir res)"
proof -
  have "keeps (framed dir) (case c of
      Inr token \<Rightarrow> with_sources j (remote token) command dir res
    | Inl e \<Rightarrow> if is_os_error e
        then io_return (result_update [(''status'', PStr ''source_read_failure''),
          (''reason'', PStr ''credential_unavailable'')] res, 3)
        else io_raise e)" for c
    by (cases c) (auto intro: keeps_sources)
  then show ?thesis unfolding run_work_def
    by (intro frame.keeps_catch frame.keeps_bind frame.keeps_get keeps_if frame.keeps_raise frame.keeps_return) auto
qed

section \<open>Outcomes\<close>

text \<open>What exit code 0 means: everything was read and the machine snapshot is on disk.\<close>

definition good_run ::
  "job_setup \<Rightarrow> (string \<Rightarrow> nat \<Rightarrow> source \<Rightarrow> string result) \<Rightarrow> string \<Rightarrow> string result \<Rightarrow> (string \<times> string) list \<Rightarrow> bool" where
  "good_run j remote dir token files = (\<exists>t s ps rd text. token = Inr t \<and>
     run (remote (strip t)) (run_collect j) new_reader = (Inr (s, ps), rd) \<and> read_failures rd = 0 \<and>
     list_all (\<lambda>f. fi_code f \<notin> set SOURCE_CODES) (sn_findings s) \<and>
     job_text (build_machine_snapshot s ps) = Inr text \<and>
     map_of files (dir @ ''/core-snapshot.json'') = Some text)"

lemma artifacts_Return:
  assumes "write_artifacts j command dir s ps w = (Return u, w')"
  shows "\<exists>text. job_text (build_machine_snapshot s ps) = Inr text \<and>
    map_of (jd_files w') (dir @ ''/core-snapshot.json'') = Some text"
  using assms
  by (auto simp: write_artifacts_def io_bind_Return io_return_Return map_of_dict_set
      dest!: atomic_json_Return write_text_Return split: if_splits)

lemma classify_0:
  "snd (classify_run s n) = 0 \<Longrightarrow> n = 0 \<and> list_all (\<lambda>f. fi_code f \<notin> set SOURCE_CODES) (sn_findings s)"
  by (auto simp: classify_run_def list_ex_iff list_all_iff split: if_splits)

lemma work_Return:
  assumes "run_work j remote command dir res w = (Return (res', code), w')"
  shows "code \<in> {0, 1, 3} \<and> (code = 0 \<longrightarrow> good_run j remote dir (jd_token w) (jd_files w'))"
proof -
  from assms consider "code = 1 \<or> code = 3"
    | token where "credential w = Inr token" "with_sources j (remote token) command dir res w = (Return (res', code), w')"
    by (fastforce simp: run_work_def io_catch_Return io_bind_Return io_get_def io_return_Return io_raise_Return
        split: sum.splits if_splits)
  then show ?thesis
  proof cases
    case 2
    obtain collected rd where run: "run (remote token) (run_collect j) new_reader = (collected, rd)"
      by (cases "run (remote token) (run_collect j) new_reader")
    with 2(2) obtain s ps w1 u where c: "collected = Inr (s, ps)" "write_artifacts j command dir s ps w = (Return u, w1)"
      and rest: "w' = w1" "snd (classify_run s (read_failures rd)) = code"
      by (auto simp: with_sources_def io_bind_Return io_result_Return io_return_Return case_prod_beta)
    from 2(1) obtain t where t: "jd_token w = Inr t" "token = strip t"
      by (auto simp: credential_def andThen_Inr_iff split: if_splits)
    show ?thesis
    proof (cases "code = 0")
      case True
      then show ?thesis
        using artifacts_Return [OF c(2)] classify_0 rest run c(1) t by (auto simp: good_run_def)
    next
      case False
      with rest show ?thesis by (auto simp: classify_run_def split: if_splits)
    qed
  qed auto
qed


lemma durable_id: "durable id (w :: job_disk) = (Return u, w') \<Longrightarrow> \<exists>p. w' = w\<lparr>plan := p\<rparr>"
  using durable_job(2) [of id w "Return u" w'] by auto

text \<open>Every file outside the run's directory is as before, but for the latest result.\<close>

definition others_kept :: "string \<Rightarrow> (string \<times> string) list \<Rightarrow> (string \<times> string) list \<Rightarrow> bool" where
  "others_kept dir files files' =
     (\<forall>p. p \<noteq> ''latest.json'' \<and> \<not> own_file dir p \<longrightarrow> map_of files' p = map_of files p)"

definition published :: "string \<Rightarrow> (string \<times> pyval) list \<Rightarrow> (string \<times> string) list \<Rightarrow> bool" where
  "published dir res files = (\<exists>t. job_text (sdict res) = Inr t \<and> map_of files ''latest.json'' = Some t \<and>
     map_of files (dir @ ''/result.json'') = Some t)"

lemma good_run_cong:
  "good_run j remote dir token files \<Longrightarrow>
   map_of files' (dir @ ''/core-snapshot.json'') = map_of files (dir @ ''/core-snapshot.json'') \<Longrightarrow>
   good_run j remote dir token files'"
  by (simp add: good_run_def)

lemma locked_Return:
  assumes "locked_job j remote command run_id w = (Return (res, code), w')"
  defines "dir \<equiv> ''runs/'' @ run_id"
  shows "code \<in> {0, 1, 3} \<and> published dir res (jd_files w') \<and> others_kept dir (jd_files w) (jd_files w') \<and>
    (code = 0 \<longrightarrow> good_run j remote dir (jd_token w) (jd_files w'))"
proof -
  from assms(1) obtain w3 w4 started res0 w5 fin w6 u3 w7 u4 w8 u5 where
    d3: "durable id w = (Return u3, w3)" "stamp w3 = (Return started, w4)" and
    work: "run_work j remote command dir
      [(''run_id'', PStr run_id), (''command'', PStr command), (''started_at'', PStr started)] w4 =
        (Return (res0, code), w5)" and
    st: "stamp w5 = (Return fin, w6)" and
    r1: "atomic_json (dir @ ''/result.json'') (sdict res) w6 = (Return u4, w7)" and
    r2: "atomic_json ''latest.json'' (sdict res) w7 = (Return u5, w8)" and w8: "w' = w8"
    unfolding dir_def by (auto simp: locked_job_def Let_def io_bind_Return io_return_Return)
  from st have w6: "jd_files w6 = jd_files w5" by (auto simp: stamp_Return)
  from durable_id [OF d3(1)] d3(2) have w4: "jd_files w4 = jd_files w" "jd_token w4 = jd_token w"
    by (auto simp: stamp_Return)
  from atomic_json_Return [OF r1] atomic_json_Return [OF r2] obtain t where
    t: "job_text (sdict res) = Inr t" and
    files: "jd_files w' = dict_set ''latest.json'' t (dict_set (dir @ ''/result.json'') t (jd_files w5))"
    by (auto simp: w8 w6)
  have ne: "dir @ ''/result.json'' \<noteq> ''latest.json''" "dir @ ''/core-snapshot.json'' \<noteq> ''latest.json''"
    "dir @ ''/core-snapshot.json'' \<noteq> dir @ ''/result.json''"
    by (simp_all add: dir_def)
  have framed: "framed dir w4 w5" using keepsD [OF keeps_work, of dir w4] work by (metis snd_conv)
  have "others_kept dir (jd_files w) (jd_files w')"
    using framed own_suffix [of dir "''result.json''"]
    by (auto simp: others_kept_def framed_def files map_of_dict_set w4)
  moreover have "published dir res (jd_files w')"
    using t ne by (auto simp: published_def files map_of_dict_set)
  moreover have "code \<in> {0, 1, 3}" and good: "code = 0 \<longrightarrow> good_run j remote dir (jd_token w) (jd_files w5)"
    using work_Return [OF work] by (auto simp: w4)
  moreover have "code = 0 \<longrightarrow> good_run j remote dir (jd_token w) (jd_files w')"
    using good ne by (auto elim!: good_run_cong simp: files map_of_dict_set)
  ultimately show ?thesis by blast
qed

end
