(* ===== verification/Core_Properties.thy ===== *)
theory Core_Properties
  imports State_Schema Core_Agreement Core_Job
begin

text \<open>The properties of the core's runs: one view of the sources, complete reports, exact checks.\<close>

section \<open>A small project\<close>

definition demo_stream :: yaml_map where
  "demo_stream = dict_or_empty (sdict [(''id'', PStr ''w''), (''state_path'', PStr ''w.yaml'')])"

definition demo_project :: yaml_map where
  "demo_project = dict_or_empty (sdict [(''id'', PStr ''p''), (''state_path'', PStr ''r.yaml''),
     (''core_attention'', PStr ''active''), (''workstreams'', PList [PDict demo_stream])])"

definition demo_root :: yaml_map where
  "demo_root = dict_or_empty (sdict [(''state_scope'', PStr ''project_rollup''), (''status'', PStr ''paused''),
     (''workstreams'', desired_workstreams [PDict demo_stream]),
     (''rollup_policy'', sdict [(''specialist_writes_root'', PBool False), (''generated_from'', strings [''w.yaml''])])])"

definition demo_state :: yaml_map where
  "demo_state = dict_or_empty (sdict [(''status'', PStr ''paused'')])"

definition demo_out :: outside where
  "demo_out = \<lparr>yaml = (\<lambda>t. if t = ''map'' then Inr (sdict [(''projects'', PList [PDict demo_project])])
     else if t = ''root'' then Inr (PDict demo_root) else if t = ''work'' then Inr (PDict demo_state) else Inl YAMLError),
     wording = (\<lambda>e. class_name e), central = CENTRAL, branch = ''main''\<rparr>"

definition demo_view :: "source \<Rightarrow> string result" where
  "demo_view q = (case q of (repository, path, ref) \<Rightarrow>
     if path = MAP_PATH then Inr ''map'' else if path = ''r.yaml'' then Inr ''root''
     else if path = ''w.yaml'' then Inr ''work'' else Inl (GitHubReadError path))"

definition demo_job :: job_setup where
  "demo_job = \<lparr>js_out = demo_out, js_checker = \<lparr>qc_policy = default_policy, qc_today = (2026, 1, 1)\<rparr>,
     js_today = ''2026-01-01'', js_dash = ''-'', js_dot = ''.''\<rparr>"







section \<open>One view\<close>



section \<open>Complete reports\<close>

text \<open>C32: Nothing the project map names is dropped: the core agent turns every state of the map into exactly one
  record or one error. After the checkers, every finding of the run is an error or a warning, and the machine
  snapshot lists each project once with exactly its records in their order.\<close>

theorem complete_report:
  assumes "view v (run_collect j) = Inr (s, ps)"
    and "view v (agent_yaml (js_out j) (central (js_out j)) MAP_PATH ''Core project map'') = Inr m"
    and "dget m ''projects'' = PList projects"
  shows "\<exists>s0. view v (core_collect (js_out j) (js_today j)) = Inr s0 \<and> sn_records s = sn_records s0 \<and>
    length (sn_records s0) + length (snapshot_errors s0) = sum_list (map (entry_states (js_out j)) projects) \<and>
    length (snapshot_errors s) + length (snapshot_warnings s) = length (sn_findings s) \<and>
    distinct (map fst (by_project (sn_records s))) \<and>
    map_of (by_project (sn_records s)) = (\<lambda>pid. if filter (\<lambda>r. sr_project r = pid) (sn_records s) = [] then None
      else Some (filter (\<lambda>r. sr_project r = pid) (sn_records s)))"
proof -
  from collected_records [OF assms(1)] obtain s0 where
    s0: "view v (core_collect (js_out j) (js_today j)) = Inr s0" "sn_records s = sn_records s0" by blast
  from collect_weight [OF s0(1) assms(2,3)] s0 graded_split [OF collected_graded [OF assms(1)]]
  show ?thesis
    by (auto simp: weight_def snapshot_errors_def snapshot_warnings_def by_project_groups by_project_distinct
        intro!: exI [of _ s0])
qed

theorem complete_report_witness:
  "\<exists>s ps. view demo_view (run_collect demo_job) = Inr (s, ps) \<and> distinct (map fst (by_project (sn_records s)))"
proof -
  have "\<not> isl (view demo_view (run_collect demo_job))" by code_simp
  then obtain s ps where s: "view demo_view (run_collect demo_job) = Inr (s, ps)"
    by (cases "view demo_view (run_collect demo_job)") auto
  let ?m = "[(PStr ''projects'', PList [PDict demo_project])]"
  have m: "view demo_view (agent_yaml (js_out demo_job) (central (js_out demo_job)) MAP_PATH ''Core project map'') = Inr ?m"
    by (simp add: agent_yaml_def read_yaml_def demo_job_def demo_view_def demo_out_def sdict_def)
  have "dget ?m ''projects'' = PList [PDict demo_project]" by simp
  from complete_report [OF s m this] s show ?thesis by blast
qed

section \<open>Agreement\<close>



section \<open>What a job publishes\<close>

text \<open>C37: A job that returns without the lock reports busy and writes nothing. Under the lock its result is what
  latest.json and the run's own result.json hold, no other file changes outside the run's directory, and exit code
  0 means that a credential was there, no source failed, no state was unreadable and the machine snapshot of what
  was collected is on disk, whatever its writes did.\<close>

theorem run_truth:
  assumes "run_job j remote command run_id w = (Return (res, code), w')"
  shows "if jd_locked w then code = 5 \<and> jd_files w' = jd_files w
    else code \<in> {0, 1, 3} \<and> published (''runs/'' @ run_id) res (jd_files w') \<and>
      others_kept (''runs/'' @ run_id) (jd_files w) (jd_files w') \<and>
      (code = 0 \<longrightarrow> good_run j remote (''runs/'' @ run_id) (jd_token w) (jd_files w'))"
proof -
  from assms obtain u1 w1 u2 w2 where d: "durable id w = (Return u1, w1)" "durable id w1 = (Return u2, w2)"
    and rest: "(if jd_locked w2 then io_return ([(''status'', PStr ''busy'')], 5) else locked_job j remote command run_id)
      w2 = (Return (res, code), w')"
    by (auto simp: run_job_def io_bind_Return io_get_def)
  from durable_id [OF d(1)] durable_id [OF d(2)]
  have w2: "jd_locked w2 = jd_locked w" "jd_files w2 = jd_files w" "jd_token w2 = jd_token w" by auto
  show ?thesis
  proof (cases "jd_locked w")
    case True
    with rest w2 show ?thesis by (auto simp: io_return_Return)
  next
    case False
    with rest w2 have "locked_job j remote command run_id w2 = (Return (res, code), w')" by simp
    from locked_Return [OF this] False show ?thesis by (simp add: w2)
  qed
qed


definition demo_disk :: job_disk where
  "demo_disk = \<lparr>plan = [], clock = (\<lambda>n. ''now''), ticks = 0, jd_locked = False, jd_token = Inr ''t'', jd_files = []\<rparr>"

theorem run_truth_witness:
  "\<exists>res w'. run_job demo_job (\<lambda>token n q. demo_view q) ''core-snapshot'' ''1'' demo_disk = (Return (res, 0), w') \<and>
     published ''runs/1'' res (jd_files w')"
proof -
  let ?r = "run_job demo_job (\<lambda>token n q. demo_view q) ''core-snapshot'' ''1'' demo_disk"
  have "case fst ?r of Return (res, code) \<Rightarrow> code = 0 | _ \<Rightarrow> False" by code_simp
  then obtain res w' where r: "?r = (Return (res, 0), w')"
    by (cases ?r) (auto split: outcome.splits)
  from run_truth [OF r] r show ?thesis by (auto simp: demo_disk_def)
qed


section \<open>Where the components differ\<close>

text \<open>A child whose state says deferred_manual waits for the engine and blocks for the checker.\<close>

definition deferred_root :: yaml_map where
  "deferred_root = dict_or_empty (sdict [(''state_scope'', PStr ''project_rollup''),
     (''workstreams'', desired_workstreams [PDict demo_stream]),
     (''rollup_policy'', sdict [(''specialist_writes_root'', PBool False), (''generated_from'', strings []),
       (''future_workstreams_do_not_block_rollup'', PBool True)])])"

definition deferred_out :: outside where
  "deferred_out = demo_out\<lparr>yaml := (\<lambda>t. if t = ''root'' then Inr (PDict deferred_root)
     else Inr (sdict [(''status'', PStr ''deferred_manual'')]))\<rparr>"

theorem deferred_manual_disagreement:
  "case view demo_view (propose_project deferred_out demo_project [PDict demo_stream]) of
     Inr (Some p) \<Rightarrow> rp_changes p = [] | _ \<Rightarrow> False"
  "case view demo_view (check_integrity_project deferred_out demo_project [PDict demo_stream]) of
     Inr fs \<Rightarrow> map fi_code fs = [''rollup_missing_active_source''] | _ \<Rightarrow> False"
  by code_simp+

text \<open>A directory in place of a file is answered with a list: the reader fails with an exception nobody caches.\<close>

theorem directory_not_cached:
  "get_text decode q (Payload (PList entries)) = Inl AttributeError" "cached_error AttributeError = None"
  by (simp_all add: get_text_def cached_error_def)

end
