(* ===== verification/Agent_Contract.thy ===== *)
theory Agent_Contract
  imports Core_Agent
begin

text \<open>
  \<open>agent_contract.py\<close> and \<open>agent_registry.py\<close>: parsing an agent's manifest into a contract, the boundary a
  read-only agent may not cross, and the registry of the manifests of a directory, which provides the
  \<open>registry\<close> interface.
\<close>

record tool_grant =
  tg_id :: string
  tg_access :: string
  tg_approval :: bool

record resource_policy =
  re_reads :: "string list"
  re_writes :: "string list"

record event_policy =
  ev_consumes :: "string list"
  ev_emits :: "string list"

record agent_contract =
  ac_schema :: string
  ac_id :: string
  ac_name :: string
  ac_version :: string
  ac_responsibility :: string
  ac_autonomy :: string
  ac_entrypoint :: "string option"
  ac_enabled :: bool
  ac_inputs :: "string list"
  ac_outputs :: "string list"
  ac_tools :: "tool_grant list"
  ac_resources :: resource_policy
  ac_approval :: "string list"
  ac_events :: event_policy

section \<open>Parsing\<close>

definition ALLOWED_AUTONOMY :: "string list" where
  "ALLOWED_AUTONOMY = [''autonomous'', ''bounded_write'', ''draft_only'', ''read_only'', ''write_with_approval'']"

definition ALLOWED_TOOL_ACCESS :: "string list" where
  "ALLOWED_TOOL_ACCESS = [''execute'', ''read'', ''write'']"

definition as_string_tuple :: "pyval \<Rightarrow> string \<Rightarrow> string list result" where
  "as_string_tuple v field = (case v of
      PNone \<Rightarrow> Inr []
    | PList vs \<Rightarrow> if list_all is_str vs then Inr (map str_val vs)
        else Inl (AgentContractError (field @ '' must be a list of strings''))
    | _ \<Rightarrow> Inl (AgentContractError (field @ '' must be a list of strings'')))"

definition filled :: "pyval \<Rightarrow> bool" where
  "filled v = (case v of PStr s \<Rightarrow> strip s \<noteq> [] | _ \<Rightarrow> False)"

definition tool_grant_of :: "pyval \<Rightarrow> tool_grant result" where
  "tool_grant_of v = (case v of
      PDict d \<Rightarrow> (let i = dget d ''id''; access = dget d ''access'';
          approval = dget_or d ''approval_required'' (PBool False) in
        if \<not> filled i then Inl (AgentContractError ''tool id must be a non-empty string'')
        else andThen (in_names ALLOWED_TOOL_ACCESS access) (\<lambda>known.
          if \<not> known then Inl (AgentContractError (''tool '' @ py_repr i @ '' access must be one of '' @
            py_repr (PList (map PStr ALLOWED_TOOL_ACCESS))))
          else if \<not> is_bool approval
          then Inl (AgentContractError (''tool '' @ py_repr i @ '' approval_required must be boolean''))
          else Inr \<lparr>tg_id = str_val i, tg_access = str_val access, tg_approval = (approval = PBool True)\<rparr>))
    | _ \<Rightarrow> Inl (AgentContractError ''tools entries must be mappings''))"

definition resource_policy_of :: "pyval \<Rightarrow> resource_policy result" where
  "resource_policy_of v = (case v of
      PNone \<Rightarrow> Inr \<lparr>re_reads = [], re_writes = []\<rparr>
    | PDict d \<Rightarrow>
        andThen (as_string_tuple (dget_or d ''reads'' (PList [])) ''resources.reads'') (\<lambda>reads.
        andThen (as_string_tuple (dget_or d ''writes'' (PList [])) ''resources.writes'') (\<lambda>writes.
          Inr \<lparr>re_reads = reads, re_writes = writes\<rparr>))
    | _ \<Rightarrow> Inl (AgentContractError ''resources must be a mapping''))"

definition approval_policy_of :: "pyval \<Rightarrow> string list result" where
  "approval_policy_of v = (case v of
      PNone \<Rightarrow> Inr []
    | PDict d \<Rightarrow> as_string_tuple (dget_or d ''required_for'' (PList [])) ''approval.required_for''
    | _ \<Rightarrow> Inl (AgentContractError ''approval must be a mapping''))"

definition event_policy_of :: "pyval \<Rightarrow> event_policy result" where
  "event_policy_of v = (case v of
      PNone \<Rightarrow> Inr \<lparr>ev_consumes = [], ev_emits = []\<rparr>
    | PDict d \<Rightarrow>
        andThen (as_string_tuple (dget_or d ''consumes'' (PList [])) ''events.consumes'') (\<lambda>consumes.
        andThen (as_string_tuple (dget_or d ''emits'' (PList [])) ''events.emits'') (\<lambda>emits.
          Inr \<lparr>ev_consumes = consumes, ev_emits = emits\<rparr>))
    | _ \<Rightarrow> Inl (AgentContractError ''events must be a mapping''))"

definition validate_autonomy :: "agent_contract \<Rightarrow> unit result" where
  "validate_autonomy c =
     (if ac_autonomy c \<noteq> ''read_only'' then Inr ()
      else let mutating = map tg_id (filter (\<lambda>t. tg_access t \<noteq> ''read'') (ac_tools c)) in
        if mutating \<noteq> [] then Inl (AgentContractError
          (''read_only agents may not declare write/execute tools: '' @ join '', '' (sort mutating)))
        else guard (re_writes (ac_resources c) = [])
          (AgentContractError ''read_only agents may not declare writable resources''))"

fun check_filled :: "(string \<times> pyval) list \<Rightarrow> unit result" where
  "check_filled [] = Inr ()"
| "check_filled ((field, v) # rest) =
     (if filled v then check_filled rest else Inl (AgentContractError (field @ '' must be a non-empty string'')))"

definition schema_of :: "yaml_map \<Rightarrow> pyval" where
  "schema_of d = dget_or d ''schema_version'' (PStr ''0.1'')"

definition check_head :: "yaml_map \<Rightarrow> unit result" where
  "check_head d =
     (let entry = dget d ''entrypoint'' in
      andThen (check_filled [(''id'', dget d ''id''), (''name'', dget d ''name''), (''version'', dget d ''version''),
        (''responsibility'', dget d ''responsibility''), (''schema_version'', schema_of d)]) (\<lambda>_.
      andThen (in_names ALLOWED_AUTONOMY (dget d ''autonomy'')) (\<lambda>known.
      andThen (guard known (AgentContractError (''autonomy must be one of '' @
        py_repr (PList (map PStr ALLOWED_AUTONOMY))))) (\<lambda>_.
      andThen (guard (entry = PNone \<or> is_str entry) (AgentContractError ''entrypoint must be a string or null'')) (\<lambda>_.
        guard (is_bool (dget_or d ''enabled'' (PBool True))) (AgentContractError ''enabled must be boolean''))))))"

definition tools_of :: "yaml_map \<Rightarrow> tool_grant list result" where
  "tools_of d = (case dget_or d ''tools'' (PList []) of
      PList vs \<Rightarrow> andThen (map_result tool_grant_of vs) (\<lambda>ts.
        if distinct (map tg_id ts) then Inr ts
        else Inl (AgentContractError ''tool ids must be unique within an agent contract''))
    | _ \<Rightarrow> Inl (AgentContractError ''tools must be a list''))"

definition agent_contract_of :: "pyval \<Rightarrow> agent_contract result" where
  "agent_contract_of v = (case v of
      PDict d \<Rightarrow>
        andThen (check_head d) (\<lambda>_.
        andThen (tools_of d) (\<lambda>tools.
        andThen (as_string_tuple (dget_or d ''inputs'' (PList [])) ''inputs'') (\<lambda>inputs.
        andThen (as_string_tuple (dget_or d ''outputs'' (PList [])) ''outputs'') (\<lambda>outputs.
        andThen (resource_policy_of (dget d ''resources'')) (\<lambda>resources.
        andThen (approval_policy_of (dget d ''approval'')) (\<lambda>approval.
        andThen (event_policy_of (dget d ''events'')) (\<lambda>events.
          let c = \<lparr>ac_schema = str_val (schema_of d), ac_id = str_val (dget d ''id''),
            ac_name = str_val (dget d ''name''), ac_version = str_val (dget d ''version''),
            ac_responsibility = str_val (dget d ''responsibility''), ac_autonomy = str_val (dget d ''autonomy''),
            ac_entrypoint = (case dget d ''entrypoint'' of PStr s \<Rightarrow> Some s | _ \<Rightarrow> None),
            ac_enabled = (dget_or d ''enabled'' (PBool True) = PBool True), ac_inputs = inputs, ac_outputs = outputs,
            ac_tools = tools, ac_resources = resources, ac_approval = approval, ac_events = events\<rparr> in
          andThen (validate_autonomy c) (\<lambda>_. Inr c))))))))
    | _ \<Rightarrow> Inl (AgentContractError ''agent contract must be a mapping''))"

text \<open>The text of the manifest, or the exception of reading it.\<close>

definition load_agent_contract :: "outside \<Rightarrow> string \<Rightarrow> string result \<Rightarrow> agent_contract result" where
  "load_agent_contract out path text = (case andThen text (yaml out) of
      Inl e \<Rightarrow> Inl (if is_os_error e then AgentContractError (''could not read '' @ path @ '': '' @ wording out e)
        else if e = YAMLError then AgentContractError (''invalid YAML in '' @ path @ '': '' @ wording out e) else e)
    | Inr v \<Rightarrow> (case agent_contract_of v of
          Inl (AgentContractError m) \<Rightarrow> Inl (AgentContractError (path @ '': '' @ m))
        | r \<Rightarrow> r))"

section \<open>The registry\<close>

type_synonym agents = "(string \<times> agent_contract) list"

definition register_agent :: "string \<Rightarrow> agent_contract \<Rightarrow> agents \<Rightarrow> agents result" where
  "register_agent source c r =
     (if map_of r (ac_id c) \<noteq> None
      then Inl (AgentRegistryError (''duplicate agent id '' @ repr_str (ac_id c) @
             (if source = [] then [] else '' from '' @ source)))
      else Inr (dict_set (ac_id c) c r))"

definition get_agent :: "string \<Rightarrow> agents \<Rightarrow> agent_contract result" where
  "get_agent i r = (case map_of r i of Some c \<Rightarrow> Inr c | None \<Rightarrow> Inl (AgentRegistryError (''unknown agent id: '' @ i)))"

definition list_agents :: "bool \<Rightarrow> agents \<Rightarrow> agent_contract list" where
  "list_agents enabled_only r = sort_key ac_id (filter (\<lambda>c. \<not> enabled_only \<or> ac_enabled c) (map snd r))"

text \<open>What is found at the directory's path: nothing, no directory, or its manifests with their texts.\<close>

datatype place = Missing | NotDirectory | Manifests "(string \<times> string result) list"

fun load_manifests :: "outside \<Rightarrow> (string \<times> string result) list \<Rightarrow> agents \<Rightarrow> agents result" where
  "load_manifests out [] r = Inr r"
| "load_manifests out ((path, text) # ms) r = (case load_agent_contract out path text of
      Inl (AgentContractError m) \<Rightarrow> Inl (AgentRegistryError m)
    | Inl e \<Rightarrow> Inl e
    | Inr c \<Rightarrow> andThen (register_agent path c r) (load_manifests out ms))"

definition from_directory :: "outside \<Rightarrow> string \<Rightarrow> place \<Rightarrow> agents result" where
  "from_directory out root found = (case found of
      Missing \<Rightarrow> Inl (AgentRegistryError (''agent directory does not exist: '' @ root))
    | NotDirectory \<Rightarrow> Inl (AgentRegistryError (''agent path is not a directory: '' @ root))
    | Manifests ms \<Rightarrow>
        if ms = [] then Inl (AgentRegistryError (''no agent manifests found under '' @ root))
        else load_manifests out (sort_key (\<lambda>m. split_slash (fst m)) ms) [])"

interpretation agent_registry: registry "register_agent source" map_of ac_id for source
  by unfold_locales (auto simp: register_agent_def map_of_dict_set split: if_splits)

section \<open>Well-formed contracts\<close>

definition bounded_agent :: "agent_contract \<Rightarrow> bool" where
  "bounded_agent c = (strip (ac_id c) \<noteq> [] \<and> strip (ac_name c) \<noteq> [] \<and> strip (ac_version c) \<noteq> [] \<and>
     strip (ac_responsibility c) \<noteq> [] \<and> strip (ac_schema c) \<noteq> [] \<and> ac_autonomy c \<in> set ALLOWED_AUTONOMY \<and>
     distinct (map tg_id (ac_tools c)) \<and>
     list_all (\<lambda>t. strip (tg_id t) \<noteq> [] \<and> tg_access t \<in> set ALLOWED_TOOL_ACCESS) (ac_tools c) \<and>
     (ac_autonomy c = ''read_only'' \<longrightarrow>
        list_all (\<lambda>t. tg_access t = ''read'') (ac_tools c) \<and> re_writes (ac_resources c) = []))"

definition refusal :: "exn \<Rightarrow> bool" where
  "refusal e = (e = TypeError \<or> (\<exists>m. e = AgentContractError m))"

lemma filled_str: "filled v \<Longrightarrow> strip (str_val v) \<noteq> []"
  by (auto simp: filled_def str_val_def split: pyval.splits)

lemma in_names_str: "in_names ns v = Inr True \<Longrightarrow> str_val v \<in> set ns"
  by (auto simp: in_names_def str_val_def split: if_splits)

lemma check_filled_Inr: "check_filled fs = Inr u \<Longrightarrow> (f, v) \<in> set fs \<Longrightarrow> filled v"
  by (induction fs rule: check_filled.induct) (auto split: if_splits)

lemma tool_grant_ok:
  "tool_grant_of v = Inr t \<Longrightarrow> strip (tg_id t) \<noteq> [] \<and> tg_access t \<in> set ALLOWED_TOOL_ACCESS"
  by (auto simp: tool_grant_of_def Let_def andThen_Inr_iff filled_str in_names_str split: pyval.splits if_splits)

lemma tools_ok:
  assumes "tools_of d = Inr ts"
  shows "distinct (map tg_id ts) \<and> list_all (\<lambda>t. strip (tg_id t) \<noteq> [] \<and> tg_access t \<in> set ALLOWED_TOOL_ACCESS) ts"
proof -
  from assms obtain vs where "map_result tool_grant_of vs = Inr ts" and d: "distinct (map tg_id ts)"
    by (auto simp: tools_of_def andThen_Inr_iff split: pyval.splits if_splits)
  with map_result_Inr_nth [OF this(1)] show ?thesis by (auto simp: list_all_iff dest: tool_grant_ok)
qed

lemma check_head_ok:
  assumes "check_head d = Inr u"
  shows "strip (str_val (dget d ''id'')) \<noteq> [] \<and> strip (str_val (dget d ''name'')) \<noteq> [] \<and>
    strip (str_val (dget d ''version'')) \<noteq> [] \<and> strip (str_val (dget d ''responsibility'')) \<noteq> [] \<and>
    strip (str_val (schema_of d)) \<noteq> [] \<and> str_val (dget d ''autonomy'') \<in> set ALLOWED_AUTONOMY"
proof -
  let ?fs = "[(''id'', dget d ''id''), (''name'', dget d ''name''), (''version'', dget d ''version''),
    (''responsibility'', dget d ''responsibility''), (''schema_version'', schema_of d)]"
  from assms obtain a where "check_filled ?fs = Inr a" and "in_names ALLOWED_AUTONOMY (dget d ''autonomy'') = Inr True"
    by (auto simp: check_head_def Let_def andThen_Inr_iff guard_Inr_iff)
  with check_filled_Inr [OF this(1)] show ?thesis by (auto intro!: filled_str in_names_str)
qed

lemma contract_ok: "agent_contract_of v = Inr c \<Longrightarrow> bounded_agent c"
proof -
  assume "agent_contract_of v = Inr c"
  then obtain d u where head: "check_head d = Inr u" and tools: "tools_of d = Inr (ac_tools c)"
    and fields: "ac_id c = str_val (dget d ''id'')" "ac_name c = str_val (dget d ''name'')"
      "ac_version c = str_val (dget d ''version'')" "ac_responsibility c = str_val (dget d ''responsibility'')"
      "ac_schema c = str_val (schema_of d)" "ac_autonomy c = str_val (dget d ''autonomy'')"
    and bound: "validate_autonomy c = Inr ()"
    by (auto simp: agent_contract_of_def Let_def andThen_Inr_iff split: pyval.splits)
  from bound have "ac_autonomy c = ''read_only'' \<longrightarrow>
      list_all (\<lambda>t. tg_access t = ''read'') (ac_tools c) \<and> re_writes (ac_resources c) = []"
    by (auto simp: validate_autonomy_def Let_def guard_Inr_iff list_all_iff filter_empty_conv split: if_splits)
  with check_head_ok [OF head] tools_ok [OF tools] fields show ?thesis by (auto simp: bounded_agent_def)
qed

lemma refusal_simps [simp]: "refusal (AgentContractError m)" "refusal TypeError"
  by (simp_all add: refusal_def)

lemma refused_names: "in_names ns v = Inl e \<Longrightarrow> refusal e"
  by (auto simp: in_names_def split: if_splits)

lemma refused_tuple: "as_string_tuple v f = Inl e \<Longrightarrow> refusal e"
  by (auto simp: as_string_tuple_def split: pyval.splits if_splits)

lemma refused_filled: "check_filled fs = Inl e \<Longrightarrow> refusal e"
  by (induction fs rule: check_filled.induct) (auto split: if_splits)

lemma refused_tool: "tool_grant_of v = Inl e \<Longrightarrow> refusal e"
  by (auto simp: tool_grant_of_def Let_def andThen_Inl_iff dest: refused_names split: pyval.splits if_splits)

lemma map_result_Inl: "map_result f xs = Inl e \<Longrightarrow> \<exists>x\<in>set xs. f x = Inl e"
  by (induction xs) (auto simp: andThen_Inl_iff)

lemma refused_tools: "tools_of d = Inl e \<Longrightarrow> refusal e"
  by (auto simp: tools_of_def andThen_Inl_iff dest!: map_result_Inl intro: refused_tool split: pyval.splits if_splits)

lemma refused_policies:
  "resource_policy_of v = Inl e \<Longrightarrow> refusal e" "approval_policy_of v = Inl e \<Longrightarrow> refusal e"
  "event_policy_of v = Inl e \<Longrightarrow> refusal e"
  by (auto simp: resource_policy_of_def approval_policy_of_def event_policy_of_def andThen_Inl_iff
      dest: refused_tuple split: pyval.splits)

lemma refused_head: "check_head d = Inl e \<Longrightarrow> refusal e"
  by (auto simp: check_head_def Let_def andThen_Inl_iff guard_Inl_iff simp del: check_filled.simps
      dest: refused_filled refused_names)

lemma refused_autonomy: "validate_autonomy c = Inl e \<Longrightarrow> refusal e"
  by (auto simp: validate_autonomy_def Let_def guard_Inl_iff split: if_splits)

lemma contract_refused: "agent_contract_of v = Inl e \<Longrightarrow> refusal e"
  by (auto simp: agent_contract_of_def Let_def andThen_Inl_iff
      dest: refused_head refused_tools refused_tuple refused_policies refused_autonomy split: pyval.splits)

section \<open>Registries from manifests\<close>

lemma register_success:
  "register_agent source c r = Inr r' \<Longrightarrow> register_agent source' c r = Inr r'"
  by (auto simp: register_agent_def split: if_splits)

lemma load_manifests_all:
  assumes "load_manifests out ms r = Inr r'"
  shows "\<exists>cs. map_result (\<lambda>m. load_agent_contract out (fst m) (snd m)) ms = Inr cs \<and>
    agent_registry.register_all [] cs r = Inr r'"
  using assms
proof (induction ms arbitrary: r)
  case (Cons m ms)
  obtain path t where m: "m = (path, t)" by (cases m)
  from Cons.prems obtain c r1 where c: "load_agent_contract out path t = Inr c"
    and r1: "register_agent path c r = Inr r1" "load_manifests out ms r1 = Inr r'"
    by (auto simp: m andThen_Inr_iff split: sum.splits exn.splits)
  from Cons.IH [OF r1(2)] c register_success [OF r1(1), of "[]"] show ?case
    by (auto simp: m)
qed simp

end
