(* ===== verification/GitHub_Issues.thy ===== *)
theory GitHub_Issues
  imports Effects Py_Json
begin

text \<open>
  \<open>github_issues.py\<close>: the transport of control requests. Only four kinds of requests on one repository pass
  its allow list; writes are at least a second apart. The network answers from a list; times are in
  milliseconds, and the floats of the retry headers are evaluated outside. \<open>sent\<close> is a ghost: the requests
  that reached the network, with their times.
\<close>

record sent_request =
  sq_method :: string
  sq_path :: string
  sq_payload :: "(pyval \<times> pyval) list option"
  sq_time :: int

text \<open>Size and content of an answer; an HTTP status with two headers and the delay they ask for; no answer.\<close>

datatype net_reply =
    Answer int "pyval result"
  | HttpFail int "string option" "string option" int
  | Unreachable exn

record transport =
  tr_clock :: int
  tr_last_write :: int
  tr_replies :: "(nat \<times> net_reply) list"
  tr_sent :: "sent_request list"

type_synonym 'a transport_op = "(transport, 'a) eff"

definition TRANSPORT_REPOSITORY :: string where
  "TRANSPORT_REPOSITORY = ''Az1mutt/personal-project-brain''"

section \<open>The allow list\<close>

text \<open>\<open>[1-9]\d*\<close>.\<close>

definition positive_number :: "string \<Rightarrow> bool" where
  "positive_number s = (case s of [] \<Rightarrow> False | c # r \<Rightarrow> is_dec c \<and> c \<noteq> CHR ''0'' \<and> list_all is_dec r)"

definition PAGE_PREFIX :: string where
  "PAGE_PREFIX = ''/issues?state=open&sort=created&direction=asc&per_page=100&page=''"

definition page_path :: "string \<Rightarrow> bool" where
  "page_path p = (starts_with PAGE_PREFIX p \<and> positive_number (drop (length PAGE_PREFIX) p))"

definition issue_path :: "string \<Rightarrow> bool" where
  "issue_path p = (starts_with ''/issues/'' p \<and> positive_number (drop 8 p))"

definition comments_path :: "string \<Rightarrow> bool" where
  "comments_path p = (starts_with ''/issues/'' p \<and>
     (let n = takeWhile (\<lambda>c. c \<noteq> CHR ''/'') (drop 8 p) in positive_number n \<and> drop (8 + length n) p = ''/comments''))"

definition allowed_request :: "string \<Rightarrow> string \<Rightarrow> (pyval \<times> pyval) list option \<Rightarrow> bool" where
  "allowed_request method path payload =
     (let d = (case payload of Some d \<Rightarrow> d | None \<Rightarrow> []) in
      (method = ''GET'' \<and> (path = [] \<or> page_path path \<or> issue_path path)) \<or>
      (method = ''POST'' \<and> comments_path path \<and> set (map fst d) = {PStr ''body''}) \<or>
      (method = ''PATCH'' \<and> issue_path path \<and> payload \<noteq> None \<and>
         py_eq (PDict d) (sdict [(''state'', PStr ''closed'')])))"

section \<open>Requests\<close>

text \<open>\<open>sleep(max(0, 1 - (monotonic() - last_write)))\<close>.\<close>

definition pace :: "unit transport_op" where
  "pace w = (let now = max (tr_clock w) (tr_last_write w + 1000) in
     (Return (), w\<lparr>tr_clock := now, tr_last_write := now\<rparr>))"

definition transmit :: "string \<Rightarrow> string \<Rightarrow> (pyval \<times> pyval) list option \<Rightarrow> net_reply transport_op" where
  "transmit method path payload w =
     (let w1 = w\<lparr>tr_sent := tr_sent w @ [\<lparr>sq_method = method, sq_path = path, sq_payload = payload,
           sq_time = tr_clock w\<rparr>]\<rparr> in
      case tr_replies w of
        [] \<Rightarrow> (Return (Unreachable OSError), w1)
      | (lag, a) # rest \<Rightarrow> (Return a, w1\<lparr>tr_replies := rest, tr_clock := tr_clock w + int lag\<rparr>))"

definition http_error :: "int \<Rightarrow> string option \<Rightarrow> string option \<Rightarrow> int \<Rightarrow> exn" where
  "http_error code left again delay =
     (let limited = (code = 429 \<or> left = Some ''0'' \<or> (again \<noteq> None \<and> again \<noteq> Some [])) in
      TransportError (if limited then ''transport_unavailable''
        else if code = 401 \<or> code = 403 \<or> code = 404 then ''authentication_permission_failure''
        else ''transport_unavailable'') delay)"

definition read_reply :: "net_reply \<Rightarrow> pyval result" where
  "read_reply a = (case a of
      Answer n content \<Rightarrow>
        if 2000000 < n then Inl (TransportError ''transport_response_too_large'' 60)
        else (case content of
            Inl e \<Rightarrow> Inl (if is_os_error e \<or> is_value_error e then TransportError ''transport_unavailable'' 60 else e)
          | Inr v \<Rightarrow> Inr v)
    | HttpFail code left again delay \<Rightarrow> Inl (http_error code left again delay)
    | Unreachable e \<Rightarrow> Inl (if is_os_error e \<or> is_value_error e then TransportError ''transport_unavailable'' 60 else e))"

definition issues_request :: "string \<Rightarrow> string \<Rightarrow> (pyval \<times> pyval) list option \<Rightarrow> pyval transport_op" where
  "issues_request method path payload =
     (if \<not> allowed_request method path payload then io_raise (TransportError ''transport_policy_denied'' 60)
      else io_bind (if method \<noteq> ''GET'' then pace else io_return ()) (\<lambda>_.
           io_bind (transmit method path payload) (\<lambda>a. io_result (read_reply a))))"

section \<open>Operations\<close>

definition is_private :: "pyval \<Rightarrow> bool" where
  "is_private v = (case v of
      PDict d \<Rightarrow> dget d ''private'' = PBool True \<and> dget d ''full_name'' = PStr TRANSPORT_REPOSITORY \<and>
        truthy (dget d ''has_issues'')
    | _ \<Rightarrow> False)"

definition verify_private :: "unit transport_op" where
  "verify_private = io_bind (issues_request ''GET'' [] None) (\<lambda>v.
     io_guard (is_private v) (TransportError ''transport_policy_denied'' 60))"

definition list_page :: "nat \<Rightarrow> pyval list transport_op" where
  "list_page page = io_bind verify_private (\<lambda>_.
     io_bind (issues_request ''GET'' (PAGE_PREFIX @ show_nat page) None) (\<lambda>v. case v of
       PList issues \<Rightarrow> io_return issues
     | _ \<Rightarrow> io_raise (TransportError ''transport_unavailable'' 60)))"

definition get_issue :: "int \<Rightarrow> pyval transport_op" where
  "get_issue n = issues_request ''GET'' (''/issues/'' @ show_int n) None"

text \<open>\<open>dumps\<close> is \<open>json.dumps(result, ensure_ascii=True, indent=2)\<close>.\<close>

definition post_result :: "(pyval \<Rightarrow> string result) \<Rightarrow> int \<Rightarrow> pyval \<Rightarrow> unit transport_op" where
  "post_result dumps n v = io_bind verify_private (\<lambda>_. io_bind (io_result (dumps v)) (\<lambda>t.
     io_bind (issues_request ''POST'' (''/issues/'' @ show_int n @ ''/comments'')
       (Some [(PStr ''body'', PStr (''Personal AI Brain control result'' @ [CHR 0x0A] @
          replicate 3 (CHR 0x60) @ ''json'' @ [CHR 0x0A] @ t @ [CHR 0x0A] @ replicate 3 (CHR 0x60)))]))
     (\<lambda>_. io_return ())))"

definition close_issue :: "int \<Rightarrow> unit transport_op" where
  "close_issue n = io_bind (issues_request ''PATCH'' (''/issues/'' @ show_int n)
     (Some [(PStr ''state'', PStr ''closed'')])) (\<lambda>_. io_return ())"

text \<open>Any sequence of calls, each ending as it may.\<close>

datatype transport_call = ListPage nat | GetIssue int | PostResult int pyval | CloseIssue int
  | RawRequest string string "(pyval \<times> pyval) list option"

fun transport_step :: "(pyval \<Rightarrow> string result) \<Rightarrow> transport_call \<Rightarrow> transport \<Rightarrow> transport" where
  "transport_step dumps (ListPage p) w = snd (list_page p w)"
| "transport_step dumps (GetIssue n) w = snd (get_issue n w)"
| "transport_step dumps (PostResult n v) w = snd (post_result dumps n v w)"
| "transport_step dumps (CloseIssue n) w = snd (close_issue n w)"
| "transport_step dumps (RawRequest m p d) w = snd (issues_request m p d w)"

definition transport_run :: "(pyval \<Rightarrow> string result) \<Rightarrow> transport_call list \<Rightarrow> transport \<Rightarrow> transport" where
  "transport_run dumps cs w = fold (transport_step dumps) cs w"

section \<open>The policy\<close>

definition write_times :: "sent_request list \<Rightarrow> int list" where
  "write_times rs = map sq_time (filter (\<lambda>r. sq_method r \<noteq> ''GET'') rs)"

fun spaced :: "int list \<Rightarrow> bool" where
  "spaced (a # b # ts) = (a + 1000 \<le> b \<and> spaced (b # ts))"
| "spaced ts = True"

definition policy_kept :: "transport \<Rightarrow> bool" where
  "policy_kept w = (list_all (\<lambda>r. allowed_request (sq_method r) (sq_path r) (sq_payload r)) (tr_sent w) \<and>
     spaced (write_times (tr_sent w)) \<and> list_all (\<lambda>t. t \<le> tr_last_write w) (write_times (tr_sent w)))"

definition keeps_policy :: "transport \<Rightarrow> transport \<Rightarrow> bool" where
  "keeps_policy w w' = (policy_kept w \<longrightarrow> policy_kept w')"

interpretation policy: step_relation keeps_policy
  by unfold_locales (auto simp: keeps_policy_def)

lemma spaced_snoc: "spaced ts \<Longrightarrow> list_all (\<lambda>t. t + 1000 \<le> b) ts \<Longrightarrow> spaced (ts @ [b])"
  by (induction ts rule: spaced.induct) auto

lemma keeps_request: "keeps keeps_policy (issues_request method path payload)"
  unfolding keeps_def keeps_policy_def
proof (intro allI impI)
  fix w assume ok: "policy_kept w"
  let ?b = "max (tr_clock w) (tr_last_write w + 1000)"
  have "spaced (write_times (tr_sent w) @ [?b])"
    by (rule spaced_snoc) (use ok in \<open>auto simp: policy_kept_def list_all_iff\<close>)
  moreover have "list_all (\<lambda>t. t \<le> ?b) (write_times (tr_sent w))"
    using ok by (auto simp: policy_kept_def list_all_iff)
  ultimately show "policy_kept (snd (issues_request method path payload w))"
    using ok
    by (cases "read_reply (Unreachable OSError)")
      (auto simp: issues_request_def run_steps pace_def transmit_def policy_kept_def write_times_def
        split: list.split prod.split sum.split)
qed

lemma keeps_verify: "keeps keeps_policy verify_private"
  unfolding verify_private_def by (intro policy.keeps_bind keeps_request policy.keeps_guard)

lemma keeps_transport_step: "policy_kept w \<Longrightarrow> policy_kept (transport_step dumps c w)"
proof -
  assume ok: "policy_kept w"
  have "keeps keeps_policy (case v of PList issues \<Rightarrow> io_return issues
      | _ \<Rightarrow> io_raise (TransportError ''transport_unavailable'' 60))" for v
    by (cases v) auto
  then have "keeps keeps_policy (list_page p)" for p
    unfolding list_page_def by (intro policy.keeps_bind keeps_request keeps_verify)
  moreover have "keeps keeps_policy (post_result dumps n v)" for n v
    unfolding post_result_def
    by (intro policy.keeps_bind keeps_request keeps_verify policy.keeps_result policy.keeps_return)
  moreover have "keeps keeps_policy (close_issue n)" for n
    unfolding close_issue_def by (intro policy.keeps_bind keeps_request policy.keeps_return)
  ultimately show ?thesis
    using ok keeps_request by (cases c) (auto simp: keeps_def keeps_policy_def get_issue_def)
qed

lemma transport_run_ok: "policy_kept w \<Longrightarrow> policy_kept (transport_run dumps cs w)"
  unfolding transport_run_def by (induction cs arbitrary: w) (auto intro: keeps_transport_step)

end
