(* ===== verification/Coding_Workspace.thy ===== *)
theory Coding_Workspace
  imports Effects Py_Json
begin

text \<open>
  \<open>coding_workspace.py\<close>: the tools a model may use on its checkout, and the validation of what it left. A
  directory is a list of entries sorted by name. Encoding and decoding UTF-8, SHA-256, Python's parser and
  \<open>difflib\<close> are arguments; a write goes to a temporary file that replaces the target in one durable step.
\<close>

section \<open>The file system\<close>

text \<open>A regular file has its bytes, its mode and its number of links.\<close>

datatype node =
    Folder "(string \<times> node) list"
  | Regular string int int
  | Symlink
  | Special

record workspace = disk +
  ws_root :: node

record codec =
  co_encode :: "string \<Rightarrow> string"
  co_decode :: "string \<Rightarrow> string result"
  co_sha :: "string \<Rightarrow> string"

definition TARGET :: string where
  "TARGET = ''src/personal_ai_brain/coding_exercise.py''"

definition rejected :: exn where
  "rejected = CodingFailure ''patch_rejected''"

definition invalid :: exn where
  "invalid = CodingFailure ''deterministic_validation_failed''"

section \<open>Paths\<close>

definition ws_parts :: "pyval \<Rightarrow> string list result" where
  "ws_parts v = (case v of
      PStr s \<Rightarrow>
        if 1 \<le> length s \<and> int (length s) \<le> 200 \<and> bslash \<notin> set s \<and> CHR '':'' \<notin> set s \<and>
           list_all (\<lambda>p. p \<noteq> [] \<and> \<not> starts_with ''.'' p) (split_slash s)
        then Inr (split_slash s) else Inl rejected
    | _ \<Rightarrow> Inl rejected)"

text \<open>Every component but the last must be a directory and no link; \<open>None\<close> is a missing entry.\<close>

fun descend :: "node \<Rightarrow> string list \<Rightarrow> node option result" where
  "descend (Folder es) [] = Inl OSError"
| "descend (Folder es) [n] = Inr (map_of es n)"
| "descend (Folder es) (n # m # ns) = (case map_of es n of
      Some (Folder fs) \<Rightarrow> descend (Folder fs) (m # ns)
    | _ \<Rightarrow> Inl OSError)"
| "descend _ _ = Inl OSError"

definition read_leaf :: "codec \<Rightarrow> node \<Rightarrow> string result" where
  "read_leaf co v = (case v of
      Regular bytes mode links \<Rightarrow>
        if links \<noteq> 1 \<or> 16384 < int (length bytes) \<or> CHR 0x00 \<in> set bytes then Inl rejected else co_decode co bytes
    | Special \<Rightarrow> Inl rejected
    | _ \<Rightarrow> Inl OSError)"

text \<open>\<open>None\<close>: there is no such file in the directory.\<close>

definition read_found :: "codec \<Rightarrow> node \<Rightarrow> string list \<Rightarrow> string option result" where
  "read_found co root ps = andThen (descend root ps) (\<lambda>x. case x of
      None \<Rightarrow> Inr None | Some v \<Rightarrow> andThen (read_leaf co v) (\<lambda>t. Inr (Some t)))"

definition read_file :: "codec \<Rightarrow> node \<Rightarrow> pyval \<Rightarrow> string result" where
  "read_file co root name = andThen (ws_parts name) (\<lambda>ps. andThen (read_found co root ps) (\<lambda>x. case x of
      None \<Rightarrow> Inl OSError | Some t \<Rightarrow> Inr t))"

section \<open>Listing\<close>

definition suffix_of :: "string \<Rightarrow> string" where
  "suffix_of name = (let ext = takeWhile (\<lambda>c. c \<noteq> CHR ''.'') (rev name) in
     if length ext + 1 < length name \<and> ext \<noteq> [] then CHR ''.'' # rev ext else [])"

definition listed_file :: "string \<times> node \<Rightarrow> bool" where
  "listed_file e = (case e of (n, v) \<Rightarrow> \<not> starts_with ''.'' n \<and>
     suffix_of n \<in> set [''.py'', ''.md'', ''.toml'', ''.yaml''] \<and>
     (case v of Folder _ \<Rightarrow> False | Symlink \<Rightarrow> False | _ \<Rightarrow> True))"

text \<open>\<open>os.walk\<close> from the top: the files of a directory, then its subdirectories.\<close>

function (sequential) walk_names :: "string \<Rightarrow> node \<Rightarrow> string list"
  and walk_below :: "string \<Rightarrow> (string \<times> node) list \<Rightarrow> string list" where
  "walk_names pre (Folder es) = map (\<lambda>e. pre @ fst e) (filter listed_file es) @ walk_below pre es"
| "walk_names pre v = []"
| "walk_below pre [] = []"
| "walk_below pre ((n, v) # es) =
     (if starts_with ''.'' n then [] else walk_names (pre @ n @ ''/'') v) @ walk_below pre es"
  by pat_completeness auto
termination
  by (relation "measure (case_sum (\<lambda>(p, v). size v) (\<lambda>(p, es). size_list (size_prod (\<lambda>x. 0) size) es))") auto

definition ws_files :: "node \<Rightarrow> string list result" where
  "ws_files root = (let names = walk_names [] root in if 256 < int (length names) then Inl invalid else Inr names)"

function (sequential) walk_all :: "string \<Rightarrow> node \<Rightarrow> (string \<times> node) list"
  and walk_each :: "string \<Rightarrow> (string \<times> node) list \<Rightarrow> (string \<times> node) list" where
  "walk_all pre (Folder es) = walk_each pre es"
| "walk_all pre v = []"
| "walk_each pre [] = []"
| "walk_each pre ((n, v) # es) =
     (case v of Folder _ \<Rightarrow> walk_all (pre @ n @ ''/'') v | _ \<Rightarrow> [(pre @ n, v)]) @ walk_each pre es"
  by pat_completeness auto
termination
  by (relation "measure (case_sum (\<lambda>(p, v). size v) (\<lambda>(p, es). size_list (size_prod (\<lambda>x. 0) size) es))") auto

fun plain_file :: "node \<Rightarrow> bool" where
  "plain_file (Regular bytes mode links) = (links = 1 \<and> int (length bytes) \<le> 8388608)"
| "plain_file _ = False"

fun node_size :: "node \<Rightarrow> int" where
  "node_size (Regular bytes mode links) = int (length bytes)"
| "node_size _ = 0"

fun node_print :: "codec \<Rightarrow> node \<Rightarrow> string \<times> int" where
  "node_print co (Regular bytes mode links) = (co_sha co bytes, mode)"
| "node_print co _ = ([], 0)"

text \<open>Hash and mode of every file; a link, a special file or too much of anything fails.\<close>

definition ws_snapshot :: "codec \<Rightarrow> node \<Rightarrow> (string \<times> string \<times> int) list result" where
  "ws_snapshot co root = (let all = walk_all [] root in
     if list_all (\<lambda>e. plain_file (snd e)) all \<and> int (length all) \<le> 4096 \<and>
        sum_list (map (\<lambda>e. node_size (snd e)) all) \<le> 67108864
     then Inr (map (\<lambda>e. (fst e, node_print co (snd e))) all) else Inl invalid)"

section \<open>Patching\<close>

text \<open>\<open>s.count(old)\<close> and \<open>s.replace(old, new, 1)\<close> for a text that is not empty.\<close>

fun count_sub :: "string \<Rightarrow> nat \<Rightarrow> string \<Rightarrow> nat" where
  "count_sub old skip [] = 0"
| "count_sub old skip (c # s) =
     (if 0 < skip then count_sub old (skip - 1) s
      else if starts_with old (c # s) then Suc (count_sub old (length old - 1) s)
      else count_sub old 0 s)"

fun replace_first :: "string \<Rightarrow> string \<Rightarrow> string \<Rightarrow> string" where
  "replace_first old new [] = []"
| "replace_first old new (c # s) =
     (if starts_with old (c # s) then new @ drop (length old) (c # s) else c # replace_first old new s)"

definition patched :: "string \<Rightarrow> string \<Rightarrow> string \<Rightarrow> string result" where
  "patched before old new =
     (if old \<noteq> [] then (if count_sub old 0 before = 1 then Inr (replace_first old new before) else Inl rejected)
      else if before \<noteq> [] then Inl rejected else Inr new)"

fun put_entry :: "string \<Rightarrow> node \<Rightarrow> (string \<times> node) list \<Rightarrow> (string \<times> node) list" where
  "put_entry k v [] = [(k, v)]"
| "put_entry k v ((a, b) # es) =
     (if k = a then (k, v) # es else if k < a then (k, v) # (a, b) # es else (a, b) # put_entry k v es)"

fun put_node :: "string list \<Rightarrow> node \<Rightarrow> node \<Rightarrow> node" where
  "put_node [n] v (Folder es) = Folder (put_entry n v es)"
| "put_node (n # ns) v (Folder es) = Folder (map (\<lambda>(k, x). (k, if k = n then put_node ns v x else x)) es)"
| "put_node ns v x = x"

definition small_text :: "codec \<Rightarrow> pyval \<Rightarrow> bool" where
  "small_text co v = (is_str v \<and> int (length (co_encode co (str_val v))) \<le> 8192)"

definition finish_patch :: "codec \<Rightarrow> string list \<Rightarrow> string \<Rightarrow> string \<Rightarrow> string \<Rightarrow> (workspace, pyval) eff" where
  "finish_patch co ps before old new =
     io_bind (io_result (patched before old new)) (\<lambda>after.
     io_bind (io_guard (int (length (co_encode co after)) \<le> 8192) rejected) (\<lambda>_.
     io_bind (durable (\<lambda>w. w\<lparr>ws_root := put_node ps (Regular (co_encode co after) 384 1) (ws_root w)\<rparr>)) (\<lambda>_.
     io_return (sdict [(''changed'', PBool (before \<noteq> after))]))))"

definition apply_patch :: "codec \<Rightarrow> pyval \<Rightarrow> pyval \<Rightarrow> pyval \<Rightarrow> (workspace, pyval) eff" where
  "apply_patch co name old new =
     io_bind (io_guard (name = PStr TARGET \<and> small_text co old \<and> small_text co new) rejected) (\<lambda>_.
     io_bind (io_get ws_root) (\<lambda>root.
     io_bind (io_result (ws_parts name)) (\<lambda>ps.
     io_bind (io_result (read_found co root ps)) (\<lambda>found.
     finish_patch co ps (case found of None \<Rightarrow> [] | Some t \<Rightarrow> t) (str_val old) (str_val new)))))"

section \<open>The tools\<close>

definition is_break :: "char \<Rightarrow> bool" where
  "is_break c = (let n = cp c in (10 \<le> n \<and> n \<le> 13) \<or> (28 \<le> n \<and> n \<le> 30) \<or> n = 133)"

text \<open>\<open>text.splitlines()\<close>.\<close>

fun split_lines :: "string \<Rightarrow> string \<Rightarrow> string list" where
  "split_lines acc [] = (if acc = [] then [] else [rev acc])"
| "split_lines acc [c] = (if is_break c then [rev acc] else [rev (c # acc)])"
| "split_lines acc (c # d # s) =
     (if cp c = 13 \<and> cp d = 10 then rev acc # split_lines [] s
      else if is_break c then rev acc # split_lines [] (d # s)
      else split_lines (c # acc) (d # s))"

fun has_sub :: "string \<Rightarrow> string \<Rightarrow> bool" where
  "has_sub t [] = (t = [])"
| "has_sub t (c # s) = (starts_with t (c # s) \<or> has_sub t s)"

definition line_hits :: "string \<Rightarrow> string \<Rightarrow> string \<Rightarrow> pyval list" where
  "line_hits t path content = (let ls = split_lines [] content in
     map (\<lambda>(n, l). sdict [(''path'', PStr path), (''line'', PInt (int n)), (''text'', PStr (take 200 l))])
       (filter (\<lambda>(n, l). has_sub t l) (zip [1..<length ls + 1] ls)))"

definition search_hits :: "codec \<Rightarrow> node \<Rightarrow> string \<Rightarrow> string list \<Rightarrow> pyval list" where
  "search_hits co root t names = concat (map (\<lambda>p. case read_file co root (PStr p) of
     Inl e \<Rightarrow> [] | Inr content \<Rightarrow> line_hits t p content) names)"

definition arg_keys :: "(pyval \<times> pyval) list \<Rightarrow> string list \<Rightarrow> bool" where
  "arg_keys d names = (set (map fst d) = PStr ` set names)"

definition ws_invoke :: "codec \<Rightarrow> pyval \<Rightarrow> pyval \<Rightarrow> (workspace, pyval) eff" where
  "ws_invoke co name args = (case args of
      PDict d \<Rightarrow>
        if name = PStr ''list_files'' \<and> d = []
        then io_bind (io_get ws_root) (\<lambda>root. io_bind (io_result (ws_files root)) (\<lambda>names.
               io_return (sdict [(''files'', PList (map PStr names))])))
        else if name = PStr ''read_file'' \<and> arg_keys d [''path'']
        then io_bind (io_get ws_root) (\<lambda>root. io_bind (io_result (ws_files root)) (\<lambda>names.
             io_bind (io_guard (dget d ''path'' \<in> set (map PStr names)) rejected) (\<lambda>_.
             io_bind (io_result (read_file co root (dget d ''path''))) (\<lambda>t.
               io_return (sdict [(''text'', PStr t)])))))
        else if name = PStr ''search_text'' \<and> arg_keys d [''text'']
        then (case dget d ''text'' of
            PStr t \<Rightarrow> if \<not> (1 \<le> length t \<and> length t \<le> 100) then io_raise rejected
              else io_bind (io_get ws_root) (\<lambda>root. io_bind (io_result (ws_files root)) (\<lambda>names.
                io_return (sdict [(''matches'', PList (take 20 (search_hits co root t names))), (''bounded'', PBool True)])))
          | _ \<Rightarrow> io_raise rejected)
        else if name = PStr ''apply_patch'' \<and> arg_keys d [''path'', ''old'', ''new'']
        then apply_patch co (dget d ''path'') (dget d ''old'') (dget d ''new'')
        else io_raise rejected
    | _ \<Rightarrow> io_raise rejected)"

section \<open>Validation\<close>

text \<open>What the validator looks at of a syntax tree: class names, and the fields it reads.\<close>

datatype pynode =
    Module "pynode list"
  | FunctionDef string fn_shape "pynode list"
  | DocString
  | Name string "pynode list"
  | Attribute string "pynode list"
  | Call callee "pynode list"
  | Other string "pynode list"
and fn_shape = Fn_Shape bool "string list"
and callee = ByAttribute | ByName string | ByOther

text \<open>
  \<open>DocString\<close> is an expression statement of a string constant; a function's shape says whether it is free of
  decorators, defaults, annotations and the special kinds of parameters, and names its parameters; every node
  lists its children.
\<close>

definition ALLOWED_NODES :: "string list" where
  "ALLOWED_NODES = [''arguments'', ''arg'', ''Expr'', ''Constant'', ''If'', ''UnaryOp'', ''Not'', ''Load'', ''Store'',
     ''Return'', ''Raise'', ''Assign'']"

fun children :: "pynode \<Rightarrow> pynode list" where
  "children (Module ns) = ns"
| "children (FunctionDef f s ns) = ns"
| "children DocString = []"
| "children (Name i ns) = ns"
| "children (Attribute a ns) = ns"
| "children (Call c ns) = ns"
| "children (Other k ns) = ns"

function ast_walk :: "pynode \<Rightarrow> pynode list" where
  "ast_walk n = n # concat (map ast_walk (children n))"
  by pat_completeness auto
termination
proof (relation "measure size")
  fix n c assume "c \<in> set (children n)"
  moreover have "size c \<le> size_list size xs" if "c \<in> set xs" for xs
    using that by (simp add: size_list_estimation')
  ultimately show "(c, n) \<in> measure size" by (cases n) (auto simp: less_Suc_eq_le trans_le_add1)
qed simp

declare ast_walk.simps [simp del]

definition node_ok :: "pynode \<Rightarrow> pynode \<Rightarrow> bool" where
  "node_ok fn n = (case n of
      Module _ \<Rightarrow> True
    | FunctionDef _ _ _ \<Rightarrow> n = fn
    | DocString \<Rightarrow> True
    | Name i _ \<Rightarrow> \<not> starts_with ''_'' i
    | Attribute a _ \<Rightarrow> a \<in> set [''strip'', ''split'', ''join'', ''casefold'']
    | Call c _ \<Rightarrow> (case c of ByAttribute \<Rightarrow> True | ByName i \<Rightarrow> i \<in> set [''isinstance'', ''str'', ''TypeError''] | ByOther \<Rightarrow> False)
    | Other k _ \<Rightarrow> k \<in> set ALLOWED_NODES)"

definition module_ok :: "pynode \<Rightarrow> bool" where
  "module_ok tree = (case filter (\<lambda>n. n \<noteq> DocString) (children tree) of
      [fn] \<Rightarrow> (case fn of
          FunctionDef f (Fn_Shape bare args) _ \<Rightarrow> f = ''normalize_label'' \<and> bare \<and> args = [''value''] \<and>
            list_all (node_ok fn) (ast_walk tree)
        | _ \<Rightarrow> False)
    | _ \<Rightarrow> False)"

text \<open>\<open>parse\<close> is \<open>ast.parse\<close>, \<open>diff\<close> the lines of \<open>difflib.unified_diff\<close> against the empty file.\<close>

definition changed_paths ::
  "(string \<times> string \<times> int) list \<Rightarrow> (string \<times> string \<times> int) list \<Rightarrow> string list" where
  "changed_paths current original = sort (remdups (filter (\<lambda>p. map_of current p \<noteq> map_of original p)
     (map fst current @ map fst original)))"

definition ws_validate ::
  "codec \<Rightarrow> (string \<Rightarrow> pynode option) \<Rightarrow> (string \<Rightarrow> string) \<Rightarrow> (string \<times> string \<times> int) list \<Rightarrow> node \<Rightarrow>
   (string list \<times> string) result" where
  "ws_validate co parse diff original root =
     andThen (ws_snapshot co root) (\<lambda>current.
     let changed = changed_paths current original in
     andThen (guard (changed = [TARGET] \<and> map_of original TARGET = None) invalid) (\<lambda>_.
     andThen (read_file co root (PStr TARGET)) (\<lambda>content.
     andThen (guard (content \<noteq> [] \<and> List.last content = CHR 0x0A) invalid) (\<lambda>_.
     case parse content of
       None \<Rightarrow> Inl invalid
     | Some tree \<Rightarrow> andThen (guard (module_ok tree) invalid) (\<lambda>_.
         Inr (changed, ''diff --git a/'' @ TARGET @ '' b/'' @ TARGET @ [CHR 0x0A] @ ''new file mode 100644'' @
           [CHR 0x0A] @ diff content))))))"


section \<open>Containment\<close>

text \<open>The file at a path, if there is one that is no directory.\<close>

definition file_at :: "node \<Rightarrow> string list \<Rightarrow> node option" where
  "file_at root ps = (case descend root ps of
      Inr (Some (Folder es)) \<Rightarrow> None | Inr x \<Rightarrow> x | Inl e \<Rightarrow> None)"

lemma map_of_put_entry: "map_of (put_entry k v es) = (map_of es)(k := (if k \<in> fst ` set es \<and> False then None else Some v))"
  by simp (induction k v es rule: put_entry.induct; auto simp: fun_eq_iff)

lemma map_of_at: "map_of (map (\<lambda>(k, x). (k, if k = n then g x else x)) es) m =
    (if m = n then map_option g (map_of es m) else map_of es m)"
  by (induction es) auto

lemma file_at_step:
  "file_at (Folder es) (n # m # ns) = (case map_of es n of Some (Folder fs) \<Rightarrow> file_at (Folder fs) (m # ns) | _ \<Rightarrow> None)"
  by (auto simp: file_at_def split: option.split node.split)

lemma file_at_put:
  "descend root ps = Inr x \<Longrightarrow> ps \<noteq> [] \<Longrightarrow> (\<And>es. x \<noteq> Some (Folder es)) \<Longrightarrow> (\<And>es. v \<noteq> Folder es) \<Longrightarrow>
   file_at (put_node ps v root) qs = (if qs = ps then Some v else file_at root qs)"
proof (induction ps v root arbitrary: qs rule: put_node.induct)
  case (1 n v es)
  then show ?case
    by (cases qs rule: remdups_adj.cases; cases "map_of es n")
      (auto simp: file_at_def map_of_put_entry split: option.splits node.splits)
next
  case (2 n m ms v es)
  from "2.prems"(1) obtain fs where fs: "map_of es n = Some (Folder fs)" "descend (Folder fs) (m # ms) = Inr x"
    by (auto split: option.splits node.splits)
  obtain gs where gs: "put_node (m # ms) v (Folder fs) = Folder gs" by (cases ms) auto
  show ?case
  proof (cases qs rule: remdups_adj.cases)
    case (3 k l ls)
    have "map_of es n = Some (Folder fs)" by (rule fs)
    then have mem: "(n, Folder fs) \<in> set es" by (rule map_of_SomeD)
    have "file_at (Folder gs) (l # ls) = (if l # ls = m # ms then Some v else file_at (Folder fs) (l # ls))"
      using "2.IH" [OF mem refl refl fs(2) _ "2.prems"(3,4), of "l # ls"] gs by simp
    then show ?thesis using fs(1) gs by (auto simp: 3 file_at_step map_of_at)
  qed (auto simp: file_at_def map_of_at fs gs split: option.splits node.splits)
qed auto


definition TARGET_PARTS :: "string list" where
  "TARGET_PARTS = [''src'', ''personal_ai_brain'', ''coding_exercise.py'']"

lemma target_parts: "ws_parts (PStr TARGET) = Inr TARGET_PARTS"
  by code_simp

text \<open>Whatever was there, only the target's file can differ.\<close>

definition contained :: "workspace \<Rightarrow> workspace \<Rightarrow> bool" where
  "contained w w' = (\<forall>ps. ps \<noteq> TARGET_PARTS \<longrightarrow> file_at (ws_root w') ps = file_at (ws_root w) ps)"

interpretation contained: step_relation contained
  by unfold_locales (auto simp: contained_def)

lemma read_found_leaf:
  assumes "read_found co root ps = Inr found"
  shows "\<exists>x. descend root ps = Inr x \<and> (\<forall>es. x \<noteq> Some (Folder es))"
proof -
  from assms obtain x where x: "descend root ps = Inr x"
    and leaf: "(case x of None \<Rightarrow> Inr None | Some v \<Rightarrow> andThen (read_leaf co v) (\<lambda>t. Inr (Some t))) = Inr found"
    by (auto simp: read_found_def andThen_Inr_iff)
  have "x \<noteq> Some (Folder es)" for es using leaf by (auto simp: read_leaf_def)
  with x show ?thesis by blast
qed

lemma put_target_contained:
  assumes "read_found co (ws_root w) TARGET_PARTS = Inr found"
  shows "contained w (snd (durable (\<lambda>w. w\<lparr>ws_root := put_node TARGET_PARTS (Regular b m l) (ws_root w)\<rparr>) w))"
proof -
  from read_found_leaf [OF assms] obtain x where x: "descend (ws_root w) TARGET_PARTS = Inr x"
    "\<And>es. x \<noteq> Some (Folder es)" by blast
  from file_at_put [OF x(1) _ x(2), of "Regular b m l"] show ?thesis
    by (auto simp: durable_def contained_def TARGET_PARTS_def split: list.split fault.split)
qed

lemma finish_contained:
  assumes "read_found co (ws_root w) TARGET_PARTS = Inr found"
  shows "contained w (snd (finish_patch co TARGET_PARTS before old new w))"
  unfolding finish_patch_def
proof (rule contained.bind_at)
  fix after w1 assume "io_result (patched before old new) w = (Return after, w1)"
  then have w1: "w1 = w" by (simp add: io_result_Return)
  show "contained w1 (snd (io_bind (io_guard (int (length (co_encode co after)) \<le> 8192) rejected) (\<lambda>_.
     io_bind (durable (\<lambda>w. w\<lparr>ws_root := put_node TARGET_PARTS (Regular (co_encode co after) 384 1) (ws_root w)\<rparr>)) (\<lambda>_.
     io_return (sdict [(''changed'', PBool (before \<noteq> after))]))) w1))"
  proof (rule contained.bind_at)
    fix u w2 assume "io_guard (int (length (co_encode co after)) \<le> 8192) rejected w1 = (Return u, w2)"
    then have w2: "w2 = w" by (simp add: io_guard_Return w1)
    show "contained w2 (snd (io_bind (durable (\<lambda>w. w\<lparr>ws_root := put_node TARGET_PARTS
        (Regular (co_encode co after) 384 1) (ws_root w)\<rparr>)) (\<lambda>_.
        io_return (sdict [(''changed'', PBool (before \<noteq> after))])) w2))"
      unfolding w2
    proof (rule contained.bind_at)
      show "contained w (snd (durable (\<lambda>w. w\<lparr>ws_root := put_node TARGET_PARTS
          (Regular (co_encode co after) 384 1) (ws_root w)\<rparr>) w))"
        by (rule put_target_contained [OF assms])
    qed (rule keepsD [OF contained.keeps_return])
  qed (rule keepsD [OF contained.keeps_guard])
qed (rule keepsD [OF contained.keeps_result])

lemma apply_contained: "keeps contained (apply_patch co name old new)"
  unfolding keeps_def
proof
  fix w :: workspace
  let ?ok = "name = PStr TARGET \<and> small_text co old \<and> small_text co new"
  show "contained w (snd (apply_patch co name old new w))"
  proof (cases "?ok \<and> (\<exists>found. read_found co (ws_root w) TARGET_PARTS = Inr found)")
    case True
    then obtain found where found: "read_found co (ws_root w) TARGET_PARTS = Inr found" by blast
    from True target_parts have "ws_parts name = Inr TARGET_PARTS" by blast
    with True found have "apply_patch co name old new w =
        finish_patch co TARGET_PARTS (case found of None \<Rightarrow> [] | Some t \<Rightarrow> t) (str_val old) (str_val new) w"
      unfolding apply_patch_def by (simp add: io_bind_def io_guard_def io_return_def io_get_def io_result_def)
    with finish_contained [OF found] show ?thesis by simp
  next
    case False
    then have "snd (apply_patch co name old new w) = w"
    proof (cases ?ok)
      case True
      with False obtain e where "read_found co (ws_root w) TARGET_PARTS = Inl e"
        by (cases "read_found co (ws_root w) TARGET_PARTS") auto
      moreover from True target_parts have "ws_parts name = Inr TARGET_PARTS" by blast
      ultimately show ?thesis using True
        unfolding apply_patch_def by (simp add: io_bind_def io_guard_def io_return_def io_get_def io_result_def io_raise_def)
    next
      case False
      then show ?thesis unfolding apply_patch_def by (simp only: io_bind_def io_guard_def io_raise_def if_False) simp
    qed
    then show ?thesis by (simp add: contained.same)
  qed
qed

lemma invoke_contained: "keeps contained (ws_invoke co name args)"
proof (cases args)
  case (PDict d)
  have search: "keeps contained (case v of
            PStr t \<Rightarrow> if \<not> (1 \<le> length t \<and> length t \<le> 100) then io_raise rejected
              else io_bind (io_get ws_root) (\<lambda>root. io_bind (io_result (ws_files root)) (\<lambda>names.
                io_return (sdict [(''matches'', PList (take 20 (search_hits co root t names))), (''bounded'', PBool True)])))
          | _ \<Rightarrow> io_raise rejected)" for v
    by (cases v) auto
  show ?thesis
    unfolding ws_invoke_def PDict pyval.case
    by (intro keeps_if contained.keeps_bind contained.keeps_get contained.keeps_result contained.keeps_guard
        contained.keeps_return contained.keeps_raise apply_contained search)
qed (auto simp: ws_invoke_def)

end
