(* ===== verification/Tool_Properties.thy ===== *)
theory Tool_Properties
  imports Agent_Contract GitHub_Issues Coding_Workspace
begin

text \<open>The properties of the agent registry, of the issue transport and of the tools a model may use.\<close>

section \<open>Agents\<close>

lemma dict_set_absent: "map_of r k = None \<Longrightarrow> dict_set k v r = r @ [(k, v)]"
  by (induction k v r rule: dict_set.induct) (auto split: if_splits)

lemma register_all_appends:
  "agent_registry.register_all source cs r = Inr r' \<Longrightarrow> r' = r @ map (\<lambda>c. (ac_id c, c)) cs"
proof (induction cs arbitrary: r)
  case (Cons c cs)
  then obtain q where q: "register_agent source c r = Inr q" "agent_registry.register_all source cs q = Inr r'"
    by (auto simp: andThen_Inr_iff)
  from q(1) have "q = r @ [(ac_id c, c)]"
    by (auto simp: register_agent_def dict_set_absent split: if_splits)
  with Cons.IH [OF q(2)] show ?case by simp
qed simp

lemma loaded_bounded: "load_agent_contract out path t = Inr c \<Longrightarrow> bounded_agent c"
  by (auto simp: load_agent_contract_def intro: contract_ok split: sum.splits exn.splits)

definition demo_manifest :: pyval where
  "demo_manifest = sdict [(''id'', PStr ''core''), (''name'', PStr ''Core''), (''version'', PStr ''0.1''),
     (''responsibility'', PStr ''reports''), (''autonomy'', PStr ''read_only''),
     (''tools'', PList [sdict [(''id'', PStr ''github''), (''access'', PStr ''read'')]])]"

definition demo_agents :: outside where
  "demo_agents = \<lparr>yaml = (\<lambda>t. Inr demo_manifest), wording = class_name, central = CENTRAL, branch = ''main''\<rparr>"

text \<open>C38: A registry that could be built holds, under its own id, exactly the contract of every manifest found, no
  two of them with the same id, and every contract is well formed: its fields are filled, its tools are distinct
  and of known access, and a read-only agent has no tool that writes or executes and no writable resource.\<close>

theorem registry_sound:
  assumes "from_directory out root found = Inr r"
  shows "\<exists>ms cs. found = Manifests ms \<and> ms \<noteq> [] \<and>
    map_result (\<lambda>m. load_agent_contract out (fst m) (snd m)) (sort_key (\<lambda>m. split_slash (fst m)) ms) = Inr cs \<and>
    r = map (\<lambda>c. (ac_id c, c)) cs \<and> distinct (map ac_id cs) \<and> list_all bounded_agent cs \<and>
    list_all (\<lambda>c. get_agent (ac_id c) r = Inr c) cs"
proof -
  from assms obtain ms where ms: "found = Manifests ms" "ms \<noteq> []"
    and load: "load_manifests out (sort_key (\<lambda>m. split_slash (fst m)) ms) [] = Inr r"
    by (auto simp: from_directory_def split: place.splits if_splits)
  from load_manifests_all [OF load] obtain cs where
    cs: "map_result (\<lambda>m. load_agent_contract out (fst m) (snd m)) (sort_key (\<lambda>m. split_slash (fst m)) ms) = Inr cs"
    and all: "agent_registry.register_all [] cs [] = Inr r" by blast
  have "list_all bounded_agent cs"
    using map_result_Inr_nth [OF cs] loaded_bounded by (fastforce simp: list_all_iff)
  moreover have "list_all (\<lambda>c. get_agent (ac_id c) r = Inr c) cs"
    using agent_registry.register_all_entry [OF all] by (auto simp: list_all_iff get_agent_def)
  ultimately show ?thesis
    using ms cs register_all_appends [OF all] agent_registry.register_all_distinct [OF all] by auto
qed

theorem registry_sound_witness:
  "\<exists>r c. from_directory demo_agents ''agents'' (Manifests [(''agents/core.yaml'', Inr ''text'')]) = Inr r \<and>
     get_agent ''core'' r = Inr c \<and> bounded_agent c"
proof -
  let ?f = "from_directory demo_agents ''agents'' (Manifests [(''agents/core.yaml'', Inr ''text'')])"
  have "case ?f of Inr r \<Rightarrow> map fst r = [''core''] | _ \<Rightarrow> False" by code_simp
  then obtain r where r: "?f = Inr r" "map fst r = [''core'']" by (cases ?f) auto
  from registry_sound [OF r(1)] obtain cs where "r = map (\<lambda>c. (ac_id c, c)) cs" "list_all bounded_agent cs"
    "list_all (\<lambda>c. get_agent (ac_id c) r = Inr c) cs" by blast
  with r show ?thesis by (cases cs) auto
qed

section \<open>The transport\<close>

lemma verify_sent:
  "verify_private w = (r, w') \<Longrightarrow> \<exists>q. tr_sent w' = tr_sent w @ [q] \<and> sq_method q = ''GET'' \<and>
     (\<forall>u. r = Return u \<longrightarrow> (\<exists>lag n v rest. tr_replies w = (lag, Answer n (Inr v)) # rest \<and> n \<le> 2000000 \<and> is_private v))"
  by (auto simp: verify_private_def issues_request_def run_steps transmit_def allowed_request_def read_reply_def
      split: list.splits prod.splits net_reply.splits sum.splits if_splits)

lemma request_sent:
  "issues_request m p d w = (r, w') \<Longrightarrow> \<exists>qs. tr_sent w' = tr_sent w @ qs"
  by (auto simp: issues_request_def run_steps transmit_def pace_def
      split: list.splits prod.splits sum.splits if_splits)

definition private_first :: "transport \<Rightarrow> bool" where
  "private_first w = (case tr_replies w of
      (lag, Answer n (Inr v)) # rest \<Rightarrow> n \<le> 2000000 \<and> is_private v | _ \<Rightarrow> False)"

text \<open>C39: Whatever is asked of the transport in whatever order, and whatever the network answers, only requests of
  the allow list reach it (reading the repository, its open issues or one issue, commenting with a body alone,
  closing an issue) and any two writes are at least a second apart; a result is commented only after the
  repository has just answered that it is the private one.\<close>

theorem transport_policy:
  assumes "tr_sent w0 = []" and "w = transport_run dumps calls w0" and "post_result dumps n v w = (r, w')"
  shows "policy_kept w' \<and> (\<exists>qs. tr_sent w' = tr_sent w @ qs \<and>
    (private_first w \<or> list_all (\<lambda>q. sq_method q = ''GET'') qs))"
proof -
  have "policy_kept w0" by (simp add: policy_kept_def write_times_def assms(1))
  then have "policy_kept (transport_run dumps (calls @ [PostResult n v]) w0)" by (rule transport_run_ok)
  then have kept: "policy_kept w'" by (simp add: transport_run_def assms(2) [unfolded transport_run_def, symmetric] assms(3))
  obtain a w1 where v: "verify_private w = (a, w1)" by (cases "verify_private w")
  from verify_sent [OF v] obtain q where q: "tr_sent w1 = tr_sent w @ [q]" "sq_method q = ''GET''"
    and priv: "\<And>u. a = Return u \<Longrightarrow> private_first w" by (auto simp: private_first_def)
  show ?thesis
  proof (cases "\<exists>u. a = Return u")
    case True
    then have "private_first w" using priv by blast
    moreover from True assms(3) v have "tr_sent w' = tr_sent w1 \<or> (\<exists>qs. tr_sent w' = tr_sent w1 @ qs)"
      by (auto simp: post_result_def io_bind_def io_result_def io_return_def io_raise_def dest!: request_sent
          split: sum.splits prod.splits outcome.splits)
    then have "\<exists>qs. tr_sent w' = tr_sent w @ qs" using q(1) by auto
    ultimately show ?thesis using kept by blast
  next
    case False
    with assms(3) v have "w' = w1" by (cases a) (auto simp: post_result_def io_bind_def)
    with q kept show ?thesis by auto
  qed
qed

definition demo_net :: transport where
  "demo_net = \<lparr>tr_clock = 0, tr_last_write = 0, tr_replies = [(5, Answer 9 (Inr (sdict [(''private'', PBool True),
     (''full_name'', PStr TRANSPORT_REPOSITORY), (''has_issues'', PBool True)]))), (5, Answer 2 (Inr (PDict [])))],
     tr_sent = []\<rparr>"

theorem transport_policy_witness:
  "policy_kept (snd (post_result (\<lambda>v. Inr (py_repr v)) 7 (PInt 1) demo_net)) \<and> private_first demo_net \<and>
   length (tr_sent (snd (post_result (\<lambda>v. Inr (py_repr v)) 7 (PInt 1) demo_net))) = 2"
proof -
  let ?p = "post_result (\<lambda>v. Inr (py_repr v)) 7 (PInt 1) demo_net"
  have "tr_sent demo_net = []" "demo_net = transport_run (\<lambda>v. Inr (py_repr v)) [] demo_net"
    by (simp_all add: demo_net_def transport_run_def)
  from transport_policy [OF this, of 7 "PInt 1" "fst ?p" "snd ?p"] have "policy_kept (snd ?p)" by simp
  moreover have "private_first demo_net" "length (tr_sent (snd ?p)) = 2" by code_simp+
  ultimately show ?thesis by blast
qed

section \<open>The workspace\<close>









end
