(* ===== verification/Cli.thy ===== *)
theory Cli
  imports Core_Run Agent_Contract Tautulli
begin

text \<open>
  \<open>cli.py\<close>: the commands behind the parsed arguments, with what they print, the file they write, the database
  they reconcile and the exit code. Each command builds its own \<open>GitHubReader\<close>, which fetches a source every
  time it is asked. The parser of the arguments, PyYAML's dumper, \<open>urlparse\<close> and the network are arguments.
\<close>

section \<open>Arguments\<close>

datatype output_format = FormatJson | FormatYaml

record core_args =
  ca_repo :: string
  ca_ref :: string
  ca_policy :: "string option"

datatype agents_action = AgentsList | AgentsShow string | AgentsValidate

record watched_args =
  wa_tautulli_user :: string
  wa_scope :: string
  wa_plex_url :: string
  wa_token_file :: string
  wa_initial :: "int option"
  wa_overlap :: int
  wa_limit :: int

datatype cli_command =
    CoreReport core_args "string option" bool
  | CoreSnapshot core_args output_format "string option"
  | RollupProposals core_args output_format "string option"
  | AgentsCommand string agents_action
  | WatchedReconcile watched_args

definition default_core_args :: core_args where
  "default_core_args = \<lparr>ca_repo = CENTRAL, ca_ref = ''main'', ca_policy = None\<rparr>"

section \<open>The surroundings and the terminal\<close>

text \<open>
  \<open>en_fetch n q\<close> is what the n-th call of the reader gives; \<open>en_history\<close> the rows of Tautulli's database,
  \<open>en_open\<close> whether the media database opens.
\<close>

record cli_env =
  en_outside :: outside
  en_fetch :: "nat \<Rightarrow> source \<Rightarrow> string result"
  en_day :: string
  en_date :: date
  en_dash :: string
  en_dot :: string
  en_text :: "string \<Rightarrow> string result"
  en_dump :: "pyval \<Rightarrow> string result"
  en_place :: "string \<Rightarrow> place"
  en_split :: "string \<Rightarrow> (string \<times> string) result"
  en_document :: "string \<Rightarrow> plex_media option result"
  en_history :: "history_row list result"
  en_open :: "unit result"
  en_sha :: "string \<Rightarrow> string"
  en_now :: "nat \<Rightarrow> string"

record terminal = disk +
  tm_out :: string
  tm_err :: string
  tm_files :: "(string \<times> string) list"
  tm_media :: db

type_synonym 'a cli = "(terminal, 'a) eff"

definition say :: "string \<Rightarrow> unit cli" where
  "say t w = (Return (), w\<lparr>tm_out := tm_out w @ t @ [CHR 0x0A]\<rparr>)"

definition say_raw :: "string \<Rightarrow> unit cli" where
  "say_raw t w = (Return (), w\<lparr>tm_out := tm_out w @ t\<rparr>)"

definition complain :: "string \<Rightarrow> unit cli" where
  "complain t w = (Return (), w\<lparr>tm_err := tm_err w @ t @ [CHR 0x0A]\<rparr>)"

text \<open>\<open>str(exc)\<close> of the classes the commands report.\<close>

definition message_of :: "outside \<Rightarrow> exn \<Rightarrow> string" where
  "message_of out e = (case e of
      ReconciliationError m \<Rightarrow> m | CursorNotInitialized m \<Rightarrow> m | LedgerError m \<Rightarrow> m
    | AgentRegistryError m \<Rightarrow> m | _ \<Rightarrow> exn_text out e)"

definition write_or_print :: "string \<Rightarrow> string option \<Rightarrow> unit cli" where
  "write_or_print text target = (case target of
      Some path \<Rightarrow>
        io_bind (durable id) (\<lambda>_.
        io_bind (durable (\<lambda>w. w\<lparr>tm_files := dict_set path text (tm_files w)\<rparr>)) (\<lambda>_.
          say (''Wrote '' @ path)))
    | None \<Rightarrow> say_raw text)"

definition render_structured :: "cli_env \<Rightarrow> pyval \<Rightarrow> output_format \<Rightarrow> string result" where
  "render_structured env v fmt = (case fmt of
      FormatJson \<Rightarrow> job_text v
    | FormatYaml \<Rightarrow> en_dump env v)"

section \<open>Collecting\<close>

text \<open>A program run on a reader without a cache: the number of the next fetch is threaded through.\<close>

primrec fetch_all :: "(nat \<Rightarrow> source \<Rightarrow> string result) \<Rightarrow> 'a reading \<Rightarrow> nat \<Rightarrow> 'a result \<times> nat" where
  "fetch_all remote (Given x) n = (Inr x, n)"
| "fetch_all remote (Thrown e) n = (Inl e, n)"
| "fetch_all remote (Reads q k) n = fetch_all remote (k (remote n q)) (Suc n)"

definition sources_of :: "cli_env \<Rightarrow> core_args \<Rightarrow> outside" where
  "sources_of env a = (en_outside env)\<lparr>central := ca_repo a, branch := ca_ref a\<rparr>"

definition load_freshness_policy :: "cli_env \<Rightarrow> string option \<Rightarrow> freshness_policy result" where
  "load_freshness_policy env path = (case path of
      None \<Rightarrow> Inr default_policy
    | Some p \<Rightarrow> (case andThen (en_text env p) (policy_from_yaml (en_outside env)) of
          Inr policy \<Rightarrow> Inr policy
        | Inl e \<Rightarrow> Inl (if is_os_error e \<or> is_value_error e
            then ValueError (''Could not load freshness policy '' @ p @ '': '' @ message_of (en_outside env) e)
            else e)))"

definition collect_all :: "cli_env \<Rightarrow> core_args \<Rightarrow> (core_snapshot \<times> rollup_proposal list) reading" where
  "collect_all env a = (let out = sources_of env a in
     r_bind (core_collect out (en_day env)) (\<lambda>s.
     r_bind (check_integrity out) (\<lambda>integrity.
     r_bind (r_result (load_freshness_policy env (ca_policy a))) (\<lambda>policy.
     r_bind (check_quality out \<lparr>qc_policy = policy, qc_today = en_date env\<rparr>) (\<lambda>quality.
     r_bind (propose_all out) (\<lambda>proposals.
       Given (with_findings quality (with_findings integrity s), proposals)))))))"

definition collect_core :: "cli_env \<Rightarrow> core_args \<Rightarrow> (core_snapshot \<times> rollup_proposal list) cli" where
  "collect_core env a = io_result (fst (fetch_all (en_fetch env) (collect_all env a) 0))"

text \<open>\<open>except ValueError\<close> around the collection of the two core commands; nothing else is handled.\<close>

definition with_core ::
  "cli_env \<Rightarrow> core_args \<Rightarrow> (core_snapshot \<times> rollup_proposal list \<Rightarrow> int cli) \<Rightarrow> int cli" where
  "with_core env a k =
     io_bind (io_catch (io_bind (collect_core env a) (\<lambda>c. io_return (Some c)))
       (\<lambda>e. if is_value_error e
          then io_bind (complain (''Core quality configuration error: '' @ message_of (en_outside env) e))
                 (\<lambda>_. io_return None)
          else io_raise e))
     (\<lambda>r. case r of None \<Rightarrow> io_return 2 | Some c \<Rightarrow> k c)"

section \<open>Commands\<close>

definition report_code :: "bool \<Rightarrow> core_snapshot \<Rightarrow> int" where
  "report_code strict s =
     (if snapshot_errors s \<noteq> [] then 2 else if strict \<and> snapshot_warnings s \<noteq> [] then 1 else 0)"

definition core_report :: "cli_env \<Rightarrow> core_args \<Rightarrow> string option \<Rightarrow> bool \<Rightarrow> int cli" where
  "core_report env a target strict = with_core env a (\<lambda>(s, ps).
     io_bind (write_or_print (render_markdown (en_dash env) (en_dot env) s) target) (\<lambda>_.
       io_return (report_code strict s)))"

definition core_snapshot_command :: "cli_env \<Rightarrow> core_args \<Rightarrow> output_format \<Rightarrow> string option \<Rightarrow> int cli" where
  "core_snapshot_command env a fmt target = with_core env a (\<lambda>(s, ps).
     io_bind (io_result (render_structured env (build_machine_snapshot s ps) fmt)) (\<lambda>text.
     io_bind (write_or_print text target) (\<lambda>_.
       io_return (if snapshot_errors s \<noteq> [] then 2 else 0))))"

definition rollup_payload :: "rollup_proposal list \<Rightarrow> pyval" where
  "rollup_payload ps = sdict [(''schema_version'', PStr ''0.1''), (''proposal_count'', PInt (int (length ps))),
     (''proposals'', PList (map proposal_dict ps))]"

definition rollup_command :: "cli_env \<Rightarrow> core_args \<Rightarrow> output_format \<Rightarrow> string option \<Rightarrow> int cli" where
  "rollup_command env a fmt target =
     io_bind (io_result (fst (fetch_all (en_fetch env) (propose_all (sources_of env a)) 0))) (\<lambda>ps.
     io_bind (io_result (render_structured env (rollup_payload ps) fmt)) (\<lambda>text.
     io_bind (write_or_print text target) (\<lambda>_. io_return 0)))"

definition tab :: string where
  "tab = [CHR 0x09]"

definition agent_line :: "agent_contract \<Rightarrow> string" where
  "agent_line c = ac_id c @ tab @ ac_autonomy c @ tab @ (if ac_enabled c then ''enabled'' else ''disabled'') @ tab @
     ac_name c"

definition tool_line :: "tool_grant \<Rightarrow> string" where
  "tool_line t = ''  - '' @ tg_id t @ '': '' @ tg_access t @ (if tg_approval t then '' (approval required)'' else [])"

text \<open>The lines of \<open>_print_agent\<close>.\<close>

definition print_agent :: "agent_contract \<Rightarrow> string list" where
  "print_agent c =
     [''id: '' @ ac_id c, ''name: '' @ ac_name c, ''version: '' @ ac_version c,
      ''enabled: '' @ (if ac_enabled c then ''true'' else ''false''), ''autonomy: '' @ ac_autonomy c,
      ''entrypoint: '' @ (case ac_entrypoint c of None \<Rightarrow> ''-'' | Some e \<Rightarrow> or_text e ''-''),
      ''responsibility: '' @ ac_responsibility c, ''tools:''] @
     (if ac_tools c \<noteq> [] then map tool_line (ac_tools c) else [''  - none'']) @
     [''read resources: '' @ show_nat (length (re_reads (ac_resources c))),
      ''write resources: '' @ show_nat (length (re_writes (ac_resources c)))]"

fun say_lines :: "string list \<Rightarrow> unit cli" where
  "say_lines [] = io_return ()"
| "say_lines (l # ls) = io_bind (say l) (\<lambda>_. say_lines ls)"

definition registry_refused :: "cli_env \<Rightarrow> exn \<Rightarrow> int cli" where
  "registry_refused env e = (case e of
      AgentRegistryError m \<Rightarrow> io_bind (complain (''Agent registry error: '' @ m)) (\<lambda>_. io_return 2)
    | _ \<Rightarrow> io_raise e)"

definition run_agents :: "cli_env \<Rightarrow> agents_action \<Rightarrow> agents \<Rightarrow> int cli" where
  "run_agents env action r = (case action of
      AgentsList \<Rightarrow> io_bind (say_lines (map agent_line (list_agents False r))) (\<lambda>_. io_return 0)
    | AgentsShow i \<Rightarrow> (case get_agent i r of
          Inl e \<Rightarrow> registry_refused env e
        | Inr c \<Rightarrow> io_bind (say_lines (print_agent c)) (\<lambda>_. io_return 0))
    | AgentsValidate \<Rightarrow>
        io_bind (say (''Valid agent registry: '' @ show_nat (length r) @ '' agent(s)'')) (\<lambda>_. io_return 0))"

definition agents_command :: "cli_env \<Rightarrow> string \<Rightarrow> agents_action \<Rightarrow> int cli" where
  "agents_command env dir action = (case from_directory (en_outside env) dir (en_place env dir) of
      Inl e \<Rightarrow> registry_refused env e
    | Inr r \<Rightarrow> run_agents env action r)"

section \<open>Reconciling from the command line\<close>

text \<open>The constructors of the metadata client and of the history source.\<close>

definition metadata_client :: "cli_env \<Rightarrow> string \<Rightarrow> string \<Rightarrow> unit result" where
  "metadata_client env url token = andThen (en_split env url) (\<lambda>(scheme, netloc).
     guard (scheme \<in> {''http'', ''https''} \<and> netloc \<noteq> [] \<and> token \<noteq> [])
       (ValueError ''valid Plex URL and token are required''))"

definition history_source :: "cli_env \<Rightarrow> string \<Rightarrow> event_source result" where
  "history_source env user =
     (if user = [] then Inl (ValueError ''invalid Tautulli source configuration'')
      else Inr (\<lambda>position limit. andThen (en_history env) (\<lambda>rows.
        sqlite_read_after user (9, 10) (guids_for (en_document env)) rows position limit)))"

definition no_hook :: hook where
  "no_hook e res = Inr ()"

text \<open>The work on the open database, which is closed whatever happens: only what was committed stays.\<close>

definition reconcile_media :: "cli_env \<Rightarrow> watched_args \<Rightarrow> event_source \<Rightarrow> ReconciliationResult cli" where
  "reconcile_media env a source w =
     (case reconcile_tautulli (en_sha env) source resolve_tmdb_identity no_hook (wa_scope a) (wa_initial a)
         (wa_overlap a) (wa_limit a) (en_now env)
         (apply_migrations \<lparr>committed = tm_media w, current = tm_media w, foreign_keys = False\<rparr>) of
      (r, c) \<Rightarrow> io_result r (w\<lparr>tm_media := committed c\<rparr>))"

definition reconcile_run :: "cli_env \<Rightarrow> watched_args \<Rightarrow> ReconciliationResult cli" where
  "reconcile_run env a =
     io_bind (io_result (en_text env (wa_token_file a))) (\<lambda>text.
     io_bind (io_result (metadata_client env (wa_plex_url a) (strip text))) (\<lambda>_.
     io_bind (io_result (history_source env (wa_tautulli_user a))) (\<lambda>source.
     io_bind (io_result (en_open env)) (\<lambda>_. reconcile_media env a source))))"

definition or_null :: "('a \<Rightarrow> string) \<Rightarrow> 'a option \<Rightarrow> string" where
  "or_null f v = (case v of None \<Rightarrow> ''null'' | Some x \<Rightarrow> f x)"

text \<open>\<open>json.dumps(result.__dict__, sort_keys=True)\<close>.\<close>

definition result_line :: "ReconciliationResult \<Rightarrow> string" where
  "result_line r = ''{'' @ join '', '' (map (\<lambda>(k, v). json_str True k @ '': '' @ v)
     [(''created_count'', show_nat (rr_created r)), (''cursor'', show_int (rr_cursor r)),
      (''duplicate_count'', show_nat (rr_duplicates r)), (''error_class'', or_null (json_str True) (rr_error r)),
      (''failed_position'', or_null show_int (rr_failed r)), (''processed_count'', show_nat (rr_processed r)),
      (''quarantined_count'', show_nat (rr_quarantined r)), (''read_count'', show_nat (rr_read r))]) @ ''}''"

definition reported :: "exn \<Rightarrow> bool" where
  "reported e = (is_os_error e \<or> is_value_error e \<or> e = IntegrityError \<or> e = OperationalError \<or>
     (case e of ReconciliationError m \<Rightarrow> True | CursorNotInitialized m \<Rightarrow> True | _ \<Rightarrow> False))"

definition reconcile_command :: "cli_env \<Rightarrow> watched_args \<Rightarrow> int cli" where
  "reconcile_command env a =
     io_bind (io_catch (io_bind (reconcile_run env a) (\<lambda>r. io_return (Some r)))
       (\<lambda>e. if reported e
          then io_bind (complain (''Watched reconciliation error: '' @ message_of (en_outside env) e))
                 (\<lambda>_. io_return None)
          else io_raise e))
     (\<lambda>x. case x of
        None \<Rightarrow> io_return 2
      | Some r \<Rightarrow> io_bind (say (result_line r)) (\<lambda>_. io_return (if rr_failed r \<noteq> None then 1 else 0)))"

definition cli_main :: "cli_env \<Rightarrow> cli_command \<Rightarrow> int cli" where
  "cli_main env command = (case command of
      WatchedReconcile a \<Rightarrow> reconcile_command env a
    | CoreReport a target strict \<Rightarrow> core_report env a target strict
    | CoreSnapshot a fmt target \<Rightarrow> core_snapshot_command env a fmt target
    | RollupProposals a fmt target \<Rightarrow> rollup_command env a fmt target
    | AgentsCommand dir action \<Rightarrow> agents_command env dir action)"

end
