(* ===== verification/Cli_Properties.thy ===== *)
theory Cli_Properties
  imports Cli Core_Behaviour Tautulli_Behaviour
begin

text \<open>
  The properties of the commands: what a successful report guarantees of the sources, when the command line and
  the runtime see the same, and what each exit code of the reconciliation says about the media database.
\<close>

section \<open>Reading without a cache\<close>






section \<open>A project in order\<close>








section \<open>The command line and the runtime\<close>




section \<open>What exit code zero of a report means\<close>







section \<open>Reconciliation\<close>








end
