(* ===== verification/Key_Install.thy ===== *)
theory Key_Install
  imports Py_Value Effects "HOL-Library.Word"
begin

text \<open>
  \<open>inference_install_key.py\<close>: the installer of the inference credential. The directory is reached through
  parents nobody else can write, the key is checked, written to a temporary file, made durable and renamed over
  the old one. Every system call that changes the directory is a durable write with a fate of its own.
\<close>

unbundle bit_operations_syntax

section \<open>Files\<close>

record dir_info =
  di_uid :: int
  di_gid :: int
  di_mode :: "12 word"

record key_file =
  kf_regular :: bool
  kf_links :: nat
  kf_uid :: int
  kf_gid :: int
  kf_mode :: "12 word"
  kf_data :: string

text \<open>The credential directory, and what was printed.\<close>

record key_disk = disk +
  kd_files :: "(string \<times> key_file) list"
  kd_said :: "string list"

type_synonym 'a key_io = "(key_disk, 'a) eff"

definition KEY_NAME :: string where
  "KEY_NAME = ''openai-api-key''"

text \<open>\<open>0o022\<close>, \<open>0o700\<close> and \<open>0o600\<close>.\<close>

definition others_write :: "12 word" where
  "others_write = 18"

definition private_dir :: "12 word" where
  "private_dir = 448"

definition private_file :: "12 word" where
  "private_file = 384"

section \<open>The directory\<close>

text \<open>
  \<open>dirs\<close> gives the directory at a path from the root; \<open>None\<close> is a component that is missing, a symbolic link or
  no directory, which \<open>os.open\<close> refuses.
\<close>

fun walk_parents :: "(string list \<Rightarrow> dir_info option) \<Rightarrow> int \<Rightarrow> string list \<Rightarrow> string list \<Rightarrow> dir_info result" where
  "walk_parents dirs owner seen [] = Inl OSError"
| "walk_parents dirs owner seen (part # parts) =
     (if part \<in> {[], ''.'', ''..''} then Inl (ValueError ''unsafe_parent'')
      else case dirs (seen @ [part]) of
          None \<Rightarrow> Inl OSError
        | Some info \<Rightarrow>
            if di_uid info \<noteq> (if parts = [] then owner else 0) \<or> di_mode info AND others_write \<noteq> 0
            then Inl (ValueError ''unsafe_parent'')
            else if parts = [] then Inr info else walk_parents dirs owner (seen @ [part]) parts)"

definition strip_slash :: "string \<Rightarrow> string" where
  "strip_slash s = rev (dropWhile (\<lambda>c. c = CHR ''/'') (rev (dropWhile (\<lambda>c. c = CHR ''/'') s)))"

definition key_directory :: "(string list \<Rightarrow> dir_info option) \<Rightarrow> string \<Rightarrow> int \<Rightarrow> dir_info result" where
  "key_directory dirs path owner = walk_parents dirs owner [] (split_slash (strip_slash path))"

section \<open>Installing\<close>

text \<open>\<open>raw.rstrip(b'\r\n')\<close>.\<close>

definition rstrip_newlines :: "string \<Rightarrow> string" where
  "rstrip_newlines s = rev (dropWhile (\<lambda>c. c = CHR 0x0A \<or> c = CHR 0x0D) (rev s))"

definition key_value :: "string \<Rightarrow> string result" where
  "key_value raw = (let value = rstrip_newlines raw in
     if 16 \<le> length value \<and> length value \<le> 1024 \<and> list_all (\<lambda>c. 33 \<le> cp c \<and> cp c \<le> 126) value
     then Inr value else Inl (ValueError ''invalid_input''))"

definition proper_file :: "int \<Rightarrow> int \<Rightarrow> key_file \<Rightarrow> bool" where
  "proper_file owner grp f =
     (kf_uid f = owner \<and> kf_gid f = grp \<and> kf_mode f = private_file \<and> kf_links f = 1)"

definition check_old :: "int \<Rightarrow> int \<Rightarrow> unit key_io" where
  "check_old owner grp w = (case map_of (kd_files w) KEY_NAME of
      None \<Rightarrow> (Return (), w)
    | Some old \<Rightarrow> if kf_regular old \<and> proper_file owner grp old then (Return (), w)
        else (Raise (ValueError ''unsafe_existing_file''), w))"

text \<open>The installer runs as root, so a new file belongs to root until \<open>fchown\<close>.\<close>

definition create_file :: "string \<Rightarrow> unit key_io" where
  "create_file name w =
     (if map_of (kd_files w) name \<noteq> None then (Raise FileExistsError, w)
      else durable (\<lambda>w. w\<lparr>kd_files := dict_set name \<lparr>kf_regular = True, kf_links = 1, kf_uid = 0, kf_gid = 0,
        kf_mode = private_file, kf_data = []\<rparr> (kd_files w)\<rparr>) w)"

definition change_file :: "string \<Rightarrow> (key_file \<Rightarrow> key_file) \<Rightarrow> unit key_io" where
  "change_file name g = durable (\<lambda>w. case map_of (kd_files w) name of
      None \<Rightarrow> w | Some f \<Rightarrow> w\<lparr>kd_files := dict_set name (g f) (kd_files w)\<rparr>)"

definition without :: "string \<Rightarrow> (string \<times> key_file) list \<Rightarrow> (string \<times> key_file) list" where
  "without name fs = filter (\<lambda>(n, f). n \<noteq> name) fs"

definition rename_file :: "string \<Rightarrow> string \<Rightarrow> unit key_io" where
  "rename_file src dst w = (case map_of (kd_files w) src of
      None \<Rightarrow> (Raise OSError, w)
    | Some f \<Rightarrow> durable (\<lambda>w. w\<lparr>kd_files := dict_set dst f (without src (kd_files w))\<rparr>) w)"

definition unlink_file :: "string \<Rightarrow> unit key_io" where
  "unlink_file name w = (case map_of (kd_files w) name of
      None \<Rightarrow> (Return (), w)
    | Some f \<Rightarrow> durable (\<lambda>w. w\<lparr>kd_files := without name (kd_files w)\<rparr>) w)"

definition validate_installed :: "int \<Rightarrow> int \<Rightarrow> unit key_io" where
  "validate_installed owner grp w = (case map_of (kd_files w) KEY_NAME of
      None \<Rightarrow> (Raise OSError, w)
    | Some f \<Rightarrow> if proper_file owner grp f then (Return (), w)
        else (Raise (ValueError ''installation_validation_failed''), w))"

text \<open>\<open>try: ... finally: ...\<close> around a step without a value.\<close>

definition io_finally :: "unit key_io \<Rightarrow> unit key_io \<Rightarrow> unit key_io" where
  "io_finally m f w = (case m w of
      (Died, w') \<Rightarrow> (Died, w')
    | (Return u, w') \<Rightarrow> f w'
    | (Raise e, w') \<Rightarrow> io_bind f (\<lambda>_. io_raise e) w')"

definition fill_file :: "string \<Rightarrow> string \<Rightarrow> int \<Rightarrow> int \<Rightarrow> unit key_io" where
  "fill_file name value owner grp =
     io_bind (change_file name (\<lambda>f. f\<lparr>kf_mode := private_file\<rparr>)) (\<lambda>_.
     io_bind (change_file name (\<lambda>f. f\<lparr>kf_uid := owner, kf_gid := grp\<rparr>)) (\<lambda>_.
       change_file name (\<lambda>f. f\<lparr>kf_data := value @ [CHR 0x0A]\<rparr>)))"

definition publish_file :: "string \<Rightarrow> string \<Rightarrow> int \<Rightarrow> int \<Rightarrow> unit key_io" where
  "publish_file name value owner grp =
     io_bind (fill_file name value owner grp) (\<lambda>_.
     io_bind (rename_file name KEY_NAME) (\<lambda>_.
     io_bind (durable id) (\<lambda>_.
       validate_installed owner grp)))"

definition install_at :: "string \<Rightarrow> dir_info \<Rightarrow> string \<Rightarrow> int \<Rightarrow> int \<Rightarrow> unit key_io" where
  "install_at temporary info raw owner grp =
     (if di_uid info \<noteq> owner \<or> di_gid info \<noteq> grp \<or> di_mode info \<noteq> private_dir
      then io_raise (ValueError ''unsafe_credential_directory'')
      else io_bind (io_result (key_value raw)) (\<lambda>value.
        io_bind (check_old owner grp) (\<lambda>_.
        io_bind (create_file temporary) (\<lambda>_.
          io_finally (publish_file temporary value owner grp) (unlink_file temporary)))))"

section \<open>The program\<close>

definition KEY_DIRECTORY :: string where
  "KEY_DIRECTORY = ''/etc/personal-ai-brain/inference/credentials''"

definition key_prefix :: string where
  "key_prefix = ''PAB-INFERENCE-KEY-V1'' @ [CHR 0x0A]"

definition announce :: "string \<Rightarrow> unit key_io" where
  "announce t w = (Return (), w\<lparr>kd_said := kd_said w @ [t]\<rparr>)"

text \<open>
  The effective user, the number of arguments, the account's user and grp, the directories, the name drawn for
  the temporary file (a dot and the hexadecimal digits of a UUID) and what the standard input holds.
\<close>

record key_env =
  ke_euid :: int
  ke_args :: nat
  ke_account :: "(int \<times> int) option"
  ke_dirs :: "string list \<Rightarrow> dir_info option"
  ke_name :: string
  ke_input :: string

definition key_steps :: "key_env \<Rightarrow> unit key_io" where
  "key_steps env =
     (if ke_euid env \<noteq> 0 \<or> ke_args env \<noteq> 1 then io_raise (ValueError ''administrative_stdin_only'')
      else case ke_account env of
          None \<Rightarrow> io_raise KeyError
        | Some (uid, gid) \<Rightarrow>
            io_bind (io_result (key_directory (ke_dirs env) KEY_DIRECTORY uid)) (\<lambda>info.
            io_bind (announce ''INFERENCE_KEY_READY'') (\<lambda>_.
            let raw = take 1050 (ke_input env) in
            io_bind (if starts_with key_prefix raw
                then install_at (CHR ''.'' # ke_name env) info (drop (length key_prefix) raw) uid gid
                else io_raise (ValueError ''invalid_input_frame'')) (\<lambda>_.
              announce ''INFERENCE_KEY_INSTALLED''))))"

text \<open>\<open>except Exception: raise SystemExit('INFERENCE_KEY_INSTALL_FAILED')\<close>: the exit code.\<close>

definition key_main :: "key_env \<Rightarrow> int key_io" where
  "key_main env = io_catch (io_bind (key_steps env) (\<lambda>_. io_return 0))
     (\<lambda>e. io_bind (announce ''INFERENCE_KEY_INSTALL_FAILED'') (\<lambda>_. io_return 1))"

section \<open>What a step may do to the directory\<close>

text \<open>
  Of all files only the temporary one and the key change, and the key only from what it was to a complete
  new one.
\<close>

definition new_key :: "int \<Rightarrow> int \<Rightarrow> string \<Rightarrow> key_file" where
  "new_key owner grp value = \<lparr>kf_regular = True, kf_links = 1, kf_uid = owner, kf_gid = grp,
     kf_mode = private_file, kf_data = value @ [CHR 0x0A]\<rparr>"

definition whole :: "string \<Rightarrow> key_file \<Rightarrow> key_disk \<Rightarrow> key_disk \<Rightarrow> bool" where
  "whole temporary key w w' = (kd_said w' = kd_said w \<and>
     (\<forall>n. n \<noteq> temporary \<and> n \<noteq> KEY_NAME \<longrightarrow> map_of (kd_files w') n = map_of (kd_files w) n) \<and>
     map_of (kd_files w') KEY_NAME \<in> {map_of (kd_files w) KEY_NAME, Some key})"

interpretation whole: step_relation "whole temporary key" for temporary key
  by unfold_locales (auto simp: whole_def)

lemma whole_durable:
  assumes "\<And>p. whole temporary key w (f (w\<lparr>plan := p\<rparr>))"
  shows "whole temporary key w (snd (durable f w))"
proof -
  have "w\<lparr>plan := plan w\<rparr> = w" by simp
  with assms [of "plan w"] have "whole temporary key w (f w)" by simp
  moreover have "whole temporary key w (w\<lparr>plan := p\<rparr>)" for p by (simp add: whole_def)
  ultimately show ?thesis using assms by (auto simp: durable_def split: list.split fault.split)
qed

lemma map_of_without [simp]: "map_of (without n fs) m = (if m = n then None else map_of fs m)"
  by (induction fs) (auto simp: without_def)

lemma whole_create:
  "temporary \<noteq> KEY_NAME \<Longrightarrow> whole temporary key w (snd (create_file temporary w))"
  using whole_durable [of temporary key w] by (auto simp: create_file_def whole_def map_of_dict_set)

lemma whole_change:
  "temporary \<noteq> KEY_NAME \<Longrightarrow> keeps (whole temporary key) (change_file temporary g)"
  unfolding keeps_def change_file_def
  by (intro allI whole_durable) (auto simp: whole_def map_of_dict_set split: option.split)

lemma whole_fill: "temporary \<noteq> KEY_NAME \<Longrightarrow> keeps (whole temporary key) (fill_file temporary value owner grp)"
  unfolding fill_file_def by (intro whole.keeps_bind whole_change)

lemma whole_unlink:
  "temporary \<noteq> KEY_NAME \<Longrightarrow> keeps (whole temporary key) (unlink_file temporary)"
  unfolding keeps_def unlink_file_def
  by (auto simp: whole.same intro!: whole_durable split: option.split) (auto simp: whole_def)

lemma whole_rename:
  "temporary \<noteq> KEY_NAME \<Longrightarrow> map_of (kd_files w) temporary = Some key \<Longrightarrow>
   whole temporary key w (snd (rename_file temporary KEY_NAME w))"
  by (auto simp: rename_file_def intro!: whole_durable) (auto simp: whole_def map_of_dict_set)

lemma whole_sync: "keeps (whole temporary key) (durable id)"
  unfolding keeps_def by (intro allI whole_durable) (simp add: whole_def)

lemma whole_validate: "keeps (whole temporary key) (validate_installed owner grp)"
  by (auto simp: keeps_def validate_installed_def whole.same split: option.split)

section \<open>What completed steps leave\<close>

lemma create_file_done:
  "create_file temporary w = (Return u, w') \<Longrightarrow>
   \<exists>f. map_of (kd_files w') temporary = Some f \<and> kf_regular f \<and> kf_links f = 1"
  by (auto simp: create_file_def map_of_dict_set dest!: durable_Return split: if_splits)

lemma change_file_done:
  "change_file temporary g w = (Return u, w') \<Longrightarrow> map_of (kd_files w) temporary = Some f \<Longrightarrow>
   map_of (kd_files w') temporary = Some (g f)"
  by (auto simp: change_file_def map_of_dict_set dest!: durable_Return)

lemma fill_file_done:
  assumes "fill_file temporary value owner grp w = (Return u, w')"
    and "map_of (kd_files w) temporary = Some f" "kf_regular f" "kf_links f = 1"
  shows "map_of (kd_files w') temporary = Some (new_key owner grp value)"
  using assms
  by (auto simp: fill_file_def io_bind_Return new_key_def dest!: change_file_done)

lemma publish_whole:
  assumes "temporary \<noteq> KEY_NAME" "map_of (kd_files w) temporary = Some f" "kf_regular f" "kf_links f = 1"
  shows "whole temporary (new_key owner grp value) w (snd (publish_file temporary value owner grp w))"
  unfolding publish_file_def
proof (rule whole.bind_at)
  show "whole temporary (new_key owner grp value) w (snd (fill_file temporary value owner grp w))"
    by (rule keepsD [OF whole_fill [OF assms(1)]])
next
  fix u w1 assume "fill_file temporary value owner grp w = (Return u, w1)"
  from fill_file_done [OF this assms(2-4)]
  have filled: "map_of (kd_files w1) temporary = Some (new_key owner grp value)" .
  show "whole temporary (new_key owner grp value) w1
      (snd (io_bind (rename_file temporary KEY_NAME) (\<lambda>_. io_bind (durable id) (\<lambda>_. validate_installed owner grp)) w1))"
    by (rule whole.bind_at, rule whole_rename [OF assms(1) filled])
      (intro keepsD [OF whole.keeps_bind [OF whole_sync whole_validate]])
qed

lemma publish_done:
  assumes "publish_file temporary value owner grp w = (Return u, w')" "temporary \<noteq> KEY_NAME"
    and "map_of (kd_files w) temporary = Some f" "kf_regular f" "kf_links f = 1"
  shows "map_of (kd_files w') KEY_NAME = Some (new_key owner grp value) \<and> map_of (kd_files w') temporary = None"
proof -
  from assms(1) obtain w1 w2 w3 where
    fill: "fill_file temporary value owner grp w = (Return (), w1)"
    and ren: "rename_file temporary KEY_NAME w1 = (Return (), w2)"
    and sync: "durable id w2 = (Return (), w3)" and val: "validate_installed owner grp w3 = (Return u, w')"
    by (auto simp: publish_file_def io_bind_Return)
  from val have "w' = w3" by (auto simp: validate_installed_def split: option.splits if_splits)
  moreover from sync have "kd_files w3 = kd_files w2" by (auto dest!: durable_Return)
  moreover from ren fill_file_done [OF fill assms(3-5)] assms(2)
  have "map_of (kd_files w2) KEY_NAME = Some (new_key owner grp value) \<and> map_of (kd_files w2) temporary = None"
    by (auto simp: rename_file_def map_of_dict_set dest!: durable_Return)
  ultimately show ?thesis by simp
qed

text \<open>An old key that may be replaced.\<close>

definition replaceable :: "int \<Rightarrow> int \<Rightarrow> key_disk \<Rightarrow> bool" where
  "replaceable owner grp w = (case map_of (kd_files w) KEY_NAME of
      None \<Rightarrow> True | Some old \<Rightarrow> kf_regular old \<and> proper_file owner grp old)"

lemma check_old_outcome:
  "check_old owner grp w = (if replaceable owner grp w then (Return (), w) else (Raise (ValueError ''unsafe_existing_file''), w))"
  by (auto simp: check_old_def replaceable_def split: option.split)

lemma io_finally_whole:
  assumes "whole temporary key w (snd (m w))" "keeps (whole temporary key) f"
  shows "whole temporary key w (snd (io_finally m f w))"
proof -
  obtain r w1 where m: "m w = (r, w1)" by (cases "m w")
  with assms(1) have start: "whole temporary key w w1" by simp
  have stop: "whole temporary key w1 (snd (f w1))" "whole temporary key w1 (snd (io_bind f (\<lambda>_. io_raise e :: unit key_io) w1))" for e
    by (rule keepsD [OF assms(2)], rule keepsD, intro whole.keeps_bind assms(2) whole.keeps_raise)
  have "io_finally m f w = (case r of Died \<Rightarrow> (Died, w1) | Return u \<Rightarrow> f w1
      | Raise e \<Rightarrow> io_bind f (\<lambda>_. io_raise e) w1)"
    by (simp add: io_finally_def m split: outcome.split)
  then show ?thesis using start whole.compose [OF start stop(1)] whole.compose [OF start stop(2)]
    by (simp split: outcome.split)
qed

lemma io_finally_Return:
  "io_finally m f w = (Return u, w') \<Longrightarrow> \<exists>w1. m w = (Return (), w1) \<and> f w1 = (Return u, w')"
  by (auto simp: io_finally_def io_bind_Return io_raise_Return split: prod.splits outcome.splits)

lemma install_at_outcome:
  assumes "install_at temporary info raw owner grp w = (r, w')" "temporary \<noteq> KEY_NAME"
  shows "(w' = w \<and> (\<forall>u. r \<noteq> Return u)) \<or> (\<exists>value. key_value raw = Inr value \<and> replaceable owner grp w \<and>
    whole temporary (new_key owner grp value) w w' \<and>
    (\<forall>u. r = Return u \<longrightarrow> map_of (kd_files w') KEY_NAME = Some (new_key owner grp value) \<and>
       map_of (kd_files w') temporary = None))"
proof (cases "di_uid info \<noteq> owner \<or> di_gid info \<noteq> grp \<or> di_mode info \<noteq> private_dir \<or> isl (key_value raw) \<or>
    \<not> replaceable owner grp w")
  case True
  with assms(1) show ?thesis
    by (cases "key_value raw")
      (auto simp: install_at_def io_bind_def io_result_def io_raise_def io_return_def check_old_outcome split: if_splits)
next
  case False
  then obtain v where kv: "key_value raw = Inr v" and rep: "replaceable owner grp w"
    by (cases "key_value raw") auto
  let ?key = "new_key owner grp v"
  have run: "io_bind (create_file temporary)
      (\<lambda>_. io_finally (publish_file temporary v owner grp) (unlink_file temporary)) w = (r, w')"
    using assms(1) False kv rep
    by (simp add: install_at_def io_result_def io_bind_def [of "io_return _"] io_bind_def [of "check_old owner grp"]
        io_return_def check_old_outcome)
  have "whole temporary ?key w (snd (io_bind (create_file temporary)
      (\<lambda>_. io_finally (publish_file temporary v owner grp) (unlink_file temporary)) w))"
  proof (rule whole.bind_at [OF whole_create [OF assms(2)]])
    fix u w1 assume "create_file temporary w = (Return u, w1)"
    from create_file_done [OF this] obtain f where
      "map_of (kd_files w1) temporary = Some f" "kf_regular f" "kf_links f = 1" by blast
    then show "whole temporary ?key w1
        (snd (io_finally (publish_file temporary v owner grp) (unlink_file temporary) w1))"
      by (intro io_finally_whole publish_whole whole_unlink assms(2))
  qed
  moreover have "map_of (kd_files w') KEY_NAME = Some ?key \<and> map_of (kd_files w') temporary = None" if "r = Return u" for u
  proof -
    from run that obtain w1 w2 where
      c: "create_file temporary w = (Return (), w1)"
      and p: "publish_file temporary v owner grp w1 = (Return (), w2)"
      and u: "unlink_file temporary w2 = (Return u, w')"
      by (auto simp: io_bind_Return dest!: io_finally_Return)
    from create_file_done [OF c] publish_done [OF p assms(2)] have
      fin: "map_of (kd_files w2) KEY_NAME = Some ?key \<and> map_of (kd_files w2) temporary = None" by blast
    then have "w' = w2" using u by (simp add: unlink_file_def)
    with fin show ?thesis by simp
  qed
  ultimately show ?thesis using kv rep run by auto
qed

section \<open>Trusted parents\<close>

definition trusted :: "(string list \<Rightarrow> dir_info option) \<Rightarrow> int \<Rightarrow> string list \<Rightarrow> bool" where
  "trusted dirs owner parts = list_all (\<lambda>k. case dirs (take (Suc k) parts) of
      None \<Rightarrow> False
    | Some info \<Rightarrow> di_mode info AND others_write = 0 \<and> di_uid info = (if Suc k = length parts then owner else 0))
    [0..<length parts]"

lemma walk_prefixes:
  "walk_parents dirs owner seen parts = Inr info \<Longrightarrow> k < length parts \<Longrightarrow>
   \<exists>i. dirs (seen @ take (Suc k) parts) = Some i \<and> di_mode i AND others_write = 0 \<and>
     di_uid i = (if Suc k = length parts then owner else 0)"
proof (induction parts arbitrary: seen k)
  case (Cons part parts)
  from Cons.prems(1) obtain i where i: "dirs (seen @ [part]) = Some i" "di_mode i AND others_write = 0"
    "di_uid i = (if parts = [] then owner else 0)"
    and rest: "parts \<noteq> [] \<Longrightarrow> walk_parents dirs owner (seen @ [part]) parts = Inr info"
    by (auto split: if_splits option.splits)
  show ?case
  proof (cases k)
    case 0
    with i show ?thesis by (auto split: if_splits)
  next
    case (Suc j)
    with Cons.prems(2) have "parts \<noteq> []" "j < length parts" by auto
    with Cons.IH [OF rest this(2)] Suc show ?thesis by simp
  qed
qed simp

lemma walk_trusted: "walk_parents dirs owner [] parts = Inr info \<Longrightarrow> trusted dirs owner parts"
proof -
  assume "walk_parents dirs owner [] parts = Inr info"
  then have "case dirs (take (Suc k) parts) of None \<Rightarrow> False
    | Some i \<Rightarrow> di_mode i AND others_write = 0 \<and> di_uid i = (if Suc k = length parts then owner else 0)"
    if "k < length parts" for k
    using walk_prefixes [of dirs owner "[]" parts info k] that by fastforce
  then show ?thesis by (simp add: trusted_def list_all_iff)
qed

end
