(* ===== verification/Key_Properties.thy ===== *)
theory Key_Properties
  imports Key_Install
begin

text \<open>What the installer of the inference key guarantees, whatever its surroundings and wherever it is stopped.\<close>

definition raw_key :: "key_env \<Rightarrow> string" where
  "raw_key env = drop (length key_prefix) (take 1050 (ke_input env))"

lemma announce_eq: "announce t w = (Return (), w\<lparr>kd_said := kd_said w @ [t]\<rparr>)"
  by (simp add: announce_def)

text \<open>The steps end before the key is looked at, or in the installation.\<close>

lemma key_steps_cases:
  assumes "key_steps env w = (r, w')"
  obtains (early) e where "r = Raise e" "kd_files w' = kd_files w" "kd_said w' \<in> {kd_said w, kd_said w @ [''INFERENCE_KEY_READY'']}"
  | (installed) uid gid info r1 w1 where "ke_euid env = 0" "ke_account env = Some (uid, gid)"
      "key_directory (ke_dirs env) KEY_DIRECTORY uid = Inr info"
      "install_at (CHR ''.'' # ke_name env) info (raw_key env) uid gid
         (w\<lparr>kd_said := kd_said w @ [''INFERENCE_KEY_READY'']\<rparr>) = (r1, w1)"
      "(r, w') = (case r1 of Return u \<Rightarrow> (Return (), w1\<lparr>kd_said := kd_said w1 @ [''INFERENCE_KEY_INSTALLED'']\<rparr>)
        | Raise e \<Rightarrow> (Raise e, w1) | Died \<Rightarrow> (Died, w1))"
proof -
  let ?w = "w\<lparr>kd_said := kd_said w @ [''INFERENCE_KEY_READY'']\<rparr>"
  show ?thesis
  proof (cases "ke_euid env = 0 \<and> ke_args env = 1 \<and> (\<exists>uid gid info. ke_account env = Some (uid, gid) \<and>
      key_directory (ke_dirs env) KEY_DIRECTORY uid = Inr info) \<and> starts_with key_prefix (take 1050 (ke_input env))")
    case True
    then obtain uid gid info where a: "ke_euid env = 0" "ke_args env = 1" "ke_account env = Some (uid, gid)"
      "key_directory (ke_dirs env) KEY_DIRECTORY uid = Inr info" by blast
    obtain r1 w1 where i: "install_at (CHR ''.'' # ke_name env) info (raw_key env) uid gid ?w = (r1, w1)" by fastforce
    have "(r, w') = (case r1 of Return u \<Rightarrow> (Return (), w1\<lparr>kd_said := kd_said w1 @ [''INFERENCE_KEY_INSTALLED'']\<rparr>)
        | Raise e \<Rightarrow> (Raise e, w1) | Died \<Rightarrow> (Died, w1))"
      using assms a True i
      by (cases r1) (auto simp: key_steps_def io_bind_def io_result_def io_return_def announce_eq raw_key_def Let_def)
    with a i show ?thesis by (intro installed)
  next
    case False
    with assms early show ?thesis
      by (auto simp: key_steps_def io_bind_def io_result_def io_return_def io_raise_def announce_eq Let_def
          split: if_splits option.splits sum.splits)
  qed
qed

text \<open>C30: However the installer ends, stopped or failing at any system call, it printed nothing but its fixed lines,
  no other file of the directory changed, and the key file is the old one or a complete new one with the owner's
  rights, which never replaces a file that is not a plain private one. INFERENCE_KEY_INSTALLED is printed only to
  root, when the new key is in place, no temporary file is left and no parent directory can be written by others.\<close>

theorem key_install_safe:
  assumes "key_main env w = (result, w')"
  shows "\<exists>said. kd_said w' = kd_said w @ said \<and>
    set said \<subseteq> {''INFERENCE_KEY_READY'', ''INFERENCE_KEY_INSTALLED'', ''INFERENCE_KEY_INSTALL_FAILED''} \<and>
    (\<forall>n. n \<noteq> KEY_NAME \<and> n \<noteq> CHR ''.'' # ke_name env \<longrightarrow> map_of (kd_files w') n = map_of (kd_files w) n) \<and>
    (map_of (kd_files w') KEY_NAME = map_of (kd_files w) KEY_NAME \<or>
      (\<exists>uid gid key. ke_account env = Some (uid, gid) \<and> key_value (raw_key env) = Inr key \<and>
        map_of (kd_files w') KEY_NAME = Some (new_key uid gid key) \<and> replaceable uid gid w)) \<and>
    (''INFERENCE_KEY_INSTALLED'' \<in> set said \<longrightarrow> ke_euid env = 0 \<and>
      (\<exists>uid gid key. ke_account env = Some (uid, gid) \<and> key_value (raw_key env) = Inr key \<and>
        trusted (ke_dirs env) uid (split_slash (strip_slash KEY_DIRECTORY)) \<and>
        map_of (kd_files w') KEY_NAME = Some (new_key uid gid key) \<and>
        map_of (kd_files w') (CHR ''.'' # ke_name env) = None))"
proof -
  obtain r w1 where s: "key_steps env w = (r, w1)" by fastforce
  have w': "w' = (case r of Raise e \<Rightarrow> w1\<lparr>kd_said := kd_said w1 @ [''INFERENCE_KEY_INSTALL_FAILED'']\<rparr> | _ \<Rightarrow> w1)"
    using assms s by (cases r) (auto simp: key_main_def io_catch_def io_bind_def io_return_def announce_eq)
  from s show ?thesis
  proof (cases rule: key_steps_cases)
    case (early e)
    then show ?thesis using w' by auto
  next
    case (installed uid gid info r1 w2)
    let ?t = "CHR ''.'' # ke_name env" and ?w = "w\<lparr>kd_said := kd_said w @ [''INFERENCE_KEY_READY'']\<rparr>"
    have t: "?t \<noteq> KEY_NAME" by (simp add: KEY_NAME_def)
    have trust: "trusted (ke_dirs env) uid (split_slash (strip_slash KEY_DIRECTORY))"
      using installed(3) by (auto simp: key_directory_def intro: walk_trusted)
    have files: "kd_files w' = kd_files w2"
      and said: "kd_said w' = kd_said w2 @ (case r1 of Return u \<Rightarrow> [''INFERENCE_KEY_INSTALLED'']
        | Raise e \<Rightarrow> [''INFERENCE_KEY_INSTALL_FAILED''] | Died \<Rightarrow> [])"
      using installed(5) w' by (cases r1; simp)+
    have rep: "replaceable uid gid ?w = replaceable uid gid w" by (simp add: replaceable_def)
    from install_at_outcome [OF installed(4) t] show ?thesis
    proof (elim disjE exE conjE)
      assume "w2 = ?w" "\<forall>u. r1 \<noteq> Return u"
      then show ?thesis using said files by (cases r1) auto
    next
      fix key assume k: "key_value (raw_key env) = Inr key" "replaceable uid gid ?w"
        "whole ?t (new_key uid gid key) ?w w2"
        "\<forall>u. r1 = Return u \<longrightarrow> map_of (kd_files w2) KEY_NAME = Some (new_key uid gid key) \<and> map_of (kd_files w2) ?t = None"
      show ?thesis
        using k(3,4) said installed(1,2) trust k(1) k(2)[unfolded rep]
        by (cases r1) (auto simp: whole_def files)
    qed
  qed
qed

section \<open>An installation\<close>

definition root_dirs :: "string list \<Rightarrow> dir_info option" where
  "root_dirs path = Some (if length path = 4 then \<lparr>di_uid = 990, di_gid = 982, di_mode = private_dir\<rparr>
     else \<lparr>di_uid = 0, di_gid = 0, di_mode = 493\<rparr>)"

definition key_sample :: key_env where
  "key_sample = \<lparr>ke_euid = 0, ke_args = 1, ke_account = Some (990, 982), ke_dirs = root_dirs, ke_name = ''aa'',
     ke_input = key_prefix @ ''sk-0123456789abcdef'' @ [CHR 0x0A]\<rparr>"

definition empty_keys :: "fault list \<Rightarrow> key_disk" where
  "empty_keys p = \<lparr>plan = p, clock = (\<lambda>n. []), ticks = 0, kd_files = [], kd_said = []\<rparr>"

theorem key_install_safe_witness:
  "\<exists>w'. key_main key_sample (empty_keys []) = (Return 0, w') \<and>
     map_of (kd_files w') KEY_NAME = Some (new_key 990 982 ''sk-0123456789abcdef'')"
proof -
  have run: "fst (key_main key_sample (empty_keys [])) = Return 0 \<and>
      ''INFERENCE_KEY_INSTALLED'' \<in> set (kd_said (snd (key_main key_sample (empty_keys [])))) \<and>
      key_value (raw_key key_sample) = Inr ''sk-0123456789abcdef''" by code_simp
  obtain result w' where w': "key_main key_sample (empty_keys []) = (result, w')" by fastforce
  with run key_install_safe [OF w'] show ?thesis
    by (auto simp: empty_keys_def key_sample_def)
qed

end
