(* ===== verification/Control_Handlers.thy ===== *)
theory Control_Handlers
  imports Control_Request Core_Run Core_Behaviour Coding_Workspace
begin

text \<open>
  The handlers that \<open>build_registry\<close> of \<open>control.py\<close> binds to the read-only capabilities: liveness, the core's
  results and the tail of the service log. The decoder of the log's bytes is an argument; the encoder of the
  answer is written out for the characters a text can hold here.
\<close>

section \<open>Liveness and the core\<close>

definition runtime_health :: "(pyval \<times> int) result \<Rightarrow> pyval result" where
  "runtime_health health = andThen health (\<lambda>(h, code).
     andThen (vget_or h ''last_run'' (PDict [])) (\<lambda>last_run.
     andThen (subscript h ''runtime'') (\<lambda>live.
     andThen (vget last_run ''status'') (\<lambda>status.
     andThen (vget last_run ''finished_at'') (\<lambda>finished.
       Inr (sdict [(''runtime'', live), (''last_manual_run_status'', status), (''last_manual_run_at'', finished),
         (''health_exit'', PInt code)]))))))"

definition core_part :: "job_setup \<Rightarrow> string \<Rightarrow> core_snapshot \<Rightarrow> rollup_proposal list \<Rightarrow> (string \<times> pyval) list" where
  "core_part j kind s ps =
     (if kind = ''snapshot'' then [(''snapshot'', build_machine_snapshot s ps)]
      else if kind = ''report'' then [(''report'', PStr (render_markdown (js_dash j) (js_dot j) s))]
      else if kind = ''rollup_proposals'' then [(''proposals'', PList (map proposal_dict ps))]
      else [])"

definition core_result :: "job_setup \<Rightarrow> (nat \<Rightarrow> source \<Rightarrow> string result) \<Rightarrow> string \<Rightarrow> pyval result" where
  "core_result j remote kind = (case run remote (run_collect j) new_reader of (collected, reader) \<Rightarrow>
     andThen collected (\<lambda>(s, ps). let status = fst (classify_run s (read_failures reader)) in
       if status = ''source_read_failure'' then Inl (CapabilityFailed ''source_read_failure'')
       else Inr (sdict ([(''source_status'', PStr status), (''health'', health_counts s ps)] @ core_part j kind s ps))))"

section \<open>The log\<close>

text \<open>\<open>text.encode()\<close> and \<open>bytes.decode('utf-8', errors='ignore')\<close>, for characters up to U+00FF.\<close>

definition utf8 :: "char \<Rightarrow> string" where
  "utf8 c = (if cp c < 128 then [c] else [char_of (192 + cp c div 64), char_of (128 + cp c mod 64)])"

definition encode_text :: "string \<Rightarrow> string" where
  "encode_text s = concat (map utf8 s)"

fun decode_ignore :: "string \<Rightarrow> string" where
  "decode_ignore [] = []"
| "decode_ignore [b] = (if cp b < 128 then [b] else [])"
| "decode_ignore (b # c # bs) =
     (if cp b < 128 then b # decode_ignore (c # bs)
      else if (cp b = 194 \<or> cp b = 195) \<and> 128 \<le> cp c \<and> cp c < 192
        then char_of ((cp b - 192) * 64 + (cp c - 128)) # decode_ignore bs
      else decode_ignore (c # bs))"

definition last_items :: "nat \<Rightarrow> 'a list \<Rightarrow> 'a list" where
  "last_items n xs = drop (length xs - n) xs"

text \<open>The last 8192 bytes, without the line the cut went through.\<close>

definition log_window :: "(string \<Rightarrow> string) \<Rightarrow> string \<Rightarrow> string" where
  "log_window decode bytes = (let text = decode (take 8192 (last_items 8192 bytes)) in
     if 8192 < length bytes then drop 1 (dropWhile (\<lambda>c. c \<noteq> CHR 0x0A) text) else text)"

definition log_lines :: "string list \<Rightarrow> nat \<Rightarrow> string \<Rightarrow> string" where
  "log_lines secrets n text = join [CHR 0x0A] (last_items n (split_lines [] (redact secrets text)))"

definition logs_tail :: "(string \<Rightarrow> string) \<Rightarrow> string list \<Rightarrow> string result \<Rightarrow> request \<Rightarrow> pyval result" where
  "logs_tail decode secrets log args = andThen log (\<lambda>bytes.
     case dlookup ''lines'' args of
       Some (PInt n) \<Rightarrow> Inr (sdict [(''log'', PStr ''core.service''),
         (''text'', PStr (decode_ignore (last_items 4096 (encode_text
            (log_lines secrets (nat n) (log_window decode bytes)))))),
         (''bounded'', PBool True), (''max_bytes'', PInt 4096)])
     | _ \<Rightarrow> Inl KeyError)"

section \<open>Cutting encoded text\<close>

lemma cp_char_of: "n < 256 \<Longrightarrow> cp (char_of n) = n"
  by (simp add: cp_def)

lemma utf8_wide: "\<not> cp c < 128 \<Longrightarrow> \<exists>a b. utf8 c = [a, b] \<and> (cp a = 194 \<or> cp a = 195) \<and> 128 \<le> cp b \<and> cp b < 192 \<and>
    char_of ((cp a - 192) * 64 + (cp b - 128)) = c"
proof -
  assume wide: "\<not> cp c < 128"
  let ?h = "cp c div 64" and ?l = "cp c mod 64"
  have small: "cp c < 256" by (simp add: cp_def)
  with wide have h: "?h = 2 \<or> ?h = 3" by linarith
  have l: "?l < 64" by simp
  have a: "cp (char_of (192 + ?h)) = 192 + ?h" by (rule cp_char_of) (use h in auto)
  have b: "cp (char_of (128 + ?l)) = 128 + ?l" by (rule cp_char_of) (use l in simp)
  have "char_of (?h * 64 + ?l) = c" by (simp only: div_mult_mod_eq) (simp add: cp_def)
  then have c: "char_of ((cp (char_of (192 + ?h)) - 192) * 64 + (cp (char_of (128 + ?l)) - 128)) = c"
    unfolding a b by simp
  have bounds: "cp (char_of (192 + ?h)) = 194 \<or> cp (char_of (192 + ?h)) = 195" "128 \<le> cp (char_of (128 + ?l))"
    "cp (char_of (128 + ?l)) < 192"
    using a b h l by auto
  have "utf8 c = [char_of (192 + ?h), char_of (128 + ?l)]" using wide by (simp add: utf8_def)
  with bounds c show ?thesis by blast
qed

lemma decode_step [simp]: "cp b < 128 \<Longrightarrow> decode_ignore (b # bs) = b # decode_ignore bs"
  by (cases bs) auto

lemma decode_skip: "128 \<le> cp b \<Longrightarrow> cp b < 192 \<Longrightarrow> decode_ignore (b # bs) = decode_ignore bs"
  by (cases bs) auto

lemma decode_char: "decode_ignore (utf8 c @ bs) = c # decode_ignore bs"
proof (cases "cp c < 128")
  case True
  then show ?thesis by (simp add: utf8_def)
next
  case False
  from utf8_wide [OF this] show ?thesis by fastforce
qed

lemma decode_encoded: "decode_ignore (encode_text s) = s"
  by (induction s) (simp_all add: encode_text_def decode_char)

lemma decode_cut:
  "\<exists>u v. s = u @ v \<and> decode_ignore (drop k (encode_text s)) = v \<and> length (encode_text v) \<le> length (encode_text s) - k"
proof (induction s arbitrary: k)
  case (Cons c s)
  show ?case
  proof (cases "k = 0")
    case True
    then show ?thesis using decode_encoded [of "c # s"] by (intro exI [of _ "[]"] exI [of _ "c # s"]) simp
  next
    case False
    have enc: "encode_text (c # s) = utf8 c @ encode_text s" by (simp add: encode_text_def)
    show ?thesis
    proof (cases "k < length (utf8 c)")
      case True
      with False have wide: "\<not> cp c < 128" and k: "k = 1" by (auto simp: utf8_def split: if_splits)
      from utf8_wide [OF wide] obtain a b where "utf8 c = [a, b]" "128 \<le> cp b" "cp b < 192" by blast
      with k enc show ?thesis
        by (intro exI [of _ "[c]"] exI [of _ s]) (simp add: decode_skip decode_encoded)
    next
      case False
      from Cons.IH [of "k - length (utf8 c)"] obtain u v where
        "s = u @ v" "decode_ignore (drop (k - length (utf8 c)) (encode_text s)) = v"
        "length (encode_text v) \<le> length (encode_text s) - (k - length (utf8 c))" by blast
      with False enc show ?thesis by (intro exI [of _ "c # u"] exI [of _ v]) simp
    qed
  qed
qed (simp add: encode_text_def)

lemma decode_tail:
  "\<exists>u. s = u @ decode_ignore (last_items n (encode_text s)) \<and>
    length (encode_text (decode_ignore (last_items n (encode_text s)))) \<le> n"
  using decode_cut [of s "length (encode_text s) - n"] by (auto simp: last_items_def)

section \<open>Lines\<close>

lemma split_lines_parts: "l \<in> set (split_lines acc s) \<Longrightarrow> sublist l (rev acc @ s)"
proof (induction acc s arbitrary: l rule: split_lines.induct)
  case (1 acc)
  then show ?case by (auto split: if_splits)
next
  case (2 acc c)
  then show ?case by (auto split: if_splits)
next
  case (3 acc c d s)
  have keep: "sublist l (rev acc @ c # d # s)" if "sublist l t" "\<exists>x. rev acc @ c # d # s = x @ t" for t
    using that by (auto intro: sublist_order.order_trans)
  consider "cp c = 13 \<and> cp d = 10" | "\<not> (cp c = 13 \<and> cp d = 10)" "is_break c"
    | "\<not> (cp c = 13 \<and> cp d = 10)" "\<not> is_break c" by blast
  then show ?case
  proof cases
    case 1
    with 3(4) have "l = rev acc \<or> l \<in> set (split_lines [] s)" by auto
    then show ?thesis using 3(1) [OF 1] keep [of s] by (auto intro: exI [of _ "rev acc @ [c, d]"])
  next
    case 2
    with 3(4) have "l = rev acc \<or> l \<in> set (split_lines [] (d # s))" by auto
    then show ?thesis using 3(2) [OF 2] keep [of "d # s"] by (auto intro: exI [of _ "rev acc @ [c]"])
  next
    case brk: 3
    with 3(4) have "l \<in> set (split_lines (c # acc) (d # s))" by auto
    then show ?thesis using 3(3) [OF brk] by simp
  qed
qed

lemma newline_break: "is_break (CHR 0x0A)"
  by code_simp

lemma split_lines_whole: "l \<in> set (split_lines acc s) \<Longrightarrow> list_all (\<lambda>c. \<not> is_break c) acc \<Longrightarrow> CHR 0x0A \<notin> set l"
proof (induction acc s arbitrary: l rule: split_lines.induct)
  case (3 acc c d s)
  then show ?case using newline_break by (auto simp: list_all_iff split: if_splits)
qed (use newline_break in \<open>auto simp: list_all_iff split: if_splits\<close>)

lemma sublist_join:
  assumes "sublist p (join [CHR 0x0A] ls)" "p \<noteq> []" "CHR 0x0A \<notin> set p"
  shows "\<exists>l\<in>set ls. sublist p l"
  using assms(1)
proof (induction "[CHR 0x0A]" ls rule: join.induct)
  case (3 s t ss)
  from 3(2) have "sublist p (s @ CHR 0x0A # join [CHR 0x0A] (t # ss))" by simp
  from sublist_apart [OF assms(3) this] 3(1) show ?case by auto
qed (use assms(2) in auto)

lemma join_newlines:
  "\<forall>l\<in>set ls. CHR 0x0A \<notin> set l \<Longrightarrow> length (filter (\<lambda>c. c = CHR 0x0A) (join [CHR 0x0A] ls)) = length ls - 1"
  by (induction "[CHR 0x0A]" ls rule: join.induct) (auto simp: filter_empty_conv)

lemma last_items_set: "set (last_items n xs) \<subseteq> set xs"
  by (simp add: last_items_def set_drop_subset)

end
