(* ===== verification/Handler_Properties.thy ===== *)
theory Handler_Properties
  imports Control_Handlers
begin

text \<open>What a caller of the read-only capabilities can see: bounded, redacted log lines and complete core results.\<close>

lemma sublist_suffix: "sublist p v \<Longrightarrow> sublist p (u @ v)"
  by (auto simp: sublist_def) (metis append.assoc)

lemma log_lines_clean:
  assumes "sublist p (log_lines r n text)" "p \<noteq> []" "CHR 0x0A \<notin> set p"
  shows "sublist p (redact r text)"
proof -
  from sublist_join [OF assms(1) [unfolded log_lines_def] assms(2,3)]
  obtain l where l: "l \<in> set (last_items n (split_lines [] (redact r text)))" "sublist p l" by blast
  from split_lines_parts [OF subsetD [OF last_items_set l(1)]] have "sublist l (redact r text)" by simp
  with l(2) show ?thesis by (rule sublist_order.order_trans)
qed

lemma log_lines_count: "1 \<le> n \<Longrightarrow> length (filter (\<lambda>c. c = CHR 0x0A) (log_lines r n text)) < n"
proof -
  assume n: "1 \<le> n"
  have "\<forall>l\<in>set (last_items n (split_lines [] (redact r text))). CHR 0x0A \<notin> set l"
    using last_items_set split_lines_whole by fastforce
  from join_newlines [OF this] n show ?thesis by (simp add: log_lines_def last_items_def)
qed

text \<open>C29: The log a caller gets is bounded and redacted: whatever the log file holds and however its bytes decode,
  at most 4096 bytes and at most the lines asked for (1 to 100), without any GitHub token and without any of the
  service's secrets, although lines are cut and joined and the text is cut once more after redaction.\<close>

theorem logs_tail_bounded:
  assumes "log_arguments d = Inr args" and "logs_tail decode r log args = Inr v"
  shows "\<exists>n t. args = [(PStr ''lines'', PInt n)] \<and> 1 \<le> n \<and> n \<le> 100 \<and> subscript v ''text'' = Inr (PStr t) \<and>
    length (encode_text t) \<le> 4096 \<and> int (length (filter (\<lambda>c. c = CHR 0x0A) t)) < n \<and>
    (\<forall>q\<in>set TOKEN_PREFIXES. \<forall>x. word_char x \<longrightarrow> \<not> sublist (q @ [x]) t) \<and>
    (\<forall>s\<in>set r. plain s \<and> CHR 0x0A \<notin> set s \<longrightarrow> \<not> sublist s t)"
proof -
  from assms(1) obtain n where n: "args = [(PStr ''lines'', PInt n)]" "1 \<le> n" "n \<le> 100"
    by (auto simp: log_arguments_def split: if_splits pyval.splits)
  from assms(2) obtain bytes where log: "log = Inr bytes" by (cases log) (auto simp: logs_tail_def)
  let ?w = "log_window decode bytes"
  define t where t: "t = decode_ignore (last_items 4096 (encode_text (log_lines r (nat n) ?w)))"
  from decode_tail [of "log_lines r (nat n) ?w" 4096] obtain u where
    u: "log_lines r (nat n) ?w = u @ t" "length (encode_text t) \<le> 4096" unfolding t by blast
  have "logs_tail decode r log args = Inr (sdict [(''log'', PStr ''core.service''), (''text'', PStr t),
      (''bounded'', PBool True), (''max_bytes'', PInt 4096)])"
    by (simp add: logs_tail_def log n(1) t)
  with assms(2) have v: "subscript v ''text'' = Inr (PStr t)" by (auto simp: subscript_def sdict_def)
  have clean: "\<not> sublist p t" if "\<not> sublist p (redact r ?w)" "p \<noteq> []" "CHR 0x0A \<notin> set p" for p
    using that log_lines_clean [of p r "nat n" ?w] sublist_suffix [of p t u] unfolding u(1) by blast
  have tokens: "\<not> sublist (q @ [x]) t" if "q \<in> set TOKEN_PREFIXES" "word_char x" for q x
  proof (rule clean)
    show "\<not> sublist (q @ [x]) (redact r ?w)" using no_token that by (auto simp: is_token_def)
    show "CHR 0x0A \<notin> set (q @ [x])"
      using that by (auto simp: TOKEN_PREFIXES_def word_char_def is_dec_def cp_def)
  qed simp
  have secrets: "\<not> sublist s t" if "s \<in> set r" "plain s" "CHR 0x0A \<notin> set s" for s
    by (rule clean [OF no_secret [OF that(1,2)] _ that(3)]) (use that(2) in \<open>simp add: plain_def\<close>)
  have "length (filter (\<lambda>c. c = CHR 0x0A) (u @ t)) < nat n"
    unfolding u(1) [symmetric] by (rule log_lines_count) (use n(2) in simp)
  then have "int (length (filter (\<lambda>c. c = CHR 0x0A) t)) < n" using n(2) by simp
  with n v u(2) tokens secrets show ?thesis by blast
qed

theorem logs_tail_bounded_witness:
  "\<exists>v t. logs_tail (\<lambda>b. b) [''hunter2''] (Inr (''key hunter2'' @ [CHR 0x0A] @ ''ready'')) [(PStr ''lines'', PInt 30)] = Inr v \<and>
     subscript v ''text'' = Inr (PStr t) \<and> \<not> sublist ''hunter2'' t"
proof -
  have a: "log_arguments [] = Inr [(PStr ''lines'', PInt 30)]" by code_simp
  obtain v where v: "logs_tail (\<lambda>b. b) [''hunter2''] (Inr (''key hunter2'' @ [CHR 0x0A] @ ''ready''))
      [(PStr ''lines'', PInt 30)] = Inr v" by (simp add: logs_tail_def dlookup.simps)
  have "CHR ''h'' \<notin> set ''REDACTED''" by simp
  then have "plain ''hunter2''" using set_mono_sublist [of "''hunter2''" "''REDACTED''"] by (auto simp: plain_def)
  with logs_tail_bounded [OF a v] v show ?thesis by auto
qed






end
