(* ===== verification/Spec2Isabelle.thy ===== *)
theory Spec2Isabelle
  imports Ledger_Properties Tautulli_Properties Work_Properties Handoff_Properties Broker_Properties
    Control_Properties Core_Properties Tool_Properties Cli_Properties Key_Properties Handler_Properties
begin

text \<open>
  Verification of the Personal AI Brain (\<open>src/src/personal_ai_brain\<close>). Names below are files of that
  directory and theories and definitions of this one.

  \<^bold>\<open>The program.\<close> Four systems share a few utilities. (1) A watched-event ledger in SQLite: Plex payloads become
  observations, are ingested once, and are delivered to another service at most once per decision; a
  reconciliation run reads Tautulli's history behind a cursor. (2) The core: an agent reads the states that a
  project map on GitHub names, two checkers judge them, an engine proposes changes to root states, and a manual
  job or the command line writes reports. (3) The work system: a store of tasks as files, a runner that
  executes one task at a time in a sandbox, a coding executor in which a model proposes a patch through a paid
  broker, and a file transport (the handoff) through which tasks arrive. (4) The control channel: a worker polls
  GitHub issues, runs a fixed set of capabilities (of the core, of the runtime, of the handoff) once per request
  and posts redacted results. An installer puts the broker's credential in place.

  \<^bold>\<open>Shared theories.\<close> \<open>Prelude\<close>: exceptions as one datatype with Python's class hierarchy, results as sums, tables
  as lists. \<open>Py_Value\<close>, \<open>Py_Json\<close>, \<open>Py_Time\<close>: the values, text, JSON and calendar operations the code uses.
  \<open>Effects\<close>: stateful steps with three outcomes (value, exception, death of the process); a \<open>disk\<close> carries the
  fate of each durable write to come (works, works late, fails, dies), so a theorem about a step covers every
  crash point in it; the locale \<open>step_relation\<close> gives the rules by which a relation is kept through a program.
  \<open>Interfaces\<close>: the locales of the contracts between components (life cycles, registries, keyed records, readers
  that do not change their mind), each interpreted where the code provides it.

  \<^bold>\<open>The ledger.\<close> \<open>Watched_Ledger\<close> is \<open>watched_ledger.py\<close> over its SQL schema: four tables as lists, a connection
  with what is committed and what is visible, one definition per operation with its transaction. \<open>Plex_Observation\<close> is
  \<open>plex_observation.py\<close>; \<open>Tautulli\<close> is \<open>tautulli_reconciliation.py\<close>. \<open>Ledger_Invariant\<close> has the invariant of the four
  tables over every history of calls, lost transactions and reopenings; \<open>Ledger_Behaviour\<close> idempotent
  ingestion, the life of a delivery and restarts; \<open>Tautulli_Behaviour\<close> where a run's cursor ends and what it stores.

  \<^bold>\<open>The core.\<close> \<open>Core_Reader\<close>: \<open>github_reader.py\<close>, the cache \<open>RunReader\<close> of \<open>runtime.py\<close>, and \<open>reading\<close>, programs that
  read sources, which are run through the cache, run without it (\<open>fetch_all\<close>) or evaluated on a fixed view
  (\<open>view\<close>). \<open>Core_Agent\<close>, \<open>State_Integrity\<close>, \<open>Rollup_Proposal\<close>, \<open>State_Quality\<close>: the files of those names. \<open>Core_Run\<close>:
  \<open>machine_snapshot.py\<close>, collection, jobs and health of \<open>runtime.py\<close>. \<open>Cli\<close>: \<open>cli.py\<close>. \<open>Agent_Contract\<close>: \<open>agent_contract.py\<close>
  and \<open>agent_registry.py\<close>. The lemmas: every read of a run agrees with one view, each state gives one record or
  error (\<open>Core_Behaviour\<close>), the schema checker against a predicate on documents (\<open>State_Schema\<close>), engine against
  checker (\<open>Core_Agreement\<close>), the files a job leaves (\<open>Core_Job\<close>).

  \<^bold>\<open>The work system.\<close> \<open>Work_Contract\<close>, \<open>Work_Store\<close>, \<open>Work_Runner\<close>, \<open>Work_Sandbox\<close>, \<open>Work_Handoff\<close>: the files of those
  names; \<open>Coding_Protocol\<close>, \<open>Coding_Execute\<close> (with \<open>coding_agent.py\<close>), \<open>Coding_Workspace\<close>, \<open>Inference_Usage\<close>,
  \<open>Inference_Broker\<close> (with \<open>inference_provider.py\<close> and \<open>inference_config.py\<close>): the coding part; \<open>Work_Admin\<close>: the operator's
  profile and commands. \<open>Work_System\<close> is the step relation of all of it: calls of the store, ticks, restarts
  and storage failures in any order, with the receiver acting at every observation of the runner.
  \<open>Work_Store_Invariant\<close> proves what each operation keeps at every crash point, \<open>Work_Behaviour\<close> and \<open>Work_Outcome\<close> what
  single operations do, \<open>Work_Termination\<close> that the sandboxed execution ends, \<open>Work_Sample\<close> one concrete run, \<open>Broker_Invariant\<close> the budgets,
  \<open>Handoff_Behaviour\<close> that the transport's server is a sequence of the store's own steps.

  \<^bold>\<open>The control channel.\<close> \<open>Redaction\<close> and \<open>Control_Request\<close>: \<open>control.py\<close>; \<open>Control_Handlers\<close>: the handlers it binds to
  its capabilities; \<open>Control_Worker\<close>: \<open>control_worker.py\<close>; \<open>GitHub_Issues\<close>: \<open>github_issues.py\<close>; \<open>Key_Install\<close>:
  \<open>inference_install_key.py\<close>. \<open>Control_Invariant\<close> has what every operation of the worker keeps, \<open>Key_Install\<close> what a
  system call of the installer may do to the directory.

  \<^bold>\<open>The properties\<close> are in the theories whose name ends in \<open>_Properties\<close> and in \<open>State_Schema\<close>, each under a claim
  number, with a concrete instance where it has hypotheses. They state: invariants of every reachable
  state (tables, records, budgets, registries); at-most-once execution and delivery under crashes; what a
  success, an exit code or an answer guarantees; round trips of encodings; refinement of the store by the
  transport and by the operator's commands; equivalence of cached, uncached and single-view runs and of the
  schema checker with its predicate; termination of the supervised execution.

  \<^bold>\<open>Bounds and fuel.\<close> Numbers are the code's: 8192 bytes of a contract, 256 tasks, 16384 characters of output,
  eight turns and two dollars per task, fifteen dollars per month, 4096 bytes of log. The loops that wait for
  the outside (the supervision loop, the broker's and the agent's turns, reads from a stream) recurse over the
  list of what the outside does next; an empty list stands for the process being killed there. That
  \<open>sandbox_loop\<close> returns for every program, once the list is longer than the time to the deadline, is
  \<open>sandbox_terminates\<close>. No other definition has fuel; all recursion is structural or has a measure.
  Python's integers are \<open>int\<close>; frame lengths are 32-bit and file modes 12-bit words; money is in
  micro-dollars; characters are code points up to U+00FF.

  \<^bold>\<open>Parameters.\<close> What is not under \<open>src\<close> is an argument: SHA-256, the YAML parser and dumper, the texts of JSON
  documents as trees, base64 and UTF-8 decoding, HTTP, git, the sandboxed process, the model's provider, \<open>ast.parse\<close>,
  \<open>difflib\<close>, clocks, the file systems' answers and the wording of foreign exceptions. Theorems hold for all of
  them unless a hypothesis names a condition.

  \<^bold>\<open>Not modelled.\<close> Entry points and service loops (\<open>main\<close>, \<open>serve\<close>: argument parsing, signals, sockets,
  process supervision), the Bubblewrap command line, resource limits and the killing of process trees, and
  \<open>inference_probe.py\<close>, \<open>work_fixture.py\<close>, \<open>coding_test.py\<close>, \<open>inference_acceptance.py\<close> and the scripts under \<open>src/deploy\<close> and
  \<open>src/scripts\<close>: they drive the operating system or stand in for a service, and their effect is not in the
  repository. A file that the code writes without an atomic replacement (a report, the installer's temporary
  file, the execution log) is one durable step here, so a partially written one does not appear.
\<close>

end
